(* ===== verification/Prelude.thy ===== *)
theory Prelude
  imports Complex_Main "HOL-Library.Word"
begin

text \<open>
  Shared vocabulary of the development: Go's error values as a datatype (the package-level
  sentinels, \<open>fmt.Errorf\<close> wrapping, \<open>errors.Join\<close>, driver errors and panics), the functions
  \<open>errors.Is\<close> and \<open>Error()\<close> over them, Go's string helpers used by the code, and generic
  facts on tables kept as lists.
\<close>

named_theorems err_simps \<open>evaluation of errors.Is on wrapped errors\<close>
named_theorems op_defs \<open>definitions of the operations, unfolded by the component proofs\<close>
named_theorems frame \<open>what an operation leaves unchanged\<close>

section \<open>Error values\<close>

datatype auth_user_error =
    ErrUserNotFound | ErrInvalidCredential | ErrUserNotVerified | ErrUserExists | ErrUserCreateFailed

datatype auth_verifier_error =
    ErrVerifierTokenCreateFailed | ErrSetProfileFailed | ErrQuotaCreateFailed | ErrTokenFetchFailed
  | ErrCreateResetTokenFailed | ErrUserAlreadyVerified | ErrReseterTokenFatchFailed
  | ErrUserFetchError | ErrInvalidToken | ErrSetUserVerifiedFailed

datatype friend_error =
    ErrFriendNotFound | ErrAlreadyExists | ErrCannotFriendSelf | ErrFriendNotAuthorized

datatype gif_error =
    ErrGifNotFound | ErrGifFetchFailed | ErrGifOwnerMismatch | ErrThumbnailNotFound
  | ErrETagValidationFailed

datatype job_error = ErrJobNotFound | ErrInvalidUserID

datatype storage_error =
    ErrDeleteByKeyFailed | ErrStatFetchFailed | ErrRangeParserFailed | ErrObjectFetchFailed
  | ErrContentLengthMismatched | ErrInvalidExt | ErrEmptyKey | ErrInvalidFiletype

datatype upload_error = ErrLastVideoNotFound

datatype share_error = ErrShareNotFound | ErrShareNotAuthorized | ErrInvalidExpiry

datatype quota_error = ErrQuotaExceeded

datatype app_error =
    ErrHashGenFailed | ErrPasswordMismatched | ErrTableUpdateFailed
  | ErrCacheSetFailed | ErrCacheGetFailed | ErrMessageQueueFailed

datatype cache_error = ErrCacheMiss

datatype queue_error =
    ErrOpeningChannel | ErrDeclareQueue | ErrMessageEncodingFailed | ErrPublishMessageFailed
  | ErrQoSFailed | ErrConsumerChannelClosed

datatype jwt_error = EmptyValueErr

datatype ffmpeg_error = NilPointerErr

text \<open>
  \<open>SqlNoRows\<close> is \<open>sql.ErrNoRows\<close>, \<open>JwtExpired\<close> the library's \<open>jwt.ErrTokenExpired\<close>;
  \<open>Driver\<close> is an error value made by a driver or a service, \<open>Msg\<close> one made by \<open>errors.New\<close>
  or by \<open>fmt.Errorf\<close> without \<open>%w\<close> (a fresh pointer, equal to no sentinel), \<open>Wrapf\<close> one made
  by \<open>fmt.Errorf\<close> with \<open>%w\<close> verbs, \<open>Joined\<close> one made by \<open>errors.Join\<close>. \<open>Panic\<close> is a
  run-time panic, which unwinds the caller in the same way.
\<close>

datatype goerr =
    AuthE auth_user_error | VerifierE auth_verifier_error | FriendE friend_error
  | GifE gif_error | JobE job_error | StorageE storage_error | UploadE upload_error
  | ShareE share_error | QuotaE quota_error | AppE app_error | CacheE cache_error
  | QueueE queue_error | JwtE jwt_error | FfmpegE ffmpeg_error
  | SqlNoRows | JwtExpired
  | Driver string | Msg string | Wrapf string "goerr list" | Joined "goerr list"
  | Panic string

fun errors_Is :: "goerr \<Rightarrow> goerr \<Rightarrow> bool" where
  "errors_Is (Wrapf p es) t = (Wrapf p es = t \<or> list_ex (\<lambda>e. errors_Is e t) es)"
| "errors_Is (Joined es) t = (Joined es = t \<or> list_ex (\<lambda>e. errors_Is e t) es)"
| "errors_Is e t = (e = t)"

text \<open>\<open>errors.Join\<close> of a non-nil error and the (possibly nil) error of a second call.\<close>

definition errors_Join :: "goerr \<Rightarrow> goerr option \<Rightarrow> goerr" where
  "errors_Join e r = (case r of None \<Rightarrow> Joined [e] | Some e' \<Rightarrow> Joined [e, e'])"

text \<open>
  The \<open>Error()\<close> texts. Every \<open>fmt.Errorf\<close> that wraps has a format of the shape
  \<open>prefix: %w\<close>, \<open>prefix: %w: %w\<close> or, without a prefix, \<open>%w: %w\<close>; \<open>errors.Join\<close> puts one text
  on a line.
\<close>

primrec auth_user_text :: "auth_user_error \<Rightarrow> string" where
  "auth_user_text ErrUserNotFound = ''user not found''"
| "auth_user_text ErrInvalidCredential = ''invalid credential''"
| "auth_user_text ErrUserNotVerified = ''user not verified''"
| "auth_user_text ErrUserExists = ''user already exists''"
| "auth_user_text ErrUserCreateFailed = ''user create failed''"

primrec auth_verifier_text :: "auth_verifier_error \<Rightarrow> string" where
  "auth_verifier_text ErrVerifierTokenCreateFailed = ''verifier token create failed''"
| "auth_verifier_text ErrSetProfileFailed = ''set profile failed''"
| "auth_verifier_text ErrQuotaCreateFailed = ''quota create failed''"
| "auth_verifier_text ErrTokenFetchFailed = ''token fetch failed''"
| "auth_verifier_text ErrCreateResetTokenFailed = ''reset token create failed''"
| "auth_verifier_text ErrUserAlreadyVerified = ''user already verified''"
| "auth_verifier_text ErrReseterTokenFatchFailed = ''reset token fetch failed''"
| "auth_verifier_text ErrUserFetchError = ''user fetch failed''"
| "auth_verifier_text ErrInvalidToken = ''invalid token''"
| "auth_verifier_text ErrSetUserVerifiedFailed = ''set user verified failed''"

primrec friend_text :: "friend_error \<Rightarrow> string" where
  "friend_text ErrFriendNotFound = ''friendship not found''"
| "friend_text ErrAlreadyExists = ''friendship already exists''"
| "friend_text ErrCannotFriendSelf = ''cannot send a friend request to yourself''"
| "friend_text ErrFriendNotAuthorized = ''not authorized''"

primrec gif_text :: "gif_error \<Rightarrow> string" where
  "gif_text ErrGifNotFound = ''gif not found''"
| "gif_text ErrGifFetchFailed = ''gif fetch failed''"
| "gif_text ErrGifOwnerMismatch = ''Gif Owner mismatch''"
| "gif_text ErrThumbnailNotFound = ''thumbnail not found''"
| "gif_text ErrETagValidationFailed = ''etag validation failed''"

primrec job_error_text :: "job_error \<Rightarrow> string" where
  "job_error_text ErrJobNotFound = ''job not found''"
| "job_error_text ErrInvalidUserID = ''invalid user id''"

primrec storage_text :: "storage_error \<Rightarrow> string" where
  "storage_text ErrDeleteByKeyFailed = ''storage delete by key failed''"
| "storage_text ErrStatFetchFailed = ''storage stat fetch failed''"
| "storage_text ErrRangeParserFailed = ''storage range parser failed''"
| "storage_text ErrObjectFetchFailed = ''storage object fetch failed''"
| "storage_text ErrContentLengthMismatched = ''content length must be 512 byte''"
| "storage_text ErrInvalidExt = ''invalid file type''"
| "storage_text ErrEmptyKey = ''key is empty''"
| "storage_text ErrInvalidFiletype = ''invalid file''"

primrec share_text :: "share_error \<Rightarrow> string" where
  "share_text ErrShareNotFound = ''not found''"
| "share_text ErrShareNotAuthorized = ''not authorized''"
| "share_text ErrInvalidExpiry = ''expiry must be in the future''"

primrec app_text :: "app_error \<Rightarrow> string" where
  "app_text ErrHashGenFailed = ''password hash generation failed''"
| "app_text ErrPasswordMismatched = ''password mismatched''"
| "app_text ErrTableUpdateFailed = ''database update failed''"
| "app_text ErrCacheSetFailed = ''cache set failed''"
| "app_text ErrCacheGetFailed = ''cache get failed''"
| "app_text ErrMessageQueueFailed = ''message publish failed''"

primrec queue_text :: "queue_error \<Rightarrow> string" where
  "queue_text ErrOpeningChannel = ''Channel setup error''"
| "queue_text ErrDeclareQueue = ''Declare queue error''"
| "queue_text ErrMessageEncodingFailed = ''Json encoding failed''"
| "queue_text ErrPublishMessageFailed = ''Publish message failed''"
| "queue_text ErrQoSFailed = ''Quality Of Service failed''"
| "queue_text ErrConsumerChannelClosed = ''Consumer channel closed''"

fun error_text :: "goerr \<Rightarrow> string" where
  "error_text (AuthE e) = auth_user_text e"
| "error_text (VerifierE e) = auth_verifier_text e"
| "error_text (FriendE e) = friend_text e"
| "error_text (GifE e) = gif_text e"
| "error_text (JobE e) = job_error_text e"
| "error_text (StorageE e) = storage_text e"
| "error_text (UploadE e) = ''last video not found''"
| "error_text (ShareE e) = share_text e"
| "error_text (QuotaE e) = ''quota exceeded''"
| "error_text (AppE e) = app_text e"
| "error_text (CacheE e) = ''cache: key not found''"
| "error_text (QueueE e) = queue_text e"
| "error_text (JwtE e) = ''field empty''"
| "error_text (FfmpegE e) = ''exec cmd nil pointer''"
| "error_text SqlNoRows = ''sql: no rows in result set''"
| "error_text JwtExpired = ''token is expired''"
| "error_text (Driver s) = s"
| "error_text (Msg s) = s"
| "error_text (Wrapf p es) =
     (if p = [] then drop 2 else id) (p @ concat (map (\<lambda>e. '': '' @ error_text e) es))"
| "error_text (Joined []) = []"
| "error_text (Joined (e # es)) = error_text e @ concat (map (\<lambda>e. CHR 0x0A # error_text e) es)"
| "error_text (Panic s) = s"

text \<open>A panic is no error value: it unwinds through the callers, past their error handling.\<close>

definition is_panic :: "goerr \<Rightarrow> bool" where
  "is_panic e = (case e of Panic _ \<Rightarrow> True | _ \<Rightarrow> False)"

lemma is_panic_simps [simp]:
  "is_panic (Panic s)" "\<not> is_panic (Driver s)" "\<not> is_panic (Msg s)" "\<not> is_panic SqlNoRows"
  "\<not> is_panic (Wrapf p es)" "\<not> is_panic (Joined es)" "\<not> is_panic (CacheE c)"
  "\<not> is_panic (JobE j)" "\<not> is_panic (AuthE a)" "\<not> is_panic (VerifierE v)" "\<not> is_panic (GifE g)"
  "\<not> is_panic (StorageE st)" "\<not> is_panic (FfmpegE f)" "\<not> is_panic (UploadE u)"
  "\<not> is_panic (QuotaE q)" "\<not> is_panic (FriendE fr)" "\<not> is_panic (ShareE sh)" "\<not> is_panic (AppE ap)"
  "\<not> is_panic (QueueE qu)" "\<not> is_panic (JwtE jw)" "\<not> is_panic JwtExpired"
  by (simp_all add: is_panic_def)

lemma errors_Is_refl [simp]: "errors_Is e e"
  by (cases e) auto

lemma errors_Is_Wrapf [err_simps]:
  "t \<noteq> Wrapf p es \<Longrightarrow> errors_Is (Wrapf p es) t \<longleftrightarrow> (\<exists>e\<in>set es. errors_Is e t)"
  by (auto simp: list_ex_iff)

lemma errors_Is_Join [err_simps]:
  "(\<And>es. t \<noteq> Joined es) \<Longrightarrow>
    errors_Is (errors_Join e r) t \<longleftrightarrow> errors_Is e t \<or> (\<exists>e'. r = Some e' \<and> errors_Is e' t)"
  by (auto simp: errors_Join_def split: option.splits)

section \<open>Results\<close>

text \<open>A Go call \<open>(value, err)\<close> is a sum: \<open>Inl\<close> the error, \<open>Inr\<close> the value.\<close>

type_synonym 'a result = "goerr + 'a"

definition err_of :: "'a result \<Rightarrow> goerr option" where
  "err_of r = (case r of Inl e \<Rightarrow> Some e | Inr _ \<Rightarrow> None)"

lemma err_of_simps [simp]: "err_of (Inl e) = Some e" "err_of (Inr x) = None"
  by (simp_all add: err_of_def)

section \<open>Strings\<close>

definition has_prefix :: "string \<Rightarrow> string \<Rightarrow> bool" where
  "has_prefix s p = (take (length p) s = p)"

lemma has_prefix_iff: "has_prefix s p \<longleftrightarrow> (\<exists>t. s = p @ t)"
  unfolding has_prefix_def by (metis append_eq_conv_conj append_take_drop_id)

lemma has_prefix_append [simp]: "has_prefix (p @ t) p"
  by (simp add: has_prefix_def)

text \<open>\<open>strings.TrimPrefix\<close>.\<close>

definition trim_prefix :: "string \<Rightarrow> string \<Rightarrow> string" where
  "trim_prefix s p = (if has_prefix s p then drop (length p) s else s)"

lemma trim_prefix_append [simp]: "trim_prefix (p @ t) p = t"
  by (simp add: trim_prefix_def)

text \<open>
  The part of a string before the first occurrence of a character: the element 0 of
  \<open>strings.Split\<close> by a one-character separator, which always exists.
\<close>

definition before_char :: "char \<Rightarrow> string \<Rightarrow> string" where
  "before_char c s = takeWhile (\<lambda>x. x \<noteq> c) s"

lemma before_char_append: "c \<notin> set s \<Longrightarrow> before_char c (s @ c # t) = s"
  by (induction s) (auto simp: before_char_def)

text \<open>
  \<open>filepath.Ext\<close>: the suffix from the last dot of the last path element, empty when that
  element has no dot.
\<close>

definition filepath_Ext :: "string \<Rightarrow> string" where
  "filepath_Ext path =
     (let r = rev path; stem = takeWhile (\<lambda>c. c \<noteq> CHR ''.'' \<and> c \<noteq> CHR ''/'') r
      in case drop (length stem) r of
           [] \<Rightarrow> []
         | c # _ \<Rightarrow> if c = CHR ''.'' then c # rev stem else [])"

text \<open>\<open>strconv.ParseInt(s, 10, bits)\<close>: an optional sign and at least one decimal digit, in range.\<close>

definition is_digit :: "char \<Rightarrow> bool" where
  "is_digit c = (48 \<le> (of_char c :: nat) \<and> (of_char c :: nat) \<le> 57)"

fun digits_val :: "int \<Rightarrow> string \<Rightarrow> int option" where
  "digits_val acc [] = Some acc"
| "digits_val acc (c # cs) =
     (if is_digit c then digits_val (10 * acc + (of_char c - 48)) cs else None)"

definition ParseInt :: "nat \<Rightarrow> string \<Rightarrow> int option" where
  "ParseInt bits s =
     (let (sgn, ds) = (case s of [] \<Rightarrow> (1, [])
                       | c # cs \<Rightarrow> if c = CHR ''-'' then (-1, cs)
                                  else if c = CHR ''+'' then (1, cs) else (1, s))
      in if ds = [] then None
         else case digits_val 0 ds of
           None \<Rightarrow> None
         | Some n \<Rightarrow> if - (2 ^ (bits - 1)) \<le> sgn * n \<and> sgn * n < 2 ^ (bits - 1)
                    then Some (sgn * n) else None)"

lemma ParseInt_bounds:
  "ParseInt bits s = Some n \<Longrightarrow> - (2 ^ (bits - 1)) \<le> n \<and> n < 2 ^ (bits - 1)"
  by (auto simp: ParseInt_def Let_def split: prod.splits option.splits if_splits)

text \<open>\<open>strconv.Itoa\<close> and \<open>%d\<close>.\<close>

fun show_nat :: "nat \<Rightarrow> string" where
  "show_nat n = (if n < 10 then [char_of (48 + n)]
                 else show_nat (n div 10) @ [char_of (48 + n mod 10)])"

declare show_nat.simps [simp del]

definition show_int :: "int \<Rightarrow> string" where
  "show_int i = (if i < 0 then CHR ''-'' # show_nat (nat (- i)) else show_nat (nat i))"

text \<open>
  The characters of a text: the bytes that do not continue one, in valid UTF-8. The validator and
  PostgreSQL's \<open>VARCHAR\<close> both count these.
\<close>

definition rune_count :: "string \<Rightarrow> int" where
  "rune_count s = int (length (filter (\<lambda>c. let n = (of_char c :: nat) in n < 128 \<or> 192 \<le> n) s))"

lemma rune_count_le: "rune_count s \<le> int (length s)"
  by (simp add: rune_count_def)

section \<open>Tables\<close>

text \<open>
  A table is the list of its rows. \<open>update_where p f\<close> is \<open>UPDATE ... SET f WHERE p\<close>,
  \<open>delete_where p\<close> is \<open>DELETE ... WHERE p\<close>; the row a single-row \<open>SELECT\<close> yields is the
  first match, \<open>List.find\<close>.
\<close>

definition update_where :: "('r \<Rightarrow> bool) \<Rightarrow> ('r \<Rightarrow> 'r) \<Rightarrow> 'r list \<Rightarrow> 'r list" where
  "update_where p f = map (\<lambda>r. if p r then f r else r)"

definition delete_where :: "('r \<Rightarrow> bool) \<Rightarrow> 'r list \<Rightarrow> 'r list" where
  "delete_where p = filter (\<lambda>r. \<not> p r)"

lemma set_delete_where [simp]: "set (delete_where p t) = {r \<in> set t. \<not> p r}"
  by (auto simp: delete_where_def)

lemma set_update_where: "set (update_where p f t) = (\<lambda>r. if p r then f r else r) ` set t"
  by (simp add: update_where_def)

lemma map_update_where:
  assumes "\<And>r. k (f r) = k r"
  shows "map k (update_where p f t) = map k t"
  by (simp add: update_where_def assms)

lemma map_update_where_set:
  assumes "\<And>r. r \<in> set t \<Longrightarrow> p r \<Longrightarrow> k (f r) = k r"
  shows "map k (update_where p f t) = map k t"
  using assms by (simp add: update_where_def)

lemma update_where_none: "(\<And>r. r \<in> set t \<Longrightarrow> \<not> p r) \<Longrightarrow> update_where p f t = t"
  by (induction t) (auto simp: update_where_def)

lemma distinct_delete_where: "distinct (map k t) \<Longrightarrow> distinct (map k (delete_where p t))"
  by (induction t) (auto simp: delete_where_def)

lemma find_SomeD: "List.find p t = Some r \<Longrightarrow> r \<in> set t \<and> p r"
  by (induction t) (auto split: if_splits)

lemma find_NoneD: "List.find p t = None \<Longrightarrow> r \<in> set t \<Longrightarrow> \<not> p r"
  by (auto simp: find_None_iff)

lemma distinct_key_eq:
  assumes "distinct (map k t)" "r \<in> set t" "r' \<in> set t" "k r = k r'"
  shows "r = r'"
  using assms by (auto simp: distinct_map inj_on_def)

lemma find_unique:
  assumes "distinct (map k t)" "r \<in> set t"
  shows "List.find (\<lambda>x. k x = k r) t = Some r"
  using assms by (induction t) (auto simp: image_iff)

end
