(* ===== verification/Domain.thy ===== *)
theory Domain
  imports Prelude
begin

text \<open>
  The structs of \<open>internal/domain\<close> and \<open>internal/port\<close> as records, one field per Go field, in
  the struct's order. A field name carries the struct's initials, because HOL fields are global
  constants. Times are milliseconds since the epoch, \<open>*time.Time\<close> and the other pointers are
  options, a \<open>uuid.UUID\<close> is its canonical text, \<open>float32\<close>/\<open>float64\<close> values are rationals
  (the code only passes them on, and formats them in command lines).
\<close>

type_synonym uuid = string
type_synonym timestamp = int

section \<open>internal/domain/auth\<close>

record auth_user =
  u_Id :: uuid
  u_Username :: string
  u_Fullname :: string
  u_Email :: string
  u_PasswordHash :: string
  u_IsVerified :: bool
  u_Role :: string
  u_CreatedAt :: timestamp
  u_UpdatedAt :: timestamp
  u_DeletedAt :: "timestamp option"

record auth_verifier =
  v_Id :: int
  v_UserId :: uuid
  v_Token :: string
  v_CreatedAt :: timestamp
  v_ExpireAt :: timestamp

record auth_reseter =
  r_Id :: int
  r_UserId :: uuid
  r_Token :: string
  r_Used :: bool
  r_CreatedAt :: timestamp
  r_ExpireAt :: timestamp

section \<open>internal/domain/user\<close>

record user_profile =
  p_Id :: int
  p_UserId :: uuid
  p_ProfilePic :: string
  p_CreatedAt :: timestamp
  p_UpdatedAt :: timestamp

record profile_response =
  pr_ProfilePic :: string
  pr_Username :: string
  pr_Fullname :: string
  pr_Email :: string
  pr_IsVerified :: bool
  pr_UpdatedAt :: timestamp

record profile_update_request =
  pu_ProfilePic :: "string option"
  pu_Username :: "string option"
  pu_Fullname :: "string option"
  pu_Email :: "string option"

record user_quota =
  q_ID :: int
  q_UserID :: uuid
  q_UsedBytes :: int
  q_TotalBytes :: int
  q_GifCount :: int
  q_GitLimit :: int

section \<open>internal/domain/friend\<close>

definition StatusPending :: string where "StatusPending = ''pending''"

definition StatusAccepted :: string where "StatusAccepted = ''accepted''"

definition StatusBlocked :: string where "StatusBlocked = ''blocked''"

record friendship =
  f_ID :: uuid
  f_RequesterID :: uuid
  f_AddresseeID :: uuid
  f_Status :: string
  f_CreatedAt :: timestamp
  f_UpdatedAt :: timestamp

record friend_response =
  fr_UserID :: uuid
  fr_Username :: string
  fr_Fullname :: string
  fr_Status :: string
  fr_CreatedAt :: timestamp

section \<open>internal/domain/media\<close>

record media_gif =
  g_Key :: string
  g_Name :: string
  g_UserId :: string
  g_Status :: string
  g_Persist :: bool
  g_Download :: int
  g_Url :: string
  g_ThumbnailKey :: string
  g_FileSizeBytes :: int
  g_Width :: int
  g_Height :: int
  g_DurationSeconds :: rat
  g_IsPublic :: bool
  g_CreatedAt :: timestamp
  g_UpdatedAt :: timestamp

record gif_response =
  gr_Key :: string
  gr_Name :: string
  gr_Status :: string
  gr_Persist :: bool
  gr_Url :: string
  gr_ThumbnailKey :: string
  gr_Download :: int
  gr_FileSizeBytes :: int
  gr_Width :: int
  gr_Height :: int
  gr_DurationSeconds :: rat
  gr_IsPublic :: bool
  gr_CreatedAt :: timestamp
  gr_UpdatedAt :: timestamp

record gif_update_request =
  gu_Name :: "string option"
  gu_Status :: "string option"
  gu_Persist :: "bool option"
  gu_IsPublic :: "bool option"

definition JobQueued :: string where "JobQueued = ''queued''"

definition JobProcessing :: string where "JobProcessing = ''processing''"

definition JobDone :: string where "JobDone = ''done''"

definition JobFailed :: string where "JobFailed = ''failed''"

record media_job =
  j_ID :: string
  j_UserID :: string
  j_Type :: string
  j_Status :: string
  j_Progress :: int
  j_ErrorMessage :: string
  j_ResultKey :: string
  j_CreatedAt :: timestamp
  j_UpdatedAt :: timestamp

record storage_info =
  i_Size :: int
  i_ContentType :: string
  i_UploadedAt :: timestamp

record upload_result =
  ur_Url :: string
  ur_Key :: string
  ur_ExpireIn :: int

record stream_result =
  st_PresignedUrl :: string
  st_ExpireIn :: int

record last_upload =
  l_ID :: int
  l_UserID :: uuid
  l_FileKey :: string
  l_Filename :: string
  l_ContentType :: string
  l_SizeBytes :: "int option"
  l_DurationSec :: "rat option"
  l_ThumbnailURL :: "string option"
  l_UploadedAt :: timestamp
  l_DeletedAt :: "timestamp option"
  l_UpdatedAt :: "timestamp option"

record last_upload_response =
  lr_UserID :: uuid
  lr_FileKey :: string
  lr_Filename :: string
  lr_ContentType :: string
  lr_SizeBytes :: "int option"
  lr_DurationSec :: "rat option"
  lr_UploadedAt :: timestamp
  lr_ThumbnailURL :: "string option"

section \<open>internal/domain/share\<close>

record share_row =
  s_ID :: uuid
  s_GifKey :: string
  s_OwnerID :: uuid
  s_SharedWith :: uuid
  s_ExpiresAt :: "timestamp option"
  s_CreatedAt :: timestamp

record share_by_token =
  t_GifKey :: string
  t_Token :: string
  t_Email :: string
  t_ExpiresAt :: "timestamp option"
  t_CreatedAt :: timestamp

record gif_token_response =
  gt_GifKey :: string
  gt_Name :: string
  gt_Url :: string
  gt_ThumbnailUrl :: string
  gt_ExpiresAt :: "timestamp option"
  gt_CreatedAt :: timestamp

record share_gif_response =
  sg_ID :: uuid
  sg_Name :: string
  sg_Url :: string
  sg_ThumbnailUrl :: string
  sg_GifKey :: string
  sg_OwnerID :: uuid
  sg_SharedWith :: uuid
  sg_ExpiresAt :: "timestamp option"

section \<open>internal/port/processor and internal/port/queue\<close>

record ff_format =
  ff_Filename :: string
  ff_FormatName :: string
  ff_Duration :: string
  ff_Size :: string
  ff_ProbeScore :: int

record ff_stream =
  fs_CodecName :: string
  fs_CodecType :: string
  fs_Width :: int
  fs_Height :: int
  fs_MimeCodecString :: string

record ffprobe_output =
  fo_Format :: ff_format
  fo_Stream :: "ff_stream list"

record preprocessed_result =
  pp_VideoKey :: string
  pp_ThumbnailKey :: string
  pp_Size :: string
  pp_Duration :: string
  pp_ContentType :: string

record job_result =
  jr_GifKey :: string
  jr_ThumbKey :: string

record email_message =
  em_To :: string
  em_Name :: string
  em_Token :: string

record video_message =
  vm_UserID :: string
  vm_JobId :: string
  vm_Key :: string
  vm_Start :: rat
  vm_End :: rat
  vm_Width :: int
  vm_FPS :: int
  vm_Loop :: bool
  vm_Retries :: int

record save_video_message =
  sm_Key :: string
  sm_UserID :: string
  sm_Filename :: string
  sm_Retries :: int

datatype payload =
    EmailPayload email_message
  | VideoPayload video_message
  | SavePayload save_video_message

section \<open>pkg/jwt\<close>

text \<open>
  The claims the code sets or reads: its own three and, of \<open>jwt.RegisteredClaims\<close>, the
  subject, the issuer and the two dates (\<open>*NumericDate\<close>, hence options).
\<close>

record jwt_payload =
  c_Fullname :: string
  c_Email :: string
  c_Role :: string
  c_Subject :: string
  c_Issuer :: string
  c_IssuedAt :: "timestamp option"
  c_ExpiresAt :: "timestamp option"

end
