(* ===== verification/World.thy ===== *)
theory World
  imports Domain
begin

text \<open>
  The state the service runs on and the way it reaches its backing services. The PostgreSQL
  tables are those of \<open>migrations/*.up.sql\<close>; a statement of \<open>internal/infra/postgres\<close> is a
  function of the world to its result and the new tables. \<open>db_exec\<close> runs one statement on the
  connection \<open>getDBFromCtx\<close> picks, with the transaction rules of PostgreSQL (a statement that
  fails inside a transaction aborts it), \<open>tx_With\<close> and \<open>tx_WithRC\<close> are the two methods of the
  transaction manager.

  What is not under the repository's control is a field of the record \<open>env\<close>, an argument of
  every definition: the fault plan (which external call fails, and whether its effect was
  applied before the error came back), the UUID generators and parsers, SHA-256, bcrypt, the
  JWT library, the validator, the text forms of times, the files served, MinIO's and ffmpeg's
  replies. The clock stands still within one operation.
\<close>

section \<open>State\<close>

record database =
  users :: "auth_user list"
  verifier :: "auth_verifier list"
  reseter :: "auth_reseter list"
  profiles :: "user_profile list"
  quota :: "user_quota list"
  gifs :: "media_gif list"
  last_uploads :: "last_upload list"
  shares :: "share_row list"
  share_tokens :: "share_by_token list"
  friendships :: "friendship list"
  jobs :: "media_job list"

datatype tx_state = NoTx | TxOpen | TxAborted

text \<open>
  \<open>cache_keys\<close> are the Redis strings with their deadline, \<open>buckets\<close> the Redis hashes of the
  rate limiter (token, last refill, deadline), \<open>published\<close> the messages RabbitMQ has accepted,
  with the queue each was routed to, \<open>objects\<close> the (bucket, key) pairs put to MinIO,
  \<open>mails\<close> the messages (recipient, subject, body) the mail server has taken. \<open>calls\<close>
  counts the external calls made, \<open>draws\<close> the random UUIDs drawn, \<open>serial\<close> the identifiers
  handed out by SERIAL columns.
\<close>

record bucket =
  bk_token :: rat
  bk_last_refill :: int
  bk_deadline :: int

record world =
  now :: timestamp
  calls :: nat
  draws :: nat
  serial :: int
  db :: database
  tx :: tx_state
  cache_keys :: "string \<Rightarrow> (string \<times> timestamp option) option"
  buckets :: "string \<Rightarrow> bucket option"
  published :: "(string \<times> payload) list"
  objects :: "(string \<times> string) list"
  mails :: "(string \<times> string \<times> string) list"

section \<open>Operations\<close>

text \<open>
  An operation takes the world to a result and the next world. \<open>call m h k\<close> is Go's
  \<open>x, err := m(); if err != nil { h } ... k\<close>; \<open>ret\<close> and \<open>fail\<close> are the returns. \<open>attempt\<close> makes
  the error of a call a value, for the places that look at it without returning, or drop it. A
  panic in a call is passed on by both.
\<close>

type_synonym 'a io = "world \<Rightarrow> 'a result \<times> world"

definition ret :: "'a \<Rightarrow> 'a io" where
  "ret x w = (Inr x, w)"

definition fail :: "goerr \<Rightarrow> 'a io" where
  "fail e w = (Inl e, w)"

definition call :: "'a io \<Rightarrow> (goerr \<Rightarrow> 'b io) \<Rightarrow> ('a \<Rightarrow> 'b io) \<Rightarrow> 'b io" where
  "call m h k w =
     (case m w of (r, w') \<Rightarrow>
        (case r of
           Inl e \<Rightarrow> if is_panic e then (Inl e, w') else h e w'
         | Inr x \<Rightarrow> k x w'))"

definition attempt :: "'a io \<Rightarrow> ('a result \<Rightarrow> 'b io) \<Rightarrow> 'b io" where
  "attempt m k w =
     (case m w of (r, w') \<Rightarrow>
        (case r of
           Inl e \<Rightarrow> if is_panic e then (Inl e, w') else k r w'
         | Inr _ \<Rightarrow> k r w'))"

definition at_now :: "(timestamp \<Rightarrow> 'a io) \<Rightarrow> 'a io" where
  "at_now k w = k (now w) w"

definition pure_call :: "(world \<Rightarrow> 'a result) \<Rightarrow> 'a io" where
  "pure_call f w = (f w, w)"

text \<open>\<open>if err != nil && !errors.Is(err, target)\<close>: the error to look at, if any.\<close>

definition err_except :: "goerr \<Rightarrow> 'a result \<Rightarrow> goerr option" where
  "err_except target r =
     (case r of Inl e \<Rightarrow> if errors_Is e target then None else Some e | Inr _ \<Rightarrow> None)"

text \<open>\<open>keeps P f\<close>: the operation leaves a property of the world true, whatever it returns.\<close>

definition keeps :: "(world \<Rightarrow> bool) \<Rightarrow> 'a io \<Rightarrow> bool" where
  "keeps P f \<longleftrightarrow> (\<forall>w. P w \<longrightarrow> P (snd (f w)))"

named_theorems keeps_intros \<open>how properties of the world pass through operations\<close>

lemma keepsD: "keeps P f \<Longrightarrow> P w \<Longrightarrow> P (snd (f w))"
  by (simp add: keeps_def)

lemma keepsI: "(\<And>w. P w \<Longrightarrow> P (snd (f w))) \<Longrightarrow> keeps P f"
  by (simp add: keeps_def)

lemma keeps_ret [keeps_intros]: "keeps P (ret x)"
  by (simp add: keeps_def ret_def)

lemma keeps_fail [keeps_intros]: "keeps P (fail e)"
  by (simp add: keeps_def fail_def)

lemma keeps_call [keeps_intros]:
  "keeps P m \<Longrightarrow> (\<And>e. keeps P (h e)) \<Longrightarrow> (\<And>x. keeps P (k x)) \<Longrightarrow> keeps P (call m h k)"
  unfolding keeps_def call_def
  by (auto split: prod.split sum.split)

lemma keeps_attempt [keeps_intros]:
  "keeps P m \<Longrightarrow> (\<And>r. keeps P (k r)) \<Longrightarrow> keeps P (attempt m k)"
  unfolding keeps_def attempt_def
  by (auto split: prod.split sum.split)

lemma keeps_at_now [keeps_intros]: "(\<And>t. keeps P (k t)) \<Longrightarrow> keeps P (at_now k)"
  by (simp add: keeps_def at_now_def)

lemma keeps_pure_call [keeps_intros]: "keeps P (pure_call f)"
  by (simp add: keeps_def pure_call_def)

lemma keeps_if [keeps_intros]:
  "(b \<Longrightarrow> keeps P f) \<Longrightarrow> (\<not> b \<Longrightarrow> keeps P g) \<Longrightarrow> keeps P (if b then f else g)"
  by simp

lemma keeps_case_option [keeps_intros]:
  "(x = None \<Longrightarrow> keeps P f) \<Longrightarrow> (\<And>y. x = Some y \<Longrightarrow> keeps P (g y)) \<Longrightarrow>
    keeps P (case x of None \<Rightarrow> f | Some y \<Rightarrow> g y)"
  by (cases x) auto

lemma keeps_case_sum [keeps_intros]:
  "(\<And>e. x = Inl e \<Longrightarrow> keeps P (f e)) \<Longrightarrow> (\<And>y. x = Inr y \<Longrightarrow> keeps P (g y)) \<Longrightarrow>
    keeps P (case x of Inl e \<Rightarrow> f e | Inr y \<Rightarrow> g y)"
  by (cases x) auto

lemma keeps_let [keeps_intros]: "keeps P (f x) \<Longrightarrow> keeps P (let y = x in f y)"
  by simp

text \<open>What a successful run of a chain of calls says of its parts.\<close>

named_theorems inr_simps \<open>decomposition of a successful run\<close>

lemma ret_Inr [inr_simps]: "ret x w = (r, w') \<longleftrightarrow> r = Inr x \<and> w' = w"
  by (auto simp: ret_def)

lemma fail_Inr [inr_simps]: "fail e w = (r, w') \<longleftrightarrow> r = Inl e \<and> w' = w"
  by (auto simp: fail_def)

lemma call_fail_Inr [inr_simps]:
  "call m (\<lambda>e. fail (g e)) k w = (Inr y, w') \<longleftrightarrow>
     (\<exists>x w1. m w = (Inr x, w1) \<and> k x w1 = (Inr y, w'))"
  by (cases "m w") (auto simp: call_def fail_def split: sum.splits)

lemma call_fail_Inr' [inr_simps]:
  "call m fail k w = (Inr y, w') \<longleftrightarrow> (\<exists>x w1. m w = (Inr x, w1) \<and> k x w1 = (Inr y, w'))"
  by (cases "m w") (auto simp: call_def fail_def split: sum.splits)

lemma attempt_Inr [inr_simps]:
  "attempt m k w = (Inr y, w') \<longleftrightarrow>
     (\<exists>x w1. m w = (x, w1) \<and> (\<forall>e. x = Inl e \<longrightarrow> \<not> is_panic e) \<and> k x w1 = (Inr y, w'))"
  by (cases "m w") (auto simp: attempt_def split: sum.splits)

lemma pure_call_eq [inr_simps]: "pure_call f w = (r, w') \<longleftrightarrow> r = f w \<and> w' = w"
  by (auto simp: pure_call_def)

lemma if_Inr [inr_simps]:
  "(if b then f else g) w = (r, w') \<longleftrightarrow> (if b then f w = (r, w') else g w = (r, w'))"
  by simp

text \<open>How a call goes on, once its outcome is known.\<close>

lemma call_run: "m w = (Inr x, w1) \<Longrightarrow> call m h k w = k x w1"
  by (simp add: call_def)

lemma call_err: "m w = (Inl e, w1) \<Longrightarrow> \<not> is_panic e \<Longrightarrow> call m h k w = h e w1"
  by (simp add: call_def)

lemma attempt_run:
  "m w = (r, w1) \<Longrightarrow> (\<And>e. r = Inl e \<Longrightarrow> \<not> is_panic e) \<Longrightarrow> attempt m k w = k r w1"
  by (auto simp: attempt_def split: sum.splits)

section \<open>Environment\<close>

text \<open>
  JSON as the program reads and writes it: \<open>JNum\<close> is a number written as an integer, \<open>JRat\<close> one
  with a fraction or an exponent. A struct is handed to the validator (a third-party package) as
  the list of its fields, each with its value and the rules of its \<open>validate\<close> tag.
\<close>

datatype json =
    JStr string | JNum int | JRat rat | JBool bool | JNull
  | JObj "(string \<times> json) list" | JArr "json list"

datatype field_value = FStr string | FInt int | FFloat rat | FBool bool | FTime timestamp

datatype vrule =
    VRequired | VEmail | VAlphanum | VUuid4 | VMin int | VMax int | VContainsAny string
  | VEqField string | VGte rat | VGt rat | VLte rat

type_synonym struct_fields = "(string \<times> field_value \<times> vrule list) list"

datatype fault = NoFault | FailBefore string | FailAfter string

record env =
  fault :: "nat \<Rightarrow> fault"
  uuid_gen :: "nat \<Rightarrow> uuid"
  uuid_Parse :: "string \<Rightarrow> uuid option"
  pg_uuid_in :: "string \<Rightarrow> uuid option"
  sha256_Sum256 :: "string \<Rightarrow> 256 word"
  bcrypt_Generate :: "nat \<Rightarrow> string \<Rightarrow> int \<Rightarrow> string option"
  bcrypt_Compare :: "string \<Rightarrow> string \<Rightarrow> bool"
  jwt_SignedString :: "jwt_payload \<Rightarrow> string \<Rightarrow> string result"
  jwt_ParseWithClaims ::
    "timestamp \<Rightarrow> string \<Rightarrow> (bool \<Rightarrow> string result) \<Rightarrow> jwt_payload result"
  time_Format :: "timestamp \<Rightarrow> string"
  minio_Presign :: "nat \<Rightarrow> string \<Rightarrow> string \<Rightarrow> string \<Rightarrow> int \<Rightarrow> (string \<times> string) list \<Rightarrow> string result"
  minio_Stat :: "nat \<Rightarrow> string \<Rightarrow> string \<Rightarrow> storage_info result"
  minio_FGet :: "nat \<Rightarrow> string \<Rightarrow> string \<Rightarrow> string \<Rightarrow> bool"
  os_TempDir :: string
  run_cmd :: "nat \<Rightarrow> string list \<Rightarrow> bool"
  probe_cmd :: "nat \<Rightarrow> string list \<Rightarrow> ffprobe_output result"
  cnf_JwtSecretKey :: string
  cnf_Pepper :: string
  cnf_Cost :: int
  cnf_MaxUploadBytes :: int
  cnf_TempBucket :: string
  cnf_StorageBucket :: string
  cnf_ExchangeQueue :: string
  cnf_AllowedOrigins :: "string list"
  validate_Struct :: "struct_fields \<Rightarrow> bool"
  time_UnmarshalJSON :: "string \<Rightarrow> timestamp option"
  sqlx_nil_slices :: bool
  os_Stat :: "string \<Rightarrow> bool option"
  fs_ServeHTTP :: "string \<Rightarrow> int \<times> string"
  fs_ServeFile :: "string \<Rightarrow> string \<Rightarrow> int \<times> string"

section \<open>External calls\<close>

definition tick :: "world \<Rightarrow> world" where
  "tick w = w\<lparr>calls := Suc (calls w)\<rparr>"

text \<open>A call of a service other than the database.\<close>

definition ext_call :: "env \<Rightarrow> (world \<Rightarrow> 'a result \<times> world) \<Rightarrow> world \<Rightarrow> 'a result \<times> world" where
  "ext_call E f w =
     (case fault E (calls w) of
        FailBefore e \<Rightarrow> (Inl (Driver e), tick w)
      | FailAfter e \<Rightarrow> (Inl (Driver e), snd (f (tick w)))
      | NoFault \<Rightarrow> f (tick w))"

lemma ext_call_snd: "snd (ext_call E f w) = tick w \<or> snd (ext_call E f w) = snd (f (tick w))"
  by (simp add: ext_call_def split: fault.splits)

lemma ext_call_Inr: "ext_call E f w = (Inr x, w') \<Longrightarrow> f (tick w) = (Inr x, w')"
  by (simp add: ext_call_def split: fault.splits)

lemma ext_call_Inl:
  "ext_call E f w = (Inl e, w') \<Longrightarrow> (\<exists>s. e = Driver s) \<or> f (tick w) = (Inl e, w')"
  by (auto simp: ext_call_def split: fault.splits)

text \<open>Nothing fails: what the properties that promise success ask of the environment.\<close>

definition no_faults :: "env \<Rightarrow> bool" where
  "no_faults E \<longleftrightarrow> (\<forall>n. fault E n = NoFault)"

lemma ext_call_ok: "no_faults E \<Longrightarrow> ext_call E f w = f (tick w)"
  by (simp add: no_faults_def ext_call_def)

lemma ext_call_keeps:
  assumes "keeps P f" "\<And>w. P w \<Longrightarrow> P (tick w)"
  shows "keeps P (ext_call E f)"
proof (rule keepsI)
  fix w assume "P w"
  then have "P (tick w)" by (rule assms(2))
  then show "P (snd (ext_call E f w))"
    using ext_call_snd [of E f w] keepsD [OF assms(1)] by metis
qed

text \<open>Drawing a random UUID (\<open>uuid.NewRandom\<close>, \<open>uuid_generate_v4()\<close>).\<close>

definition draw_uuid :: "env \<Rightarrow> world \<Rightarrow> uuid \<times> world" where
  "draw_uuid E w = (uuid_gen E (draws w), w\<lparr>draws := Suc (draws w)\<rparr>)"

definition next_serial :: "world \<Rightarrow> int \<times> world" where
  "next_serial w = (serial w, w\<lparr>serial := serial w + 1\<rparr>)"

definition with_uuid_drawn :: "env \<Rightarrow> (uuid \<Rightarrow> 'a io) \<Rightarrow> 'a io" where
  "with_uuid_drawn E k w = (let (i, w1) = draw_uuid E w in k i w1)"

section \<open>Statements and transactions\<close>

definition tx_abort :: "world \<Rightarrow> world" where
  "tx_abort w = (if tx w = TxOpen then w\<lparr>tx := TxAborted\<rparr> else w)"

text \<open>
  One statement. An error of the statement itself (a constraint violation, a bad parameter)
  changes nothing; \<open>sql.ErrNoRows\<close> is made by the client library and does not abort the
  transaction.
\<close>

definition db_exec :: "env \<Rightarrow> (world \<Rightarrow> ('a \<times> database) result) \<Rightarrow> 'a io" where
  "db_exec E stmt w =
     (if tx w = TxAborted then (Inl (Driver ''25P02 in_failed_sql_transaction''), tick w)
      else case fault E (calls w) of
        FailBefore e \<Rightarrow> (Inl (Driver e), tx_abort (tick w))
      | FailAfter e \<Rightarrow>
          (Inl (Driver e),
           tx_abort (case stmt w of Inl _ \<Rightarrow> tick w | Inr (_, d) \<Rightarrow> (tick w)\<lparr>db := d\<rparr>))
      | NoFault \<Rightarrow>
          (case stmt w of
             Inl e \<Rightarrow> (Inl e, if e = SqlNoRows then tick w else tx_abort (tick w))
           | Inr (x, d) \<Rightarrow> (Inr x, (tick w)\<lparr>db := d\<rparr>)))"

text \<open>
  \<open>BEGIN\<close> and \<open>COMMIT\<close>. A commit that fails before it is applied rolls the transaction back;
  one whose acknowledgement is lost has been applied; one of an aborted transaction is a
  rollback and an error.
\<close>

definition tx_run :: "env \<Rightarrow> 'a io \<Rightarrow> 'a io" where
  "tx_run E fn w =
     (case fault E (calls w) of
        FailBefore e \<Rightarrow> (Inl (Driver e), tick w)
      | FailAfter e \<Rightarrow> (Inl (Driver e), tick w)
      | NoFault \<Rightarrow>
          (case fn ((tick w)\<lparr>tx := TxOpen\<rparr>) of
             (Inl e, w1) \<Rightarrow> (Inl e, w1\<lparr>db := db w, tx := NoTx\<rparr>)
           | (Inr r, w1) \<Rightarrow>
               if tx w1 = TxAborted
               then (Inl (Driver ''commit of a failed transaction''), (tick w1)\<lparr>db := db w, tx := NoTx\<rparr>)
               else (case fault E (calls w1) of
                 FailBefore e \<Rightarrow> (Inl (Driver e), (tick w1)\<lparr>db := db w, tx := NoTx\<rparr>)
               | FailAfter e \<Rightarrow> (Inl (Driver e), (tick w1)\<lparr>tx := NoTx\<rparr>)
               | NoFault \<Rightarrow> (Inr r, (tick w1)\<lparr>tx := NoTx\<rparr>))))"

text \<open>
  The two methods differ in the isolation level they ask for (REPEATABLE READ, READ COMMITTED),
  which the sequential model does not distinguish.
\<close>

definition tx_With :: "env \<Rightarrow> 'a io \<Rightarrow> 'a io" where
  "tx_With E fn w = tx_run E fn w"

definition tx_WithRC :: "env \<Rightarrow> 'a io \<Rightarrow> 'a io" where
  "tx_WithRC E fn w = tx_run E fn w"

end
