(* ===== verification/Schema.thy ===== *)
theory Schema
  imports World
begin

text \<open>
  The tables' constraints, from \<open>migrations/*.up.sql\<close>: column types, keys, foreign keys and
  \<open>ON DELETE CASCADE\<close>, CHECK constraints. \<open>schema_ok\<close> is the invariant they amount to; the
  repositories' theories prove that every statement keeps it.
\<close>

section \<open>Column types\<close>

definition varchar :: "nat \<Rightarrow> string \<Rightarrow> bool" where
  "varchar n s = (rune_count s \<le> int n)"

lemma varchar_short: "length s \<le> n \<Longrightarrow> varchar n s"
  using rune_count_le [of s] by (simp add: varchar_def)

definition int4 :: "int \<Rightarrow> bool" where
  "int4 n = (- (2 ^ 31) \<le> n \<and> n < 2 ^ 31)"

definition numeric_6_2 :: "rat \<Rightarrow> rat" where
  "numeric_6_2 d = of_int (round (d * 100)) / 100"

text \<open>A text parameter compared with a UUID column (SQLSTATE 22P02 when it is no UUID).\<close>

definition with_uuid :: "env \<Rightarrow> string \<Rightarrow> (uuid \<Rightarrow> 'a result) \<Rightarrow> 'a result" where
  "with_uuid E s k = (case pg_uuid_in E s of None \<Rightarrow> Inl (Driver ''22P02'') | Some u \<Rightarrow> k u)"

text \<open>A single-row query read by \<open>sqlx.GetContext\<close>: the first row, or \<open>sql.ErrNoRows\<close>.\<close>

definition get_row :: "'r option \<Rightarrow> ('r \<Rightarrow> 'a) \<Rightarrow> database \<Rightarrow> ('a \<times> database) result" where
  "get_row r f d = (case r of None \<Rightarrow> Inl SqlNoRows | Some x \<Rightarrow> Inr (f x, d))"

section \<open>Row constraints\<close>

definition users_row_ok :: "auth_user \<Rightarrow> bool" where
  "users_row_ok u = (varchar 21 (u_Username u) \<and> varchar 100 (u_Fullname u) \<and>
     varchar 50 (u_Email u) \<and> varchar 70 (u_PasswordHash u) \<and> varchar 6 (u_Role u))"

definition users_key_clash :: "auth_user \<Rightarrow> database \<Rightarrow> bool" where
  "users_key_clash u d =
     list_ex (\<lambda>x. u_Id x = u_Id u \<or> u_Email x = u_Email u) (users d)"

definition user_exists :: "uuid \<Rightarrow> database \<Rightarrow> bool" where
  "user_exists i d = list_ex (\<lambda>x. u_Id x = i) (users d)"

definition gif_exists :: "string \<Rightarrow> database \<Rightarrow> bool" where
  "gif_exists k d = list_ex (\<lambda>g. g_Key g = k) (gifs d)"

definition friendship_row_ok :: "friendship \<Rightarrow> bool" where
  "friendship_row_ok f = (f_RequesterID f \<noteq> f_AddresseeID f \<and>
     f_Status f \<in> {''pending'', ''accepted'', ''blocked''})"

section \<open>Cascading deletes\<close>

definition delete_gifs :: "(media_gif \<Rightarrow> bool) \<Rightarrow> database \<Rightarrow> database" where
  "delete_gifs p d =
     (let gone = (\<lambda>k. list_ex (\<lambda>g. p g \<and> g_Key g = k) (gifs d))
      in d\<lparr>gifs := delete_where p (gifs d),
           shares := delete_where (\<lambda>s. gone (s_GifKey s)) (shares d),
           share_tokens := delete_where (\<lambda>t. gone (t_GifKey t)) (share_tokens d)\<rparr>)"

definition delete_users :: "(auth_user \<Rightarrow> bool) \<Rightarrow> database \<Rightarrow> database" where
  "delete_users p d =
     (let gone = (\<lambda>i. list_ex (\<lambda>u. p u \<and> u_Id u = i) (users d));
          d1 = delete_gifs (\<lambda>g. gone (g_UserId g)) d
      in d1\<lparr>users := delete_where p (users d1),
            verifier := delete_where (\<lambda>v. gone (v_UserId v)) (verifier d1),
            reseter := delete_where (\<lambda>r. gone (r_UserId r)) (reseter d1),
            profiles := delete_where (\<lambda>x. gone (p_UserId x)) (profiles d1),
            quota := delete_where (\<lambda>q. gone (q_UserID q)) (quota d1),
            last_uploads := delete_where (\<lambda>l. gone (l_UserID l)) (last_uploads d1),
            shares := delete_where (\<lambda>s. gone (s_OwnerID s) \<or> gone (s_SharedWith s)) (shares d1),
            friendships := delete_where (\<lambda>f. gone (f_RequesterID f) \<or> gone (f_AddresseeID f))
                             (friendships d1),
            jobs := delete_where (\<lambda>j. gone (j_UserID j)) (jobs d1)\<rparr>)"

section \<open>The schema invariant\<close>

definition keys_ok :: "database \<Rightarrow> bool" where
  "keys_ok d \<longleftrightarrow>
     distinct (map u_Id (users d)) \<and> distinct (map u_Email (users d)) \<and>
     distinct (map v_UserId (verifier d)) \<and> distinct (map v_Token (verifier d)) \<and>
     distinct (map r_UserId (reseter d)) \<and> distinct (map r_Token (reseter d)) \<and>
     distinct (map p_UserId (profiles d)) \<and> distinct (map q_UserID (quota d)) \<and>
     distinct (map g_Key (gifs d)) \<and> distinct (map l_UserID (last_uploads d)) \<and>
     distinct (map (\<lambda>s. (s_GifKey s, s_SharedWith s)) (shares d)) \<and>
     distinct (map t_Token (share_tokens d)) \<and>
     distinct (map (\<lambda>t. (t_GifKey t, t_Email t)) (share_tokens d)) \<and>
     distinct (map (\<lambda>f. (f_RequesterID f, f_AddresseeID f)) (friendships d)) \<and>
     distinct (map f_ID (friendships d)) \<and> distinct (map j_ID (jobs d))"

definition refs_ok :: "database \<Rightarrow> bool" where
  "refs_ok d \<longleftrightarrow>
     (\<forall>v\<in>set (verifier d). user_exists (v_UserId v) d) \<and>
     (\<forall>r\<in>set (reseter d). user_exists (r_UserId r) d) \<and>
     (\<forall>p\<in>set (profiles d). user_exists (p_UserId p) d) \<and>
     (\<forall>q\<in>set (quota d). user_exists (q_UserID q) d) \<and>
     (\<forall>g\<in>set (gifs d). user_exists (g_UserId g) d) \<and>
     (\<forall>l\<in>set (last_uploads d). user_exists (l_UserID l) d) \<and>
     (\<forall>s\<in>set (shares d). user_exists (s_OwnerID s) d \<and> user_exists (s_SharedWith s) d \<and>
                          gif_exists (s_GifKey s) d) \<and>
     (\<forall>t\<in>set (share_tokens d). gif_exists (t_GifKey t) d) \<and>
     (\<forall>f\<in>set (friendships d). user_exists (f_RequesterID f) d \<and> user_exists (f_AddresseeID f) d) \<and>
     (\<forall>j\<in>set (jobs d). user_exists (j_UserID j) d)"

definition rows_ok :: "database \<Rightarrow> bool" where
  "rows_ok d \<longleftrightarrow>
     (\<forall>u\<in>set (users d). users_row_ok u) \<and>
     (\<forall>v\<in>set (verifier d). varchar 70 (v_Token v)) \<and>
     (\<forall>r\<in>set (reseter d). varchar 70 (r_Token r)) \<and>
     (\<forall>f\<in>set (friendships d). friendship_row_ok f)"

definition schema_ok :: "database \<Rightarrow> bool" where
  "schema_ok d \<longleftrightarrow> keys_ok d \<and> refs_ok d \<and> rows_ok d"

lemmas schema_defs = schema_ok_def keys_ok_def refs_ok_def rows_ok_def

lemma user_exists_iff: "user_exists i d \<longleftrightarrow> i \<in> u_Id ` set (users d)"
  by (auto simp: user_exists_def list_ex_iff)

lemma gif_exists_iff: "gif_exists k d \<longleftrightarrow> k \<in> g_Key ` set (gifs d)"
  by (auto simp: gif_exists_def list_ex_iff)

section \<open>Cascades keep the invariant\<close>

lemma keys_ok_delete_gifs: "keys_ok d \<Longrightarrow> keys_ok (delete_gifs p d)"
  by (simp add: keys_ok_def delete_gifs_def Let_def distinct_delete_where)

lemma refs_ok_delete_gifs: "refs_ok d \<Longrightarrow> refs_ok (delete_gifs p d)"
  unfolding refs_ok_def delete_gifs_def Let_def user_exists_iff gif_exists_iff
  by (simp add: list_ex_iff) (fastforce simp: image_iff)

lemma rows_ok_delete_gifs: "rows_ok d \<Longrightarrow> rows_ok (delete_gifs p d)"
  by (simp add: rows_ok_def delete_gifs_def Let_def)

lemma schema_ok_delete_gifs: "schema_ok d \<Longrightarrow> schema_ok (delete_gifs p d)"
  by (simp add: schema_ok_def keys_ok_delete_gifs refs_ok_delete_gifs rows_ok_delete_gifs)

lemma delete_gifs_sel [simp]:
  "users (delete_gifs p d) = users d" "verifier (delete_gifs p d) = verifier d"
  "reseter (delete_gifs p d) = reseter d" "profiles (delete_gifs p d) = profiles d"
  "quota (delete_gifs p d) = quota d" "last_uploads (delete_gifs p d) = last_uploads d"
  "friendships (delete_gifs p d) = friendships d" "jobs (delete_gifs p d) = jobs d"
  "gifs (delete_gifs p d) = delete_where p (gifs d)"
  by (simp_all add: delete_gifs_def Let_def)

lemma keys_ok_delete_users: "keys_ok d \<Longrightarrow> keys_ok (delete_users p d)"
  by (simp add: keys_ok_def delete_users_def delete_gifs_def Let_def distinct_delete_where)

lemma rows_ok_delete_users: "rows_ok d \<Longrightarrow> rows_ok (delete_users p d)"
  by (simp add: rows_ok_def delete_users_def delete_gifs_def Let_def)

text \<open>
  A user row survives a delete when no row with its identifier is selected, and with unique
  identifiers those are the only references left.
\<close>

lemma refs_ok_delete_users:
  assumes "refs_ok d"
  shows "refs_ok (delete_users p d)"
proof -
  let ?gone = "\<lambda>i. list_ex (\<lambda>u. p u \<and> u_Id u = i) (users d)"
  let ?d1 = "delete_gifs (\<lambda>g. ?gone (g_UserId g)) d"
  have r: "refs_ok ?d1" by (rule refs_ok_delete_gifs [OF assms])
  have keep: "\<And>i. i \<in> u_Id ` set (users d) \<Longrightarrow> \<not> ?gone i \<Longrightarrow>
      i \<in> u_Id ` {u \<in> set (users d). \<not> p u}"
    by (auto simp: list_ex_iff)
  show ?thesis
    using r unfolding refs_ok_def user_exists_iff gif_exists_iff delete_users_def Let_def
    by (simp add: keep)
qed

lemma schema_ok_delete_users: "schema_ok d \<Longrightarrow> schema_ok (delete_users p d)"
  by (simp add: schema_ok_def keys_ok_delete_users refs_ok_delete_users rows_ok_delete_users)

section \<open>Replacing one table\<close>

text \<open>
  A statement writes one table. Each lemma says what the new contents of that table must
  satisfy for the whole schema to hold again.
\<close>

lemma user_exists_upd [simp]:
  "user_exists i (d\<lparr>verifier := a\<rparr>) = user_exists i d" "user_exists i (d\<lparr>reseter := b\<rparr>) = user_exists i d"
  "user_exists i (d\<lparr>profiles := c\<rparr>) = user_exists i d" "user_exists i (d\<lparr>quota := e\<rparr>) = user_exists i d"
  "user_exists i (d\<lparr>gifs := f\<rparr>) = user_exists i d" "user_exists i (d\<lparr>last_uploads := g\<rparr>) = user_exists i d"
  "user_exists i (d\<lparr>shares := h\<rparr>) = user_exists i d" "user_exists i (d\<lparr>share_tokens := j\<rparr>) = user_exists i d"
  "user_exists i (d\<lparr>friendships := k\<rparr>) = user_exists i d" "user_exists i (d\<lparr>jobs := l\<rparr>) = user_exists i d"
  by (simp_all add: user_exists_def)

lemma gif_exists_upd [simp]:
  "gif_exists i (d\<lparr>verifier := a\<rparr>) = gif_exists i d" "gif_exists i (d\<lparr>reseter := b\<rparr>) = gif_exists i d"
  "gif_exists i (d\<lparr>profiles := c\<rparr>) = gif_exists i d" "gif_exists i (d\<lparr>quota := e\<rparr>) = gif_exists i d"
  "gif_exists i (d\<lparr>users := f\<rparr>) = gif_exists i d" "gif_exists i (d\<lparr>last_uploads := g\<rparr>) = gif_exists i d"
  "gif_exists i (d\<lparr>shares := h\<rparr>) = gif_exists i d" "gif_exists i (d\<lparr>share_tokens := j\<rparr>) = gif_exists i d"
  "gif_exists i (d\<lparr>friendships := k\<rparr>) = gif_exists i d" "gif_exists i (d\<lparr>jobs := l\<rparr>) = gif_exists i d"
  by (simp_all add: gif_exists_def)

lemma schema_ok_users:
  assumes "schema_ok d" "distinct (map u_Id us)" "distinct (map u_Email us)"
    and "u_Id ` set (users d) \<subseteq> u_Id ` set us" "\<And>u. u \<in> set us \<Longrightarrow> users_row_ok u"
  shows "schema_ok (d\<lparr>users := us\<rparr>)"
proof -
  have "user_exists i d \<Longrightarrow> user_exists i (d\<lparr>users := us\<rparr>)" for i
    using assms(4) by (auto simp: user_exists_iff)
  with assms show ?thesis by (simp add: schema_defs)
qed

lemma schema_ok_verifier:
  assumes "schema_ok d" "distinct (map v_UserId t)" "distinct (map v_Token t)"
    and "\<And>v. v \<in> set t \<Longrightarrow> user_exists (v_UserId v) d \<and> varchar 70 (v_Token v)"
  shows "schema_ok (d\<lparr>verifier := t\<rparr>)"
  using assms by (simp add: schema_defs)

lemma schema_ok_reseter:
  assumes "schema_ok d" "distinct (map r_UserId t)" "distinct (map r_Token t)"
    and "\<And>v. v \<in> set t \<Longrightarrow> user_exists (r_UserId v) d \<and> varchar 70 (r_Token v)"
  shows "schema_ok (d\<lparr>reseter := t\<rparr>)"
  using assms by (simp add: schema_defs)

lemma schema_ok_profiles:
  assumes "schema_ok d" "distinct (map p_UserId t)" "\<And>v. v \<in> set t \<Longrightarrow> user_exists (p_UserId v) d"
  shows "schema_ok (d\<lparr>profiles := t\<rparr>)"
  using assms by (simp add: schema_defs)

lemma schema_ok_quota:
  assumes "schema_ok d" "distinct (map q_UserID t)" "\<And>v. v \<in> set t \<Longrightarrow> user_exists (q_UserID v) d"
  shows "schema_ok (d\<lparr>quota := t\<rparr>)"
  using assms by (simp add: schema_defs)

lemma schema_ok_gifs:
  assumes "schema_ok d" "distinct (map g_Key t)" "g_Key ` set (gifs d) \<subseteq> g_Key ` set t"
    and "\<And>v. v \<in> set t \<Longrightarrow> user_exists (g_UserId v) d"
  shows "schema_ok (d\<lparr>gifs := t\<rparr>)"
proof -
  have "gif_exists i d \<Longrightarrow> gif_exists i (d\<lparr>gifs := t\<rparr>)" for i
    using assms(3) by (auto simp: gif_exists_iff)
  with assms show ?thesis by (simp add: schema_defs)
qed

lemma schema_ok_last_uploads:
  assumes "schema_ok d" "distinct (map l_UserID t)" "\<And>v. v \<in> set t \<Longrightarrow> user_exists (l_UserID v) d"
  shows "schema_ok (d\<lparr>last_uploads := t\<rparr>)"
  using assms by (simp add: schema_defs)

lemma schema_ok_shares:
  assumes "schema_ok d" "distinct (map (\<lambda>s. (s_GifKey s, s_SharedWith s)) t)"
    and "\<And>v. v \<in> set t \<Longrightarrow> user_exists (s_OwnerID v) d \<and> user_exists (s_SharedWith v) d \<and>
          gif_exists (s_GifKey v) d"
  shows "schema_ok (d\<lparr>shares := t\<rparr>)"
  using assms by (simp add: schema_defs)

lemma schema_ok_share_tokens:
  assumes "schema_ok d" "distinct (map t_Token t)" "distinct (map (\<lambda>s. (t_GifKey s, t_Email s)) t)"
    and "\<And>v. v \<in> set t \<Longrightarrow> gif_exists (t_GifKey v) d"
  shows "schema_ok (d\<lparr>share_tokens := t\<rparr>)"
  using assms by (simp add: schema_defs)

lemma schema_ok_friendships:
  assumes "schema_ok d" "distinct (map (\<lambda>f. (f_RequesterID f, f_AddresseeID f)) t)"
    and "distinct (map f_ID t)"
    and "\<And>v. v \<in> set t \<Longrightarrow> user_exists (f_RequesterID v) d \<and> user_exists (f_AddresseeID v) d \<and>
          friendship_row_ok v"
  shows "schema_ok (d\<lparr>friendships := t\<rparr>)"
  using assms by (simp add: schema_defs)

lemma schema_ok_jobs:
  assumes "schema_ok d" "distinct (map j_ID t)" "\<And>v. v \<in> set t \<Longrightarrow> user_exists (j_UserID v) d"
  shows "schema_ok (d\<lparr>jobs := t\<rparr>)"
  using assms by (simp add: schema_defs)

text \<open>Appending a row with a new key.\<close>

lemma distinct_snoc:
  "distinct (map k (t @ [r])) \<longleftrightarrow> distinct (map k t) \<and> (\<forall>x\<in>set t. k x \<noteq> k r)"
  by (auto simp: image_iff)

lemma distinct_update_key:
  assumes "distinct (map k t)" "distinct (map l t)"
    and "\<And>x. x \<in> set t \<Longrightarrow> k x \<noteq> i \<Longrightarrow> l x \<noteq> v" "\<And>x. l (f x) = v"
  shows "distinct (map l (update_where (\<lambda>x. k x = i) f t))"
  using assms by (induction t) (auto simp: update_where_def image_iff)

section \<open>Statements, transactions and invariants of the tables\<close>

lemma db_exec_db:
  assumes "P (db w)" "\<And>x d. stmt w = Inr (x, d) \<Longrightarrow> P d"
  shows "P (db (snd (db_exec E stmt w)))"
  using assms
  by (auto simp: db_exec_def tx_abort_def tick_def split: fault.splits sum.splits prod.splits)

lemma db_exec_Inr:
  assumes "db_exec E stmt w = (Inr x, w')"
  shows "\<exists>d. stmt w = Inr (x, d) \<and> w' = (tick w)\<lparr>db := d\<rparr>"
  using assms
  by (auto simp: db_exec_def split: if_splits fault.splits sum.splits prod.splits)

lemma db_exec_read:
  assumes "db_exec E stmt w = (r, w')" "\<And>x d. stmt w = Inr (x, d) \<Longrightarrow> d = db w"
  shows "db w' = db w"
  using assms
  by (auto simp: db_exec_def tx_abort_def tick_def split: if_splits fault.splits sum.splits prod.splits)

lemma db_exec_frame [frame]:
  "now (snd (db_exec E stmt w)) = now w" "draws (snd (db_exec E stmt w)) = draws w"
  "serial (snd (db_exec E stmt w)) = serial w"
  "cache_keys (snd (db_exec E stmt w)) = cache_keys w"
  "buckets (snd (db_exec E stmt w)) = buckets w"
  "published (snd (db_exec E stmt w)) = published w"
  "objects (snd (db_exec E stmt w)) = objects w" "mails (snd (db_exec E stmt w)) = mails w"
  by (auto simp: db_exec_def tx_abort_def tick_def split: fault.splits sum.splits prod.splits)

lemma tick_sel [simp]:
  "now (tick w) = now w" "draws (tick w) = draws w" "serial (tick w) = serial w"
  "db (tick w) = db w" "tx (tick w) = tx w" "cache_keys (tick w) = cache_keys w"
  "buckets (tick w) = buckets w" "published (tick w) = published w"
  "objects (tick w) = objects w" "mails (tick w) = mails w" "calls (tick w) = Suc (calls w)"
  by (simp_all add: tick_def)

text \<open>The outcome of a transaction, by whether it was committed.\<close>

lemma tx_run_db:
  assumes "P (db w)" "P (db (snd (fn ((tick w)\<lparr>tx := TxOpen\<rparr>))))"
  shows "P (db (snd (tx_run E fn w)))"
  using assms by (auto simp: tx_run_def split: fault.splits sum.splits prod.splits)

lemma tx_run_Inr:
  assumes "tx_run E fn w = (Inr r, w')"
  shows "\<exists>w1. fn ((tick w)\<lparr>tx := TxOpen\<rparr>) = (Inr r, w1) \<and> w' = (tick w1)\<lparr>tx := NoTx\<rparr>"
  using assms by (auto simp: tx_run_def split: fault.splits sum.splits prod.splits if_splits)

lemma tx_run_fn_fails:
  assumes "fn ((tick w)\<lparr>tx := TxOpen\<rparr>) = (Inl e, w1)"
  shows "db (snd (tx_run E fn w)) = db w \<and> (\<exists>e'. fst (tx_run E fn w) = Inl e')"
  using assms by (auto simp: tx_run_def split: fault.splits)

text \<open>When nothing fails, a statement and a transaction do what they are asked to.\<close>

lemma db_exec_ok:
  "no_faults E \<Longrightarrow> tx w \<noteq> TxAborted \<Longrightarrow> stmt w = Inr (x, d) \<Longrightarrow>
     db_exec E stmt w = (Inr x, (tick w)\<lparr>db := d\<rparr>)"
  by (simp add: no_faults_def db_exec_def)

lemma db_exec_no_rows:
  "no_faults E \<Longrightarrow> tx w \<noteq> TxAborted \<Longrightarrow> stmt w = Inl SqlNoRows \<Longrightarrow>
     db_exec E stmt w = (Inl SqlNoRows, tick w)"
  by (simp add: no_faults_def db_exec_def)

lemma tx_run_ok:
  "no_faults E \<Longrightarrow> fn ((tick w)\<lparr>tx := TxOpen\<rparr>) = (Inr r, w1) \<Longrightarrow> tx w1 \<noteq> TxAborted \<Longrightarrow>
     tx_run E fn w = (Inr r, (tick w1)\<lparr>tx := NoTx\<rparr>)"
  by (simp add: no_faults_def tx_run_def)

section \<open>The transaction manager as an interface\<close>

text \<open>
  What the services rely on of \<open>db.TxManager\<close>: a callback that fails leaves no trace in the
  tables, and a transaction that reports success has run its callback on the tables as they
  were and kept its effect.
\<close>

locale tx_manager =
  fixes run :: "(world \<Rightarrow> 'a result \<times> world) \<Rightarrow> world \<Rightarrow> 'a result \<times> world"
  assumes run_fails: "(\<And>w1. db w1 = db w \<Longrightarrow> \<exists>e. fst (fn w1) = Inl e) \<Longrightarrow>
      db (snd (run fn w)) = db w \<and> (\<exists>e. fst (run fn w) = Inl e)"
    and run_commits: "run fn w = (Inr r, w') \<Longrightarrow>
      \<exists>w0 w1. db w0 = db w \<and> now w0 = now w \<and> fn w0 = (Inr r, w1) \<and> db w' = db w1"
    and run_all_or_nothing: "db (snd (run fn w)) = db w \<or>
      (\<exists>w0 r w1. db w0 = db w \<and> now w0 = now w \<and> fn w0 = (Inr r, w1) \<and>
         db (snd (run fn w)) = db w1)"
begin

text \<open>A table invariant every successful callback keeps is kept by the transaction.\<close>

lemma run_keeps:
  assumes "P (db w)"
    and "\<And>w0 r w1. db w0 = db w \<Longrightarrow> now w0 = now w \<Longrightarrow> fn w0 = (Inr r, w1) \<Longrightarrow> P (db w1)"
  shows "P (db (snd (run fn w)))"
  using run_all_or_nothing [of fn w] assms by metis

end

lemma tx_run_all_or_nothing:
  "db (snd (tx_run E fn w)) = db w \<or>
     (\<exists>w0 r w1. db w0 = db w \<and> now w0 = now w \<and> fn w0 = (Inr r, w1) \<and>
        db (snd (tx_run E fn w)) = db w1)"
proof (cases "fn ((tick w)\<lparr>tx := TxOpen\<rparr>)")
  case (Pair r w1)
  have k: "db ((tick w)\<lparr>tx := TxOpen\<rparr>) = db w" "now ((tick w)\<lparr>tx := TxOpen\<rparr>) = now w"
    by simp_all
  show ?thesis
  proof (cases r)
    case (Inl e)
    with Pair show ?thesis using tx_run_fn_fails by blast
  next
    case (Inr x)
    with Pair have "db (snd (tx_run E fn w)) = db w \<or> db (snd (tx_run E fn w)) = db w1"
      by (auto simp: tx_run_def split: fault.splits)
    with Pair Inr k show ?thesis by metis
  qed
qed

lemma tx_run_commits:
  assumes "tx_run E fn w = (Inr r, w')"
  shows "\<exists>w0 w1. db w0 = db w \<and> now w0 = now w \<and> fn w0 = (Inr r, w1) \<and> db w' = db w1"
proof -
  from tx_run_Inr [OF assms] obtain w1 where
    f: "fn ((tick w)\<lparr>tx := TxOpen\<rparr>) = (Inr r, w1)" and w': "w' = (tick w1)\<lparr>tx := NoTx\<rparr>"
    by blast
  have "db w' = db w1" by (simp add: w')
  with f show ?thesis by (intro exI [of _ "(tick w)\<lparr>tx := TxOpen\<rparr>"] exI [of _ w1]) simp
qed

lemma tx_run_fails:
  assumes "\<And>w1. db w1 = db w \<Longrightarrow> \<exists>e. fst (fn w1) = Inl e"
  shows "db (snd (tx_run E fn w)) = db w \<and> (\<exists>e. fst (tx_run E fn w) = Inl e)"
proof -
  have "\<exists>e. fst (fn ((tick w)\<lparr>tx := TxOpen\<rparr>)) = Inl e" by (rule assms) simp
  then obtain e w1 where "fn ((tick w)\<lparr>tx := TxOpen\<rparr>) = (Inl e, w1)"
    by (metis prod.collapse)
  then show ?thesis by (rule tx_run_fn_fails)
qed

interpretation rr: tx_manager "tx_With E" for E
  unfolding tx_With_def
  by (unfold_locales) (fact tx_run_fails, fact tx_run_commits, fact tx_run_all_or_nothing)

interpretation rc: tx_manager "tx_WithRC E" for E
  unfolding tx_WithRC_def
  by (unfold_locales) (fact tx_run_fails, fact tx_run_commits, fact tx_run_all_or_nothing)

end
