(* ===== verification/Tokens.thy ===== *)
theory Tokens
  imports World
begin

text \<open>
  \<open>pkg/token\<close> (random tokens and the hash kept of them), \<open>pkg/password\<close> (bcrypt with a
  pepper), \<open>pkg/random\<close> and \<open>pkg/jwt\<close>. SHA-256 yields 32 bytes, here a 256-bit word, and
  \<open>hex.EncodeToString\<close> writes each byte as two lower-case digits; bcrypt, the UUID generator and
  the JWT library are fields of the environment.
\<close>

section \<open>pkg/token\<close>

definition hex_digit :: "nat \<Rightarrow> char" where
  "hex_digit n = (if n < 10 then char_of (48 + n) else char_of (87 + n))"

definition hex_EncodeToString :: "256 word \<Rightarrow> string" where
  "hex_EncodeToString x =
     map (\<lambda>i. hex_digit (unat (take_bit 4 (drop_bit (4 * (63 - i)) x)))) [0..<64]"

definition GetTokenHash :: "env \<Rightarrow> string \<Rightarrow> string" where
  "GetTokenHash E token = hex_EncodeToString (sha256_Sum256 E token)"

text \<open>\<open>uuid.NewString()\<close> and its hash, drawn from the random source.\<close>

definition GenerateToken :: "env \<Rightarrow> world \<Rightarrow> (string \<times> string) \<times> world" where
  "GenerateToken E w =
     (let (token, w1) = draw_uuid E w in ((token, GetTokenHash E token), w1))"

definition GenerateRandomID :: "env \<Rightarrow> world \<Rightarrow> uuid \<times> world" where
  "GenerateRandomID E w = draw_uuid E w"

lemma length_GetTokenHash [simp]: "length (GetTokenHash E t) = 64"
  by (simp add: GetTokenHash_def hex_EncodeToString_def)

text \<open>The digits are ASCII hexadecimal digits, so a hash holds no \<open>'-'\<close>, unlike a UUID.\<close>

lemma hex_digit_ne:
  assumes "n < 16"
  shows "hex_digit n \<noteq> CHR ''-''"
proof -
  have "of_char (hex_digit n) \<noteq> (45 :: nat)"
    using assms by (simp add: hex_digit_def)
  moreover have "of_char (CHR ''-'') = (45 :: nat)" by simp
  ultimately show ?thesis by metis
qed

lemma unat_nibble: "unat (take_bit 4 (x :: 256 word)) < 16"
proof -
  have "unat (take_bit 4 x) = take_bit 4 (unat x)" by (simp only: unsigned_take_bit_eq)
  also have "\<dots> < 2 ^ 4" by (rule take_bit_nat_less_exp)
  finally show ?thesis by simp
qed

lemma GetTokenHash_no_dash: "CHR ''-'' \<notin> set (GetTokenHash E t)"
proof
  assume "CHR ''-'' \<in> set (GetTokenHash E t)"
  then obtain x :: "256 word" where "CHR ''-'' = hex_digit (unat (take_bit 4 x))"
    by (auto simp: GetTokenHash_def hex_EncodeToString_def simp del: take_bit_word_eq_self)
  with hex_digit_ne [OF unat_nibble, of x] show False by simp
qed

text \<open>The shape of a stored token: 64 ASCII characters.\<close>

definition token_hash :: "string \<Rightarrow> bool" where
  "token_hash s \<longleftrightarrow> length s = 64 \<and> list_all (\<lambda>c. (of_char c :: nat) < 128) s"

lemma hex_digit_ascii: "n < 16 \<Longrightarrow> (of_char (hex_digit n) :: nat) < 128"
  by (simp add: hex_digit_def)

lemma token_hash_GetTokenHash [simp]: "token_hash (GetTokenHash E t)"
proof -
  have "(of_char c :: nat) < 128" if "c \<in> set (GetTokenHash E t)" for c
  proof -
    from that obtain x :: "256 word" where "c = hex_digit (unat (take_bit 4 x))"
      by (auto simp: GetTokenHash_def hex_EncodeToString_def simp del: take_bit_word_eq_self)
    then show ?thesis using hex_digit_ascii [OF unat_nibble] by simp
  qed
  then show ?thesis by (simp add: token_hash_def list_all_iff)
qed

lemma token_hash_length: "token_hash s \<Longrightarrow> length s = 64"
  by (simp add: token_hash_def)

section \<open>pkg/password\<close>

definition GenerateHash :: "env \<Rightarrow> string \<Rightarrow> string io" where
  "GenerateHash E pass w =
     (let w1 = w\<lparr>draws := Suc (draws w)\<rparr> in
      case bcrypt_Generate E (draws w) (pass @ cnf_Pepper E) (cnf_Cost E) of
        None \<Rightarrow> (Inl (Driver ''bcrypt''), w1)
      | Some h \<Rightarrow> (Inr h, w1))"

definition CompareHashAndPassword :: "env \<Rightarrow> string \<Rightarrow> string \<Rightarrow> bool" where
  "CompareHashAndPassword E hashedPass pass = bcrypt_Compare E hashedPass (pass @ cnf_Pepper E)"

section \<open>pkg/jwt\<close>

definition hour :: int where "hour = 60 * 60 * 1000"

definition minute :: int where "minute = 60 * 1000"

text \<open>\<open>jwt.NewNumericDate\<close> truncates to the library's precision, one second.\<close>

definition NewNumericDate :: "timestamp \<Rightarrow> timestamp" where
  "NewNumericDate t = t - t mod 1000"

definition jwt_Create ::
  "env \<Rightarrow> string \<Rightarrow> string \<Rightarrow> string \<Rightarrow> string \<Rightarrow> world \<Rightarrow> string result" where
  "jwt_Create E fullname ident email role w =
     (if fullname = '''' \<or> role = '''' then Inl (JwtE EmptyValueErr)
      else let claims =
        (if role \<noteq> ''anon'' then
           \<lparr>c_Fullname = fullname, c_Email = email, c_Role = role, c_Subject = ident,
            c_Issuer = ''ffgif'', c_IssuedAt = Some (NewNumericDate (now w)),
            c_ExpiresAt = Some (NewNumericDate (now w + 24 * hour))\<rparr>
         else
           \<lparr>c_Fullname = fullname, c_Email = '''', c_Role = role, c_Subject = ident,
            c_Issuer = ''ffgif'', c_IssuedAt = Some (NewNumericDate (now w)),
            c_ExpiresAt = Some (NewNumericDate (now w + 24 * hour))\<rparr>)
      in jwt_SignedString E claims (cnf_JwtSecretKey E))"

text \<open>The key function handed to the parser: the secret, for an HMAC algorithm only.\<close>

definition jwt_keyfunc :: "env \<Rightarrow> bool \<Rightarrow> string result" where
  "jwt_keyfunc E is_hmac =
     (if \<not> is_hmac then Inl (Msg ''wrong signing method'') else Inr (cnf_JwtSecretKey E))"

definition jwt_Verify :: "env \<Rightarrow> string \<Rightarrow> world \<Rightarrow> jwt_payload result" where
  "jwt_Verify E tokenStr w = jwt_ParseWithClaims E (now w) tokenStr (jwt_keyfunc E)"

text \<open>
  What the code relies on of the JWT library: claims signed with the secret come back while
  the token is valid, an expired token is refused with \<open>jwt.ErrTokenExpired\<close>, a token whose
  claims are returned has not reached its expiry, the claims of a token do not change over
  time, and a token that the library signed with no other key is all it accepts.
\<close>

definition jwt_expiry_checked :: "env \<Rightarrow> bool" where
  "jwt_expiry_checked E \<longleftrightarrow>
     (\<forall>t s k c e. jwt_ParseWithClaims E t s k = Inr c \<longrightarrow> c_ExpiresAt c = Some e \<longrightarrow> t < e)"

definition jwt_claims_stable :: "env \<Rightarrow> bool" where
  "jwt_claims_stable E \<longleftrightarrow>
     (\<forall>t t' s k c c'. jwt_ParseWithClaims E t s k = Inr c \<longrightarrow>
        jwt_ParseWithClaims E t' s k = Inr c' \<longrightarrow> c = c')"

definition jwt_sign_verify :: "env \<Rightarrow> bool" where
  "jwt_sign_verify E \<longleftrightarrow>
     (\<forall>t c key s kf e. jwt_SignedString E c key = Inr s \<longrightarrow> kf True = Inr key \<longrightarrow>
        c_ExpiresAt c = Some e \<longrightarrow> t < e \<longrightarrow> jwt_ParseWithClaims E t s kf = Inr c)"

lemma jwt_Create_Inr:
  assumes "jwt_Create E fullname ident email role w = Inr s"
  shows "fullname \<noteq> '''' \<and> role \<noteq> '''' \<and>
    (\<exists>c. jwt_SignedString E c (cnf_JwtSecretKey E) = Inr s \<and> c_Subject c = ident \<and>
      c_Role c = role \<and> c_ExpiresAt c = Some (NewNumericDate (now w + 24 * hour)))"
  using assms by (auto simp: jwt_Create_def Let_def split: if_splits)

end
