(* ===== verification/Pg_Auth.thy ===== *)
theory Pg_Auth
  imports Schema Tokens
begin

text \<open>
  \<open>internal/infra/postgres/auth_repo.go\<close>: the repositories of users, of verification tokens and
  of password-reset tokens, one definition per method, each its SQL statement run by
  \<open>db_exec\<close>. The lemmas give what each keeps of the schema and of the tables it does not write.
\<close>

section \<open>authRepo\<close>

definition GetByEmail :: "env \<Rightarrow> string \<Rightarrow> auth_user io" where
  "GetByEmail E email w =
     db_exec E (\<lambda>w. get_row (List.find (\<lambda>u. u_Email u = email) (users (db w))) id (db w)) w"

definition GetById :: "env \<Rightarrow> uuid \<Rightarrow> auth_user io" where
  "GetById E ident w =
     db_exec E (\<lambda>w. get_row (List.find (\<lambda>u. u_Id u = ident) (users (db w))) id (db w)) w"

text \<open>
  The inserted row takes the identifier and the time stamps from the column defaults, and the
  caller gets back the columns of the RETURNING list, the others being zero values.
\<close>

definition insert_user :: "auth_user \<Rightarrow> world \<Rightarrow> (auth_user \<times> database) result" where
  "insert_user u w =
     (if \<not> users_row_ok u then Inl (Driver ''22001'')
      else if users_key_clash u (db w) then Inl (Driver ''23505'')
      else Inr (u\<lparr>u_PasswordHash := '''', u_UpdatedAt := 0, u_DeletedAt := None\<rparr>,
                (db w)\<lparr>users := users (db w) @ [u]\<rparr>))"

definition auth_Create :: "env \<Rightarrow> auth_user \<Rightarrow> auth_user io" where
  "auth_Create E user w =
     (let (i, w1) = draw_uuid E w
      in db_exec E (insert_user (user\<lparr>u_Id := i, u_CreatedAt := now w, u_UpdatedAt := now w\<rparr>)) w1)"

definition DeleteById :: "env \<Rightarrow> uuid \<Rightarrow> unit io" where
  "DeleteById E ident w =
     db_exec E (\<lambda>w. Inr ((), delete_users (\<lambda>u. u_Id u = ident) (db w))) w"

definition DeleteByEmail :: "env \<Rightarrow> string \<Rightarrow> unit io" where
  "DeleteByEmail E email w =
     db_exec E (\<lambda>w. Inr ((), delete_users (\<lambda>u. u_Email u = email) (db w))) w"

definition update_users ::
  "(auth_user \<Rightarrow> bool) \<Rightarrow> (auth_user \<Rightarrow> auth_user) \<Rightarrow> database \<Rightarrow> (unit \<times> database) result" where
  "update_users p f d =
     (let us = update_where p f (users d)
      in if list_ex (\<lambda>u. p u \<and> \<not> users_row_ok (f u)) (users d) then Inl (Driver ''22001'')
         else if \<not> distinct (map u_Email us) then Inl (Driver ''23505'')
         else Inr ((), d\<lparr>users := us\<rparr>))"

definition UpdatePassword :: "env \<Rightarrow> uuid \<Rightarrow> string \<Rightarrow> unit io" where
  "UpdatePassword E ident passHash w =
     db_exec E (\<lambda>w. update_users (\<lambda>u. u_Id u = ident)
                  (\<lambda>u. u\<lparr>u_PasswordHash := passHash\<rparr>) (db w)) w"

definition SetVerified :: "env \<Rightarrow> uuid \<Rightarrow> unit io" where
  "SetVerified E userId w =
     db_exec E (\<lambda>w. update_users (\<lambda>u. u_Id u = userId)
                  (\<lambda>u. u\<lparr>u_IsVerified := True\<rparr>) (db w)) w"

text \<open>
  \<open>Upgrade\<close>, which no service calls: its parameters are Go strings and a Go bool, never NULL, so
  every COALESCE but the one of \<open>deleted_at\<close> takes the new value, an empty one too.
\<close>

definition upgraded :: "timestamp \<Rightarrow> auth_user \<Rightarrow> auth_user \<Rightarrow> auth_user" where
  "upgraded t user u = u\<lparr>u_Username := u_Username user, u_Fullname := u_Fullname user, u_Email := u_Email user,
     u_PasswordHash := u_PasswordHash user, u_Role := u_Role user, u_IsVerified := u_IsVerified user,
     u_DeletedAt := (case u_DeletedAt user of None \<Rightarrow> u_DeletedAt u | Some x \<Rightarrow> Some x), u_UpdatedAt := t\<rparr>"

definition Upgrade :: "env \<Rightarrow> string \<Rightarrow> auth_user \<Rightarrow> auth_user io" where
  "Upgrade E ident user w =
     db_exec E (\<lambda>w. with_uuid E ident (\<lambda>i.
       case List.find (\<lambda>u. u_Id u = i) (users (db w)) of
         None \<Rightarrow> Inl SqlNoRows
       | Some u \<Rightarrow>
           (case update_users (\<lambda>u. u_Id u = i) (upgraded (now w) user) (db w) of
              Inl e \<Rightarrow> Inl e
            | Inr (_, d) \<Rightarrow> Inr ((upgraded (now w) user u)\<lparr>u_PasswordHash := [], u_UpdatedAt := 0,
                u_DeletedAt := None\<rparr>, d)))) w"

section \<open>verifierRepo\<close>

definition insert_verifier :: "auth_verifier \<Rightarrow> world \<Rightarrow> (unit \<times> database) result" where
  "insert_verifier v w =
     (if \<not> varchar 70 (v_Token v) then Inl (Driver ''22001'')
      else if list_ex (\<lambda>x. v_UserId x = v_UserId v \<or> v_Token x = v_Token v) (verifier (db w))
      then Inl (Driver ''23505'')
      else if \<not> user_exists (v_UserId v) (db w) then Inl (Driver ''23503'')
      else Inr ((), (db w)\<lparr>verifier := verifier (db w) @ [v]\<rparr>))"

definition verifier_Create :: "env \<Rightarrow> uuid \<Rightarrow> string \<Rightarrow> unit io" where
  "verifier_Create E userId tokenHash w =
     (let (i, w1) = next_serial w
      in db_exec E (insert_verifier \<lparr>v_Id = i, v_UserId = userId, v_Token = tokenHash,
           v_CreatedAt = now w, v_ExpireAt = now w + 30 * minute\<rparr>) w1)"

definition verifier_GetByHash :: "env \<Rightarrow> string \<Rightarrow> auth_verifier io" where
  "verifier_GetByHash E tokenHash w =
     db_exec E (\<lambda>w. get_row (List.find (\<lambda>v. v_Token v = tokenHash \<and> v_ExpireAt v > now w)
       (verifier (db w))) id (db w)) w"

definition verifier_GetById :: "env \<Rightarrow> uuid \<Rightarrow> auth_verifier io" where
  "verifier_GetById E userId w =
     db_exec E (\<lambda>w. get_row (List.find (\<lambda>v. v_UserId v = userId) (verifier (db w))) id (db w)) w"

definition verifier_Delete :: "env \<Rightarrow> int \<Rightarrow> unit io" where
  "verifier_Delete E ident w =
     db_exec E (\<lambda>w. Inr ((), (db w)\<lparr>verifier := delete_where (\<lambda>v. v_Id v = ident)
       (verifier (db w))\<rparr>)) w"

section \<open>reseterRepo\<close>

definition reseter_GetById :: "env \<Rightarrow> uuid \<Rightarrow> auth_reseter io" where
  "reseter_GetById E ident w =
     db_exec E (\<lambda>w. get_row (List.find (\<lambda>r. r_UserId r = ident \<and> r_ExpireAt r > now w)
       (reseter (db w))) id (db w)) w"

text \<open>\<open>Update\<close> has no body.\<close>

definition reseter_Update :: "env \<Rightarrow> auth_reseter \<Rightarrow> unit io" where
  "reseter_Update E r w = (Inr (), w)"

text \<open>
  \<open>INSERT ... ON CONFLICT (user_id) DO UPDATE SET token_hash\<close>: of an existing row only the
  token hash changes, the expiry stays.
\<close>

definition upsert_reseter :: "auth_reseter \<Rightarrow> world \<Rightarrow> (unit \<times> database) result" where
  "upsert_reseter r w =
     (if \<not> varchar 70 (r_Token r) then Inl (Driver ''22001'')
      else if list_ex (\<lambda>x. r_UserId x = r_UserId r) (reseter (db w)) then
        (if list_ex (\<lambda>x. r_UserId x \<noteq> r_UserId r \<and> r_Token x = r_Token r) (reseter (db w))
         then Inl (Driver ''23505'')
         else Inr ((), (db w)\<lparr>reseter := update_where (\<lambda>x. r_UserId x = r_UserId r)
                (\<lambda>x. x\<lparr>r_Token := r_Token r\<rparr>) (reseter (db w))\<rparr>))
      else if list_ex (\<lambda>x. r_Token x = r_Token r) (reseter (db w)) then Inl (Driver ''23505'')
      else if \<not> user_exists (r_UserId r) (db w) then Inl (Driver ''23503'')
      else Inr ((), (db w)\<lparr>reseter := reseter (db w) @ [r]\<rparr>))"

definition reseter_Create :: "env \<Rightarrow> uuid \<Rightarrow> string \<Rightarrow> unit io" where
  "reseter_Create E userId tokenHash w =
     (let (i, w1) = next_serial w
      in db_exec E (upsert_reseter \<lparr>r_Id = i, r_UserId = userId, r_Token = tokenHash,
           r_Used = False, r_CreatedAt = now w, r_ExpireAt = now w + 15 * minute\<rparr>) w1)"

definition reseter_GetByToken :: "env \<Rightarrow> string \<Rightarrow> auth_reseter io" where
  "reseter_GetByToken E token w =
     db_exec E (\<lambda>w. get_row (List.find (\<lambda>r. r_Token r = token \<and> r_ExpireAt r > now w)
       (reseter (db w))) id (db w)) w"

definition reseter_DeleteById :: "env \<Rightarrow> int \<Rightarrow> unit io" where
  "reseter_DeleteById E ident w =
     db_exec E (\<lambda>w. Inr ((), (db w)\<lparr>reseter := delete_where (\<lambda>r. r_Id r = ident)
       (reseter (db w))\<rparr>)) w"

lemmas auth_repo_defs =
  GetByEmail_def GetById_def auth_Create_def DeleteById_def DeleteByEmail_def UpdatePassword_def
  SetVerified_def verifier_Create_def verifier_GetByHash_def verifier_GetById_def
  verifier_Delete_def reseter_GetById_def reseter_Create_def reseter_GetByToken_def
  reseter_DeleteById_def

section \<open>Statements keep the schema\<close>

lemma get_row_db: "get_row r f d = Inr (x, d') \<Longrightarrow> d' = d"
  by (auto simp: get_row_def split: option.splits)

lemma get_row_Inr: "get_row r f d = Inr (x, d') \<longleftrightarrow> d' = d \<and> (\<exists>y. r = Some y \<and> x = f y)"
  by (auto simp: get_row_def split: option.splits)

lemma insert_user_keeps:
  assumes "schema_ok (db w)" "insert_user u w = Inr (x, d)"
  shows "schema_ok d"
proof -
  from assms(2) have d: "d = (db w)\<lparr>users := users (db w) @ [u]\<rparr>" and ok: "users_row_ok u"
    and new: "\<forall>x\<in>set (users (db w)). u_Id x \<noteq> u_Id u \<and> u_Email x \<noteq> u_Email u"
    by (auto simp: insert_user_def users_key_clash_def list_ex_iff split: if_splits)
  show ?thesis unfolding d
    by (rule schema_ok_users [OF assms(1)])
      (use assms(1) ok new in \<open>auto simp: distinct_snoc schema_defs simp del: map_append\<close>)
qed

lemma update_users_keeps:
  assumes "schema_ok d" "update_users p f d = Inr (x, d')" "\<And>u. u_Id (f u) = u_Id u"
  shows "schema_ok d'"
proof -
  from assms(2) have d': "d' = d\<lparr>users := update_where p f (users d)\<rparr>"
    and ok: "\<forall>u\<in>set (users d). p u \<longrightarrow> users_row_ok (f u)"
    and em: "distinct (map u_Email (update_where p f (users d)))"
    by (auto simp: update_users_def Let_def list_ex_iff split: if_splits)
  have ids: "map u_Id (update_where p f (users d)) = map u_Id (users d)"
    by (rule map_update_where) (rule assms(3))
  then have "u_Id ` set (users d) = u_Id ` set (update_where p f (users d))"
    by (metis list.set_map)
  then show ?thesis unfolding d' using assms(1) ok em ids
    by (intro schema_ok_users) (auto simp: set_update_where schema_ok_def keys_ok_def rows_ok_def)
qed

lemma insert_verifier_keeps:
  assumes "schema_ok (db w)" "insert_verifier v w = Inr (x, d)"
  shows "schema_ok d"
proof -
  from assms(2) have d: "d = (db w)\<lparr>verifier := verifier (db w) @ [v]\<rparr>"
    and ok: "varchar 70 (v_Token v)" "user_exists (v_UserId v) (db w)"
    and new: "\<forall>x\<in>set (verifier (db w)). v_UserId x \<noteq> v_UserId v \<and> v_Token x \<noteq> v_Token v"
    by (auto simp: insert_verifier_def list_ex_iff split: if_splits)
  show ?thesis unfolding d
    by (rule schema_ok_verifier [OF assms(1)])
      (use assms(1) ok new in \<open>auto simp: distinct_snoc schema_defs simp del: map_append\<close>)
qed

lemma upsert_reseter_keeps:
  assumes "schema_ok (db w)" "upsert_reseter r w = Inr (x, d)"
  shows "schema_ok d"
proof -
  have dist: "distinct (map r_UserId (reseter (db w)))" "distinct (map r_Token (reseter (db w)))"
    and rows: "\<And>x. x \<in> set (reseter (db w)) \<Longrightarrow>
       user_exists (r_UserId x) (db w) \<and> varchar 70 (r_Token x)"
    using assms(1) by (simp_all add: schema_defs)
  show ?thesis
  proof (cases "list_ex (\<lambda>x. r_UserId x = r_UserId r) (reseter (db w))")
    case False
    with assms(2) have d: "d = (db w)\<lparr>reseter := reseter (db w) @ [r]\<rparr>"
      and ok: "varchar 70 (r_Token r)" "user_exists (r_UserId r) (db w)"
      and new: "\<forall>x\<in>set (reseter (db w)). r_UserId x \<noteq> r_UserId r \<and> r_Token x \<noteq> r_Token r"
      by (auto simp: upsert_reseter_def list_ex_iff split: if_splits)
    show ?thesis unfolding d
      by (rule schema_ok_reseter [OF assms(1)])
        (use dist rows ok new in \<open>auto simp: distinct_snoc simp del: map_append\<close>)
  next
    case True
    let ?up = "update_where (\<lambda>x. r_UserId x = r_UserId r) (\<lambda>x. x\<lparr>r_Token := r_Token r\<rparr>)
                (reseter (db w))"
    from True assms(2) have d: "d = (db w)\<lparr>reseter := ?up\<rparr>" and v: "varchar 70 (r_Token r)"
      and new: "\<And>x. x \<in> set (reseter (db w)) \<Longrightarrow> r_UserId x \<noteq> r_UserId r \<Longrightarrow> r_Token x \<noteq> r_Token r"
      by (auto simp: upsert_reseter_def list_ex_iff split: if_splits)
    have own: "user_exists (r_UserId r) (db w)"
    proof -
      from True obtain x where "x \<in> set (reseter (db w))" "r_UserId x = r_UserId r"
        by (auto simp: list_ex_iff)
      with rows [of x] show ?thesis by simp
    qed
    have ids: "map r_UserId ?up = map r_UserId (reseter (db w))"
      by (rule map_update_where) simp
    have tok: "distinct (map r_Token ?up)"
      by (rule distinct_update_key [OF dist new]) simp_all
    show ?thesis unfolding d
      by (rule schema_ok_reseter [OF assms(1)])
        (use dist rows v ids tok own in \<open>auto simp: set_update_where\<close>)
  qed
qed

section \<open>Token tables\<close>

text \<open>
  What the services rely on of a table that is searched by a token: a hit is the token of a row,
  and the search changes no table. All three tables of tokens are given hashes of 64 digits to
  keep, so a search for a text of another length finds nothing.
\<close>

locale token_table =
  fixes tokens :: "database \<Rightarrow> string list"
    and lookup :: "string \<Rightarrow> 'a io"
  assumes lookup_hit: "lookup s w = (Inr x, w') \<Longrightarrow> s \<in> set (tokens (db w))"
    and lookup_db: "db (snd (lookup s w)) = db w"
begin

lemma other_length_refused:
  assumes "\<forall>h\<in>set (tokens (db w)). length h = 64" "length s \<noteq> 64"
  shows "\<exists>e. fst (lookup s w) = Inl e"
proof (cases "lookup s w")
  case (Pair r w')
  then show ?thesis
    using lookup_hit [of s w _ w'] assms by (cases r) auto
qed

end

lemma db_exec_get_row_db [simp]:
  "db (snd (db_exec E (\<lambda>w. get_row (r w) f (db w)) w)) = db w"
  by (rule db_exec_db [where P = "\<lambda>d. d = db w"]) (auto simp: get_row_Inr)

interpretation vt: token_table "\<lambda>d. map v_Token (verifier d)" "verifier_GetByHash E" for E
  by (unfold_locales)
    (auto simp: verifier_GetByHash_def get_row_Inr dest!: db_exec_Inr find_SomeD)

interpretation rt: token_table "\<lambda>d. map r_Token (reseter d)" "reseter_GetByToken E" for E
  by (unfold_locales)
    (auto simp: reseter_GetByToken_def get_row_Inr dest!: db_exec_Inr find_SomeD)

end
