(* ===== verification/Pg_User.thy ===== *)
theory Pg_User
  imports Pg_Auth
begin

text \<open>
  \<open>internal/infra/postgres/user_repo.go\<close> and \<open>quota_repo.go\<close>: profiles and quotas. The
  repositories of anonymous users in the same files are in \<open>Pg_Anon\<close>.
\<close>

section \<open>userRepo\<close>

definition profile_of :: "auth_user \<Rightarrow> user_profile \<Rightarrow> profile_response" where
  "profile_of u p =
     \<lparr>pr_ProfilePic = p_ProfilePic p, pr_Username = u_Username u, pr_Fullname = u_Fullname u,
      pr_Email = u_Email u, pr_IsVerified = u_IsVerified u, pr_UpdatedAt = u_UpdatedAt u\<rparr>"

definition user_GetProfile :: "env \<Rightarrow> string \<Rightarrow> bool \<Rightarrow> profile_response io" where
  "user_GetProfile E ident forUpdate w =
     db_exec E (\<lambda>w. with_uuid E ident (\<lambda>i.
       case List.find (\<lambda>u. u_Id u = i) (users (db w)) of
         None \<Rightarrow> Inl SqlNoRows
       | Some u \<Rightarrow> get_row (List.find (\<lambda>p. p_UserId p = i) (profiles (db w))) (profile_of u) (db w))) w"

definition insert_profile :: "user_profile \<Rightarrow> world \<Rightarrow> (unit \<times> database) result" where
  "insert_profile p w =
     (if list_ex (\<lambda>x. p_UserId x = p_UserId p) (profiles (db w)) then Inl (Driver ''23505'')
      else if \<not> user_exists (p_UserId p) (db w) then Inl (Driver ''23503'')
      else Inr ((), (db w)\<lparr>profiles := profiles (db w) @ [p]\<rparr>))"

definition SetProfile :: "env \<Rightarrow> uuid \<Rightarrow> string \<Rightarrow> unit io" where
  "SetProfile E userId pic w =
     (let (i, w1) = next_serial w
      in db_exec E (insert_profile \<lparr>p_Id = i, p_UserId = userId, p_ProfilePic = pic,
           p_CreatedAt = now w, p_UpdatedAt = now w\<rparr>) w1)"

text \<open>
  The two data-modifying CTEs and the final SELECT. A user without a profile row makes the scan
  of the NULL picture fail on the client; its only caller then rolls the transaction back.
\<close>

definition coalesce :: "'a option \<Rightarrow> 'a \<Rightarrow> 'a" where
  "coalesce r x = (case r of None \<Rightarrow> x | Some y \<Rightarrow> y)"

definition user_UpdateProfile ::
  "env \<Rightarrow> profile_update_request \<Rightarrow> string \<Rightarrow> profile_response io" where
  "user_UpdateProfile E req userId w =
     db_exec E (\<lambda>w. with_uuid E userId (\<lambda>i.
       let uf = (\<lambda>u. u\<lparr>u_Username := coalesce (pu_Username req) (u_Username u),
                       u_Fullname := coalesce (pu_Fullname req) (u_Fullname u),
                       u_UpdatedAt := now w\<rparr>);
           pf = (\<lambda>p. p\<lparr>p_ProfilePic := coalesce (pu_ProfilePic req) (p_ProfilePic p),
                       p_UpdatedAt := now w\<rparr>)
       in case update_users (\<lambda>u. u_Id u = i) uf (db w) of
            Inl e \<Rightarrow> Inl e
          | Inr (_, d) \<Rightarrow>
              (let d' = d\<lparr>profiles := update_where (\<lambda>p. p_UserId p = i) pf (profiles d)\<rparr>
               in case List.find (\<lambda>u. u_Id u = i) (users d') of
                    None \<Rightarrow> Inl SqlNoRows
                  | Some u \<Rightarrow>
                      (case List.find (\<lambda>p. p_UserId p = i) (profiles d') of
                         None \<Rightarrow> Inl (Driver ''converting NULL to string is unsupported'')
                       | Some p \<Rightarrow> Inr (profile_of u p, d'))))) w"

definition user_ChangePassword :: "env \<Rightarrow> string \<Rightarrow> string \<Rightarrow> unit io" where
  "user_ChangePassword E userId h w =
     db_exec E (\<lambda>w. with_uuid E userId (\<lambda>i.
       update_users (\<lambda>u. u_Id u = i) (\<lambda>u. u\<lparr>u_PasswordHash := h, u_UpdatedAt := now w\<rparr>) (db w))) w"

section \<open>quotaRepo\<close>

definition insert_quota :: "user_quota \<Rightarrow> world \<Rightarrow> (unit \<times> database) result" where
  "insert_quota q w =
     (if list_ex (\<lambda>x. q_UserID x = q_UserID q) (quota (db w)) then Inl (Driver ''23505'')
      else if \<not> user_exists (q_UserID q) (db w) then Inl (Driver ''23503'')
      else Inr ((), (db w)\<lparr>quota := quota (db w) @ [q]\<rparr>))"

definition quota_Create :: "env \<Rightarrow> uuid \<Rightarrow> unit io" where
  "quota_Create E userId w =
     (let (i, w1) = next_serial w
      in db_exec E (insert_quota \<lparr>q_ID = i, q_UserID = userId, q_UsedBytes = 0,
           q_TotalBytes = 1073741824, q_GifCount = 0, q_GitLimit = 100\<rparr>) w1)"

definition quota_GetById :: "env \<Rightarrow> string \<Rightarrow> user_quota io" where
  "quota_GetById E userId w =
     db_exec E (\<lambda>w. with_uuid E userId (\<lambda>i.
       get_row (List.find (\<lambda>q. q_UserID q = i) (quota (db w))) id (db w))) w"

definition quota_fits :: "int \<Rightarrow> int \<Rightarrow> user_quota \<Rightarrow> bool" where
  "quota_fits addBytes addGifCount q \<longleftrightarrow>
     q_UsedBytes q + addBytes \<le> q_TotalBytes q \<and> q_GifCount q + addGifCount \<le> q_GitLimit q"

definition IncrementUsage :: "env \<Rightarrow> string \<Rightarrow> int \<Rightarrow> int \<Rightarrow> bool io" where
  "IncrementUsage E userId addBytes addGifCount w =
     db_exec E (\<lambda>w. with_uuid E userId (\<lambda>i.
       let hit = (\<lambda>q. q_UserID q = i \<and> quota_fits addBytes addGifCount q)
       in if list_ex (\<lambda>q. q_UserID q = i \<and> (\<not> int4 (q_UsedBytes q + addBytes) \<or>
               \<not> int4 (q_GifCount q + addGifCount))) (quota (db w))
          then Inl (Driver ''22003'')
          else Inr (list_ex hit (quota (db w)),
            (db w)\<lparr>quota := update_where hit
               (\<lambda>q. q\<lparr>q_UsedBytes := q_UsedBytes q + addBytes,
                      q_GifCount := q_GifCount q + addGifCount\<rparr>) (quota (db w))\<rparr>))) w"

lemmas user_repo_defs =
  user_GetProfile_def SetProfile_def user_UpdateProfile_def user_ChangePassword_def
  quota_Create_def quota_GetById_def IncrementUsage_def

section \<open>Statements keep the schema\<close>

lemma with_uuid_Inr: "with_uuid E s k = Inr x \<longleftrightarrow> (\<exists>i. pg_uuid_in E s = Some i \<and> k i = Inr x)"
  by (auto simp: with_uuid_def split: option.splits)

lemma insert_profile_keeps:
  assumes "schema_ok (db w)" "insert_profile p w = Inr (x, d)"
  shows "schema_ok d"
proof -
  from assms(2) have d: "d = (db w)\<lparr>profiles := profiles (db w) @ [p]\<rparr>"
    and ok: "user_exists (p_UserId p) (db w)"
    and new: "\<forall>x\<in>set (profiles (db w)). p_UserId x \<noteq> p_UserId p"
    by (auto simp: insert_profile_def list_ex_iff split: if_splits)
  show ?thesis unfolding d
    by (rule schema_ok_profiles [OF assms(1)])
      (use assms(1) ok new in \<open>auto simp: distinct_snoc schema_defs simp del: map_append\<close>)
qed

lemma insert_quota_keeps:
  assumes "schema_ok (db w)" "insert_quota q w = Inr (x, d)"
  shows "schema_ok d"
proof -
  from assms(2) have d: "d = (db w)\<lparr>quota := quota (db w) @ [q]\<rparr>"
    and ok: "user_exists (q_UserID q) (db w)"
    and new: "\<forall>x\<in>set (quota (db w)). q_UserID x \<noteq> q_UserID q"
    by (auto simp: insert_quota_def list_ex_iff split: if_splits)
  show ?thesis unfolding d
    by (rule schema_ok_quota [OF assms(1)])
      (use assms(1) ok new in \<open>auto simp: distinct_snoc schema_defs simp del: map_append\<close>)
qed

lemma update_quota_keeps:
  assumes "schema_ok d" "\<And>q. q_UserID (f q) = q_UserID q"
  shows "schema_ok (d\<lparr>quota := update_where p f (quota d)\<rparr>)"
proof -
  have "map q_UserID (update_where p f (quota d)) = map q_UserID (quota d)"
    by (rule map_update_where) (rule assms(2))
  then show ?thesis using assms
    by (intro schema_ok_quota) (auto simp: set_update_where schema_defs)
qed

lemma update_profiles_keeps:
  assumes "schema_ok d" "\<And>q. p_UserId (f q) = p_UserId q"
  shows "schema_ok (d\<lparr>profiles := update_where p f (profiles d)\<rparr>)"
proof -
  have "map p_UserId (update_where p f (profiles d)) = map p_UserId (profiles d)"
    by (rule map_update_where) (rule assms(2))
  then show ?thesis using assms
    by (intro schema_ok_profiles) (auto simp: set_update_where schema_defs)
qed

section \<open>Usage never passes the quota\<close>

definition quota_ok :: "database \<Rightarrow> bool" where
  "quota_ok d \<longleftrightarrow> (\<forall>q\<in>set (quota d). q_UsedBytes q \<le> q_TotalBytes q \<and> q_GifCount q \<le> q_GitLimit q)"

lemma IncrementUsage_quota_ok:
  assumes "quota_ok (db w)"
  shows "quota_ok (db (snd (IncrementUsage E userId b c w)))"
  unfolding IncrementUsage_def
  by (rule db_exec_db [where P = quota_ok, OF assms])
    (use assms in \<open>auto simp: quota_ok_def with_uuid_Inr Let_def set_update_where quota_fits_def
       split: if_splits\<close>)

text \<open>
  \<open>true\<close> is returned exactly when the user's row took the increment; on \<open>false\<close> the row and
  every other row are as before.
\<close>

lemma IncrementUsage_Inr:
  assumes "IncrementUsage E userId b c w = (Inr ok, w')"
  shows "\<exists>i. pg_uuid_in E userId = Some i \<and>
      quota (db w') = update_where (\<lambda>q. q_UserID q = i \<and> quota_fits b c q)
        (\<lambda>q. q\<lparr>q_UsedBytes := q_UsedBytes q + b, q_GifCount := q_GifCount q + c\<rparr>) (quota (db w)) \<and>
      (ok \<longleftrightarrow> (\<exists>q\<in>set (quota (db w)). q_UserID q = i \<and> quota_fits b c q))"
  using db_exec_Inr [OF assms [unfolded IncrementUsage_def]]
  by (auto simp: with_uuid_Inr Let_def list_ex_iff split: if_splits)

end
