(* ===== verification/Pg_Social.thy ===== *)
theory Pg_Social
  imports Pg_User
begin

text \<open>
  \<open>internal/infra/postgres/friend_repo.go\<close> and \<open>share_repo.go\<close>: friendships, shares with a
  user and shares by an emailed token. A query with no ORDER BY yields its rows in table order.
\<close>

section \<open>friendRepo\<close>

definition insert_friendship :: "friendship \<Rightarrow> world \<Rightarrow> (friendship \<times> database) result" where
  "insert_friendship f w =
     (if \<not> friendship_row_ok f then Inl (Driver ''23514'')
      else if list_ex (\<lambda>x. f_ID x = f_ID f \<or>
                f_RequesterID x = f_RequesterID f \<and> f_AddresseeID x = f_AddresseeID f)
              (friendships (db w))
      then Inl (Driver ''23505'')
      else if \<not> user_exists (f_RequesterID f) (db w) \<or> \<not> user_exists (f_AddresseeID f) (db w)
      then Inl (Driver ''23503'')
      else Inr (f, (db w)\<lparr>friendships := friendships (db w) @ [f]\<rparr>))"

definition friend_Create :: "env \<Rightarrow> string \<Rightarrow> string \<Rightarrow> friendship io" where
  "friend_Create E requesterID addresseeID w =
     (let (i, w1) = draw_uuid E w
      in db_exec E (\<lambda>w. with_uuid E requesterID (\<lambda>r. with_uuid E addresseeID (\<lambda>a.
           insert_friendship \<lparr>f_ID = i, f_RequesterID = r, f_AddresseeID = a,
             f_Status = ''pending'', f_CreatedAt = now w, f_UpdatedAt = now w\<rparr> w))) w1)"

definition friend_Exists :: "env \<Rightarrow> string \<Rightarrow> string \<Rightarrow> bool io" where
  "friend_Exists E userA userB w =
     db_exec E (\<lambda>w. with_uuid E userA (\<lambda>a. with_uuid E userB (\<lambda>b.
       Inr (list_ex (\<lambda>f. f_RequesterID f = a \<and> f_AddresseeID f = b \<or>
                        f_RequesterID f = b \<and> f_AddresseeID f = a) (friendships (db w)), db w)))) w"

definition friend_GetByID :: "env \<Rightarrow> string \<Rightarrow> friendship io" where
  "friend_GetByID E ident w =
     db_exec E (\<lambda>w. with_uuid E ident (\<lambda>i.
       get_row (List.find (\<lambda>f. f_ID f = i) (friendships (db w))) id (db w))) w"

definition friend_UpdateStatus :: "env \<Rightarrow> string \<Rightarrow> string \<Rightarrow> string \<Rightarrow> friendship io" where
  "friend_UpdateStatus E ident status actingUserID w =
     db_exec E (\<lambda>w. with_uuid E ident (\<lambda>i. with_uuid E actingUserID (\<lambda>a.
       let hit = (\<lambda>f. f_ID f = i \<and> f_AddresseeID f = a);
           upd = (\<lambda>f. f\<lparr>f_Status := status, f_UpdatedAt := now w\<rparr>)
       in case List.find hit (friendships (db w)) of
            None \<Rightarrow> Inl SqlNoRows
          | Some f \<Rightarrow>
              if \<not> friendship_row_ok (upd f) then Inl (Driver ''23514'')
              else Inr (upd f, (db w)\<lparr>friendships := update_where hit upd (friendships (db w))\<rparr>)))) w"

definition friend_Delete :: "env \<Rightarrow> string \<Rightarrow> string \<Rightarrow> unit io" where
  "friend_Delete E ident actingUserID w =
     db_exec E (\<lambda>w. with_uuid E ident (\<lambda>i. with_uuid E actingUserID (\<lambda>a.
       Inr ((), (db w)\<lparr>friendships :=
         delete_where (\<lambda>f. f_ID f = i \<and> (f_RequesterID f = a \<or> f_AddresseeID f = a))
           (friendships (db w))\<rparr>)))) w"

definition friend_response_of :: "friendship \<Rightarrow> auth_user \<Rightarrow> friend_response" where
  "friend_response_of f u =
     \<lparr>fr_UserID = u_Id u, fr_Username = u_Username u, fr_Fullname = u_Fullname u,
      fr_Status = f_Status f, fr_CreatedAt = f_CreatedAt f\<rparr>"

definition friend_ListFriends :: "env \<Rightarrow> string \<Rightarrow> friend_response list io" where
  "friend_ListFriends E userID w =
     db_exec E (\<lambda>w. with_uuid E userID (\<lambda>i.
       Inr ([friend_response_of f u.
               f \<leftarrow> friendships (db w),
               (f_RequesterID f = i \<or> f_AddresseeID f = i) \<and> f_Status f = ''accepted'',
               u \<leftarrow> users (db w),
               u_Id u = (if f_RequesterID f = i then f_AddresseeID f else f_RequesterID f)],
            db w))) w"

definition friend_ListPendingIncoming :: "env \<Rightarrow> string \<Rightarrow> friend_response list io" where
  "friend_ListPendingIncoming E userID w =
     db_exec E (\<lambda>w. with_uuid E userID (\<lambda>i.
       Inr ([friend_response_of f u.
               f \<leftarrow> friendships (db w), f_AddresseeID f = i \<and> f_Status f = ''pending'',
               u \<leftarrow> users (db w), u_Id u = f_RequesterID f],
            db w))) w"

section \<open>shareRepo\<close>

text \<open>\<open>expires_at > now()\<close>, which is not true of a NULL.\<close>

definition unexpired :: "timestamp \<Rightarrow> timestamp option \<Rightarrow> bool" where
  "unexpired t e = (case e of None \<Rightarrow> False | Some x \<Rightarrow> t < x)"

text \<open>Of a row already there for the gif and the recipient, only the expiry changes.\<close>

definition upsert_share :: "share_row \<Rightarrow> world \<Rightarrow> (unit \<times> database) result" where
  "upsert_share s w =
     (let same = (\<lambda>x. s_GifKey x = s_GifKey s \<and> s_SharedWith x = s_SharedWith s)
      in if list_ex same (shares (db w))
         then Inr ((), (db w)\<lparr>shares := update_where same
                (\<lambda>x. x\<lparr>s_ExpiresAt := s_ExpiresAt s\<rparr>) (shares (db w))\<rparr>)
         else if list_ex (\<lambda>x. s_ID x = s_ID s) (shares (db w)) then Inl (Driver ''23505'')
         else if \<not> gif_exists (s_GifKey s) (db w) \<or> \<not> user_exists (s_OwnerID s) (db w) \<or>
                 \<not> user_exists (s_SharedWith s) (db w)
         then Inl (Driver ''23503'')
         else Inr ((), (db w)\<lparr>shares := shares (db w) @ [s]\<rparr>))"

definition share_repo_Create :: "env \<Rightarrow> share_row \<Rightarrow> unit io" where
  "share_repo_Create E gif w =
     (let (i, w1) = draw_uuid E w
      in db_exec E (\<lambda>w. with_uuid E (s_OwnerID gif) (\<lambda>ow. with_uuid E (s_SharedWith gif) (\<lambda>sw.
           upsert_share (gif\<lparr>s_ID := i, s_OwnerID := ow, s_SharedWith := sw,
             s_CreatedAt := now w\<rparr>) w))) w1)"

definition upsert_share_token :: "share_by_token \<Rightarrow> world \<Rightarrow> (unit \<times> database) result" where
  "upsert_share_token s w =
     (let same = (\<lambda>x. t_GifKey x = t_GifKey s \<and> t_Email x = t_Email s)
      in if list_ex same (share_tokens (db w))
         then Inr ((), (db w)\<lparr>share_tokens := update_where same
                (\<lambda>x. x\<lparr>t_ExpiresAt := t_ExpiresAt s\<rparr>) (share_tokens (db w))\<rparr>)
         else if list_ex (\<lambda>x. t_Token x = t_Token s) (share_tokens (db w)) then Inl (Driver ''23505'')
         else if \<not> gif_exists (t_GifKey s) (db w) then Inl (Driver ''23503'')
         else Inr ((), (db w)\<lparr>share_tokens := share_tokens (db w) @ [s]\<rparr>))"

definition share_repo_CreateByToken :: "env \<Rightarrow> share_by_token \<Rightarrow> unit io" where
  "share_repo_CreateByToken E gif w =
     db_exec E (upsert_share_token (gif\<lparr>t_CreatedAt := now w\<rparr>)) w"

definition share_gif_response_of :: "share_row \<Rightarrow> media_gif \<Rightarrow> share_gif_response" where
  "share_gif_response_of s g =
     \<lparr>sg_ID = s_ID s, sg_Name = g_Name g, sg_Url = g_Url g, sg_ThumbnailUrl = g_ThumbnailKey g,
      sg_GifKey = s_GifKey s, sg_OwnerID = s_OwnerID s, sg_SharedWith = s_SharedWith s,
      sg_ExpiresAt = s_ExpiresAt s\<rparr>"

definition share_repo_Get :: "env \<Rightarrow> string \<Rightarrow> share_gif_response list io" where
  "share_repo_Get E userID w =
     db_exec E (\<lambda>w. with_uuid E userID (\<lambda>i.
       Inr ([share_gif_response_of s g.
               s \<leftarrow> shares (db w),
               s_OwnerID s = i \<or> s_SharedWith s = i \<and> unexpired (now w) (s_ExpiresAt s),
               g \<leftarrow> gifs (db w), g_Key g = s_GifKey s],
            db w))) w"

definition gif_token_response_of :: "share_by_token \<Rightarrow> media_gif \<Rightarrow> gif_token_response" where
  "gif_token_response_of st g =
     \<lparr>gt_GifKey = t_GifKey st, gt_Name = g_Name g, gt_Url = g_Url g,
      gt_ThumbnailUrl = g_ThumbnailKey g, gt_ExpiresAt = t_ExpiresAt st,
      gt_CreatedAt = t_CreatedAt st\<rparr>"

definition token_rows :: "timestamp \<Rightarrow> string \<Rightarrow> database \<Rightarrow> gif_token_response list" where
  "token_rows t token d =
     [gif_token_response_of st g.
        st \<leftarrow> share_tokens d, t_Token st = token \<and> unexpired t (t_ExpiresAt st),
        g \<leftarrow> gifs d, g_Key g = t_GifKey st]"

definition share_repo_GetByToken :: "env \<Rightarrow> string \<Rightarrow> gif_token_response io" where
  "share_repo_GetByToken E token w =
     db_exec E (\<lambda>w. get_row (List.find (\<lambda>_. True) (token_rows (now w) token (db w))) id (db w)) w"

lemma token_rows_iff:
  "x \<in> set (token_rows t token d) \<longleftrightarrow>
     (\<exists>st\<in>set (share_tokens d). \<exists>g\<in>set (gifs d). t_Token st = token \<and>
        unexpired t (t_ExpiresAt st) \<and> g_Key g = t_GifKey st \<and> x = gif_token_response_of st g)"
  by (auto simp: token_rows_def)

definition share_repo_Delete :: "env \<Rightarrow> string \<Rightarrow> string \<Rightarrow> unit io" where
  "share_repo_Delete E key shareWithId w =
     db_exec E (\<lambda>w. with_uuid E shareWithId (\<lambda>i.
       Inr ((), (db w)\<lparr>shares := delete_where (\<lambda>s. s_GifKey s = key \<and> s_SharedWith s = i)
         (shares (db w))\<rparr>))) w"

definition share_repo_GetOwner :: "env \<Rightarrow> string \<Rightarrow> string \<Rightarrow> string io" where
  "share_repo_GetOwner E userId key w =
     db_exec E (\<lambda>w. with_uuid E userId (\<lambda>i.
       get_row (List.find (\<lambda>s. s_GifKey s = key \<and> s_SharedWith s = i \<and>
         unexpired (now w) (s_ExpiresAt s)) (shares (db w))) s_OwnerID (db w))) w"

interpretation st: token_table "\<lambda>d. map t_Token (share_tokens d)" "share_repo_GetByToken E" for E
proof unfold_locales
  fix s x w w'
  assume "share_repo_GetByToken E s w = (Inr x, w')"
  then have "x \<in> set (token_rows (now w) s (db w))"
    by (auto simp: share_repo_GetByToken_def get_row_Inr dest!: db_exec_Inr find_SomeD)
  then show "s \<in> set (map t_Token (share_tokens (db w)))"
    by (auto simp: token_rows_iff)
next
  fix s w
  show "db (snd (share_repo_GetByToken E s w)) = db w"
    by (simp add: share_repo_GetByToken_def)
qed

section \<open>Statements keep the schema\<close>

lemma insert_friendship_keeps:
  assumes "schema_ok (db w)" "insert_friendship f w = Inr (x, d)"
  shows "schema_ok d"
proof -
  from assms(2) have d: "d = (db w)\<lparr>friendships := friendships (db w) @ [f]\<rparr>"
    and ok: "friendship_row_ok f" "user_exists (f_RequesterID f) (db w)"
      "user_exists (f_AddresseeID f) (db w)"
    and new: "\<forall>x\<in>set (friendships (db w)). f_ID x \<noteq> f_ID f \<and>
      (f_RequesterID x, f_AddresseeID x) \<noteq> (f_RequesterID f, f_AddresseeID f)"
    by (auto simp: insert_friendship_def list_ex_iff split: if_splits)
  show ?thesis unfolding d
    by (rule schema_ok_friendships [OF assms(1)])
      (use assms(1) ok new in \<open>auto simp: distinct_snoc schema_defs simp del: map_append\<close>)
qed

lemma update_friendships_keeps:
  assumes "schema_ok d" "\<And>f. f_ID (u f) = f_ID f \<and> f_RequesterID (u f) = f_RequesterID f \<and>
      f_AddresseeID (u f) = f_AddresseeID f"
    and "\<And>f. f \<in> set (friendships d) \<Longrightarrow> p f \<Longrightarrow> friendship_row_ok (u f)"
  shows "schema_ok (d\<lparr>friendships := update_where p u (friendships d)\<rparr>)"
proof -
  have "map (\<lambda>f. (f_RequesterID f, f_AddresseeID f)) (update_where p u (friendships d)) =
      map (\<lambda>f. (f_RequesterID f, f_AddresseeID f)) (friendships d)"
    "map f_ID (update_where p u (friendships d)) = map f_ID (friendships d)"
    by (rule map_update_where, simp add: assms(2))+
  then show ?thesis using assms
    by (intro schema_ok_friendships) (auto simp: set_update_where schema_defs)
qed

lemma upsert_share_keeps:
  assumes "schema_ok (db w)" "upsert_share s w = Inr (x, d)"
  shows "schema_ok d"
proof (cases "list_ex (\<lambda>x. s_GifKey x = s_GifKey s \<and> s_SharedWith x = s_SharedWith s) (shares (db w))")
  case False
  with assms(2) have d: "d = (db w)\<lparr>shares := shares (db w) @ [s]\<rparr>"
    and ok: "gif_exists (s_GifKey s) (db w)" "user_exists (s_OwnerID s) (db w)"
      "user_exists (s_SharedWith s) (db w)"
    and new: "\<forall>x\<in>set (shares (db w)). (s_GifKey x, s_SharedWith x) \<noteq> (s_GifKey s, s_SharedWith s)"
    by (auto simp: upsert_share_def Let_def list_ex_iff split: if_splits)
  show ?thesis unfolding d
    by (rule schema_ok_shares [OF assms(1)])
      (use assms(1) ok new in \<open>auto simp: distinct_snoc schema_defs simp del: map_append\<close>)
next
  case True
  let ?up = "update_where (\<lambda>x. s_GifKey x = s_GifKey s \<and> s_SharedWith x = s_SharedWith s)
      (\<lambda>x. x\<lparr>s_ExpiresAt := s_ExpiresAt s\<rparr>) (shares (db w))"
  have d: "d = (db w)\<lparr>shares := ?up\<rparr>"
    using True assms(2) by (simp add: upsert_share_def Let_def)
  have k: "map (\<lambda>s. (s_GifKey s, s_SharedWith s)) ?up =
      map (\<lambda>s. (s_GifKey s, s_SharedWith s)) (shares (db w))"
    by (rule map_update_where) simp
  show ?thesis unfolding d
    by (rule schema_ok_shares [OF assms(1)], unfold k)
      (use assms(1) in \<open>auto simp: set_update_where schema_defs\<close>)
qed

lemma upsert_share_token_keeps:
  assumes "schema_ok (db w)" "upsert_share_token s w = Inr (x, d)"
  shows "schema_ok d"
proof (cases "list_ex (\<lambda>x. t_GifKey x = t_GifKey s \<and> t_Email x = t_Email s) (share_tokens (db w))")
  case False
  with assms(2) have d: "d = (db w)\<lparr>share_tokens := share_tokens (db w) @ [s]\<rparr>"
    and ok: "gif_exists (t_GifKey s) (db w)"
    and new: "\<forall>x\<in>set (share_tokens (db w)). t_Token x \<noteq> t_Token s \<and>
      (t_GifKey x, t_Email x) \<noteq> (t_GifKey s, t_Email s)"
    by (auto simp: upsert_share_token_def Let_def list_ex_iff split: if_splits)
  show ?thesis unfolding d
    by (rule schema_ok_share_tokens [OF assms(1)])
      (use assms(1) ok new in \<open>auto simp: distinct_snoc schema_defs simp del: map_append\<close>)
next
  case True
  let ?up = "update_where (\<lambda>x. t_GifKey x = t_GifKey s \<and> t_Email x = t_Email s)
      (\<lambda>x. x\<lparr>t_ExpiresAt := t_ExpiresAt s\<rparr>) (share_tokens (db w))"
  have d: "d = (db w)\<lparr>share_tokens := ?up\<rparr>"
    using True assms(2) by (simp add: upsert_share_token_def Let_def)
  have k: "map t_Token ?up = map t_Token (share_tokens (db w))"
    "map (\<lambda>s. (t_GifKey s, t_Email s)) ?up = map (\<lambda>s. (t_GifKey s, t_Email s)) (share_tokens (db w))"
    by (rule map_update_where, simp)+
  show ?thesis unfolding d
    by (rule schema_ok_share_tokens [OF assms(1)], unfold k)
      (use assms(1) in \<open>auto simp: set_update_where schema_defs\<close>)
qed

end
