(* ===== verification/Pg_Media.thy ===== *)
theory Pg_Media
  imports Pg_User
begin

text \<open>
  \<open>internal/infra/postgres/gif_repo.go\<close> (gifs and each user's last upload) and \<open>job_repo.go\<close>.
  ORDER BY is a stable sort of the table; rows with equal keys come in table order.
\<close>

section \<open>gifRepo\<close>

text \<open>\<open>NUMERIC(6,2)\<close> and \<open>NUMERIC(10,3)\<close> round to their scale and overflow above it.\<close>

definition numeric_10_3 :: "rat \<Rightarrow> rat" where
  "numeric_10_3 d = of_int (round (d * 1000)) / 1000"

definition insert_gif :: "media_gif \<Rightarrow> world \<Rightarrow> (unit \<times> database) result" where
  "insert_gif g w =
     (if \<not> int4 (g_Width g) \<or> \<not> int4 (g_Height g) \<or> \<bar>g_DurationSeconds g\<bar> \<ge> 10000
      then Inl (Driver ''22003'')
      else if list_ex (\<lambda>x. g_Key x = g_Key g) (gifs (db w)) then Inl (Driver ''23505'')
      else if \<not> user_exists (g_UserId g) (db w) then Inl (Driver ''23503'')
      else Inr ((), (db w)\<lparr>gifs := gifs (db w) @ [g]\<rparr>))"

definition gif_Create :: "env \<Rightarrow> media_gif \<Rightarrow> unit io" where
  "gif_Create E gif w =
     db_exec E (\<lambda>w. with_uuid E (g_UserId gif) (\<lambda>i.
       insert_gif (gif\<lparr>g_UserId := i, g_Status := ''private'', g_Persist := False,
         g_Download := 0, g_DurationSeconds := numeric_6_2 (g_DurationSeconds gif),
         g_CreatedAt := now w, g_UpdatedAt := now w\<rparr>) w)) w"

definition gif_response_of :: "media_gif \<Rightarrow> gif_response" where
  "gif_response_of g =
     \<lparr>gr_Key = g_Key g, gr_Name = g_Name g, gr_Status = g_Status g, gr_Persist = g_Persist g,
      gr_Url = g_Url g, gr_ThumbnailKey = g_ThumbnailKey g, gr_Download = g_Download g,
      gr_FileSizeBytes = g_FileSizeBytes g, gr_Width = g_Width g, gr_Height = g_Height g,
      gr_DurationSeconds = g_DurationSeconds g, gr_IsPublic = g_IsPublic g,
      gr_CreatedAt = g_CreatedAt g, gr_UpdatedAt = g_UpdatedAt g\<rparr>"

text \<open>\<open>LIMIT\<close> and \<open>OFFSET\<close>, which must not be negative.\<close>

definition page :: "int \<Rightarrow> int \<Rightarrow> 'r list \<Rightarrow> 'r list result" where
  "page limit offset rs =
     (if limit < 0 then Inl (Driver ''2201W'')
      else if offset < 0 then Inl (Driver ''2201X'')
      else Inr (take (nat limit) (drop (nat offset) rs)))"

definition gif_Get :: "env \<Rightarrow> string \<Rightarrow> string \<Rightarrow> int \<Rightarrow> int \<Rightarrow> gif_response list io" where
  "gif_Get E user_id status limit offset w =
     db_exec E (\<lambda>w. with_uuid E user_id (\<lambda>i.
       case page limit offset (sort_key (\<lambda>g. - g_CreatedAt g)
              (filter (\<lambda>g. g_UserId g = i \<and> (status \<noteq> ''all'' \<longrightarrow> g_Status g = status)) (gifs (db w)))) of
         Inl e \<Rightarrow> Inl e
       | Inr gs \<Rightarrow> Inr (map gif_response_of gs, db w))) w"

definition gif_GetOwner :: "env \<Rightarrow> string \<Rightarrow> string io" where
  "gif_GetOwner E key w =
     db_exec E (\<lambda>w. get_row (List.find (\<lambda>g. g_Key g = key) (gifs (db w))) g_UserId (db w)) w"

definition gif_GetByKey :: "env \<Rightarrow> string \<Rightarrow> bool \<Rightarrow> gif_response io" where
  "gif_GetByKey E key forUpdate w =
     db_exec E (\<lambda>w. get_row (List.find (\<lambda>g. g_Key g = key) (gifs (db w))) gif_response_of (db w)) w"

definition gif_GetRecents :: "env \<Rightarrow> string \<Rightarrow> gif_response list io" where
  "gif_GetRecents E user_id w =
     db_exec E (\<lambda>w. with_uuid E user_id (\<lambda>i.
       Inr (map gif_response_of (take 20 (sort_key (\<lambda>g. - g_CreatedAt g)
              (filter (\<lambda>g. g_UserId g = i) (gifs (db w))))), db w))) w"

definition gif_Delete :: "env \<Rightarrow> string \<Rightarrow> unit io" where
  "gif_Delete E key w = db_exec E (\<lambda>w. Inr ((), delete_gifs (\<lambda>g. g_Key g = key) (db w))) w"

definition gif_Update :: "env \<Rightarrow> string \<Rightarrow> gif_update_request \<Rightarrow> gif_response io" where
  "gif_Update E key req w =
     db_exec E (\<lambda>w.
       let upd = (\<lambda>g. g\<lparr>g_Name := coalesce (gu_Name req) (g_Name g),
                        g_Status := coalesce (gu_Status req) (g_Status g),
                        g_Persist := coalesce (gu_Persist req) (g_Persist g),
                        g_IsPublic := coalesce (gu_IsPublic req) (g_IsPublic g),
                        g_UpdatedAt := now w\<rparr>)
       in get_row (List.find (\<lambda>g. g_Key g = key) (gifs (db w))) (\<lambda>g. gif_response_of (upd g))
            ((db w)\<lparr>gifs := update_where (\<lambda>g. g_Key g = key) upd (gifs (db w))\<rparr>)) w"

definition gif_SaveRecent :: "env \<Rightarrow> string \<Rightarrow> unit io" where
  "gif_SaveRecent E key w =
     db_exec E (\<lambda>w. Inr ((), (db w)\<lparr>gifs := update_where (\<lambda>g. g_Key g = key)
       (\<lambda>g. g\<lparr>g_Persist := True, g_UpdatedAt := now w\<rparr>) (gifs (db w))\<rparr>)) w"

definition IncrementDownload :: "env \<Rightarrow> string \<Rightarrow> unit io" where
  "IncrementDownload E key w =
     db_exec E (\<lambda>w.
       if list_ex (\<lambda>g. g_Key g = key \<and> \<not> int4 (g_Download g + 1)) (gifs (db w))
       then Inl (Driver ''22003'')
       else Inr ((), (db w)\<lparr>gifs := update_where (\<lambda>g. g_Key g = key)
         (\<lambda>g. g\<lparr>g_Download := g_Download g + 1, g_UpdatedAt := now w\<rparr>) (gifs (db w))\<rparr>)) w"

section \<open>lastVideoRepo\<close>

text \<open>Of a row already there for the user, everything but the identifiers and \<open>deleted_at\<close> changes.\<close>

definition upsert_last_upload :: "last_upload \<Rightarrow> world \<Rightarrow> (unit \<times> database) result" where
  "upsert_last_upload l w =
     (let same = (\<lambda>x. l_UserID x = l_UserID l)
      in if (case l_DurationSec l of None \<Rightarrow> False | Some x \<Rightarrow> \<bar>x\<bar> \<ge> 10000000) then Inl (Driver ''22003'')
         else if list_ex same (last_uploads (db w))
         then Inr ((), (db w)\<lparr>last_uploads := update_where same
                (\<lambda>x. l\<lparr>l_ID := l_ID x, l_DeletedAt := l_DeletedAt x\<rparr>) (last_uploads (db w))\<rparr>)
         else if \<not> user_exists (l_UserID l) (db w) then Inl (Driver ''23503'')
         else Inr ((), (db w)\<lparr>last_uploads := last_uploads (db w) @ [l]\<rparr>))"

definition last_Create :: "env \<Rightarrow> last_upload \<Rightarrow> unit io" where
  "last_Create E upload w =
     (let (i, w1) = next_serial w
      in call (db_exec E (upsert_last_upload (upload\<lparr>l_ID := i,
                 l_DurationSec := map_option numeric_10_3 (l_DurationSec upload),
                 l_DeletedAt := None, l_UpdatedAt := Some (now w)\<rparr>)))
           (\<lambda>e. fail (Wrapf ''SaveMetadata'' [e]))
           (\<lambda>_. ret ()) w1)"

definition last_upload_response_of :: "last_upload \<Rightarrow> last_upload_response" where
  "last_upload_response_of l =
     \<lparr>lr_UserID = l_UserID l, lr_FileKey = l_FileKey l, lr_Filename = l_Filename l,
      lr_ContentType = l_ContentType l, lr_SizeBytes = l_SizeBytes l,
      lr_DurationSec = l_DurationSec l, lr_UploadedAt = l_UploadedAt l,
      lr_ThumbnailURL = l_ThumbnailURL l\<rparr>"

definition GetLastVideo :: "env \<Rightarrow> string \<Rightarrow> last_upload_response io" where
  "GetLastVideo E user_id w =
     db_exec E (\<lambda>w. with_uuid E user_id (\<lambda>i.
       get_row (List.find (\<lambda>l. l_UserID l = i) (last_uploads (db w))) last_upload_response_of (db w))) w"

section \<open>jobRepo\<close>

definition upsert_job :: "media_job \<Rightarrow> world \<Rightarrow> (unit \<times> database) result" where
  "upsert_job j w =
     (if \<not> varchar 50 (j_Type j) \<or> \<not> varchar 50 (j_Status j) then Inl (Driver ''22001'')
      else if \<not> int4 (j_Progress j) then Inl (Driver ''22003'')
      else if list_ex (\<lambda>x. j_ID x = j_ID j) (jobs (db w))
      then Inr ((), (db w)\<lparr>jobs := update_where (\<lambda>x. j_ID x = j_ID j)
             (\<lambda>x. x\<lparr>j_Status := j_Status j, j_Progress := j_Progress j,
                    j_ErrorMessage := j_ErrorMessage j, j_ResultKey := j_ResultKey j,
                    j_UpdatedAt := now w\<rparr>) (jobs (db w))\<rparr>)
      else if \<not> user_exists (j_UserID j) (db w) then Inl (Driver ''23503'')
      else Inr ((), (db w)\<lparr>jobs := jobs (db w) @ [j]\<rparr>))"

definition job_Create :: "env \<Rightarrow> media_job \<Rightarrow> unit io" where
  "job_Create E j w =
     db_exec E (\<lambda>w. with_uuid E (j_ID j) (\<lambda>i. with_uuid E (j_UserID j) (\<lambda>u.
       upsert_job (j\<lparr>j_ID := i, j_UserID := u, j_CreatedAt := now w, j_UpdatedAt := now w\<rparr>) w))) w"

definition job_GetByID :: "env \<Rightarrow> string \<Rightarrow> media_job io" where
  "job_GetByID E ident =
     call (db_exec E (\<lambda>w. with_uuid E ident (\<lambda>i.
             get_row (List.find (\<lambda>j. j_ID j = i) (jobs (db w))) id (db w))))
       (\<lambda>e. if errors_Is e SqlNoRows then fail (JobE ErrJobNotFound) else fail e)
       ret"

definition job_UpdateStatus ::
  "env \<Rightarrow> string \<Rightarrow> string \<Rightarrow> int \<Rightarrow> string \<Rightarrow> string \<Rightarrow> unit io" where
  "job_UpdateStatus E ident status progress resultKey errMsg w =
     db_exec E (\<lambda>w. with_uuid E ident (\<lambda>i.
       if list_ex (\<lambda>j. j_ID j = i) (jobs (db w)) \<and> \<not> varchar 50 status then Inl (Driver ''22001'')
       else if \<not> int4 progress then Inl (Driver ''22003'')
       else Inr ((), (db w)\<lparr>jobs := update_where (\<lambda>j. j_ID j = i)
         (\<lambda>j. j\<lparr>j_Status := status, j_Progress := progress, j_ResultKey := resultKey,
                j_ErrorMessage := errMsg, j_UpdatedAt := now w\<rparr>) (jobs (db w))\<rparr>))) w"

definition job_GetByUserID :: "env \<Rightarrow> string \<Rightarrow> int \<Rightarrow> int \<Rightarrow> media_job list io" where
  "job_GetByUserID E userID limit offset w =
     db_exec E (\<lambda>w. with_uuid E userID (\<lambda>i.
       case page limit offset (sort_key (\<lambda>j. - j_CreatedAt j)
              (filter (\<lambda>j. j_UserID j = i) (jobs (db w)))) of
         Inl e \<Rightarrow> Inl e
       | Inr js \<Rightarrow> Inr (js, db w))) w"

section \<open>Statements keep the schema\<close>

lemma insert_gif_keeps:
  assumes "schema_ok (db w)" "insert_gif g w = Inr (x, d)"
  shows "schema_ok d"
proof -
  from assms(2) have d: "d = (db w)\<lparr>gifs := gifs (db w) @ [g]\<rparr>"
    and ok: "user_exists (g_UserId g) (db w)"
    and new: "\<forall>x\<in>set (gifs (db w)). g_Key x \<noteq> g_Key g"
    by (auto simp: insert_gif_def list_ex_iff split: if_splits)
  show ?thesis unfolding d
    by (rule schema_ok_gifs [OF assms(1)])
      (use assms(1) ok new in \<open>auto simp: distinct_snoc schema_defs simp del: map_append\<close>)
qed

lemma update_gifs_keeps:
  assumes "schema_ok d" "\<And>g. g_Key (f g) = g_Key g \<and> g_UserId (f g) = g_UserId g"
  shows "schema_ok (d\<lparr>gifs := update_where p f (gifs d)\<rparr>)"
proof -
  have k: "map g_Key (update_where p f (gifs d)) = map g_Key (gifs d)"
    by (rule map_update_where) (simp add: assms(2))
  then have "g_Key ` set (gifs d) \<subseteq> g_Key ` set (update_where p f (gifs d))"
    by (metis list.set_map order_refl)
  with k show ?thesis using assms
    by (intro schema_ok_gifs) (auto simp: set_update_where schema_defs)
qed

lemma upsert_last_upload_keeps:
  assumes "schema_ok (db w)" "upsert_last_upload l w = Inr (x, d)"
  shows "schema_ok d"
proof (cases "list_ex (\<lambda>x. l_UserID x = l_UserID l) (last_uploads (db w))")
  case False
  with assms(2) have d: "d = (db w)\<lparr>last_uploads := last_uploads (db w) @ [l]\<rparr>"
    and ok: "user_exists (l_UserID l) (db w)"
    and new: "\<forall>x\<in>set (last_uploads (db w)). l_UserID x \<noteq> l_UserID l"
    by (auto simp: upsert_last_upload_def Let_def list_ex_iff split: if_splits)
  show ?thesis unfolding d
    by (rule schema_ok_last_uploads [OF assms(1)])
      (use assms(1) ok new in \<open>auto simp: distinct_snoc schema_defs simp del: map_append\<close>)
next
  case True
  let ?up = "update_where (\<lambda>x. l_UserID x = l_UserID l)
      (\<lambda>x. l\<lparr>l_ID := l_ID x, l_DeletedAt := l_DeletedAt x\<rparr>) (last_uploads (db w))"
  have d: "d = (db w)\<lparr>last_uploads := ?up\<rparr>"
    using True assms(2) by (simp add: upsert_last_upload_def Let_def split: if_splits)
  have k: "map l_UserID ?up = map l_UserID (last_uploads (db w))"
    by (rule map_update_where_set) simp
  have own: "user_exists (l_UserID l) (db w)"
    using True assms(1) by (auto simp: list_ex_iff schema_ok_def refs_ok_def)
  show ?thesis unfolding d
    by (rule schema_ok_last_uploads [OF assms(1)], unfold k)
      (use assms(1) own in \<open>auto simp: set_update_where schema_ok_def keys_ok_def refs_ok_def\<close>)
qed

lemma update_jobs_keeps:
  assumes "schema_ok d" "\<And>j. j_ID (f j) = j_ID j \<and> j_UserID (f j) = j_UserID j"
  shows "schema_ok (d\<lparr>jobs := update_where p f (jobs d)\<rparr>)"
proof -
  have "map j_ID (update_where p f (jobs d)) = map j_ID (jobs d)"
    by (rule map_update_where) (simp add: assms(2))
  then show ?thesis using assms
    by (intro schema_ok_jobs) (auto simp: set_update_where schema_defs)
qed

lemma upsert_job_keeps:
  assumes "schema_ok (db w)" "upsert_job j w = Inr (x, d)"
  shows "schema_ok d"
proof (cases "list_ex (\<lambda>x. j_ID x = j_ID j) (jobs (db w))")
  case False
  with assms(2) have d: "d = (db w)\<lparr>jobs := jobs (db w) @ [j]\<rparr>"
    and ok: "user_exists (j_UserID j) (db w)"
    and new: "\<forall>x\<in>set (jobs (db w)). j_ID x \<noteq> j_ID j"
    by (auto simp: upsert_job_def list_ex_iff split: if_splits)
  show ?thesis unfolding d
    by (rule schema_ok_jobs [OF assms(1)])
      (use assms(1) ok new in \<open>auto simp: distinct_snoc schema_defs simp del: map_append\<close>)
next
  case True
  with assms(2) show ?thesis
    by (auto simp: upsert_job_def split: if_splits intro!: update_jobs_keeps assms(1))
qed

end
