(* ===== verification/Redis.thy ===== *)
theory Redis
  imports Schema
begin

text \<open>
  \<open>internal/infra/redis\<close>: the cache (\<open>cache/cache.go\<close>, two methods over string keys with a
  deadline) and the token bucket of \<open>rate_limiter/rate_limiter.go\<close>, a Lua script Redis runs
  atomically. A key is alive strictly before its deadline. Lua's numbers are exact rationals here.
\<close>

section \<open>cache.go\<close>

text \<open>The strings alive at a time.\<close>

definition cache_view :: "timestamp \<Rightarrow> world \<Rightarrow> string \<Rightarrow> string option" where
  "cache_view t w k =
     (case cache_keys w k of
        None \<Rightarrow> None
      | Some (v, None) \<Rightarrow> Some v
      | Some (v, Some d) \<Rightarrow> if t < d then Some v else None)"

text \<open>The client sends an expiry only when it is positive.\<close>

definition redis_Set :: "env \<Rightarrow> string \<Rightarrow> string \<Rightarrow> int \<Rightarrow> unit io" where
  "redis_Set E key val expire =
     ext_call E (\<lambda>w. (Inr (), w\<lparr>cache_keys := (cache_keys w)(key \<mapsto>
       (val, if 0 < expire then Some (now w + expire) else None))\<rparr>))"

definition redis_Get :: "env \<Rightarrow> string \<Rightarrow> string io" where
  "redis_Get E key =
     ext_call E (\<lambda>w. (case cache_view (now w) w key of
        None \<Rightarrow> Inl (CacheE ErrCacheMiss)
      | Some v \<Rightarrow> Inr v, w))"

lemma cache_view_sel [simp]:
  "cache_view t (w\<lparr>db := a\<rparr>) = cache_view t w" "cache_view t (w\<lparr>tx := b\<rparr>) = cache_view t w"
  "cache_view t (w\<lparr>calls := c\<rparr>) = cache_view t w" "cache_view t (w\<lparr>now := n\<rparr>) = cache_view t w"
  "cache_view t (w\<lparr>published := p\<rparr>) = cache_view t w"
  "cache_view t (w\<lparr>objects := ob\<rparr>) = cache_view t w"
  "cache_view t (w\<lparr>mails := m\<rparr>) = cache_view t w"
  "cache_view t (tick w) = cache_view t w"
  by (simp_all add: cache_view_def fun_eq_iff)

lemma redis_Set_keeps:
  assumes "\<And>w. P w \<Longrightarrow> P (tick w)"
    and "\<And>w. P w \<Longrightarrow> P (w\<lparr>cache_keys := (cache_keys w)(key \<mapsto>
           (val, if 0 < expire then Some (now w + expire) else None))\<rparr>)"
  shows "keeps P (redis_Set E key val expire)"
  unfolding redis_Set_def
  by (rule ext_call_keeps, rule keepsI, simp only: snd_conv, erule assms(2), erule assms(1))

lemma redis_Get_keeps:
  assumes "\<And>w. P w \<Longrightarrow> P (tick w)"
  shows "keeps P (redis_Get E key)"
  unfolding redis_Get_def
  by (rule ext_call_keeps, rule keepsI, simp only: snd_conv, erule assms)

text \<open>The two outcomes of a store, and what a read can answer.\<close>

definition stored :: "string \<Rightarrow> string \<Rightarrow> int \<Rightarrow> world \<Rightarrow> world" where
  "stored key val expire w = w\<lparr>cache_keys := (cache_keys w)(key \<mapsto>
     (val, if 0 < expire then Some (now w + expire) else None))\<rparr>"

lemma cache_view_stored:
  "cache_view t (stored k v e w) k' =
     (if k' = k then (if e \<le> 0 \<or> t < now w + e then Some v else None) else cache_view t w k')"
  by (simp add: cache_view_def stored_def)

lemma redis_Set_snd:
  "snd (redis_Set E k v e w) = tick w \<or> snd (redis_Set E k v e w) = stored k v e (tick w)"
  using ext_call_snd unfolding redis_Set_def stored_def by fastforce

lemma redis_Set_Inr: "redis_Set E k v e w = (Inr u, w') \<Longrightarrow> w' = stored k v e (tick w)"
  unfolding redis_Set_def stored_def by (drule ext_call_Inr) simp

lemma redis_Get_snd [simp]: "snd (redis_Get E k w) = tick w"
  using ext_call_snd [of E] unfolding redis_Get_def by force

lemma redis_Get_Inr: "redis_Get E k w = (Inr v, w') \<Longrightarrow> cache_view (now w) w k = Some v"
  unfolding redis_Get_def by (drule ext_call_Inr) (simp split: option.splits)

lemma redis_Get_Inl:
  "redis_Get E k w = (Inl e, w') \<Longrightarrow>
     (\<exists>s. e = Driver s) \<or> e = CacheE ErrCacheMiss \<and> cache_view (now w) w k = None"
  unfolding redis_Get_def by (drule ext_call_Inl) (auto split: option.splits)

section \<open>The cache as an interface\<close>

text \<open>
  \<open>port/cache.Cache\<close>: what the services rely on. A stored value is seen until its expiry and no
  longer, under its key only; a failed store has happened or not; a read changes nothing.
\<close>

locale cache_port =
  fixes store :: "string \<Rightarrow> string \<Rightarrow> int \<Rightarrow> unit io"
    and fetch :: "string \<Rightarrow> string io"
    and view :: "timestamp \<Rightarrow> world \<Rightarrow> string \<Rightarrow> string option"
  assumes store_ok: "store k v e w = (Inr u, w') \<Longrightarrow>
      view t w' k = (if e \<le> 0 \<or> t < now w + e then Some v else None)"
    and store_other: "k' \<noteq> k \<Longrightarrow> view t (snd (store k v e w)) k' = view t w k'"
    and store_either: "view t (snd (store k v e w)) k = view t w k \<or>
      view t (snd (store k v e w)) k = (if e \<le> 0 \<or> t < now w + e then Some v else None)"
    and store_now: "now (snd (store k v e w)) = now w"
    and fetch_hit: "fetch k w = (Inr v, w') \<Longrightarrow> view (now w) w k = Some v"
    and fetch_miss: "fetch k w = (Inl (CacheE ErrCacheMiss), w') \<Longrightarrow> view (now w) w k = None"
    and fetch_view: "view t (snd (fetch k w)) = view t w"
begin

text \<open>A value read back under the key just written is that value, whatever else fails.\<close>

lemma fetch_after_store:
  assumes "store k v e w = (Inr u, w1)" "0 < e" "fetch k w1 = (r, w2)"
  shows "r = Inr v \<or> (\<exists>x. r = Inl x \<and> x \<noteq> CacheE ErrCacheMiss)"
proof -
  have n: "now w1 = now w" using store_now [of k v e w] assms(1) by simp
  have v: "view (now w1) w1 k = Some v"
    using store_ok [OF assms(1), of "now w1"] assms(2) n by simp
  show ?thesis
  proof (cases r)
    case (Inl x)
    have "x \<noteq> CacheE ErrCacheMiss"
      using fetch_miss [of k w1 w2] assms(3) Inl v by auto
    then show ?thesis using Inl by simp
  next
    case (Inr y)
    have "view (now w1) w1 k = Some y"
      using fetch_hit [of k w1 y w2] assms(3) Inr by simp
    then show ?thesis using v Inr by simp
  qed
qed

text \<open>A write under another key does not disturb what is stored.\<close>

lemma store_frame:
  "view t w k = x \<Longrightarrow> k' \<noteq> k \<Longrightarrow> view t (snd (store k' v e w)) k = x"
  by (simp add: store_other)

end

interpretation cache: cache_port "redis_Set E" "redis_Get E" cache_view for E
proof unfold_locales
  fix k v :: string and e t :: int and w w' :: world and u :: unit
  assume "redis_Set E k v e w = (Inr u, w')"
  then show "cache_view t w' k = (if e \<le> 0 \<or> t < now w + e then Some v else None)"
    by (drule_tac redis_Set_Inr) (simp add: cache_view_stored)
next
  fix k k' v :: string and e t :: int and w :: world
  assume "k' \<noteq> k"
  then show "cache_view t (snd (redis_Set E k v e w)) k' = cache_view t w k'"
    using redis_Set_snd [of E k v e w] by (auto simp: cache_view_stored)
next
  fix k v :: string and e t :: int and w :: world
  show "cache_view t (snd (redis_Set E k v e w)) k = cache_view t w k \<or>
    cache_view t (snd (redis_Set E k v e w)) k =
      (if e \<le> 0 \<or> t < now w + e then Some v else None)"
    using redis_Set_snd [of E k v e w] by (elim disjE) (simp_all add: cache_view_stored)
next
  fix k v :: string and e t :: int and w :: world
  show "now (snd (redis_Set E k v e w)) = now w"
    using redis_Set_snd [of E k v e w] by (auto simp: stored_def)
next
  fix k v :: string and w w' :: world
  assume "redis_Get E k w = (Inr v, w')"
  then show "cache_view (now w) w k = Some v" by (rule redis_Get_Inr)
next
  fix k :: string and w w' :: world
  assume "redis_Get E k w = (Inl (CacheE ErrCacheMiss), w')"
  then show "cache_view (now w) w k = None" by (auto dest: redis_Get_Inl)
next
  fix k :: string and t :: int and w :: world
  show "cache_view t (snd (redis_Get E k w)) = cache_view t w" by simp
qed

section \<open>rate_limiter.go\<close>

text \<open>
  The script. \<open>ob\<close> is the hash under the key, \<open>t\<close> the caller's clock; the result is the reply
  (allowed, wait in ms, tokens left) and the hash written back with its new deadline.
\<close>

definition bucket_ttl :: "int \<Rightarrow> int \<Rightarrow> int" where
  "bucket_ttl capacity rate =
     max \<lceil>(of_int capacity / of_int rate) * 1000 :: rat\<rceil> 6000"

definition refilled :: "int \<Rightarrow> int \<Rightarrow> timestamp \<Rightarrow> bucket option \<Rightarrow> rat" where
  "refilled capacity rate t ob =
     (let token = (case ob of None \<Rightarrow> of_int capacity | Some b \<Rightarrow> bk_token b);
          last_refill = (case ob of None \<Rightarrow> t | Some b \<Rightarrow> bk_last_refill b);
          diff = of_int (t - last_refill) / 1000
      in min (of_int capacity) (token + diff * of_int rate))"

definition limiter_script ::
  "int \<Rightarrow> int \<Rightarrow> timestamp \<Rightarrow> bucket option \<Rightarrow> (int \<times> int \<times> rat) \<times> bucket" where
  "limiter_script capacity rate t ob =
     (let token = refilled capacity rate t ob;
          ttl = bucket_ttl capacity rate
      in if 1 \<le> token then
           ((1, 0, token - 1), \<lparr>bk_token = token - 1, bk_last_refill = t, bk_deadline = t + ttl\<rparr>)
         else
           ((0, \<lceil>((1 - token) / of_int rate) * 1000\<rceil>, token),
            \<lparr>bk_token = token, bk_last_refill = t, bk_deadline = t + ttl\<rparr>))"

text \<open>Redis drops the hash once its deadline has passed.\<close>

definition live_bucket :: "timestamp \<Rightarrow> bucket option \<Rightarrow> bucket option" where
  "live_bucket t ob = (case ob of None \<Rightarrow> None | Some b \<Rightarrow> if t < bk_deadline b then Some b else None)"

text \<open>
  A script reply as the client hands it over: an array of integers, Lua numbers being truncated
  towards zero. The other shapes are the ones the middleware's type switch tells apart.
\<close>

datatype redis_value = RInt int | RFloat rat | RStr string | RNil | RArr "redis_value list"

definition lua_to_int :: "rat \<Rightarrow> int" where
  "lua_to_int x = (if 0 \<le> x then \<lfloor>x\<rfloor> else \<lceil>x\<rceil>)"

definition RunScript :: "env \<Rightarrow> string \<Rightarrow> int \<Rightarrow> int \<Rightarrow> int \<Rightarrow> redis_value io" where
  "RunScript E key capacity rate t =
     ext_call E (\<lambda>w.
       let ((allowed, wait_ms, token), b) =
             limiter_script capacity rate t (live_bucket (now w) (buckets w key))
       in (Inr (RArr [RInt allowed, RInt wait_ms, RInt (lua_to_int token)]),
           w\<lparr>buckets := (buckets w)(key \<mapsto> b)\<rparr>))"

text \<open>The requests of one client at the times \<open>ts\<close>, and how many are let through.\<close>

fun admissions :: "int \<Rightarrow> int \<Rightarrow> bucket option \<Rightarrow> timestamp list \<Rightarrow> nat" where
  "admissions capacity rate ob [] = 0"
| "admissions capacity rate ob (t # ts) =
     (case limiter_script capacity rate t (live_bucket t ob) of
        ((allowed, _, _), b) \<Rightarrow> (if allowed = 1 then 1 else 0) + admissions capacity rate (Some b) ts)"

section \<open>The token bucket\<close>

text \<open>A bucket the script has written for these parameters, by a clock that does not run back.\<close>

definition bucket_ok :: "int \<Rightarrow> int \<Rightarrow> bucket option \<Rightarrow> bool" where
  "bucket_ok capacity rate ob =
     (case ob of None \<Rightarrow> True
      | Some b \<Rightarrow> 0 \<le> bk_token b \<and> bk_token b \<le> of_int capacity \<and>
          bk_deadline b = bk_last_refill b + bucket_ttl capacity rate)"

definition written_by :: "timestamp \<Rightarrow> bucket option \<Rightarrow> bool" where
  "written_by t ob = (case ob of None \<Rightarrow> True | Some b \<Rightarrow> bk_last_refill b \<le> t)"

lemma refilled_le: "refilled capacity rate t ob \<le> of_int capacity"
  by (simp add: refilled_def Let_def)

lemma refilled_nonneg:
  assumes "0 < rate" "0 \<le> capacity" "bucket_ok capacity rate ob" "written_by t ob"
  shows "0 \<le> refilled capacity rate t ob"
proof (cases ob)
  case None
  then show ?thesis using assms(2) by (simp add: refilled_def)
next
  case (Some b)
  have "(0 :: rat) \<le> of_int (t - bk_last_refill b) / 1000 * of_int rate"
    using assms(1,4) Some by (simp add: written_by_def)
  then show ?thesis using assms(2,3) Some by (simp add: refilled_def bucket_ok_def)
qed

text \<open>
  The deadline is never earlier than the time the bucket is full again, so that Redis dropping
  the hash and the script refilling it come to the same.
\<close>

lemma refilled_past_deadline:
  assumes "0 < rate" "bucket_ok capacity rate (Some b)" "bk_deadline b \<le> t"
  shows "refilled capacity rate t (Some b) = of_int capacity"
proof -
  have "(of_int capacity / of_int rate) * 1000 \<le> (of_int (bucket_ttl capacity rate) :: rat)"
    unfolding bucket_ttl_def by (metis le_of_int_ceiling max.cobounded1 of_int_le_iff order_trans)
  also have "\<dots> \<le> of_int (t - bk_last_refill b)"
    using assms(2,3) by (simp add: bucket_ok_def)
  finally have "of_int capacity \<le> (of_int (t - bk_last_refill b) / 1000 * of_int rate :: rat)"
    using assms(1) by (simp add: field_simps)
  then show ?thesis using assms(2) by (simp add: refilled_def bucket_ok_def)
qed

lemma refilled_live:
  assumes "0 < rate" "bucket_ok capacity rate ob"
  shows "refilled capacity rate t (live_bucket t ob) = refilled capacity rate t ob"
proof (cases ob)
  case None
  then show ?thesis by (simp add: live_bucket_def)
next
  case (Some b)
  show ?thesis
  proof (cases "t < bk_deadline b")
    case True
    then show ?thesis using Some by (simp add: live_bucket_def)
  next
    case False
    have "refilled capacity rate t (Some b) = of_int capacity"
      using refilled_past_deadline [of rate capacity b t] assms Some False by simp
    then show ?thesis using False Some by (simp add: live_bucket_def refilled_def)
  qed
qed

lemma limiter_script_live:
  assumes "0 < rate" "bucket_ok capacity rate ob"
  shows "limiter_script capacity rate t (live_bucket t ob) = limiter_script capacity rate t ob"
  by (simp add: limiter_script_def refilled_live [OF assms])

lemma limiter_script_bucket:
  assumes "limiter_script capacity rate t ob = (reply, b)"
  shows "bk_last_refill b = t \<and> bk_deadline b = t + bucket_ttl capacity rate \<and>
    bk_token b = refilled capacity rate t ob - (if fst reply = 1 then 1 else 0) \<and>
    (fst reply = 1 \<longleftrightarrow> 1 \<le> refilled capacity rate t ob) \<and> snd (snd reply) = bk_token b"
  using assms by (auto simp: limiter_script_def Let_def split: if_splits)

lemma limiter_script_ok:
  assumes "0 < rate" "0 \<le> capacity" "bucket_ok capacity rate ob" "written_by t ob"
    and "limiter_script capacity rate t ob = (reply, b)"
  shows "bucket_ok capacity rate (Some b) \<and> written_by t (Some b)"
  using limiter_script_bucket [OF assms(5)] refilled_nonneg [OF assms(1-4)]
    refilled_le [of capacity rate t ob]
  by (auto simp: bucket_ok_def written_by_def)

text \<open>The tokens a bucket holds and will be given pay for every request let through.\<close>

lemma admissions_paid:
  assumes "0 < rate" "0 \<le> capacity" "bucket_ok capacity rate ob" "sorted ts"
    and "ts \<noteq> [] \<Longrightarrow> written_by (hd ts) ob" "\<And>t. t \<in> set ts \<Longrightarrow> t \<le> u" "ts \<noteq> []"
  shows "of_nat (admissions capacity rate ob ts) \<le>
    refilled capacity rate (hd ts) ob + of_int (u - hd ts) / 1000 * of_int rate"
  using assms(3-)
proof (induction ts arbitrary: ob)
  case (Cons t ts)
  obtain reply b where s: "limiter_script capacity rate t ob = (reply, b)" by (meson surj_pair)
  note b = limiter_script_bucket [OF s]
  have ok: "bucket_ok capacity rate (Some b)" "written_by t (Some b)"
    using limiter_script_ok [OF assms(1,2) Cons.prems(1) _ s] Cons.prems(3) by simp_all
  have tu: "t \<le> u" using Cons.prems(4) by simp
  have a: "admissions capacity rate ob (t # ts) =
      (if fst reply = 1 then 1 else 0) + admissions capacity rate (Some b) ts"
    using s by (cases reply)
      (simp add: limiter_script_live [OF assms(1) Cons.prems(1)])
  have nn: "(0 :: rat) \<le> of_int (u - t) / 1000 * of_int rate" using assms(1) tu by simp
  have rest: "of_nat (admissions capacity rate (Some b) ts) \<le>
      bk_token b + of_int (u - t) / 1000 * of_int rate"
  proof (cases "ts = []")
    case True
    then show ?thesis using nn ok(1) by (simp add: bucket_ok_def)
  next
    case False
    then have th: "t \<le> hd ts" and srt: "sorted ts" using Cons.prems(2) by auto
    have w: "written_by (hd ts) (Some b)" using ok(2) th by (simp add: written_by_def)
    have "of_nat (admissions capacity rate (Some b) ts) \<le>
        refilled capacity rate (hd ts) (Some b) + of_int (u - hd ts) / 1000 * of_int rate"
      using Cons.IH [OF ok(1) srt w] Cons.prems(4) False by simp
    also have "refilled capacity rate (hd ts) (Some b) \<le>
        bk_token b + of_int (hd ts - t) / 1000 * of_int rate"
      using b by (simp add: refilled_def)
    finally show ?thesis by (simp add: field_simps)
  qed
  show ?case using a b rest by (simp split: if_splits)
qed simp

section \<open>Properties\<close>

text \<open>
  Property C28. However the requests of one client fall, from the first of a series to time
  \<open>u\<close> the limiter lets at most \<open>capacity\<close> plus \<open>rate\<close> per second of them through, across any
  number of expiries of the Redis hash; the bucket the series starts from is any the script
  can have written, or none.
\<close>

theorem limiter_window:
  assumes "0 < rate" "0 \<le> capacity" "bucket_ok capacity rate ob" "written_by t0 ob"
    and "sorted (t0 # ts)" "\<forall>t\<in>set (t0 # ts). t \<le> u"
  shows "of_nat (admissions capacity rate ob (t0 # ts)) \<le>
    (of_int capacity + of_int (u - t0) / 1000 * of_int rate :: rat)"
proof -
  have "of_nat (admissions capacity rate ob (t0 # ts)) \<le>
      refilled capacity rate t0 ob + of_int (u - t0) / 1000 * of_int rate"
    using admissions_paid [OF assms(1-3,5), of u] assms(4,6) by simp
  then show ?thesis using refilled_le [of capacity rate t0 ob] by linarith
qed

lemma limiter_window_witness:
  "of_nat (admissions 2 1 None [0, 0, 10, 900, 1000, 1000]) \<le> (2 + 1000 / 1000 * 1 :: rat)"
  using limiter_window [of 1 2 None 0 "[0, 10, 900, 1000, 1000]" 1000]
  by (simp add: bucket_ok_def written_by_def)

text \<open>
  The wait the limiter reports is exact: after a refusal at \<open>t\<close> with \<open>wait_ms\<close>,
  the client's next request is let through if and only if it comes at \<open>t + wait_ms\<close> or later.
\<close>

theorem limiter_wait_exact:
  assumes "0 < rate" "1 \<le> capacity"
    and "limiter_script capacity rate t ob = ((0, wait_ms, left), b)"
    and "bucket_ok capacity rate (Some b)" "t \<le> t'"
  shows "fst (fst (limiter_script capacity rate t' (live_bucket t' (Some b)))) = 1 \<longleftrightarrow>
    t + wait_ms \<le> t'"
proof -
  let ?tok = "refilled capacity rate t ob"
  have b: "bk_token b = ?tok" "bk_last_refill b = t" "\<not> 1 \<le> ?tok"
    using limiter_script_bucket [OF assms(3)] by simp_all
  have w: "wait_ms = \<lceil>((1 - ?tok) / of_int rate) * 1000\<rceil>"
    using assms(3) b(3) by (auto simp: limiter_script_def Let_def)
  have "fst (fst (limiter_script capacity rate t' (live_bucket t' (Some b)))) = 1 \<longleftrightarrow>
      1 \<le> refilled capacity rate t' (Some b)"
    unfolding limiter_script_live [OF assms(1,4)]
    by (simp add: limiter_script_def Let_def)
  also have "\<dots> \<longleftrightarrow> 1 \<le> ?tok + of_int (t' - t) / 1000 * of_int rate"
    using assms(2) b by (simp add: refilled_def)
  also have "\<dots> \<longleftrightarrow> ((1 - ?tok) / of_int rate) * 1000 \<le> of_int (t' - t)"
    using assms(1) by (simp add: field_simps)
  also have "\<dots> \<longleftrightarrow> wait_ms \<le> t' - t" by (simp add: w ceiling_le_iff)
  finally show ?thesis by linarith
qed

lemma limiter_wait_exact_witness:
  "fst (fst (limiter_script 1 20 1049
      (live_bucket 1049 (Some \<lparr>bk_token = 0, bk_last_refill = 1000, bk_deadline = 7000\<rparr>)))) \<noteq> 1 \<and>
   fst (fst (limiter_script 1 20 1050
      (live_bucket 1050 (Some \<lparr>bk_token = 0, bk_last_refill = 1000, bk_deadline = 7000\<rparr>)))) = 1"
proof -
  have s: "limiter_script 1 20 1000
      (Some \<lparr>bk_token = 0, bk_last_refill = 1000, bk_deadline = 7000\<rparr>) =
      ((0, 50, 0), \<lparr>bk_token = 0, bk_last_refill = 1000, bk_deadline = 7000\<rparr>)"
    by (simp add: limiter_script_def refilled_def bucket_ttl_def)
  have ok: "bucket_ok 1 20 (Some \<lparr>bk_token = 0, bk_last_refill = 1000, bk_deadline = 7000\<rparr>)"
    by (simp add: bucket_ok_def bucket_ttl_def)
  show ?thesis
    using limiter_wait_exact [OF _ _ s ok, of 1049] limiter_wait_exact [OF _ _ s ok, of 1050]
    by simp
qed

end
