(* ===== verification/Rabbit.thy ===== *)
theory Rabbit
  imports Schema
begin

text \<open>
  \<open>internal/infra/rabbitmq\<close>: the publisher (\<open>publisher.go\<close>), the names of the queues and their
  topology as \<open>setup.go\<close> declares it. A queue declaration is the record of the arguments the
  code passes; \<open>nacked_to\<close> reads off where a rejected message goes.
\<close>

section \<open>publisher.go\<close>

definition EmailQueue :: string where "EmailQueue = ''email.queue''"

definition ProcessQueue :: string where "ProcessQueue = ''process.queue''"

definition SaveQueue :: string where "SaveQueue = ''video.save.queue''"

definition SaveRetryQueue :: string where "SaveRetryQueue = ''save.retry.queue''"

definition UploadProcessQueue :: string where "UploadProcessQueue = ''process.upload.queue''"

text \<open>
  Opening the channel and publishing are the two external calls; the payload structs always
  marshal.
\<close>

definition rabbit_publish :: "env \<Rightarrow> string \<Rightarrow> payload \<Rightarrow> unit io" where
  "rabbit_publish E q m =
     call (ext_call E (ret ()))
       (\<lambda>e. fail (Wrapf ''open channel'' [e]))
       (\<lambda>_. call (ext_call E (\<lambda>w. (Inr (), w\<lparr>published := published w @ [(q, m)]\<rparr>)))
         (\<lambda>e. fail (Wrapf ''publish message'' [e]))
         (\<lambda>_. ret ()))"

definition PublishEmail :: "env \<Rightarrow> email_message \<Rightarrow> unit io" where
  "PublishEmail E m = rabbit_publish E EmailQueue (EmailPayload m)"

definition PublishVideo :: "env \<Rightarrow> video_message \<Rightarrow> unit io" where
  "PublishVideo E m = rabbit_publish E ProcessQueue (VideoPayload m)"

definition PublishSaveVideo :: "env \<Rightarrow> save_video_message \<Rightarrow> unit io" where
  "PublishSaveVideo E m = rabbit_publish E SaveQueue (SavePayload m)"

definition PublishRetrySaveVideo :: "env \<Rightarrow> save_video_message \<Rightarrow> unit io" where
  "PublishRetrySaveVideo E m = rabbit_publish E SaveRetryQueue (SavePayload m)"

section \<open>setup.go\<close>

text \<open>The arguments of \<open>QueueDeclare\<close> the declarations differ in.\<close>

record queue_decl =
  qd_name :: string
  qd_durable :: bool
  qd_dead_exchange :: "string option"
  qd_dead_routing_key :: "string option"
  qd_message_ttl :: "int option"

definition getDeadQueue :: "string \<Rightarrow> string" where
  "getDeadQueue q = q @ ''.dead''"

definition plain_queue :: "string \<Rightarrow> queue_decl" where
  "plain_queue q = \<lparr>qd_name = q, qd_durable = True, qd_dead_exchange = None,
     qd_dead_routing_key = None, qd_message_ttl = None\<rparr>"

definition dead_lettered :: "string \<Rightarrow> string \<Rightarrow> queue_decl" where
  "dead_lettered q target = \<lparr>qd_name = q, qd_durable = True, qd_dead_exchange = Some '''',
     qd_dead_routing_key = Some target, qd_message_ttl = None\<rparr>"

definition declareEmailQueue :: queue_decl where
  "declareEmailQueue = dead_lettered EmailQueue (getDeadQueue EmailQueue)"

definition declareEmailQueueDead :: queue_decl where
  "declareEmailQueueDead = plain_queue (getDeadQueue EmailQueue)"

definition declareProcessQueue :: queue_decl where
  "declareProcessQueue = dead_lettered ProcessQueue (getDeadQueue ProcessQueue)"

definition declareProcessQueueDead :: queue_decl where
  "declareProcessQueueDead = plain_queue (getDeadQueue ProcessQueue)"

definition declareSaveQueue :: queue_decl where
  "declareSaveQueue = dead_lettered SaveQueue (getDeadQueue SaveQueue)"

definition declareSaveQueueDead :: queue_decl where
  "declareSaveQueueDead = plain_queue (getDeadQueue SaveQueue)"

definition declareSaveRetryQueue :: queue_decl where
  "declareSaveRetryQueue = (dead_lettered SaveRetryQueue SaveQueue)\<lparr>qd_message_ttl := Some 1000\<rparr>"

definition declareSaveRetryQueueDead :: queue_decl where
  "declareSaveRetryQueueDead = plain_queue (getDeadQueue SaveRetryQueue)"

definition declareUploadProcessQueue :: queue_decl where
  "declareUploadProcessQueue = dead_lettered UploadProcessQueue (getDeadQueue UploadProcessQueue)"

definition declareUploadProcessQueueDead :: queue_decl where
  "declareUploadProcessQueueDead = plain_queue (getDeadQueue UploadProcessQueue)"

text \<open>
  \<open>Setup\<close> declares one queue after another and stops at the first error; the fault plan says
  which declaration the broker refuses. The last step also declares the fanout exchange of the
  upload notifications before its queue and binds the two after it.
\<close>

record topology =
  tp_queues :: "queue_decl list"
  tp_exchanges :: "(string \<times> string) list"
  tp_bindings :: "(string \<times> string) list"

definition setup_order :: "queue_decl list" where
  "setup_order =
     [declareEmailQueueDead, declareEmailQueue, declareProcessQueueDead, declareProcessQueue,
      declareSaveQueueDead, declareSaveQueue, declareSaveRetryQueueDead, declareSaveRetryQueue,
      declareUploadProcessQueueDead]"

fun declare_all :: "(nat \<Rightarrow> string option) \<Rightarrow> nat \<Rightarrow> queue_decl list \<Rightarrow> topology \<Rightarrow>
    (string option) \<times> topology" where
  "declare_all refuse n [] t = (None, t)"
| "declare_all refuse n (q # qs) t =
     (case refuse n of
        Some e \<Rightarrow> (Some e, t)
      | None \<Rightarrow> declare_all refuse (Suc n) qs (t\<lparr>tp_queues := tp_queues t @ [q]\<rparr>))"

definition rabbit_Setup ::
  "env \<Rightarrow> (nat \<Rightarrow> string option) \<Rightarrow> topology \<Rightarrow> string option \<times> topology" where
  "rabbit_Setup E refuse t =
     (case declare_all refuse 0 setup_order t of
        (Some e, t1) \<Rightarrow> (Some e, t1)
      | (None, t1) \<Rightarrow>
          (case refuse 9 of
             Some e \<Rightarrow> (Some e, t1)
           | None \<Rightarrow>
               (let t2 = t1\<lparr>tp_exchanges := tp_exchanges t1 @ [(cnf_ExchangeQueue E, ''fanout'')]\<rparr>
                in case refuse 10 of
                     Some e \<Rightarrow> (Some e, t2)
                   | None \<Rightarrow>
                       (let t3 = t2\<lparr>tp_queues := tp_queues t2 @ [declareUploadProcessQueue]\<rparr>
                        in case refuse 11 of
                             Some e \<Rightarrow> (Some e, t3)
                           | None \<Rightarrow> (None, t3\<lparr>tp_bindings := tp_bindings t3 @
                               [(cnf_ExchangeQueue E, UploadProcessQueue)]\<rparr>)))))"

text \<open>Where the default exchange sends a message that a consumer of queue \<open>q\<close> rejects.\<close>

definition nacked_to :: "topology \<Rightarrow> string \<Rightarrow> bool \<Rightarrow> string option" where
  "nacked_to t q requeue =
     (if requeue then Some q
      else case List.find (\<lambda>d. qd_name d = q) (tp_queues t) of
        None \<Rightarrow> None
      | Some d \<Rightarrow> qd_dead_routing_key d)"

lemma declare_all_ok:
  "(\<And>n. refuse n = None) \<Longrightarrow>
    declare_all refuse k qs t = (None, t\<lparr>tp_queues := tp_queues t @ qs\<rparr>)"
  by (induction qs arbitrary: k t) simp_all

lemmas queue_names = EmailQueue_def ProcessQueue_def SaveQueue_def SaveRetryQueue_def
  UploadProcessQueue_def getDeadQueue_def

lemmas queue_decls = declareEmailQueue_def declareEmailQueueDead_def declareProcessQueue_def
  declareProcessQueueDead_def declareSaveQueue_def declareSaveQueueDead_def
  declareSaveRetryQueue_def declareSaveRetryQueueDead_def declareUploadProcessQueue_def
  declareUploadProcessQueueDead_def plain_queue_def dead_lettered_def

section \<open>What publishing leaves unchanged\<close>

lemma rabbit_publish_keeps:
  assumes "\<And>w. P w \<Longrightarrow> P (tick w)" "\<And>w l. P w \<Longrightarrow> P (w\<lparr>published := l\<rparr>)"
  shows "keeps P (rabbit_publish E q m)"
  unfolding rabbit_publish_def
  by (intro keeps_intros ext_call_keeps) (simp_all add: assms keeps_def)

lemma rabbit_publish_published:
  "published (snd (rabbit_publish E q m w)) \<in> {published w, published w @ [(q, m)]}"
  by (simp add: rabbit_publish_def call_def ext_call_def ret_def fail_def split: fault.splits)

lemma rabbit_publish_Inr:
  "rabbit_publish E q m w = (Inr x, w') \<Longrightarrow> published w' = published w @ [(q, m)]"
  by (auto simp: rabbit_publish_def call_def ext_call_def ret_def fail_def
      split: fault.splits sum.splits prod.splits)

end
