(* ===== verification/Invariant.thy ===== *)
theory Invariant
  imports Pg_Social Pg_Media Redis Rabbit
begin

text \<open>
  The invariant of the tables: the schema's constraints, usage within every quota, tokens stored
  only as 64-digit hashes, and at most one friendship between two users whichever of them asked.
  Every repository method keeps it (the two that need a word about their arguments say so), and
  the methods of the cache, the queue and the transaction manager pass it on; the services'
  theories only chain these rules, which are collected in \<open>keeps_intros\<close>.
\<close>

section \<open>The invariant\<close>

definition tokens_hashed :: "database \<Rightarrow> bool" where
  "tokens_hashed d \<longleftrightarrow>
     (\<forall>v\<in>set (verifier d). token_hash (v_Token v)) \<and>
     (\<forall>r\<in>set (reseter d). token_hash (r_Token r)) \<and>
     (\<forall>t\<in>set (share_tokens d). token_hash (t_Token t))"

definition friend_pairs_ok :: "database \<Rightarrow> bool" where
  "friend_pairs_ok d \<longleftrightarrow>
     (\<forall>f\<in>set (friendships d). \<forall>g\<in>set (friendships d).
        \<not> (f_RequesterID f = f_AddresseeID g \<and> f_AddresseeID f = f_RequesterID g))"

text \<open>
  The last clause holds while requests follow one another; what is left of the invariant when they
  overlap is the same without it (\<open>ov\<close>).
\<close>

definition rest_inv :: "bool \<Rightarrow> database \<Rightarrow> bool" where
  "rest_inv ov d \<longleftrightarrow> quota_ok d \<and> tokens_hashed d \<and> (ov \<or> friend_pairs_ok d)"

definition tables_ok :: "bool \<Rightarrow> database \<Rightarrow> bool" where
  "tables_ok ov d \<longleftrightarrow> schema_ok d \<and> rest_inv ov d"

abbreviation service_inv :: "database \<Rightarrow> bool" where
  "service_inv \<equiv> tables_ok False"

lemmas rest_defs = rest_inv_def quota_ok_def tokens_hashed_def friend_pairs_ok_def

lemma rest_inv_upd [simp]:
  "rest_inv ov (d\<lparr>users := a\<rparr>) = rest_inv ov d" "rest_inv ov (d\<lparr>profiles := b\<rparr>) = rest_inv ov d"
  "rest_inv ov (d\<lparr>gifs := c\<rparr>) = rest_inv ov d" "rest_inv ov (d\<lparr>last_uploads := e\<rparr>) = rest_inv ov d"
  "rest_inv ov (d\<lparr>shares := f\<rparr>) = rest_inv ov d" "rest_inv ov (d\<lparr>jobs := g\<rparr>) = rest_inv ov d"
  by (simp_all add: rest_defs)

lemma rest_inv_delete_gifs: "rest_inv ov d \<Longrightarrow> rest_inv ov (delete_gifs p d)"
  by (auto simp: rest_defs delete_gifs_def Let_def)

lemma rest_inv_delete_users: "rest_inv ov d \<Longrightarrow> rest_inv ov (delete_users p d)"
  by (auto simp: rest_defs delete_users_def delete_gifs_def Let_def)

section \<open>Statements, transactions, services\<close>

lemma keeps_db_exec:
  assumes "\<And>w. op w = db_exec E stmt w"
    and "\<And>w x d. P (db w) \<Longrightarrow> stmt w = Inr (x, d) \<Longrightarrow> P d"
  shows "keeps (\<lambda>w. P (db w)) op"
proof (rule keepsI)
  fix w :: world assume pw: "P (db w)"
  have "P (db (snd (db_exec E stmt w)))"
    by (rule db_exec_db [where P = P, OF pw]) (rule assms(2) [OF pw])
  then show "P (db (snd (op w)))" by (simp only: assms(1))
qed

lemma keeps_tx_run: "keeps (\<lambda>w. P (db w)) fn \<Longrightarrow> keeps (\<lambda>w. P (db w)) (tx_run E fn)"
proof (rule keepsI)
  fix w :: world assume fn: "keeps (\<lambda>w. P (db w)) fn" and pw: "P (db w)"
  have "P (db (snd (fn ((tick w)\<lparr>tx := TxOpen\<rparr>))))"
    by (rule keepsD [OF fn]) (simp add: pw)
  then show "P (db (snd (tx_run E fn w)))" by (rule tx_run_db [where P = P, OF pw])
qed

lemma keeps_tx_With [keeps_intros]:
  assumes "keeps (\<lambda>w. P (db w)) fn"
  shows "keeps (\<lambda>w. P (db w)) (tx_With E fn)" "keeps (\<lambda>w. P (db w)) (tx_WithRC E fn)"
  using keeps_tx_run [OF assms] by (simp_all add: keeps_def tx_With_def tx_WithRC_def)

lemma keeps_with_uuid_drawn [keeps_intros]:
  assumes "\<And>i. keeps (\<lambda>w. P (db w)) (k i)"
  shows "keeps (\<lambda>w. P (db w)) (with_uuid_drawn E k)"
  using assms by (simp add: keeps_def with_uuid_drawn_def draw_uuid_def)

lemma keeps_ext_call:
  assumes "\<And>w. db (snd (f w)) = db w"
  shows "keeps (\<lambda>w. P (db w)) (ext_call E f)"
  by (rule ext_call_keeps) (simp_all add: keeps_def assms)

lemma keeps_services [keeps_intros]:
  "keeps (\<lambda>w. P (db w)) (redis_Set E key val expire)"
  "keeps (\<lambda>w. P (db w)) (redis_Get E key)"
  "keeps (\<lambda>w. P (db w)) (rabbit_publish E q m)"
  "keeps (\<lambda>w. P (db w)) (PublishEmail E em)" "keeps (\<lambda>w. P (db w)) (PublishVideo E vm)"
  "keeps (\<lambda>w. P (db w)) (PublishSaveVideo E sm)"
  "keeps (\<lambda>w. P (db w)) (PublishRetrySaveVideo E sm)"
  unfolding PublishEmail_def PublishVideo_def PublishSaveVideo_def PublishRetrySaveVideo_def
  by (rule redis_Set_keeps redis_Get_keeps rabbit_publish_keeps; simp)+

lemma keeps_GenerateHash [keeps_intros]: "keeps (\<lambda>w. P (db w)) (GenerateHash E p)"
  by (simp add: keeps_def GenerateHash_def Let_def split: option.splits)

section \<open>Reads\<close>

lemma with_uuid_db:
  assumes "with_uuid E s k = Inr (x, d)" "\<And>i. k i = Inr (x, d) \<Longrightarrow> d = d0"
  shows "d = d0"
  using assms by (auto simp: with_uuid_Inr)

lemma keeps_read:
  assumes "\<And>w. op w = db_exec E stmt w" "\<And>w x d. stmt w = Inr (x, d) \<Longrightarrow> d = db w"
  shows "keeps (\<lambda>w. P (db w)) op"
  by (rule keeps_db_exec [OF assms(1)]) (use assms(2) in auto)

lemma keeps_reads [keeps_intros]:
  "keeps (\<lambda>w. P (db w)) (GetByEmail E email)"
  "keeps (\<lambda>w. P (db w)) (GetById E i)"
  "keeps (\<lambda>w. P (db w)) (verifier_GetByHash E h)"
  "keeps (\<lambda>w. P (db w)) (verifier_GetById E i)"
  "keeps (\<lambda>w. P (db w)) (reseter_GetById E i)"
  "keeps (\<lambda>w. P (db w)) (reseter_GetByToken E t)"
  "keeps (\<lambda>w. P (db w)) (share_repo_GetByToken E t)"
  "keeps (\<lambda>w. P (db w)) (gif_GetOwner E key)"
  "keeps (\<lambda>w. P (db w)) (gif_GetByKey E key fu)"
  by (rule keeps_read, rule GetByEmail_def GetById_def verifier_GetByHash_def verifier_GetById_def
      reseter_GetById_def reseter_GetByToken_def share_repo_GetByToken_def gif_GetOwner_def
      gif_GetByKey_def, simp add: get_row_Inr)+

lemma keeps_uuid_reads [keeps_intros]:
  "keeps (\<lambda>w. P (db w)) (user_GetProfile E s fu)"
  "keeps (\<lambda>w. P (db w)) (quota_GetById E s)"
  "keeps (\<lambda>w. P (db w)) (friend_Exists E s t)"
  "keeps (\<lambda>w. P (db w)) (friend_GetByID E s)"
  "keeps (\<lambda>w. P (db w)) (friend_ListFriends E s)"
  "keeps (\<lambda>w. P (db w)) (friend_ListPendingIncoming E s)"
  "keeps (\<lambda>w. P (db w)) (share_repo_Get E s)"
  "keeps (\<lambda>w. P (db w)) (share_repo_GetOwner E s key)"
  "keeps (\<lambda>w. P (db w)) (gif_GetRecents E s)"
  "keeps (\<lambda>w. P (db w)) (GetLastVideo E s)"
  by (rule keeps_read, rule user_GetProfile_def quota_GetById_def friend_Exists_def
      friend_GetByID_def friend_ListFriends_def friend_ListPendingIncoming_def share_repo_Get_def
      share_repo_GetOwner_def gif_GetRecents_def GetLastVideo_def,
      fastforce simp: get_row_Inr with_uuid_Inr split: option.splits sum.splits)+

lemma keeps_paged_reads [keeps_intros]:
  "keeps (\<lambda>w. P (db w)) (gif_Get E s status l off)"
  "keeps (\<lambda>w. P (db w)) (job_GetByUserID E s l off)"
  by (rule keeps_read, rule gif_Get_def job_GetByUserID_def,
      clarsimp simp: with_uuid_Inr page_def split: if_splits)+

lemma keeps_job_GetByID [keeps_intros]: "keeps (\<lambda>w. P (db w)) (job_GetByID E s)"
  unfolding job_GetByID_def
  by (intro keeps_intros keeps_read [OF refl]) (auto simp: get_row_Inr with_uuid_Inr)

section \<open>Writes\<close>

lemma schema_ok_verifier_delete: "schema_ok d \<Longrightarrow> schema_ok (d\<lparr>verifier := delete_where p (verifier d)\<rparr>)"
  by (rule schema_ok_verifier) (auto simp: schema_defs intro: distinct_delete_where)

lemma schema_ok_reseter_delete: "schema_ok d \<Longrightarrow> schema_ok (d\<lparr>reseter := delete_where p (reseter d)\<rparr>)"
  by (rule schema_ok_reseter) (auto simp: schema_defs intro: distinct_delete_where)

lemma schema_ok_shares_delete: "schema_ok d \<Longrightarrow> schema_ok (d\<lparr>shares := delete_where p (shares d)\<rparr>)"
  by (rule schema_ok_shares) (auto simp: schema_defs intro: distinct_delete_where)

lemma schema_ok_friendships_delete:
  "schema_ok d \<Longrightarrow> schema_ok (d\<lparr>friendships := delete_where p (friendships d)\<rparr>)"
  by (rule schema_ok_friendships) (auto simp: schema_defs intro: distinct_delete_where)

lemmas schema_ok_deletes = schema_ok_verifier_delete schema_ok_reseter_delete
  schema_ok_shares_delete schema_ok_friendships_delete

lemma service_inv_users:
  assumes "tables_ok ov d" "update_users p f d = Inr (x, d')" "\<And>u. u_Id (f u) = u_Id u"
  shows "tables_ok ov d'"
proof -
  have "rest_inv ov d'" using assms(1,2)
    by (auto simp: tables_ok_def update_users_def Let_def split: if_splits)
  then show ?thesis
    using update_users_keeps [OF _ assms(2,3)] assms(1) by (simp add: tables_ok_def)
qed

abbreviation inv_kept :: "bool \<Rightarrow> 'a io \<Rightarrow> bool" where
  "inv_kept ov f \<equiv> keeps (\<lambda>w. tables_ok ov (db w)) f"

lemma inv_kept_drawn:
  assumes "\<And>w. op w = db_exec E (stmt (now w) (draws w) (serial w)) (w\<lparr>draws := a w, serial := b w\<rparr>)"
    and "\<And>t n i w x d. tables_ok ov (db w) \<Longrightarrow> stmt t n i w = Inr (x, d) \<Longrightarrow> tables_ok ov d"
  shows "inv_kept ov op"
proof (rule keepsI)
  fix w :: world assume iv: "tables_ok ov (db w)"
  have "tables_ok ov (db (snd (db_exec E (stmt (now w) (draws w) (serial w))
      (w\<lparr>draws := a w, serial := b w\<rparr>))))"
  proof (rule db_exec_db [where P = "tables_ok ov"])
    show "tables_ok ov (db (w\<lparr>draws := a w, serial := b w\<rparr>))" using iv by simp
    then show "tables_ok ov d" if "stmt (now w) (draws w) (serial w)
        (w\<lparr>draws := a w, serial := b w\<rparr>) = Inr (x, d)" for x d
      using that by (rule assms(2))
  qed
  then show "tables_ok ov (db (snd (op w)))" by (simp only: assms(1))
qed

subsection \<open>Users and their tokens\<close>

lemma keeps_auth_Create [keeps_intros]: "inv_kept ov (auth_Create E u)"
proof (rule inv_kept_drawn)
  fix w show "auth_Create E u w = db_exec E ((\<lambda>t n i. insert_user
      (u\<lparr>u_Id := uuid_gen E n, u_CreatedAt := t, u_UpdatedAt := t\<rparr>)) (now w) (draws w) (serial w))
      (w\<lparr>draws := Suc (draws w), serial := serial w\<rparr>)"
    by (simp add: auth_Create_def draw_uuid_def)
next
  fix t n i w x d
  assume iv: "tables_ok ov (db w)" and r: "insert_user
      (u\<lparr>u_Id := uuid_gen E n, u_CreatedAt := t, u_UpdatedAt := t\<rparr>) w = Inr (x, d)"
  then have "rest_inv ov d" by (auto simp: tables_ok_def insert_user_def split: if_splits)
  then show "tables_ok ov d" using insert_user_keeps [OF _ r] iv by (simp add: tables_ok_def)
qed

lemma keeps_user_deletes [keeps_intros]:
  "inv_kept ov (DeleteById E i)" "inv_kept ov (DeleteByEmail E email)"
  by (rule keeps_db_exec, rule DeleteById_def DeleteByEmail_def,
      auto simp: tables_ok_def schema_ok_delete_users rest_inv_delete_users)+

lemma keeps_user_updates [keeps_intros]:
  "inv_kept ov (UpdatePassword E i h)" "inv_kept ov (SetVerified E i)"
  by (rule keeps_db_exec, rule UpdatePassword_def SetVerified_def,
      erule (1) service_inv_users, simp)+

lemma keeps_user_ChangePassword [keeps_intros]: "inv_kept ov (user_ChangePassword E s h)"
  by (rule keeps_db_exec, rule user_ChangePassword_def)
    (auto simp: with_uuid_Inr intro: service_inv_users)

lemma keeps_Upgrade [keeps_intros]: "inv_kept ov (Upgrade E s u)"
proof (rule keeps_db_exec, rule Upgrade_def)
  fix w x d
  let ?set = "\<lambda>i. update_users (\<lambda>u. u_Id u = i) (upgraded (now w) u) (db w)"
  let ?row = "\<lambda>i v. case ?set i of Inl e \<Rightarrow> Inl e | Inr (_, d) \<Rightarrow>
      Inr ((upgraded (now w) u v)\<lparr>u_PasswordHash := [], u_UpdatedAt := 0, u_DeletedAt := None\<rparr>, d)"
  assume iv: "tables_ok ov (db w)" and "with_uuid E s (\<lambda>i.
      case List.find (\<lambda>u. u_Id u = i) (users (db w)) of None \<Rightarrow> Inl SqlNoRows | Some v \<Rightarrow> ?row i v) = Inr (x, d)"
  then obtain i where "(case List.find (\<lambda>u. u_Id u = i) (users (db w)) of
      None \<Rightarrow> Inl SqlNoRows | Some v \<Rightarrow> ?row i v) = Inr (x, d)" by (auto simp only: with_uuid_Inr)
  then have "?set i = Inr ((), d)"
    by (cases "List.find (\<lambda>u. u_Id u = i) (users (db w))"; cases "?set i") auto
  from service_inv_users [OF iv this] show "tables_ok ov d" by (simp add: upgraded_def)
qed

lemma keeps_token_deletes [keeps_intros]:
  "inv_kept ov (verifier_Delete E i)" "inv_kept ov (reseter_DeleteById E i)"
  by (rule keeps_db_exec, rule verifier_Delete_def reseter_DeleteById_def,
      auto simp: tables_ok_def schema_ok_deletes rest_defs)+

lemma keeps_verifier_Create [keeps_intros]: "inv_kept ov (verifier_Create E u (GetTokenHash E t))"
proof (rule inv_kept_drawn)
  fix w show "verifier_Create E u (GetTokenHash E t) w = db_exec E ((\<lambda>m n i. insert_verifier
      \<lparr>v_Id = i, v_UserId = u, v_Token = GetTokenHash E t, v_CreatedAt = m,
       v_ExpireAt = m + 30 * minute\<rparr>) (now w) (draws w) (serial w))
      (w\<lparr>draws := draws w, serial := serial w + 1\<rparr>)"
    by (simp add: verifier_Create_def next_serial_def)
next
  fix m n i w x d
  assume iv: "tables_ok ov (db w)" and r: "insert_verifier \<lparr>v_Id = i, v_UserId = u,
      v_Token = GetTokenHash E t, v_CreatedAt = m, v_ExpireAt = m + 30 * minute\<rparr> w = Inr (x, d)"
  then have "rest_inv ov d"
    by (auto simp: tables_ok_def insert_verifier_def rest_defs split: if_splits)
  then show "tables_ok ov d" using insert_verifier_keeps [OF _ r] iv by (simp add: tables_ok_def)
qed

lemma upsert_reseter_hashed:
  assumes "rest_inv ov (db w)" "upsert_reseter r w = Inr (x, d)" "token_hash (r_Token r)"
  shows "rest_inv ov d"
  using assms by (auto simp: upsert_reseter_def rest_defs set_update_where split: if_splits)

lemma keeps_reseter_Create [keeps_intros]: "inv_kept ov (reseter_Create E u (GetTokenHash E t))"
proof (rule inv_kept_drawn)
  fix w show "reseter_Create E u (GetTokenHash E t) w = db_exec E ((\<lambda>m n i. upsert_reseter
      \<lparr>r_Id = i, r_UserId = u, r_Token = GetTokenHash E t, r_Used = False, r_CreatedAt = m,
       r_ExpireAt = m + 15 * minute\<rparr>) (now w) (draws w) (serial w))
      (w\<lparr>draws := draws w, serial := serial w + 1\<rparr>)"
    by (simp add: reseter_Create_def next_serial_def)
next
  fix m n i w x d
  assume iv: "tables_ok ov (db w)" and r: "upsert_reseter \<lparr>r_Id = i, r_UserId = u,
      r_Token = GetTokenHash E t, r_Used = False, r_CreatedAt = m,
      r_ExpireAt = m + 15 * minute\<rparr> w = Inr (x, d)"
  have "rest_inv ov d" by (rule upsert_reseter_hashed [OF _ r]) (use iv in \<open>simp_all add: tables_ok_def\<close>)
  then show "tables_ok ov d" using upsert_reseter_keeps [OF _ r] iv by (simp add: tables_ok_def)
qed

lemma keeps_SetProfile [keeps_intros]: "inv_kept ov (SetProfile E u pic)"
proof (rule inv_kept_drawn)
  fix w show "SetProfile E u pic w = db_exec E ((\<lambda>t n i. insert_profile
      \<lparr>p_Id = i, p_UserId = u, p_ProfilePic = pic, p_CreatedAt = t, p_UpdatedAt = t\<rparr>)
      (now w) (draws w) (serial w)) (w\<lparr>draws := draws w, serial := serial w + 1\<rparr>)"
    by (simp add: SetProfile_def next_serial_def)
next
  fix t n i w x d
  assume iv: "tables_ok ov (db w)" and r: "insert_profile \<lparr>p_Id = i, p_UserId = u,
      p_ProfilePic = pic, p_CreatedAt = t, p_UpdatedAt = t\<rparr> w = Inr (x, d)"
  then have "rest_inv ov d" by (auto simp: tables_ok_def insert_profile_def split: if_splits)
  then show "tables_ok ov d" using insert_profile_keeps [OF _ r] iv by (simp add: tables_ok_def)
qed

lemma keeps_quota_Create [keeps_intros]: "inv_kept ov (quota_Create E u)"
proof (rule inv_kept_drawn)
  fix w show "quota_Create E u w = db_exec E ((\<lambda>t n i. insert_quota
      \<lparr>q_ID = i, q_UserID = u, q_UsedBytes = 0, q_TotalBytes = 1073741824, q_GifCount = 0,
       q_GitLimit = 100\<rparr>)
      (now w) (draws w) (serial w)) (w\<lparr>draws := draws w, serial := serial w + 1\<rparr>)"
    by (simp add: quota_Create_def next_serial_def)
next
  fix t :: int and n :: nat and i w x d
  assume iv: "tables_ok ov (db w)" and r: "insert_quota \<lparr>q_ID = i, q_UserID = u,
      q_UsedBytes = 0, q_TotalBytes = 1073741824, q_GifCount = 0, q_GitLimit = 100\<rparr> w = Inr (x, d)"
  then have "rest_inv ov d"
    by (auto simp: tables_ok_def insert_quota_def rest_defs split: if_splits)
  then show "tables_ok ov d" using insert_quota_keeps [OF _ r] iv by (simp add: tables_ok_def)
qed

lemma keeps_IncrementUsage [keeps_intros]: "inv_kept ov (IncrementUsage E u b c)"
proof (rule keeps_db_exec, rule IncrementUsage_def)
  fix w x d
  assume iv: "tables_ok ov (db w)" and "with_uuid E u (\<lambda>i.
       let hit = (\<lambda>q. q_UserID q = i \<and> quota_fits b c q)
       in if list_ex (\<lambda>q. q_UserID q = i \<and> (\<not> int4 (q_UsedBytes q + b) \<or>
               \<not> int4 (q_GifCount q + c))) (quota (db w))
          then Inl (Driver ''22003'')
          else Inr (list_ex hit (quota (db w)),
            (db w)\<lparr>quota := update_where hit
               (\<lambda>q. q\<lparr>q_UsedBytes := q_UsedBytes q + b,
                      q_GifCount := q_GifCount q + c\<rparr>) (quota (db w))\<rparr>)) = Inr (x, d)"
  then obtain i where d: "d = (db w)\<lparr>quota := update_where
      (\<lambda>q. q_UserID q = i \<and> quota_fits b c q)
      (\<lambda>q. q\<lparr>q_UsedBytes := q_UsedBytes q + b, q_GifCount := q_GifCount q + c\<rparr>) (quota (db w))\<rparr>"
    by (auto simp: with_uuid_Inr Let_def split: if_splits)
  have "schema_ok d" unfolding d
    by (rule update_quota_keeps) (use iv in \<open>simp_all add: tables_ok_def\<close>)
  moreover have "rest_inv ov d" using iv unfolding d
    by (auto simp: tables_ok_def rest_defs set_update_where quota_fits_def)
  ultimately show "tables_ok ov d" by (simp add: tables_ok_def)
qed

lemma keeps_user_UpdateProfile [keeps_intros]: "inv_kept ov (user_UpdateProfile E req u)"
proof (rule keepsI)
  fix w :: world assume iv: "tables_ok ov (db w)"
  show "tables_ok ov (db (snd (user_UpdateProfile E req u w)))"
    unfolding user_UpdateProfile_def
  proof (rule db_exec_db [where P = "tables_ok ov", OF iv], goal_cases)
    case (1 x d)
    then obtain i d1 pf where u: "update_users (\<lambda>v. u_Id v = i)
        (\<lambda>v. v\<lparr>u_Username := coalesce (pu_Username req) (u_Username v),
               u_Fullname := coalesce (pu_Fullname req) (u_Fullname v), u_UpdatedAt := now w\<rparr>)
        (db w) = Inr ((), d1)"
      and d: "d = d1\<lparr>profiles := update_where (\<lambda>p. p_UserId p = i) pf (profiles d1)\<rparr>"
      and pf: "pf = (\<lambda>p. p\<lparr>p_ProfilePic := coalesce (pu_ProfilePic req) (p_ProfilePic p),
                       p_UpdatedAt := now w\<rparr>)"
      by (auto simp only: with_uuid_Inr Let_def)
        (auto split: sum.split_asm option.split_asm)
    have d1: "tables_ok ov d1" by (rule service_inv_users [OF iv u]) simp
    have "schema_ok d" unfolding d
      by (rule update_profiles_keeps) (use d1 pf in \<open>simp_all add: tables_ok_def\<close>)
    then show ?case using d1 d by (simp add: tables_ok_def)
  qed
qed

subsection \<open>Friendships and shares\<close>

text \<open>
  A friendship is inserted by a request that found none between the two users, in either
  direction; that is the hypothesis here, and what \<open>SendRequest\<close> establishes before the call.
\<close>

definition linked :: "uuid \<Rightarrow> uuid \<Rightarrow> database \<Rightarrow> bool" where
  "linked a b d = list_ex (\<lambda>f. f_RequesterID f = a \<and> f_AddresseeID f = b \<or>
                             f_RequesterID f = b \<and> f_AddresseeID f = a) (friendships d)"

lemma friend_Create_inv:
  assumes "service_inv (db w)"
    and "\<And>a b. pg_uuid_in E r = Some a \<Longrightarrow> pg_uuid_in E s = Some b \<Longrightarrow> \<not> linked a b (db w)"
  shows "service_inv (db (snd (friend_Create E r s w)))"
  unfolding friend_Create_def draw_uuid_def Let_def prod.case
proof (rule db_exec_db [where P = service_inv], goal_cases)
  case 1 show ?case using assms(1) by simp
next
  case (2 x d)
  then obtain a b where ab: "pg_uuid_in E r = Some a" "pg_uuid_in E s = Some b"
    and i0: "insert_friendship \<lparr>f_ID = uuid_gen E (draws w), f_RequesterID = a, f_AddresseeID = b,
      f_Status = ''pending'', f_CreatedAt = now w, f_UpdatedAt = now w\<rparr>
      (w\<lparr>draws := Suc (draws w)\<rparr>) = Inr (x, d)"
    by (auto simp: with_uuid_Inr)
  define f where "f = \<lparr>f_ID = uuid_gen E (draws w), f_RequesterID = a, f_AddresseeID = b,
      f_Status = ''pending'', f_CreatedAt = now w, f_UpdatedAt = now w\<rparr>"
  then have f: "f_RequesterID f = a" "f_AddresseeID f = b"
    and i: "insert_friendship f (w\<lparr>draws := Suc (draws w)\<rparr>) = Inr (x, d)"
    using i0 by simp_all
  have d: "d = (db w)\<lparr>friendships := friendships (db w) @ [f]\<rparr>" and ok: "friendship_row_ok f"
    using i by (auto simp: insert_friendship_def split: if_splits)
  have "rest_inv False d"
    using assms(1) assms(2) [OF ab] f ok unfolding d
    by (auto simp: tables_ok_def rest_defs linked_def list_ex_iff friendship_row_ok_def)
  moreover have "schema_ok d"
    by (rule insert_friendship_keeps [OF _ i]) (use assms(1) in \<open>simp add: tables_ok_def\<close>)
  ultimately show ?case by (simp add: tables_ok_def)
qed

lemma keeps_friend_UpdateStatus [keeps_intros]: "inv_kept ov (friend_UpdateStatus E i status a)"
proof (rule keeps_db_exec, rule friend_UpdateStatus_def, goal_cases)
  case (1 w x d)
  then obtain fi ai f0 where d: "d = (db w)\<lparr>friendships := update_where
        (\<lambda>f. f_ID f = fi \<and> f_AddresseeID f = ai)
        (\<lambda>f. f\<lparr>f_Status := status, f_UpdatedAt := now w\<rparr>) (friendships (db w))\<rparr>"
    and ok: "friendship_row_ok (f0\<lparr>f_Status := status, f_UpdatedAt := now w\<rparr>)"
    by (auto simp: with_uuid_Inr Let_def split: option.splits if_splits)
  have st: "status \<in> {''pending'', ''accepted'', ''blocked''}"
    using ok by (simp add: friendship_row_ok_def)
  have "schema_ok d" unfolding d
  proof (rule update_friendships_keeps)
    show "schema_ok (db w)" using 1(1) by (simp add: tables_ok_def)
    then show "friendship_row_ok (f\<lparr>f_Status := status, f_UpdatedAt := now w\<rparr>)"
      if "f \<in> set (friendships (db w))" for f
      using that st by (auto simp: schema_ok_def rows_ok_def friendship_row_ok_def)
  qed simp
  moreover have "rest_inv ov d" using 1(1) unfolding d
    by (auto simp: tables_ok_def rest_defs set_update_where)
  ultimately show ?case by (simp add: tables_ok_def)
qed

lemma keeps_social_deletes [keeps_intros]:
  "inv_kept ov (friend_Delete E i a)" "inv_kept ov (share_repo_Delete E key sw)"
  by (rule keeps_db_exec, rule friend_Delete_def share_repo_Delete_def,
      auto simp: with_uuid_Inr tables_ok_def schema_ok_deletes rest_defs)+

lemma keeps_share_repo_Create [keeps_intros]: "inv_kept ov (share_repo_Create E s)"
proof (rule inv_kept_drawn)
  fix w show "share_repo_Create E s w = db_exec E ((\<lambda>t n i. \<lambda>w. with_uuid E (s_OwnerID s)
      (\<lambda>ow. with_uuid E (s_SharedWith s) (\<lambda>sw. upsert_share (s\<lparr>s_ID := uuid_gen E n,
        s_OwnerID := ow, s_SharedWith := sw, s_CreatedAt := now w\<rparr>) w)))
      (now w) (draws w) (serial w)) (w\<lparr>draws := Suc (draws w), serial := serial w\<rparr>)"
    by (simp add: share_repo_Create_def draw_uuid_def)
next
  fix t :: int and n :: nat and i :: int and w x d
  assume iv: "tables_ok ov (db w)" and "with_uuid E (s_OwnerID s)
      (\<lambda>ow. with_uuid E (s_SharedWith s) (\<lambda>sw. upsert_share (s\<lparr>s_ID := uuid_gen E n,
        s_OwnerID := ow, s_SharedWith := sw, s_CreatedAt := now w\<rparr>) w)) = Inr (x, d)"
  then obtain s' where r: "upsert_share s' w = Inr (x, d)" by (auto simp: with_uuid_Inr)
  then have "rest_inv ov d" using iv
    by (auto simp: tables_ok_def upsert_share_def Let_def split: if_splits)
  then show "tables_ok ov d" using upsert_share_keeps [OF _ r] iv by (simp add: tables_ok_def)
qed

lemma keeps_share_repo_CreateByToken:
  assumes "token_hash (t_Token s)"
  shows "inv_kept ov (share_repo_CreateByToken E s)"
proof (rule inv_kept_drawn)
  fix w show "share_repo_CreateByToken E s w = db_exec E ((\<lambda>t n i. upsert_share_token
      (s\<lparr>t_CreatedAt := t\<rparr>)) (now w) (draws w) (serial w))
      (w\<lparr>draws := draws w, serial := serial w\<rparr>)"
    by (simp add: share_repo_CreateByToken_def)
next
  fix t :: int and n :: nat and i :: int and w x d
  assume iv: "tables_ok ov (db w)" and r: "upsert_share_token (s\<lparr>t_CreatedAt := t\<rparr>) w = Inr (x, d)"
  then have "rest_inv ov d" using assms
    by (auto simp: tables_ok_def upsert_share_token_def Let_def rest_defs set_update_where
        split: if_splits)
  then show "tables_ok ov d"
    using upsert_share_token_keeps [OF _ r] iv by (simp add: tables_ok_def)
qed

subsection \<open>Gifs, uploads and jobs\<close>

lemma service_inv_gifs:
  assumes "tables_ok ov d" "\<And>g. g_Key (f g) = g_Key g \<and> g_UserId (f g) = g_UserId g"
  shows "tables_ok ov (d\<lparr>gifs := update_where p f (gifs d)\<rparr>)"
  using assms update_gifs_keeps [of d f p] by (simp add: tables_ok_def)

lemma keeps_gif_updates [keeps_intros]:
  "inv_kept ov (gif_SaveRecent E key)" "inv_kept ov (IncrementDownload E key)"
  by (rule keeps_db_exec, rule gif_SaveRecent_def IncrementDownload_def,
      auto intro!: service_inv_gifs split: if_splits)+

lemma keeps_gif_Update [keeps_intros]: "inv_kept ov (gif_Update E key req)"
  by (rule keeps_db_exec, rule gif_Update_def)
    (auto simp: Let_def get_row_Inr intro!: service_inv_gifs)

lemma keeps_gif_Delete [keeps_intros]: "inv_kept ov (gif_Delete E key)"
  by (rule keeps_db_exec, rule gif_Delete_def)
    (auto simp: tables_ok_def schema_ok_delete_gifs rest_inv_delete_gifs)

lemma keeps_gif_Create [keeps_intros]: "inv_kept ov (gif_Create E g)"
proof (rule keeps_db_exec, rule gif_Create_def, goal_cases)
  case (1 w x d)
  then obtain g' where r: "insert_gif g' w = Inr (x, d)" by (auto simp: with_uuid_Inr)
  then have "rest_inv ov d" using 1(1) by (auto simp: tables_ok_def insert_gif_def split: if_splits)
  then show ?case using insert_gif_keeps [OF _ r] 1(1) by (simp add: tables_ok_def)
qed

lemma keeps_last_Create [keeps_intros]: "inv_kept ov (last_Create E l)"
proof (rule keepsI)
  fix w :: world assume iv: "tables_ok ov (db w)"
  let ?l = "l\<lparr>l_ID := serial w, l_DurationSec := map_option numeric_10_3 (l_DurationSec l),
              l_DeletedAt := None, l_UpdatedAt := Some (now w)\<rparr>"
  have "inv_kept ov (db_exec E (upsert_last_upload ?l))"
  proof (rule keeps_db_exec, rule refl)
    fix w x d
    assume iv: "tables_ok ov (db w)" and r: "upsert_last_upload ?l w = Inr (x, d)"
    then have "rest_inv ov d"
      by (auto simp: tables_ok_def upsert_last_upload_def Let_def split: if_splits)
    then show "tables_ok ov d"
      using upsert_last_upload_keeps [OF _ r] iv by (simp add: tables_ok_def)
  qed
  then have "inv_kept ov (call (db_exec E (upsert_last_upload ?l))
      (\<lambda>e. fail (Wrapf ''SaveMetadata'' [e])) (\<lambda>_. ret ()))"
    by (intro keeps_intros)
  then show "tables_ok ov (db (snd (last_Create E l w)))"
    using iv by (simp add: last_Create_def next_serial_def keeps_def)
qed

lemma keeps_job_Create [keeps_intros]: "inv_kept ov (job_Create E j)"
proof (rule keeps_db_exec, rule job_Create_def, goal_cases)
  case (1 w x d)
  then obtain j' where r: "upsert_job j' w = Inr (x, d)" by (auto simp: with_uuid_Inr)
  then have "rest_inv ov d" using 1(1) by (auto simp: tables_ok_def upsert_job_def split: if_splits)
  then show ?case using upsert_job_keeps [OF _ r] 1(1) by (simp add: tables_ok_def)
qed

lemma keeps_job_UpdateStatus [keeps_intros]: "inv_kept ov (job_UpdateStatus E i status p r e)"
  by (rule keeps_db_exec, rule job_UpdateStatus_def)
    (auto simp: with_uuid_Inr tables_ok_def intro!: update_jobs_keeps split: if_splits)

end
