(* ===== verification/Storage.thy ===== *)
theory Storage
  imports Invariant
begin

text \<open>
  \<open>internal/infra/minio/storage_repo.go\<close>: presigned URLs, the object store's metadata and the
  transfer of files. What MinIO answers is a parameter; the model keeps which objects the
  program has put, by bucket and key. Waiting between two attempts takes no model time.
\<close>

section \<open>Presigned URLs\<close>

definition presigned ::
  "env \<Rightarrow> string \<Rightarrow> string \<Rightarrow> string \<Rightarrow> int \<Rightarrow> (string \<times> string) list \<Rightarrow> string io" where
  "presigned E verb bucket key expiry values =
     ext_call E (\<lambda>w. (minio_Presign E (calls w) verb bucket key expiry values, w))"

definition storage_Create :: "env \<Rightarrow> string \<Rightarrow> int \<Rightarrow> string io" where
  "storage_Create E key expirey = presigned E ''PUT'' (cnf_TempBucket E) key expirey []"

definition storage_Download :: "env \<Rightarrow> string \<Rightarrow> int \<Rightarrow> string io" where
  "storage_Download E key expirey =
     presigned E ''GET'' (cnf_StorageBucket E) key expirey
       [(''response-content-disposition'', ''attachment; filename='' @ key)]"

definition GetStreamURL :: "env \<Rightarrow> string \<Rightarrow> int \<Rightarrow> string io" where
  "GetStreamURL E key expiry =
     presigned E ''GET'' (cnf_StorageBucket E) key expiry
       [(''response-content-disposition'', ''inline; filename='' @ key)]"

definition GetThumbnailURL :: "env \<Rightarrow> string \<Rightarrow> string io" where
  "GetThumbnailURL E key =
     presigned E ''GET'' (cnf_StorageBucket E) key 30000
       [(''response-content-type'', ''image/jpeg''),
        (''response-cache-control'', ''public, max-age=604800, immutable'')]"

section \<open>Objects\<close>

definition StatObject :: "env \<Rightarrow> string \<Rightarrow> string \<Rightarrow> storage_info io" where
  "StatObject E bucket key = ext_call E (\<lambda>w. (minio_Stat E (calls w) bucket key, w))"

definition IsExists :: "env \<Rightarrow> string \<Rightarrow> bool io" where
  "IsExists E key =
     call (StatObject E (cnf_StorageBucket E) key) fail (\<lambda>info.
     if i_Size info = 0 then ret False else ret True)"

definition storage_Delete :: "env \<Rightarrow> string \<Rightarrow> unit io" where
  "storage_Delete E key =
     ext_call E (\<lambda>w. (Inr (), w\<lparr>objects := filter (\<lambda>o1. o1 \<noteq> (cnf_StorageBucket E, key)) (objects w)\<rparr>))"

definition storage_Status :: "env \<Rightarrow> string \<Rightarrow> storage_info io" where
  "storage_Status E key = StatObject E (cnf_StorageBucket E) key"

definition FGetObject :: "env \<Rightarrow> string \<Rightarrow> string \<Rightarrow> string \<Rightarrow> unit io" where
  "FGetObject E bucket key destPath =
     ext_call E (\<lambda>w. (if minio_FGet E (calls w) bucket key destPath then Inr ()
                     else Inl (Driver ''The specified key does not exist.''), w))"

definition DownloadLocalRawVideo :: "env \<Rightarrow> string \<Rightarrow> string \<Rightarrow> unit io" where
  "DownloadLocalRawVideo E key destPath = FGetObject E (cnf_TempBucket E) key destPath"

definition DownloadLocal :: "env \<Rightarrow> string \<Rightarrow> string \<Rightarrow> unit io" where
  "DownloadLocal E key destPath = FGetObject E (cnf_StorageBucket E) key destPath"

text \<open>The loop of \<open>Upload\<close>, with the attempts it has left; after the last it returns its error.\<close>

definition FPutObject :: "env \<Rightarrow> string \<Rightarrow> string \<Rightarrow> unit io" where
  "FPutObject E bucket key =
     ext_call E (\<lambda>w. (Inr (), w\<lparr>objects := objects w @ [(bucket, key)]\<rparr>))"

fun upload_attempts :: "env \<Rightarrow> string \<Rightarrow> nat \<Rightarrow> unit io" where
  "upload_attempts E key 0 = ret ()"
| "upload_attempts E key (Suc n) =
     attempt (FPutObject E (cnf_StorageBucket E) key) (\<lambda>r. case r of
       Inr _ \<Rightarrow> ret ()
     | Inl e \<Rightarrow> if n = 0 then fail e else upload_attempts E key n)"

definition storage_Upload :: "env \<Rightarrow> string \<Rightarrow> string \<Rightarrow> string \<Rightarrow> unit io" where
  "storage_Upload E key filePath contentType = upload_attempts E key 3"

section \<open>What storage leaves unchanged\<close>

lemma keeps_storage [keeps_intros]:
  "keeps (\<lambda>w. P (db w)) (storage_Create E key n)" "keeps (\<lambda>w. P (db w)) (storage_Download E key n)"
  "keeps (\<lambda>w. P (db w)) (GetStreamURL E key n)" "keeps (\<lambda>w. P (db w)) (GetThumbnailURL E key)"
  "keeps (\<lambda>w. P (db w)) (StatObject E bucket key)" "keeps (\<lambda>w. P (db w)) (storage_Status E key)"
  "keeps (\<lambda>w. P (db w)) (storage_Delete E key)" "keeps (\<lambda>w. P (db w)) (FGetObject E bucket key p)"
  "keeps (\<lambda>w. P (db w)) (DownloadLocalRawVideo E key p)" "keeps (\<lambda>w. P (db w)) (DownloadLocal E key p)"
  "keeps (\<lambda>w. P (db w)) (FPutObject E bucket key)"
  unfolding storage_Create_def storage_Download_def GetStreamURL_def GetThumbnailURL_def
    presigned_def StatObject_def storage_Status_def storage_Delete_def FGetObject_def
    DownloadLocalRawVideo_def DownloadLocal_def FPutObject_def
  by (rule keeps_ext_call; simp)+

lemma keeps_IsExists [keeps_intros]: "keeps (\<lambda>w. P (db w)) (IsExists E key)"
  unfolding IsExists_def by (intro keeps_intros)

lemma keeps_upload_attempts [keeps_intros]: "keeps (\<lambda>w. P (db w)) (upload_attempts E key n)"
proof (induction n)
  case 0
  show ?case by (simp add: keeps_ret)
next
  case (Suc n)
  show ?case unfolding upload_attempts.simps by (intro keeps_intros Suc.IH)
qed

lemma keeps_storage_Upload [keeps_intros]: "keeps (\<lambda>w. P (db w)) (storage_Upload E key f c)"
  unfolding storage_Upload_def by (rule keeps_upload_attempts)

text \<open>
  An upload fails only when every one of its attempts did, and makes no more of them than
  three; one that succeeds has put the object.
\<close>

lemma FPutObject_cases:
  "FPutObject E b key w = (Inr (), (tick w)\<lparr>objects := objects w @ [(b, key)]\<rparr>) \<and>
     fault E (calls w) = NoFault \<or>
   (\<exists>s w1. FPutObject E b key w = (Inl (Driver s), w1) \<and> calls w1 = Suc (calls w) \<and>
     fault E (calls w) \<noteq> NoFault)"
  by (cases "fault E (calls w)") (auto simp: FPutObject_def ext_call_def)

lemma upload_attempts_outcome:
  "upload_attempts E key (Suc n) w = (r, w') \<Longrightarrow>
     (r = Inr () \<and> (cnf_StorageBucket E, key) \<in> set (objects w') \<and>
        calls w' \<le> calls w + Suc n) \<or>
     (\<exists>s. r = Inl (Driver s) \<and> calls w' = calls w + Suc n \<and>
        (\<forall>i<Suc n. fault E (calls w + i) \<noteq> NoFault))"
proof (induction n arbitrary: w)
  case 0
  then show ?case
    using FPutObject_cases [of E "cnf_StorageBucket E" key w]
    by (auto simp: attempt_def ret_def fail_def)
next
  case (Suc n)
  show ?case
    using FPutObject_cases [of E "cnf_StorageBucket E" key w]
  proof
    assume "FPutObject E (cnf_StorageBucket E) key w =
        (Inr (), (tick w)\<lparr>objects := objects w @ [(cnf_StorageBucket E, key)]\<rparr>) \<and>
      fault E (calls w) = NoFault"
    then show ?thesis using Suc.prems by (auto simp: attempt_def ret_def)
  next
    assume "\<exists>s w1. FPutObject E (cnf_StorageBucket E) key w = (Inl (Driver s), w1) \<and>
      calls w1 = Suc (calls w) \<and> fault E (calls w) \<noteq> NoFault"
    then obtain s w1 where p: "FPutObject E (cnf_StorageBucket E) key w = (Inl (Driver s), w1)"
      and c: "calls w1 = Suc (calls w)" and f: "fault E (calls w) \<noteq> NoFault" by blast
    have "upload_attempts E key (Suc n) w1 = (r, w')"
      using Suc.prems p by (simp add: attempt_def)
    note ih = Suc.IH [OF this]
    have "\<And>i. i < Suc (Suc n) \<Longrightarrow> (\<forall>i<Suc n. fault E (calls w1 + i) \<noteq> NoFault) \<Longrightarrow>
        fault E (calls w + i) \<noteq> NoFault"
      using f c by (case_tac i) auto
    then show ?thesis using ih c by auto
  qed
qed

end
