(* ===== verification/Mailer.thy ===== *)
theory Mailer
  imports Invariant
begin

text \<open>
  \<open>internal/infra/mailer\<close>: the texts of \<open>msg_generator.go\<close> and the sender of \<open>smtp.go\<close>, the one
  the worker process is built with. Handing a message to the mail server is one external call.
\<close>

definition nl :: string where "nl = [CHR 0x0A]"

definition tab :: string where "tab = [CHR 0x09]"

definition base_url :: string where "base_url = ''http://127.0.0.1:8080''"

definition verifyAccountBody :: "string \<Rightarrow> string" where
  "verifyAccountBody token =
     (let url = base_url @ ''/auth/verify?token='' @ token
      in nl @ tab @ tab @ tab @ ''<h1>Welcome To FFgif</h1>'' @ nl @
         ''            <p>Click the link below to verify your account.</p>'' @ nl @
         tab @ tab @ tab @ ''<button>'' @ nl @
         ''            <a href='' @ [CHR 0x22] @ url @ [CHR 0x22] @ ''>Verify my account</a>'' @ nl @
         tab @ tab @ tab @ ''</button>'' @ nl @
         ''            <p>This link expires in 30 minutes.</p>'' @ nl @ ''        '')"

definition sendPasswordResetBody :: "string \<Rightarrow> string" where
  "sendPasswordResetBody token =
     (let url = base_url @ ''/auth/reset?token='' @ token
      in nl @ tab @ tab @ tab @ ''<h1>FFgif Password Reset</h1>'' @ nl @
         ''            <p>Click the link below to reset your password.</p>'' @ nl @
         tab @ tab @ tab @ ''<button>'' @ nl @
         ''            <a href='' @ [CHR 0x22] @ url @ [CHR 0x22] @ ''>reset password</a>'' @ nl @
         tab @ tab @ tab @ ''</button>'' @ nl @
         ''            <p>This link expires in 15 minutes.</p>'' @ nl @ ''        '')"

definition sendShareBody :: "string \<Rightarrow> string" where
  "sendShareBody token =
     (let url = base_url @ ''/s/'' @ token
      in nl @ tab @ tab @ tab @ ''<h1>FFgif Gif Share</h1>'' @ nl @
         ''            <p>Click the link below to download the shared GIF.</p>'' @ nl @
         tab @ tab @ tab @ ''<button>'' @ nl @
         ''            <a href='' @ [CHR 0x22] @ url @ [CHR 0x22] @ ''>GIF</a>'' @ nl @
         tab @ tab @ tab @ ''</button>'' @ nl @ ''        '')"

definition DialAndSend :: "env \<Rightarrow> string \<Rightarrow> string \<Rightarrow> string \<Rightarrow> unit io" where
  "DialAndSend E email subject body =
     ext_call E (\<lambda>w. (Inr (), w\<lparr>mails := mails w @ [(email, subject, body)]\<rparr>))"

definition SendVerificationToken :: "env \<Rightarrow> string \<Rightarrow> string \<Rightarrow> unit io" where
  "SendVerificationToken E email token =
     DialAndSend E email ''Verify your account'' (verifyAccountBody token)"

definition SendResetPassword :: "env \<Rightarrow> string \<Rightarrow> string \<Rightarrow> unit io" where
  "SendResetPassword E email token =
     DialAndSend E email ''Reset Password'' (sendPasswordResetBody token)"

definition SendResetNotification :: "env \<Rightarrow> string \<Rightarrow> unit io" where
  "SendResetNotification E email =
     DialAndSend E email ''Reset Password'' ''<h1>Alert, your password has been reset</h1>''"

definition SendShareNotification :: "env \<Rightarrow> string \<Rightarrow> string \<Rightarrow> unit io" where
  "SendShareNotification E email token = DialAndSend E email ''Share gif'' (sendShareBody token)"

lemma keeps_mailer [keeps_intros]:
  "keeps (\<lambda>w. P (db w)) (SendVerificationToken E em t)"
  "keeps (\<lambda>w. P (db w)) (SendResetPassword E em t)"
  "keeps (\<lambda>w. P (db w)) (SendResetNotification E em)"
  "keeps (\<lambda>w. P (db w)) (SendShareNotification E em t)"
  unfolding SendVerificationToken_def SendResetPassword_def SendResetNotification_def
    SendShareNotification_def DialAndSend_def
  by (rule keeps_ext_call; simp)+

end
