(* ===== verification/Request.thy ===== *)
theory Request
  imports World "HOL-Library.Log_Nat"
begin

text \<open>
  How a request's body becomes the fields of a struct: \<open>encoding/json\<close> for the types the handlers
  decode (strings, integers, \<open>float32\<close>, booleans, pointers to them, times), and what the
  documentation of the validator says of the rules in the \<open>validate\<close> tags.
\<close>

section \<open>Numbers\<close>

definition pow2 :: "int \<Rightarrow> rat" where
  "pow2 k = (if 0 \<le> k then 2 ^ nat k else 1 / 2 ^ nat (- k))"

text \<open>\<open>k\<close> with \<open>2^k \<le> x < 2^(k+1)\<close>, for a positive \<open>x\<close>.\<close>

definition floor_log2 :: "rat \<Rightarrow> int" where
  "floor_log2 x =
     (let (n, d) = quotient_of x;
          k = bitlen n - bitlen d
      in if pow2 k \<le> x then k else k - 1)"

definition round_half_even :: "rat \<Rightarrow> int" where
  "round_half_even y =
     (let f = \<lfloor>y\<rfloor>; r = y - of_int f
      in if r < 1 / 2 then f else if 1 / 2 < r then f + 1 else if even f then f else f + 1)"

text \<open>
  \<open>strconv.ParseFloat(s, 32)\<close>: the nearest number with 24 significant bits and an exponent of at
  least -149, \<open>None\<close> when it is out of range.
\<close>

definition float32_of_pos :: "rat \<Rightarrow> rat option" where
  "float32_of_pos x =
     (let ulp = pow2 (max (floor_log2 x) (- 126) - 23);
          y = of_int (round_half_even (x / ulp)) * ulp
      in if 2 ^ 128 \<le> y then None else Some y)"

definition float32_of :: "rat \<Rightarrow> rat option" where
  "float32_of x =
     (if x = 0 then Some 0
      else if 0 < x then float32_of_pos x
      else map_option uminus (float32_of_pos (- x)))"

lemma pow2_pos [simp]: "0 < pow2 k"
  by (simp add: pow2_def)

lemma round_half_even_nonneg: "0 \<le> y \<Longrightarrow> 0 \<le> round_half_even y"
  by (simp add: round_half_even_def Let_def)

lemma round_half_even_near: "\<bar>of_int (round_half_even y) - y\<bar> \<le> 1 / 2"
proof -
  have "of_int \<lfloor>y\<rfloor> \<le> y" "y < of_int \<lfloor>y\<rfloor> + 1" by linarith+
  then show ?thesis by (auto simp: round_half_even_def Let_def abs_le_iff)
qed

text \<open>Rounding keeps the order, so that an interval may collapse but never turns over.\<close>

lemma round_half_even_mono:
  assumes "x \<le> y"
  shows "round_half_even x \<le> round_half_even y"
proof (rule ccontr)
  let ?a = "round_half_even x" and ?b = "round_half_even y"
  assume "\<not> ?a \<le> ?b"
  then have "?b + 1 \<le> ?a" by simp
  then have ab: "(of_int ?b + 1 :: rat) \<le> of_int ?a" by (metis of_int_1 of_int_add of_int_le_iff)
  have near: "of_int ?a \<le> x + 1 / 2" "y - 1 / 2 \<le> of_int ?b"
    using round_half_even_near [of x, THEN abs_le_D1] round_half_even_near [of y, THEN abs_le_D2] by linarith+
  have "x = y" using ab near assms by linarith
  then show False using \<open>\<not> ?a \<le> ?b\<close> by simp
qed

section \<open>encoding/json\<close>

text \<open>
  Keys are matched to the fields' tags without regard to (ASCII) case; a key that occurs twice
  sets its field twice, unknown keys are skipped, \<open>null\<close> leaves a field alone. A value of the
  wrong type makes \<open>Decode\<close> fail.
\<close>

definition to_lower :: "char \<Rightarrow> char" where
  "to_lower c = (let n = (of_char c :: nat) in if 65 \<le> n \<and> n \<le> 90 then char_of (n + 32) else c)"

definition same_key :: "string \<Rightarrow> string \<Rightarrow> bool" where
  "same_key a b \<longleftrightarrow> map to_lower a = map to_lower b"

type_synonym 's fields = "(string \<times> (json \<Rightarrow> 's \<Rightarrow> 's option)) list"

fun decode_fields :: "'s fields \<Rightarrow> (string \<times> json) list \<Rightarrow> 's \<Rightarrow> 's option" where
  "decode_fields fs [] s = Some s"
| "decode_fields fs ((k, v) # kvs) s =
     (case List.find (\<lambda>f. same_key (fst f) k) fs of
        None \<Rightarrow> decode_fields fs kvs s
      | Some (_, set_field) \<Rightarrow>
          (case set_field v s of None \<Rightarrow> None | Some s' \<Rightarrow> decode_fields fs kvs s'))"

definition decode_struct :: "'s fields \<Rightarrow> json \<Rightarrow> 's \<Rightarrow> 's option" where
  "decode_struct fs v s =
     (case v of
        JObj kvs \<Rightarrow> decode_fields fs kvs s
      | JNull \<Rightarrow> Some s
      | _ \<Rightarrow> None)"

definition into_string :: "(string \<Rightarrow> 's \<Rightarrow> 's) \<Rightarrow> json \<Rightarrow> 's \<Rightarrow> 's option" where
  "into_string put v s = (case v of JStr x \<Rightarrow> Some (put x s) | JNull \<Rightarrow> Some s | _ \<Rightarrow> None)"

definition into_bool :: "(bool \<Rightarrow> 's \<Rightarrow> 's) \<Rightarrow> json \<Rightarrow> 's \<Rightarrow> 's option" where
  "into_bool put v s = (case v of JBool b \<Rightarrow> Some (put b s) | JNull \<Rightarrow> Some s | _ \<Rightarrow> None)"

definition into_int :: "(int \<Rightarrow> 's \<Rightarrow> 's) \<Rightarrow> json \<Rightarrow> 's \<Rightarrow> 's option" where
  "into_int put v s =
     (case v of
        JNum n \<Rightarrow> if - (2 ^ 63) \<le> n \<and> n < 2 ^ 63 then Some (put n s) else None
      | JNull \<Rightarrow> Some s
      | _ \<Rightarrow> None)"

definition into_float32 :: "(rat \<Rightarrow> 's \<Rightarrow> 's) \<Rightarrow> json \<Rightarrow> 's \<Rightarrow> 's option" where
  "into_float32 put v s =
     (case v of
        JNum n \<Rightarrow> map_option (\<lambda>x. put x s) (float32_of (of_int n))
      | JRat r \<Rightarrow> map_option (\<lambda>x. put x s) (float32_of r)
      | JNull \<Rightarrow> Some s
      | _ \<Rightarrow> None)"

definition into_time :: "env \<Rightarrow> (timestamp \<Rightarrow> 's \<Rightarrow> 's) \<Rightarrow> json \<Rightarrow> 's \<Rightarrow> 's option" where
  "into_time E put v s =
     (case v of
        JStr x \<Rightarrow> map_option (\<lambda>t. put t s) (time_UnmarshalJSON E x)
      | JNull \<Rightarrow> Some s
      | _ \<Rightarrow> None)"

text \<open>A pointer is set to a new value, or to \<open>nil\<close> by \<open>null\<close>.\<close>

definition into_string_ptr :: "(string option \<Rightarrow> 's \<Rightarrow> 's) \<Rightarrow> json \<Rightarrow> 's \<Rightarrow> 's option" where
  "into_string_ptr put v s =
     (case v of JStr x \<Rightarrow> Some (put (Some x) s) | JNull \<Rightarrow> Some (put None s) | _ \<Rightarrow> None)"

definition into_bool_ptr :: "(bool option \<Rightarrow> 's \<Rightarrow> 's) \<Rightarrow> json \<Rightarrow> 's \<Rightarrow> 's option" where
  "into_bool_ptr put v s =
     (case v of JBool b \<Rightarrow> Some (put (Some b) s) | JNull \<Rightarrow> Some (put None s) | _ \<Rightarrow> None)"

text \<open>The zero \<open>time.Time\<close>, midnight of 1 January of the year 1.\<close>

definition time_zero :: timestamp where
  "time_zero = - 62135596800000"

section \<open>The validator's documented rules\<close>

text \<open>
  Lengths are counted in runes. Of the pattern rules (\<open>email\<close>, \<open>alphanum\<close>, \<open>uuid4\<close>) nothing is relied on.
\<close>

fun rule_holds :: "struct_fields \<Rightarrow> field_value \<Rightarrow> vrule \<Rightarrow> bool" where
  "rule_holds fs (FStr s) VRequired = (s \<noteq> [])"
| "rule_holds fs (FInt n) VRequired = (n \<noteq> 0)"
| "rule_holds fs (FFloat x) VRequired = (x \<noteq> 0)"
| "rule_holds fs (FBool b) VRequired = b"
| "rule_holds fs (FTime t) VRequired = (t \<noteq> time_zero)"
| "rule_holds fs (FStr s) (VMin n) = (n \<le> rune_count s)"
| "rule_holds fs (FStr s) (VMax n) = (rune_count s \<le> n)"
| "rule_holds fs (FStr s) (VContainsAny cs) = list_ex (\<lambda>c. c \<in> set cs) s"
| "rule_holds fs v (VEqField f) =
     (case List.find (\<lambda>g. fst g = f) fs of None \<Rightarrow> False | Some (_, v', _) \<Rightarrow> v = v')"
| "rule_holds fs (FInt n) (VGte r) = (r \<le> of_int n)"
| "rule_holds fs (FInt n) (VLte r) = (of_int n \<le> r)"
| "rule_holds fs (FInt n) (VGt r) = (r < of_int n)"
| "rule_holds fs (FFloat x) (VGte r) = (r \<le> x)"
| "rule_holds fs (FFloat x) (VLte r) = (x \<le> r)"
| "rule_holds fs (FFloat x) (VGt r) = (r < x)"
| "rule_holds fs v rule = True"

definition rules_hold :: "struct_fields \<Rightarrow> bool" where
  "rules_hold fs = list_all (\<lambda>(name, v, rules). list_all (rule_holds fs v) rules) fs"

definition validator_sound :: "env \<Rightarrow> bool" where
  "validator_sound E \<longleftrightarrow> (\<forall>fs. validate_Struct E fs \<longrightarrow> rules_hold fs)"

lemma validatorD:
  "validator_sound E \<Longrightarrow> validate_Struct E fs \<Longrightarrow> (n, v, rs) \<in> set fs \<Longrightarrow> r \<in> set rs \<Longrightarrow> rule_holds fs v r"
  unfolding validator_sound_def rules_hold_def list_all_iff by fastforce

end
