(* ===== verification/Ffmpeg.thy ===== *)
theory Ffmpeg
  imports Storage Request
begin

text \<open>
  \<open>internal/infra/ffmpeg\<close>: the command lines of \<open>ffmpeg.go\<close> and \<open>ffprobe.go\<close> and the two
  pipelines of \<open>processor_repo.go\<close>, with \<open>FFprobeOutput.IsValid\<close> of \<open>internal/port/processor\<close>. A
  command is its argument list; whether it succeeds is a parameter. Of the temporary
  files there are only the paths here; what happens to them is in \<open>Temp_Files\<close>.
\<close>

section \<open>fmt and path/filepath\<close>

text \<open>\<open>%.2f\<close>: two decimals, rounded half to even.\<close>

definition show_2f :: "rat \<Rightarrow> string" where
  "show_2f x =
     (let c = nat (round_half_even (\<bar>x\<bar> * 100))
      in (if x < 0 then ''-'' else []) @ show_nat (c div 100) @ ''.'' @
         [char_of (48 + c mod 100 div 10), char_of (48 + c mod 10)])"

text \<open>
  \<open>filepath.Join(dir, name)\<close> for an absolute \<open>dir\<close>: the elements of both, \<open>.\<close> and empty ones
  dropped, \<open>..\<close> cancelling the element before it and ignored at the root.
\<close>

definition split_slash :: "string \<Rightarrow> string list" where
  "split_slash s =
     foldr (\<lambda>c acc. if c = CHR ''/'' then [] # acc
                    else case acc of [] \<Rightarrow> [[c]] | x # xs \<Rightarrow> (c # x) # xs) s [[]]"

fun clean_elems :: "string list \<Rightarrow> string list \<Rightarrow> string list" where
  "clean_elems st [] = rev st"
| "clean_elems st (e # es) =
     (if e = [] \<or> e = ''.'' then clean_elems st es
      else if e = ''..'' then clean_elems (tl st) es
      else clean_elems (e # st) es)"

definition filepath_Join :: "string \<Rightarrow> string \<Rightarrow> string" where
  "filepath_Join dir name =
     (case clean_elems [] (split_slash dir @ split_slash name) of
        [] \<Rightarrow> ''/''
      | es \<Rightarrow> concat (map (\<lambda>e. CHR ''/'' # e) es))"

section \<open>ffmpeg.go and ffprobe.go\<close>

definition run_exec :: "env \<Rightarrow> string list \<Rightarrow> unit io" where
  "run_exec E args =
     ext_call E (\<lambda>w. (if run_cmd E (calls w) args then Inr () else Inl (Driver ''exit status 1''), w))"

record palette_filter =
  pf_Start :: rat
  pf_Duration :: rat
  pf_InputPath :: string
  pf_Filter :: string
  pf_Path :: string

record gif_filter =
  gf_Start :: rat
  gf_Duration :: rat
  gf_InputPath :: string
  gf_PalettePath :: string
  gf_Loop :: string
  gf_Filter :: string
  gf_Path :: string

definition newPaletteExec :: "palette_filter \<Rightarrow> string list" where
  "newPaletteExec f =
     [''ffmpeg'', ''-ss'', show_2f (pf_Start f), ''-t'', show_2f (pf_Duration f),
      ''-i'', pf_InputPath f, ''-vf'', pf_Filter f, ''-update'', ''1'', ''-frames:v'', ''1'', ''-y'',
      pf_Path f]"

definition newGifExec :: "gif_filter \<Rightarrow> string list" where
  "newGifExec f =
     [''ffmpeg'', ''-ss'', show_2f (gf_Start f), ''-t'', show_2f (gf_Duration f),
      ''-i'', gf_InputPath f, ''-i'', gf_PalettePath f, ''-filter_complex'', gf_Filter f,
      ''-loop'', gf_Loop f, ''-y'', gf_Path f]"

text \<open>A converter is its two commands, \<open>None\<close> for a nil pointer.\<close>

record gif_converter =
  gc_pCmd :: "string list option"
  gc_gCmd :: "string list option"

definition NewGifConverter ::
  "string \<Rightarrow> string \<Rightarrow> string \<Rightarrow> int \<Rightarrow> int \<Rightarrow> rat \<Rightarrow> rat \<Rightarrow> string \<Rightarrow> gif_converter" where
  "NewGifConverter inputPath outputPath palettePath Width FPS Start End Loop =
     (let scale = ''fps='' @ show_int FPS @ '',scale='' @ show_int Width @ '':-1:flags=lanczos'';
          paletteFilter = scale @ '',format=rgb24,palettegen=stats_mode=full'';
          gifFilter = scale @ ''[x];[x][1:v]paletteuse=dither=sierra2_4a''
      in \<lparr>gc_pCmd = Some (newPaletteExec \<lparr>pf_Start = Start, pf_Duration = End - Start,
             pf_InputPath = inputPath, pf_Filter = paletteFilter, pf_Path = palettePath\<rparr>),
          gc_gCmd = Some (newGifExec \<lparr>gf_Start = Start, gf_Duration = End - Start,
             gf_InputPath = inputPath, gf_PalettePath = palettePath, gf_Loop = Loop,
             gf_Filter = gifFilter, gf_Path = outputPath\<rparr>)\<rparr>)"

definition GifConverter_Run :: "env \<Rightarrow> gif_converter \<Rightarrow> unit io" where
  "GifConverter_Run E f =
     (case (gc_pCmd f, gc_gCmd f) of
        (Some p, Some g) \<Rightarrow>
          call (run_exec E p) (\<lambda>e. fail (Wrapf ''palette generation failed'' [e])) (\<lambda>_.
          call (run_exec E g) (\<lambda>e. fail (Wrapf ''gif conversion failed'' [e])) ret)
      | _ \<Rightarrow> fail (FfmpegE NilPointerErr))"

definition newMp4ConverterExec :: "string \<Rightarrow> string \<Rightarrow> string \<Rightarrow> string list" where
  "newMp4ConverterExec inputPath outputPath CodecName =
     (if CodecName = ''h264'' then
        [''ffmpeg'', ''-i'', inputPath, ''-c:v'', ''copy'', ''-an'', ''-movflags'', ''+faststart'',
         ''-y'', outputPath]
      else
        [''ffmpeg'', ''-i'', inputPath, ''-c:v'', ''libx264'', ''-preset'', ''medium'', ''-crf'', ''23'',
         ''-an'', ''-movflags'', ''+faststart'', ''-y'', outputPath])"

definition newThumbGeneratorExec :: "rat \<Rightarrow> string \<Rightarrow> string \<Rightarrow> string list" where
  "newThumbGeneratorExec startAt inputPath outputPath =
     [''ffmpeg'', ''-ss'', show_2f startAt, ''-i'', inputPath, ''-vframes'', ''1'', ''-q:v'', ''2'',
      ''-update'', ''1'', ''-vf'', ''format=yuvj420p'', outputPath]"

text \<open>\<open>Mp4Converter.Run\<close> and \<open>ThumbGenerator.Run\<close> have the same body.\<close>

definition single_Run :: "env \<Rightarrow> string list option \<Rightarrow> unit io" where
  "single_Run E cmd =
     (case cmd of
        None \<Rightarrow> fail (FfmpegE NilPointerErr)
      | Some c \<Rightarrow> call (run_exec E c) (\<lambda>e. fail (Wrapf ''ffmpeg mp4 converter run failed'' [e])) ret)"

definition newProbeExex :: "string \<Rightarrow> string list" where
  "newProbeExex input =
     [''ffprobe'', ''-v'', ''quiet'', ''-print_format'', ''json'', ''-show_format'', ''-show_streams'',
      ''-select_streams'', ''v:0'', input]"

text \<open>The probe's exit status and the decoding of its output are one reply of the environment.\<close>

definition ProbeExtractor_Run :: "env \<Rightarrow> string list option \<Rightarrow> ffprobe_output io" where
  "ProbeExtractor_Run E cmd =
     (case cmd of
        None \<Rightarrow> fail (FfmpegE NilPointerErr)
      | Some c \<Rightarrow> call (ext_call E (\<lambda>w. (probe_cmd E (calls w) c, w)))
                   (\<lambda>e. fail (Wrapf ''ffprobe run failed'' [e])) ret)"

section \<open>port/processor/entity.go\<close>

definition IsValid :: "ffprobe_output \<Rightarrow> bool result" where
  "IsValid f =
     (if ff_ProbeScore (fo_Format f) < 50 then Inr False
      else case ParseInt 32 (ff_Size (fo_Format f)) of
        None \<Rightarrow> Inr False
      | Some sz \<Rightarrow>
          if sz > 500 * 1024 * 1024 then Inr False
          else case fo_Stream f of
            [] \<Rightarrow> Inl (Panic ''index out of range [0] with length 0'')
          | s # _ \<Rightarrow> if fs_CodecType s \<noteq> ''video'' then Inr False else Inr True)"

section \<open>processor_repo.go\<close>

definition ffmpeg_Process ::
  "env \<Rightarrow> string \<Rightarrow> string \<Rightarrow> rat \<Rightarrow> rat \<Rightarrow> int \<Rightarrow> int \<Rightarrow> bool \<Rightarrow> job_result io" where
  "ffmpeg_Process E JobId Key Start End Width0 FPS0 Loop =
     (let inputPath = filepath_Join (os_TempDir E) (''input_'' @ Key @ ''.mp4'');
          outputPath = filepath_Join (os_TempDir E) (Key @ ''_output.gif'');
          palettePath = filepath_Join (os_TempDir E) (Key @ ''_palette.png'');
          thumpOutputPath = filepath_Join (os_TempDir E) (''thumb_'' @ Key @ ''.jpg'');
          FPS = (if FPS0 = 0 then 10 else FPS0);
          Width = (if Width0 = 0 then 480 else Width0);
          lp = (if Loop then ''0'' else ''-1'')
      in
        call (DownloadLocal E Key inputPath) (\<lambda>e. fail (Wrapf ''download failed'' [e])) (\<lambda>_.
        call (GifConverter_Run E (NewGifConverter inputPath outputPath palettePath Width FPS Start End lp))
          (\<lambda>e. fail (Wrapf ''gif conversion failed'' [e])) (\<lambda>_.
        call (single_Run E (Some (newThumbGeneratorExec (Start + 1) inputPath thumpOutputPath)))
          (\<lambda>e. fail (Wrapf ''ffmpeg failed to generate thumbnail from video'' [e])) (\<lambda>_.
        with_uuid_drawn E (\<lambda>i1.
        call (storage_Upload E (i1 @ ''_output.gif'') outputPath ''image/gif'')
          (\<lambda>e. fail (Wrapf ''gif upload failed'' [e])) (\<lambda>_.
        with_uuid_drawn E (\<lambda>i2.
        call (storage_Upload E (''thumpnail_'' @ i2 @ ''.jpg'') thumpOutputPath ''image/jpg'')
          (\<lambda>e. fail (Wrapf ''thumbnail upload failed'' [e])) (\<lambda>_.
        ret \<lparr>jr_GifKey = i1 @ ''_output.gif'', jr_ThumbKey = ''thumpnail_'' @ i2 @ ''.jpg''\<rparr>))))))))"

definition PreProcess :: "env \<Rightarrow> string \<Rightarrow> preprocessed_result io" where
  "PreProcess E key =
     (let inputPath = filepath_Join (os_TempDir E) (''raw_video_'' @ key);
          outputPath = filepath_Join (os_TempDir E) (''converted_'' @ key @ ''.mp4'');
          thumpOutputPath = filepath_Join (os_TempDir E) (''thumb_'' @ key @ ''.jpg'')
      in
        call (DownloadLocalRawVideo E key inputPath) (\<lambda>e. fail (Wrapf ''download failed'' [e])) (\<lambda>_.
        call (ProbeExtractor_Run E (Some (newProbeExex inputPath))) fail (\<lambda>result.
        call (pure_call (\<lambda>_. IsValid result)) fail (\<lambda>ok.
        if \<not> ok then fail (Msg ''Invalid file'')
        else
        call (single_Run E (Some (newMp4ConverterExec inputPath outputPath
                                    (fs_CodecName (hd (fo_Stream result))))))
          (\<lambda>e. fail (Wrapf ''ffmpeg failed to convert raw video to mp4'' [e])) (\<lambda>_.
        call (single_Run E (Some (newThumbGeneratorExec 1 outputPath thumpOutputPath)))
          (\<lambda>e. fail (Wrapf ''ffmpeg failed to generate thumbnail from raw video'' [e])) (\<lambda>_.
        with_uuid_drawn E (\<lambda>i1.
        call (storage_Upload E (''converted_'' @ i1 @ ''.mp4'') outputPath ''video/mp4'')
          (\<lambda>e. fail (Wrapf ''converted video upload failed'' [e])) (\<lambda>_.
        with_uuid_drawn E (\<lambda>i2.
        call (storage_Upload E (''thumpnail_'' @ i2 @ ''.jpg'') thumpOutputPath ''image/jpg'')
          (\<lambda>e. fail (Wrapf ''thumbnail upload failed'' [e])) (\<lambda>_.
        call (ProbeExtractor_Run E (Some (newProbeExex outputPath))) fail (\<lambda>result2.
        call (pure_call (\<lambda>_. IsValid result2)) fail (\<lambda>ok2.
        if \<not> ok2 then fail (Msg ''Invalid file'')
        else
        ret \<lparr>pp_VideoKey = ''converted_'' @ i1 @ ''.mp4'', pp_ThumbnailKey = ''thumpnail_'' @ i2 @ ''.jpg'',
             pp_Size = ff_Size (fo_Format result2), pp_Duration = ff_Duration (fo_Format result2),
             pp_ContentType = ''video/mp4''\<rparr>))))))))))))"

section \<open>What the pipelines leave unchanged\<close>

lemma keeps_commands [keeps_intros]:
  "keeps (\<lambda>w. P (db w)) (run_exec E args)"
  unfolding run_exec_def by (rule keeps_ext_call) simp

lemma keeps_converters [keeps_intros]:
  "keeps (\<lambda>w. P (db w)) (GifConverter_Run E gc)" "keeps (\<lambda>w. P (db w)) (single_Run E c)"
  unfolding GifConverter_Run_def single_Run_def
  by (auto split: option.split intro!: keeps_intros)

lemma keeps_probe [keeps_intros]: "keeps (\<lambda>w. P (db w)) (ProbeExtractor_Run E c)"
  unfolding ProbeExtractor_Run_def by (intro keeps_intros keeps_ext_call) simp

lemma keeps_pipelines [keeps_intros]:
  "keeps (\<lambda>w. P (db w)) (ffmpeg_Process E j k s e wd fps l)"
  "keeps (\<lambda>w. P (db w)) (PreProcess E k)"
  unfolding ffmpeg_Process_def PreProcess_def Let_def by (intro keeps_intros)+

end
