(* ===== verification/Frames.thy ===== *)
theory Frames
  imports Storage Mailer Ffmpeg
begin

text \<open>
  What the repositories and the other services leave alone, as further rules of \<open>keeps_intros\<close>:
  a statement or a transaction touches nothing outside the tables, only the cache writes the
  cache, only the publisher publishes. A property of the cache, or of what was published, then
  passes through a whole service with the same one-line proof as the tables' invariant.
\<close>

section \<open>Outside the tables\<close>

definition outside ::
  "world \<Rightarrow> timestamp \<times> (string \<Rightarrow> (string \<times> timestamp option) option) \<times> (string \<times> payload) list" where
  "outside w = (now w, cache_keys w, published w)"

lemma outside_upd [simp]:
  "outside (w\<lparr>db := a\<rparr>) = outside w" "outside (w\<lparr>tx := b\<rparr>) = outside w"
  "outside (w\<lparr>calls := c\<rparr>) = outside w" "outside (w\<lparr>draws := d\<rparr>) = outside w"
  "outside (w\<lparr>serial := e\<rparr>) = outside w" "outside (w\<lparr>objects := f\<rparr>) = outside w"
  "outside (w\<lparr>mails := g\<rparr>) = outside w" "outside (w\<lparr>buckets := h\<rparr>) = outside w"
  "outside (tick w) = outside w"
  by (simp_all add: outside_def)

lemma outside_db_exec [simp]: "outside (snd (db_exec E stmt w)) = outside w"
  by (simp add: outside_def frame)

lemma outside_tx_run:
  assumes "keeps (\<lambda>w. Q (outside w)) fn"
  shows "keeps (\<lambda>w. Q (outside w)) (tx_run E fn)"
proof (rule keepsI)
  fix w :: world assume q: "Q (outside w)"
  have "Q (outside (snd (fn ((tick w)\<lparr>tx := TxOpen\<rparr>))))"
    by (rule keepsD [OF assms]) (simp add: q)
  then show "Q (outside (snd (tx_run E fn w)))"
    using q by (auto simp: tx_run_def split: fault.splits sum.splits prod.splits)
qed

lemma outside_tx [keeps_intros]:
  assumes "keeps (\<lambda>w. Q (outside w)) fn"
  shows "keeps (\<lambda>w. Q (outside w)) (tx_With E fn)" "keeps (\<lambda>w. Q (outside w)) (tx_WithRC E fn)"
  using outside_tx_run [OF assms, of E] by (simp_all add: keeps_def tx_With_def tx_WithRC_def)

lemma outside_auth_repo [keeps_intros]:
  "keeps (\<lambda>w. Q (outside w)) (GetByEmail E em)" "keeps (\<lambda>w. Q (outside w)) (GetById E i)"
  "keeps (\<lambda>w. Q (outside w)) (auth_Create E u)" "keeps (\<lambda>w. Q (outside w)) (DeleteById E i)"
  "keeps (\<lambda>w. Q (outside w)) (UpdatePassword E i h)" "keeps (\<lambda>w. Q (outside w)) (SetVerified E i)"
  "keeps (\<lambda>w. Q (outside w)) (verifier_Create E i h)"
  "keeps (\<lambda>w. Q (outside w)) (verifier_GetByHash E h)"
  "keeps (\<lambda>w. Q (outside w)) (verifier_GetById E i)"
  "keeps (\<lambda>w. Q (outside w)) (verifier_Delete E n)"
  "keeps (\<lambda>w. Q (outside w)) (reseter_GetById E i)"
  "keeps (\<lambda>w. Q (outside w)) (reseter_Create E i h)"
  "keeps (\<lambda>w. Q (outside w)) (reseter_GetByToken E h)"
  "keeps (\<lambda>w. Q (outside w)) (reseter_DeleteById E n)"
  by (simp_all add: keeps_def auth_repo_defs draw_uuid_def next_serial_def)

lemma outside_user_repo [keeps_intros]:
  "keeps (\<lambda>w. Q (outside w)) (user_GetProfile E s b)"
  "keeps (\<lambda>w. Q (outside w)) (SetProfile E i p)"
  "keeps (\<lambda>w. Q (outside w)) (user_UpdateProfile E req s)"
  "keeps (\<lambda>w. Q (outside w)) (user_ChangePassword E s h)"
  "keeps (\<lambda>w. Q (outside w)) (quota_Create E i)" "keeps (\<lambda>w. Q (outside w)) (quota_GetById E s)"
  "keeps (\<lambda>w. Q (outside w)) (IncrementUsage E s m n)"
  by (simp_all add: keeps_def user_repo_defs next_serial_def)

lemma outside_social_repo [keeps_intros]:
  "keeps (\<lambda>w. Q (outside w)) (friend_Create E s t)" "keeps (\<lambda>w. Q (outside w)) (friend_Exists E s t)"
  "keeps (\<lambda>w. Q (outside w)) (friend_UpdateStatus E s st t)"
  "keeps (\<lambda>w. Q (outside w)) (friend_Delete E s t)"
  "keeps (\<lambda>w. Q (outside w)) (friend_ListFriends E s)"
  "keeps (\<lambda>w. Q (outside w)) (friend_ListPendingIncoming E s)"
  "keeps (\<lambda>w. Q (outside w)) (share_repo_Create E sh)"
  "keeps (\<lambda>w. Q (outside w)) (share_repo_CreateByToken E sht)"
  "keeps (\<lambda>w. Q (outside w)) (share_repo_Get E s)"
  "keeps (\<lambda>w. Q (outside w)) (share_repo_GetByToken E t)"
  "keeps (\<lambda>w. Q (outside w)) (share_repo_Delete E key s)"
  "keeps (\<lambda>w. Q (outside w)) (share_repo_GetOwner E s key)"
  by (simp_all add: keeps_def friend_Create_def friend_Exists_def friend_UpdateStatus_def
      friend_Delete_def friend_ListFriends_def friend_ListPendingIncoming_def share_repo_Create_def
      share_repo_CreateByToken_def share_repo_Get_def share_repo_GetByToken_def
      share_repo_Delete_def share_repo_GetOwner_def draw_uuid_def)

lemma outside_media_repo [keeps_intros]:
  "keeps (\<lambda>w. Q (outside w)) (gif_Create E g)" "keeps (\<lambda>w. Q (outside w)) (gif_Get E s st l ofs)"
  "keeps (\<lambda>w. Q (outside w)) (gif_GetOwner E key)" "keeps (\<lambda>w. Q (outside w)) (gif_GetByKey E key b)"
  "keeps (\<lambda>w. Q (outside w)) (gif_GetRecents E s)" "keeps (\<lambda>w. Q (outside w)) (gif_Delete E key)"
  "keeps (\<lambda>w. Q (outside w)) (gif_Update E key req)" "keeps (\<lambda>w. Q (outside w)) (gif_SaveRecent E key)"
  "keeps (\<lambda>w. Q (outside w)) (IncrementDownload E key)"
  "keeps (\<lambda>w. Q (outside w)) (GetLastVideo E s)" "keeps (\<lambda>w. Q (outside w)) (job_Create E j)"
  "keeps (\<lambda>w. Q (outside w)) (job_UpdateStatus E s st n r em)"
  "keeps (\<lambda>w. Q (outside w)) (job_GetByUserID E s l ofs)"
  by (simp_all add: keeps_def gif_Create_def gif_Get_def gif_GetOwner_def gif_GetByKey_def
      gif_GetRecents_def gif_Delete_def gif_Update_def gif_SaveRecent_def IncrementDownload_def
      GetLastVideo_def job_Create_def job_UpdateStatus_def job_GetByUserID_def)

lemma outside_composed [keeps_intros]:
  "keeps (\<lambda>w. Q (outside w)) (job_GetByID E s)" "keeps (\<lambda>w. Q (outside w)) (last_Create E l)"
proof -
  show "keeps (\<lambda>w. Q (outside w)) (job_GetByID E s)"
    unfolding job_GetByID_def by (intro keeps_intros) (simp add: keeps_def)
  have "outside (snd (call (db_exec E stmt) (\<lambda>e. fail (Wrapf p [e])) (\<lambda>_. ret ()) w)) = outside w"
    for stmt :: "world \<Rightarrow> (unit \<times> database) result" and p w
    using outside_db_exec [of E stmt w]
    by (cases "db_exec E stmt w") (auto simp: call_def fail_def ret_def split: sum.splits)
  then show "keeps (\<lambda>w. Q (outside w)) (last_Create E l)"
    by (simp only: keeps_def last_Create_def next_serial_def Let_def prod.case outside_upd simp_thms)
qed

lemma outside_draws [keeps_intros]:
  "keeps (\<lambda>w. Q (outside w)) (GenerateHash E p)"
  by (simp add: keeps_def GenerateHash_def Let_def split: option.split)

lemma outside_with_uuid_drawn [keeps_intros]:
  assumes "\<And>i. keeps (\<lambda>w. Q (outside w)) (k i)"
  shows "keeps (\<lambda>w. Q (outside w)) (with_uuid_drawn E k)"
  using assms by (simp add: keeps_def with_uuid_drawn_def draw_uuid_def)

lemma outside_ext_call:
  assumes "\<And>w. outside (snd (f w)) = outside w"
  shows "keeps (\<lambda>w. Q (outside w)) (ext_call E f)"
  by (rule ext_call_keeps) (simp_all add: keeps_def assms)

lemma outside_services [keeps_intros]:
  "keeps (\<lambda>w. Q (outside w)) (redis_Get E key)"
  "keeps (\<lambda>w. Q (outside w)) (storage_Create E key n)" "keeps (\<lambda>w. Q (outside w)) (storage_Download E key n)"
  "keeps (\<lambda>w. Q (outside w)) (GetStreamURL E key n)" "keeps (\<lambda>w. Q (outside w)) (GetThumbnailURL E key)"
  "keeps (\<lambda>w. Q (outside w)) (storage_Status E key)" "keeps (\<lambda>w. Q (outside w)) (storage_Delete E key)"
  "keeps (\<lambda>w. Q (outside w)) (DownloadLocalRawVideo E key p)" "keeps (\<lambda>w. Q (outside w)) (DownloadLocal E key p)"
  "keeps (\<lambda>w. Q (outside w)) (FPutObject E bucket key)" "keeps (\<lambda>w. Q (outside w)) (run_exec E args)"
  "keeps (\<lambda>w. Q (outside w)) (SendVerificationToken E em t)"
  "keeps (\<lambda>w. Q (outside w)) (SendResetPassword E em t)"
  "keeps (\<lambda>w. Q (outside w)) (SendResetNotification E em)"
  "keeps (\<lambda>w. Q (outside w)) (SendShareNotification E em t)"
  unfolding redis_Get_def storage_Create_def storage_Download_def GetStreamURL_def GetThumbnailURL_def
    presigned_def StatObject_def storage_Status_def storage_Delete_def FGetObject_def
    DownloadLocalRawVideo_def DownloadLocal_def FPutObject_def run_exec_def SendVerificationToken_def
    SendResetPassword_def SendResetNotification_def SendShareNotification_def DialAndSend_def
  by (rule outside_ext_call; simp)+

lemma outside_RunScript [keeps_intros]: "keeps (\<lambda>w. Q (outside w)) (RunScript E key c rt t)"
  unfolding RunScript_def by (rule outside_ext_call) (simp add: Let_def split: prod.split)

lemma outside_upload_attempts [keeps_intros]: "keeps (\<lambda>w. Q (outside w)) (upload_attempts E key n)"
proof (induction n)
  case 0
  show ?case by (simp add: keeps_ret)
next
  case (Suc n)
  show ?case unfolding upload_attempts.simps by (intro keeps_intros Suc.IH)
qed

lemma outside_media_tools [keeps_intros]:
  "keeps (\<lambda>w. Q (outside w)) (storage_Upload E key f c)"
  "keeps (\<lambda>w. Q (outside w)) (GifConverter_Run E gc)" "keeps (\<lambda>w. Q (outside w)) (single_Run E cm)"
  "keeps (\<lambda>w. Q (outside w)) (ProbeExtractor_Run E cm)"
  unfolding storage_Upload_def GifConverter_Run_def single_Run_def ProbeExtractor_Run_def
  by (auto split: option.split intro!: keeps_intros outside_ext_call)

lemma outside_pipelines [keeps_intros]:
  "keeps (\<lambda>w. Q (outside w)) (ffmpeg_Process E j k s e wd fps l)"
  "keeps (\<lambda>w. Q (outside w)) (PreProcess E k)"
  unfolding ffmpeg_Process_def PreProcess_def Let_def by (intro keeps_intros)+

section \<open>The cache and the queue\<close>

text \<open>A publication leaves time and cache alone; a store under one key leaves the others.\<close>

lemma cache_publish [keeps_intros]:
  "keeps (\<lambda>w. Q (fst (outside w)) (fst (snd (outside w)))) (rabbit_publish E q m)"
  "keeps (\<lambda>w. Q (fst (outside w)) (fst (snd (outside w)))) (PublishEmail E em)"
  "keeps (\<lambda>w. Q (fst (outside w)) (fst (snd (outside w)))) (PublishVideo E vm)"
  "keeps (\<lambda>w. Q (fst (outside w)) (fst (snd (outside w)))) (PublishSaveVideo E sm)"
  "keeps (\<lambda>w. Q (fst (outside w)) (fst (snd (outside w)))) (PublishRetrySaveVideo E sm)"
  unfolding PublishEmail_def PublishVideo_def PublishSaveVideo_def PublishRetrySaveVideo_def
  by (rule rabbit_publish_keeps; simp add: outside_def)+

lemma published_Set [keeps_intros]:
  "keeps (\<lambda>w. Q (snd (snd (outside w)))) (redis_Set E key val expire)"
  by (rule redis_Set_keeps) (simp_all add: outside_def)

end
