(* ===== verification/Sample.thy ===== *)
theory Sample
  imports Request
begin

text \<open>
  A concrete environment and an empty world, on which the hypotheses of the properties are shown
  to hold: no fault, identifiers of 36 characters that differ in the last, a reversible stand-in
  for bcrypt, a token library that honours expiry. The properties hold for every environment.
\<close>

definition sample_uuid :: "nat \<Rightarrow> uuid" where
  "sample_uuid n = replicate 35 (CHR ''0'') @ [char_of (48 + n mod 10)]"

definition sample_claims :: jwt_payload where
  "sample_claims = \<lparr>c_Fullname = ''Ann'', c_Email = ''ann@x'', c_Role = ''user'',
     c_Subject = sample_uuid 0, c_Issuer = ''ffgif'', c_IssuedAt = Some 0,
     c_ExpiresAt = Some 86400000\<rparr>"

definition sample_env :: env where
  "sample_env =
     \<lparr>fault = (\<lambda>_. NoFault), uuid_gen = sample_uuid, uuid_Parse = Some, pg_uuid_in = Some,
      sha256_Sum256 = (\<lambda>_. 0),
      bcrypt_Generate = (\<lambda>_ p _. Some (''h'' @ p)), bcrypt_Compare = (\<lambda>h p. h = ''h'' @ p),
      jwt_SignedString = (\<lambda>c key. Inr ''jwt''),
      jwt_ParseWithClaims = (\<lambda>t s kf. if t < 86400000 then Inr sample_claims else Inl JwtExpired),
      time_Format = (\<lambda>t. if t = 0 then ''epoch'' else ''later''),
      minio_Presign = (\<lambda>_ _ _ key _ _. Inr (''http://minio/'' @ key)),
      minio_Stat = (\<lambda>_ _ _. Inr \<lparr>i_Size = 10, i_ContentType = ''video/mp4'', i_UploadedAt = 0\<rparr>),
      minio_FGet = (\<lambda>_ _ _ _. True), os_TempDir = ''/tmp'', run_cmd = (\<lambda>_ _. True),
      probe_cmd = (\<lambda>_ _. Inr \<lparr>fo_Format = \<lparr>ff_Filename = [], ff_FormatName = [], ff_Duration = ''1'',
         ff_Size = ''1000'', ff_ProbeScore = 100\<rparr>, fo_Stream = [\<lparr>fs_CodecName = ''h264'',
         fs_CodecType = ''video'', fs_Width = 1, fs_Height = 1, fs_MimeCodecString = []\<rparr>]\<rparr>),
      cnf_JwtSecretKey = ''k'', cnf_Pepper = ''-pepper'', cnf_Cost = 10, cnf_MaxUploadBytes = 1000000,
      cnf_TempBucket = ''temp'', cnf_StorageBucket = ''store'', cnf_ExchangeQueue = ''upload'',
      cnf_AllowedOrigins = [''http://localhost''],
      validate_Struct = rules_hold, time_UnmarshalJSON = (\<lambda>s. ParseInt 64 s), sqlx_nil_slices = True,
      os_Stat = (\<lambda>p. if p = ''dist/index.html'' then Some False else None),
      fs_ServeHTTP = (\<lambda>p. (404, p)), fs_ServeFile = (\<lambda>_ p. (200, p))\<rparr>"

definition empty_db :: database where
  "empty_db = \<lparr>users = [], verifier = [], reseter = [], profiles = [], quota = [], gifs = [],
     last_uploads = [], shares = [], share_tokens = [], friendships = [], jobs = []\<rparr>"

definition world_of :: "timestamp \<Rightarrow> database \<Rightarrow> world" where
  "world_of t d = \<lparr>now = t, calls = 0, draws = 0, serial = 1, db = d, tx = NoTx,
     cache_keys = (\<lambda>_. None), buckets = (\<lambda>_. None), published = [], objects = [], mails = []\<rparr>"

lemmas sample_defs = sample_env_def sample_claims_def empty_db_def world_of_def

lemma sample_no_fault [simp]: "fault sample_env n = NoFault"
  by (simp add: sample_env_def)

lemma sample_no_faults [simp]: "no_faults sample_env"
  by (simp add: no_faults_def)

lemma sample_env_sel [simp]:
  "uuid_Parse sample_env = Some" "pg_uuid_in sample_env = Some" "uuid_gen sample_env = sample_uuid"
  "time_Format sample_env = (\<lambda>t. if t = 0 then ''epoch'' else ''later'')"
  "cnf_TempBucket sample_env = ''temp''" "cnf_StorageBucket sample_env = ''store''"
  "cnf_MaxUploadBytes sample_env = 1000000"
  by (simp_all add: sample_env_def)

lemma length_sample_uuid [simp]: "length (sample_uuid n) = 36"
  by (simp add: sample_uuid_def)

lemma world_of_sel [simp]:
  "now (world_of t d) = t" "db (world_of t d) = d" "tx (world_of t d) = NoTx"
  "calls (world_of t d) = 0" "draws (world_of t d) = 0" "serial (world_of t d) = 1"
  "cache_keys (world_of t d) = (\<lambda>_. None)" "published (world_of t d) = []"
  by (simp_all add: world_of_def)

text \<open>A run whose result is known, with the world it leads to.\<close>

lemma run_pair: "fst p = r \<Longrightarrow> p = (r, snd p)"
  by (cases p) simp

text \<open>A run that is known to give a value.\<close>

lemma run_Inr: "\<not> isl (fst p) \<Longrightarrow> \<exists>v w'. p = (Inr v, w')"
  by (cases p; cases "fst p") auto

end
