(* ===== verification/App_Auth.thy ===== *)
theory App_Auth
  imports Frames Sample
begin

text \<open>
  \<open>internal/app/auth\<close>: signing up, verifying an address, logging in and out, and the reset of a
  forgotten password. An \<open>if err\<close> of the code is the handler of a \<open>call\<close>; the type assertions on
  what a transaction returns always succeed and have no counterpart.
\<close>

section \<open>The services\<close>

text \<open>\<open>token.GenerateToken()\<close> in the middle of an operation.\<close>

definition with_token :: "env \<Rightarrow> (string \<Rightarrow> string \<Rightarrow> 'a io) \<Rightarrow> 'a io" where
  "with_token E k w = (let ((token, hash), w1) = GenerateToken E w in k token hash w1)"

definition publish_failed :: "goerr \<Rightarrow> goerr" where
  "publish_failed e = Wrapf ''queue.PublishEmail'' [AppE ErrMessageQueueFailed, e]"

definition new_user :: "string \<Rightarrow> string \<Rightarrow> string \<Rightarrow> string \<Rightarrow> auth_user" where
  "new_user email username fullname passHash =
     \<lparr>u_Id = ''00000000-0000-0000-0000-000000000000'', u_Username = username,
      u_Fullname = fullname, u_Email = email, u_PasswordHash = passHash, u_IsVerified = False,
      u_Role = ''user'', u_CreatedAt = 0, u_UpdatedAt = 0, u_DeletedAt = None\<rparr>"

definition signup_tx ::
  "env \<Rightarrow> string \<Rightarrow> string \<Rightarrow> string \<Rightarrow> string \<Rightarrow> (uuid \<times> email_message) io" where
  "signup_tx E email username fullname password =
     attempt (GetByEmail E email) (\<lambda>found. case found of
       Inr _ \<Rightarrow> fail (AuthE ErrUserExists)
     | Inl _ \<Rightarrow>
         call (GenerateHash E password)
           (\<lambda>e. fail (Wrapf ''hasher.GenerateHash'' [AppE ErrHashGenFailed, e])) (\<lambda>passHash.
         call (auth_Create E (new_user email username fullname passHash))
           (\<lambda>e. fail (Wrapf ''authRepo.Create'' [AuthE ErrUserCreateFailed, e])) (\<lambda>createdUser.
         with_token E (\<lambda>verifyToken verifyTokenHash.
         call (verifier_Create E (u_Id createdUser) verifyTokenHash)
           (\<lambda>e. fail (Wrapf ''verifierRepo.Create'' [VerifierE ErrVerifierTokenCreateFailed, e])) (\<lambda>_.
         call (SetProfile E (u_Id createdUser) [])
           (\<lambda>e. fail (Wrapf ''profileRepo.SetProfile'' [VerifierE ErrSetProfileFailed, e])) (\<lambda>_.
         call (quota_Create E (u_Id createdUser))
           (\<lambda>e. fail (Wrapf ''quotaRepo.Create'' [VerifierE ErrQuotaCreateFailed, e])) (\<lambda>_.
         ret (u_Id createdUser,
              \<lparr>em_To = email, em_Name = ''signup'', em_Token = verifyToken\<rparr>))))))))"

definition Signup :: "env \<Rightarrow> string \<Rightarrow> string \<Rightarrow> string \<Rightarrow> string \<Rightarrow> uuid io" where
  "Signup E email username fullname password =
     call (tx_With E (signup_tx E email username fullname password)) fail (\<lambda>txRes.
     call (PublishEmail E (snd txRes)) (\<lambda>e. fail (publish_failed e)) (\<lambda>_.
     ret (fst txRes)))"

definition Login :: "env \<Rightarrow> string \<Rightarrow> string \<Rightarrow> (string \<times> uuid) io" where
  "Login E email password =
     call (GetByEmail E email) (\<lambda>_. fail (AuthE ErrInvalidCredential)) (\<lambda>found.
     if \<not> u_IsVerified found then fail (AuthE ErrUserNotVerified)
     else if \<not> CompareHashAndPassword E (u_PasswordHash found) password
     then fail (AuthE ErrInvalidCredential)
     else call (pure_call (jwt_Create E (u_Fullname found) (u_Id found) (u_Email found) (u_Role found)))
       fail (\<lambda>token. ret (token, u_Id found)))"

text \<open>The claims' expiry is a pointer; a token without one panics here.\<close>

definition blocklist_key :: "string \<Rightarrow> string" where
  "blocklist_key jwt = ''token_blocklist:'' @ jwt"

definition Logout :: "env \<Rightarrow> string \<Rightarrow> jwt_payload \<Rightarrow> unit io" where
  "Logout E jwt claims =
     (case c_ExpiresAt claims of
        None \<Rightarrow> fail (Panic ''nil pointer dereference'')
      | Some t \<Rightarrow> at_now (\<lambda>n.
          if t - n \<le> 0 then ret ()
          else call (redis_Set E (blocklist_key jwt) ''1'' (t - n)) fail (\<lambda>_. ret ())))"

definition ForgotPassword :: "env \<Rightarrow> string \<Rightarrow> unit io" where
  "ForgotPassword E email =
     call (GetByEmail E email)
       (\<lambda>e. fail (if errors_Is e SqlNoRows then AuthE ErrUserNotFound else e)) (\<lambda>user.
     if \<not> u_IsVerified user then fail (AuthE ErrUserNotVerified)
     else attempt (reseter_GetById E (u_Id user)) (\<lambda>r.
       case err_except SqlNoRows r of
         Some e \<Rightarrow> fail (Wrapf ''reseterRepo.GetById'' [VerifierE ErrTokenFetchFailed, e])
       | None \<Rightarrow>
           with_token E (\<lambda>resetToken resetTokenHash.
           call (reseter_Create E (u_Id user) resetTokenHash)
             (\<lambda>e. fail (Wrapf ''reseterRepo.Create'' [VerifierE ErrCreateResetTokenFailed, e])) (\<lambda>_.
           call (PublishEmail E \<lparr>em_To = u_Email user, em_Name = ''forgot-password'',
                    em_Token = resetToken\<rparr>) (\<lambda>e. fail (publish_failed e)) (\<lambda>_.
           ret ())))))"

definition ResendVerify :: "env \<Rightarrow> string \<Rightarrow> unit io" where
  "ResendVerify E email =
     call (GetByEmail E email)
       (\<lambda>e. fail (if errors_Is e SqlNoRows then AuthE ErrUserNotFound else e)) (\<lambda>user.
     if u_IsVerified user then fail (VerifierE ErrUserAlreadyVerified)
     else
       call (attempt (verifier_GetById E (u_Id user)) (\<lambda>r. case r of
           Inl e \<Rightarrow>
             if \<not> errors_Is e SqlNoRows
             then fail (Wrapf ''verifierRepo.GetById'' [VerifierE ErrTokenFetchFailed, e])
             else ret ()
         | Inr oldVerifier \<Rightarrow> call (verifier_Delete E (v_Id oldVerifier)) fail ret)) fail (\<lambda>_.
       with_token E (\<lambda>verifyToken verifyTokenHash.
       call (verifier_Create E (u_Id user) verifyTokenHash)
         (\<lambda>e. fail (Wrapf ''verifierRepo.Create'' [VerifierE ErrVerifierTokenCreateFailed, e])) (\<lambda>_.
       call (PublishEmail E \<lparr>em_To = u_Email user, em_Name = ''resend-verify'',
                em_Token = verifyToken\<rparr>) (\<lambda>e. fail (publish_failed e)) (\<lambda>_.
       ret ())))))"

definition ResetPasswordGet :: "env \<Rightarrow> string \<Rightarrow> string io" where
  "ResetPasswordGet E token =
     call (reseter_GetByToken E token)
       (\<lambda>e. fail (Wrapf ''reseterRepo.GetByToken'' [VerifierE ErrReseterTokenFatchFailed, e]))
       (\<lambda>_. ret token)"

definition ResetPasswordPost :: "env \<Rightarrow> string \<Rightarrow> string \<Rightarrow> string \<Rightarrow> unit io" where
  "ResetPasswordPost E token pass confirmPass =
     call (reseter_GetByToken E token)
       (\<lambda>e. fail (Wrapf ''reseterRepo.GetByToken'' [VerifierE ErrReseterTokenFatchFailed, e])) (\<lambda>oldToken.
     if pass \<noteq> confirmPass then fail (Msg ''password and confirm_password do not match'')
     else
       call (GetById E (r_UserId oldToken)) fail (\<lambda>user.
       call (GenerateHash E pass) fail (\<lambda>passHash.
       call (tx_With E
          (call (UpdatePassword E (u_Id user) passHash) fail (\<lambda>_.
             reseter_DeleteById E (r_Id oldToken)))) fail (\<lambda>_.
       call (PublishEmail E \<lparr>em_To = u_Email user, em_Name = ''reset-password'', em_Token = []\<rparr>)
         (\<lambda>e. fail (publish_failed e)) (\<lambda>_.
       ret ())))))"

definition Verify :: "env \<Rightarrow> string \<Rightarrow> unit io" where
  "Verify E token =
     call (verifier_GetByHash E (GetTokenHash E token))
       (\<lambda>e. fail (if errors_Is e SqlNoRows then VerifierE ErrInvalidToken
                  else Wrapf ''verifierRepo.GetByHash'' [VerifierE ErrTokenFetchFailed, e])) (\<lambda>v.
     call (tx_With E
        (call (SetVerified E (v_UserId v))
           (\<lambda>e. fail (Wrapf ''authRepo.SetVerified'' [VerifierE ErrSetUserVerifiedFailed, e])) (\<lambda>_.
         verifier_Delete E (v_Id v)))) fail ret)"

section \<open>The services keep the tables' invariant\<close>

lemma keeps_with_token [keeps_intros]:
  assumes "\<And>t. keeps (\<lambda>w. P (db w)) (k t (GetTokenHash E t))"
  shows "keeps (\<lambda>w. P (db w)) (with_token E k)"
  using assms by (simp add: keeps_def with_token_def GenerateToken_def draw_uuid_def)

lemma outside_with_token [keeps_intros]:
  assumes "\<And>t. keeps (\<lambda>w. Q (outside w)) (k t (GetTokenHash E t))"
  shows "keeps (\<lambda>w. Q (outside w)) (with_token E k)"
  using assms by (simp add: keeps_def with_token_def GenerateToken_def draw_uuid_def)

lemma keeps_signup_tx [keeps_intros]: "inv_kept ov (signup_tx E email username fullname password)"
  unfolding signup_tx_def by (intro keeps_intros)

lemma keeps_auth_services [keeps_intros]:
  "inv_kept ov (Signup E email username fullname password)" "inv_kept ov (Login E email password)"
  "inv_kept ov (Logout E jwt claims)" "inv_kept ov (ForgotPassword E email)"
  "inv_kept ov (ResendVerify E email)" "inv_kept ov (ResetPasswordGet E token)"
  "inv_kept ov (ResetPasswordPost E token pass confirmPass)" "inv_kept ov (Verify E token)"
  unfolding Signup_def Login_def Logout_def ForgotPassword_def ResendVerify_def
    ResetPasswordGet_def ResetPasswordPost_def Verify_def
  by (intro keeps_intros)+

section \<open>What a successful statement did\<close>

lemma GetByEmail_db [simp]: "db (snd (GetByEmail E email w)) = db w"
  by (simp add: GetByEmail_def)

lemma GetByEmail_frame [simp]:
  "now (snd (GetByEmail E email w)) = now w" "draws (snd (GetByEmail E email w)) = draws w"
  "published (snd (GetByEmail E email w)) = published w"
  by (simp_all add: GetByEmail_def frame)

lemma PublishEmail_db [simp]: "db (snd (PublishEmail E m w)) = db w"
  using keepsD [OF keeps_services(4) [of "\<lambda>d. d = db w" E m], of w] by simp

lemma call_tail_db:
  assumes "\<And>x w1. db (snd (k x w1)) = db w1"
  shows "db (snd (call m fail k w)) = db (snd (m w))"
  using assms by (cases "m w") (auto simp: call_def fail_def split: sum.split)

lemma GetByEmail_Inr:
  "GetByEmail E email w = (Inr u, w') \<Longrightarrow>
     u \<in> set (users (db w)) \<and> u_Email u = email \<and> db w' = db w \<and> now w' = now w"
  unfolding GetByEmail_def by (drule db_exec_Inr) (auto simp: get_row_Inr dest: find_SomeD)

lemma auth_Create_Inr:
  assumes "auth_Create E u w = (Inr x, w')"
  shows "u_Id x = uuid_gen E (draws w) \<and> now w' = now w \<and>
    (\<forall>y\<in>set (users (db w)). u_Email y \<noteq> u_Email u) \<and>
    db w' = (db w)\<lparr>users := users (db w) @
      [u\<lparr>u_Id := uuid_gen E (draws w), u_CreatedAt := now w, u_UpdatedAt := now w\<rparr>]\<rparr>"
  using assms unfolding auth_Create_def draw_uuid_def Let_def prod.case
  by (auto dest!: db_exec_Inr simp: insert_user_def users_key_clash_def list_ex_iff split: if_splits)

lemma verifier_Create_Inr:
  assumes "verifier_Create E i h w = (Inr x, w')"
  shows "now w' = now w \<and> db w' = (db w)\<lparr>verifier := verifier (db w) @
    [\<lparr>v_Id = serial w, v_UserId = i, v_Token = h, v_CreatedAt = now w,
      v_ExpireAt = now w + 30 * minute\<rparr>]\<rparr>"
  using assms unfolding verifier_Create_def next_serial_def Let_def prod.case
  by (auto dest!: db_exec_Inr simp: insert_verifier_def split: if_splits)

lemma SetProfile_Inr:
  assumes "SetProfile E i pic w = (Inr x, w')"
  shows "now w' = now w \<and> db w' = (db w)\<lparr>profiles := profiles (db w) @
    [\<lparr>p_Id = serial w, p_UserId = i, p_ProfilePic = pic, p_CreatedAt = now w,
      p_UpdatedAt = now w\<rparr>]\<rparr>"
  using assms unfolding SetProfile_def next_serial_def Let_def prod.case
  by (auto dest!: db_exec_Inr simp: insert_profile_def split: if_splits)

lemma quota_Create_Inr:
  assumes "quota_Create E i w = (Inr x, w')"
  shows "db w' = (db w)\<lparr>quota := quota (db w) @
    [\<lparr>q_ID = serial w, q_UserID = i, q_UsedBytes = 0, q_TotalBytes = 1073741824,
      q_GifCount = 0, q_GitLimit = 100\<rparr>]\<rparr>"
  using assms unfolding quota_Create_def next_serial_def Let_def prod.case
  by (auto dest!: db_exec_Inr simp: insert_quota_def split: if_splits)

lemma GenerateHash_Inr:
  "GenerateHash E p w = (Inr h, w') \<Longrightarrow>
     bcrypt_Generate E (draws w) (p @ cnf_Pepper E) (cnf_Cost E) = Some h \<and>
     w' = w\<lparr>draws := Suc (draws w)\<rparr>"
  by (auto simp: GenerateHash_def Let_def split: option.splits)

section \<open>Signing up\<close>

text \<open>
  A new account: the user, a verification token that lives for half an hour, an empty profile
  and the initial quota (1 GiB and 100 gifs), and nothing else.
\<close>

definition account_added :: "auth_user \<Rightarrow> string \<Rightarrow> timestamp \<Rightarrow> database \<Rightarrow> database \<Rightarrow> bool" where
  "account_added u hash t d d' \<longleftrightarrow>
     (\<exists>i j k. d' = d\<lparr>users := users d @ [u],
        verifier := verifier d @ [\<lparr>v_Id = i, v_UserId = u_Id u, v_Token = hash, v_CreatedAt = t,
          v_ExpireAt = t + 30 * minute\<rparr>],
        profiles := profiles d @ [\<lparr>p_Id = j, p_UserId = u_Id u, p_ProfilePic = [],
          p_CreatedAt = t, p_UpdatedAt = t\<rparr>],
        quota := quota d @ [\<lparr>q_ID = k, q_UserID = u_Id u, q_UsedBytes = 0,
          q_TotalBytes = 1073741824, q_GifCount = 0, q_GitLimit = 100\<rparr>]\<rparr>)"

definition signed_up ::
  "env \<Rightarrow> string \<Rightarrow> string \<Rightarrow> string \<Rightarrow> string \<Rightarrow> uuid \<Rightarrow> string \<Rightarrow> timestamp \<Rightarrow> database \<Rightarrow> database \<Rightarrow> bool"
where
  "signed_up E email username fullname h uid tok t d d' \<longleftrightarrow>
     email \<notin> u_Email ` set (users d) \<and>
     account_added ((new_user email username fullname h)\<lparr>u_Id := uid, u_CreatedAt := t, u_UpdatedAt := t\<rparr>)
       (GetTokenHash E tok) t d d'"

lemma account_added_rows:
  "account_added u hash t d d' \<Longrightarrow> u \<in> set (users d') \<and>
     (\<exists>i. \<lparr>v_Id = i, v_UserId = u_Id u, v_Token = hash, v_CreatedAt = t,
            v_ExpireAt = t + 30 * minute\<rparr> \<in> set (verifier d'))"
  by (auto simp: account_added_def)

lemma signup_tx_Inr:
  assumes "signup_tx E email username fullname password w = (Inr r, w')"
  shows "\<exists>h tok. bcrypt_Generate E (draws w) (password @ cnf_Pepper E) (cnf_Cost E) = Some h \<and>
    signed_up E email username fullname h (fst r) tok (now w) (db w) (db w') \<and>
    snd r = \<lparr>em_To = email, em_Name = ''signup'', em_Token = tok\<rparr>"
proof -
  obtain x w0 where g: "GetByEmail E email w = (x, w0)" by (meson surj_pair)
  have w0: "db w0 = db w" "now w0 = now w" "draws w0 = draws w"
    using GetByEmail_db [of E email w] GetByEmail_frame [of E email w] g by simp_all
  obtain e where x: "x = Inl e"
    using assms g unfolding signup_tx_def by (cases x) (auto simp: inr_simps)
  from assms g x obtain h w1 cu w2 tok w3 w4 w5 w6 a b c where
      h: "GenerateHash E password w0 = (Inr h, w1)"
    and cu: "auth_Create E (new_user email username fullname h) w1 = (Inr cu, w2)"
    and tok: "w3 = w2\<lparr>draws := Suc (draws w2)\<rparr>"
    and v: "verifier_Create E (u_Id cu) (GetTokenHash E tok) w3 = (Inr a, w4)"
    and p: "SetProfile E (u_Id cu) [] w4 = (Inr b, w5)"
    and q: "quota_Create E (u_Id cu) w5 = (Inr c, w')"
    and r: "r = (u_Id cu, \<lparr>em_To = email, em_Name = ''signup'', em_Token = tok\<rparr>)"
    unfolding signup_tx_def
    by (auto simp: inr_simps with_token_def GenerateToken_def draw_uuid_def Let_def)
  note H = GenerateHash_Inr [OF h] and C = auth_Create_Inr [OF cu]
    and V = verifier_Create_Inr [OF v] and P = SetProfile_Inr [OF p] and Q = quota_Create_Inr [OF q]
  have nows: "now w1 = now w" "now w2 = now w" "now w3 = now w" "now w4 = now w"
    using H C V w0 tok by simp_all
  have "email \<notin> u_Email ` set (users (db w))" using C H w0 by (auto simp: new_user_def)
  moreover have "account_added ((new_user email username fullname h)\<lparr>u_Id := u_Id cu,
      u_CreatedAt := now w, u_UpdatedAt := now w\<rparr>) (GetTokenHash E tok) (now w) (db w) (db w')"
    using C V P Q H w0 tok nows unfolding account_added_def by (auto simp: new_user_def)
  ultimately show ?thesis using r H w0 by (auto simp: signed_up_def)
qed

lemma Signup_Inr:
  assumes "Signup E email username fullname password w = (Inr uid, w')"
  shows "\<exists>h tok. bcrypt_Generate E (draws w) (password @ cnf_Pepper E) (cnf_Cost E) = Some h \<and>
    signed_up E email username fullname h uid tok (now w) (db w) (db w') \<and>
    published w' = published w @
      [(EmailQueue, EmailPayload \<lparr>em_To = email, em_Name = ''signup'', em_Token = tok\<rparr>)]"
proof -
  from assms obtain r w1 u where
      t: "tx_With E (signup_tx E email username fullname password) w = (Inr r, w1)"
    and p: "PublishEmail E (snd r) w1 = (Inr u, w')" and r: "uid = fst r"
    by (auto simp: Signup_def inr_simps)
  from tx_run_Inr [OF t [unfolded tx_With_def]] obtain w2 where
      f: "signup_tx E email username fullname password ((tick w)\<lparr>tx := TxOpen\<rparr>) = (Inr r, w2)"
    and w1: "w1 = (tick w2)\<lparr>tx := NoTx\<rparr>" by blast
  from signup_tx_Inr [OF f] obtain h tok where
      h: "bcrypt_Generate E (draws w) (password @ cnf_Pepper E) (cnf_Cost E) = Some h"
    and s: "signed_up E email username fullname h (fst r) tok (now w) (db w) (db w2)"
    and m: "snd r = \<lparr>em_To = email, em_Name = ''signup'', em_Token = tok\<rparr>" by auto
  have "keeps (\<lambda>w. (\<lambda>x. snd (snd x) = published w0) (outside w))
      (signup_tx E email username fullname password)" for w0
    unfolding signup_tx_def by (intro keeps_intros)
  then have pub: "published w2 = published w"
    using keepsD [of _ _ "(tick w)\<lparr>tx := TxOpen\<rparr>"] f by (fastforce simp: outside_def)
  have "published w' = published w1 @ [(EmailQueue, EmailPayload (snd r))]"
    using p by (simp add: PublishEmail_def rabbit_publish_Inr)
  moreover have "db w' = db w1" using PublishEmail_db [of E "snd r" w1] p by simp
  ultimately show ?thesis using h s m w1 r pub by auto
qed

text \<open>
  Property C18. A sign-up that reports success has added exactly the account's four rows, for an
  address nobody had, with the password's bcrypt hash and the verification token's hash, and has
  published the one email that carries the token itself.
\<close>

theorem Signup_success:
  assumes "Signup E email username fullname password w = (Inr uid, w')"
  shows "\<exists>h tok. bcrypt_Generate E (draws w) (password @ cnf_Pepper E) (cnf_Cost E) = Some h \<and>
    signed_up E email username fullname h uid tok (now w) (db w) (db w') \<and>
    published w' = published w @
      [(EmailQueue, EmailPayload \<lparr>em_To = email, em_Name = ''signup'', em_Token = tok\<rparr>)]"
  by (rule Signup_Inr [OF assms])

text \<open>
  Whatever fails during a sign-up, the tables are left as they were or hold the
  whole account: there is never a user without a verification token, a profile or a quota.
\<close>

theorem Signup_atomic:
  "db (snd (Signup E email username fullname password w)) = db w \<or>
   (\<exists>h tok uid. signed_up E email username fullname h uid tok (now w) (db w)
      (db (snd (Signup E email username fullname password w))))"
proof -
  let ?tx = "tx_With E (signup_tx E email username fullname password)"
  have "db (snd (Signup E email username fullname password w)) = db (snd (?tx w))"
    unfolding Signup_def
  proof (rule call_tail_db)
    fix r w1
    show "db (snd (call (PublishEmail E (snd r)) (\<lambda>e. fail (publish_failed e)) (\<lambda>_. ret (fst r)) w1)) = db w1"
      by (rule keepsD [where P = "\<lambda>w. db w = db w1"]) (intro keeps_intros refl)+
  qed
  then show ?thesis
    using rr.run_all_or_nothing [of E "signup_tx E email username fullname password" w]
      signup_tx_Inr [of E email username fullname password] by metis
qed

section \<open>Verifying an address\<close>

lemma verifier_GetByHash_Inr:
  "verifier_GetByHash E h w = (Inr v, w') \<Longrightarrow>
     v \<in> set (verifier (db w)) \<and> v_Token v = h \<and> now w < v_ExpireAt v \<and> db w' = db w \<and> now w' = now w"
  unfolding verifier_GetByHash_def by (drule db_exec_Inr) (auto simp: get_row_Inr dest: find_SomeD)

lemma SetVerified_Inr:
  "SetVerified E i w = (Inr x, w') \<Longrightarrow>
     db w' = (db w)\<lparr>users := update_where (\<lambda>u. u_Id u = i) (\<lambda>u. u\<lparr>u_IsVerified := True\<rparr>) (users (db w))\<rparr>"
  unfolding SetVerified_def
  by (drule db_exec_Inr) (auto simp: update_users_def Let_def split: if_splits)

lemma verifier_Delete_Inr:
  "verifier_Delete E n w = (Inr x, w') \<Longrightarrow>
     db w' = (db w)\<lparr>verifier := delete_where (\<lambda>v. v_Id v = n) (verifier (db w))\<rparr>"
  unfolding verifier_Delete_def by (drule db_exec_Inr) auto

definition verified :: "auth_verifier \<Rightarrow> database \<Rightarrow> database" where
  "verified v d = d\<lparr>users := update_where (\<lambda>u. u_Id u = v_UserId v) (\<lambda>u. u\<lparr>u_IsVerified := True\<rparr>) (users d),
                    verifier := delete_where (\<lambda>x. v_Id x = v_Id v) (verifier d)\<rparr>"

lemma Verify_Inr:
  assumes "Verify E token w = (Inr x, w')"
  shows "\<exists>v\<in>set (verifier (db w)). v_Token v = GetTokenHash E token \<and> now w < v_ExpireAt v \<and>
    db w' = verified v (db w)"
proof -
  from assms obtain v w1 y where g: "verifier_GetByHash E (GetTokenHash E token) w = (Inr v, w1)"
    and t: "tx_With E (call (SetVerified E (v_UserId v))
      (\<lambda>e. fail (Wrapf ''authRepo.SetVerified'' [VerifierE ErrSetUserVerifiedFailed, e]))
      (\<lambda>_. verifier_Delete E (v_Id v))) w1 = (Inr y, w')"
    by (auto simp: Verify_def inr_simps)
  note G = verifier_GetByHash_Inr [OF g]
  from rr.run_commits [OF t] obtain w2 w3 where d: "db w2 = db w1" "db w' = db w3"
    and f: "call (SetVerified E (v_UserId v))
      (\<lambda>e. fail (Wrapf ''authRepo.SetVerified'' [VerifierE ErrSetUserVerifiedFailed, e]))
      (\<lambda>_. verifier_Delete E (v_Id v)) w2 = (Inr y, w3)" by blast
  from f obtain z w4 where "SetVerified E (v_UserId v) w2 = (Inr z, w4)"
    and "verifier_Delete E (v_Id v) w4 = (Inr y, w3)" by (auto simp: inr_simps)
  then have "db w3 = verified v (db w2)"
    by (auto dest!: SetVerified_Inr verifier_Delete_Inr simp: verified_def)
  then show ?thesis using G d by auto
qed

text \<open>
  A verification that reports success was given a token whose hash is stored and
  has not expired; it has marked that row's user verified and removed the row, in one step.
\<close>

theorem Verify_success:
  assumes "Verify E token w = (Inr x, w')"
  shows "\<exists>v\<in>set (verifier (db w)). v_Token v = GetTokenHash E token \<and> now w < v_ExpireAt v \<and>
    db w' = verified v (db w)"
  by (rule Verify_Inr [OF assms])

text \<open>
  A verification token works once: after a successful verification the same token
  is refused, at any later time, until a new token is stored.
\<close>

theorem Verify_once:
  assumes "service_inv (db w)" "Verify E token w = (Inr x, w1)" "db w2 = db w1"
  shows "\<exists>e. fst (Verify E token w2) = Inl e"
proof -
  from Verify_Inr [OF assms(2)] obtain v where
    v: "v \<in> set (verifier (db w))" "v_Token v = GetTokenHash E token" "db w1 = verified v (db w)"
    by blast
  have "GetTokenHash E token \<notin> set (map v_Token (verifier (db w2)))"
  proof
    assume "GetTokenHash E token \<in> set (map v_Token (verifier (db w2)))"
    then obtain y where y: "y \<in> set (verifier (db w))" "v_Id y \<noteq> v_Id v" "v_Token y = v_Token v"
      using v(2,3) assms(3) by (auto simp: verified_def)
    have "y = v"
      by (rule distinct_key_eq [of v_Token, OF _ y(1) v(1) y(3)])
        (use assms(1) in \<open>simp add: tables_ok_def schema_ok_def keys_ok_def\<close>)
    with y(2) show False by simp
  qed
  then have g: "\<nexists>r w3. verifier_GetByHash E (GetTokenHash E token) w2 = (Inr r, w3)"
    using vt.lookup_hit by blast
  show ?thesis
  proof (cases "Verify E token w2")
    case (Pair r w3)
    then show ?thesis using g by (cases r) (auto simp: Verify_def inr_simps)
  qed
qed

section \<open>Logging in\<close>

lemma Login_Inr:
  assumes "Login E email password w = (Inr (token, uid), w')"
  shows "\<exists>u\<in>set (users (db w)). u_Email u = email \<and> u_Id u = uid \<and> u_IsVerified u \<and>
    CompareHashAndPassword E (u_PasswordHash u) password \<and>
    (\<exists>c. jwt_SignedString E c (cnf_JwtSecretKey E) = Inr token \<and> c_Subject c = uid \<and>
       c_Role c = u_Role u \<and> c_ExpiresAt c = Some (NewNumericDate (now w + 24 * hour))) \<and>
    db w' = db w"
proof -
  from assms obtain u w1 where g: "GetByEmail E email w = (Inr u, w1)"
    and r: "(if \<not> u_IsVerified u then fail (AuthE ErrUserNotVerified)
       else if \<not> CompareHashAndPassword E (u_PasswordHash u) password
       then fail (AuthE ErrInvalidCredential)
       else call (pure_call (jwt_Create E (u_Fullname u) (u_Id u) (u_Email u) (u_Role u)))
         fail (\<lambda>token. ret (token, u_Id u))) w1 = (Inr (token, uid), w')"
    by (auto simp: Login_def call_fail_Inr)
  note G = GetByEmail_Inr [OF g]
  have ok: "u_IsVerified u" "CompareHashAndPassword E (u_PasswordHash u) password"
    and c: "jwt_Create E (u_Fullname u) (u_Id u) (u_Email u) (u_Role u) w1 = Inr token"
    and i: "u_Id u = uid" "w' = w1"
    using r by (auto simp: inr_simps split: if_splits)
  show ?thesis
    using G ok i jwt_Create_Inr [OF c] by (intro bexI [of _ u]) auto
qed

text \<open>
  Property C19. A login that reports success was made for a verified user with that address and
  a password bcrypt accepts; the token is signed for that user's identity and role, and expires
  a day later. Nothing is written.
\<close>

theorem Login_sound:
  assumes "Login E email password w = (Inr (token, uid), w')"
  shows "\<exists>u\<in>set (users (db w)). u_Email u = email \<and> u_Id u = uid \<and> u_IsVerified u \<and>
    CompareHashAndPassword E (u_PasswordHash u) password \<and>
    (\<exists>c. jwt_SignedString E c (cnf_JwtSecretKey E) = Inr token \<and> c_Subject c = uid \<and>
       c_Role c = u_Role u \<and> c_ExpiresAt c = Some (NewNumericDate (now w + 24 * hour))) \<and>
    db w' = db w"
  by (rule Login_Inr [OF assms])

section \<open>Resetting a password\<close>

lemma reseter_GetByToken_Inr:
  "reseter_GetByToken E t w = (Inr r, w') \<Longrightarrow>
     r \<in> set (reseter (db w)) \<and> r_Token r = t \<and> now w < r_ExpireAt r \<and> db w' = db w \<and> draws w' = draws w"
  unfolding reseter_GetByToken_def by (drule db_exec_Inr) (auto simp: get_row_Inr dest: find_SomeD)

lemma GetById_Inr:
  "GetById E i w = (Inr u, w') \<Longrightarrow>
     u \<in> set (users (db w)) \<and> u_Id u = i \<and> db w' = db w \<and> draws w' = draws w"
  unfolding GetById_def by (drule db_exec_Inr) (auto simp: get_row_Inr dest: find_SomeD)

lemma UpdatePassword_Inr:
  "UpdatePassword E i h w = (Inr x, w') \<Longrightarrow>
     db w' = (db w)\<lparr>users := update_where (\<lambda>u. u_Id u = i) (\<lambda>u. u\<lparr>u_PasswordHash := h\<rparr>) (users (db w))\<rparr>"
  unfolding UpdatePassword_def
  by (drule db_exec_Inr) (auto simp: update_users_def Let_def split: if_splits)

lemma reseter_DeleteById_Inr:
  "reseter_DeleteById E n w = (Inr x, w') \<Longrightarrow>
     db w' = (db w)\<lparr>reseter := delete_where (\<lambda>r. r_Id r = n) (reseter (db w))\<rparr>"
  unfolding reseter_DeleteById_def by (drule db_exec_Inr) auto

text \<open>
  A password reset that reports success was made with a stored, unexpired token
  and two equal passwords; it has replaced the password hash of the token's user and of nobody
  else, and consumed the token, in one step.
\<close>

theorem ResetPasswordPost_success:
  assumes "ResetPasswordPost E token pass confirm w = (Inr x, w')"
  shows "pass = confirm \<and> (\<exists>r\<in>set (reseter (db w)). \<exists>h. r_Token r = token \<and> now w < r_ExpireAt r \<and>
    bcrypt_Generate E (draws w) (pass @ cnf_Pepper E) (cnf_Cost E) = Some h \<and>
    db w' = (db w)\<lparr>users := update_where (\<lambda>u. u_Id u = r_UserId r) (\<lambda>u. u\<lparr>u_PasswordHash := h\<rparr>) (users (db w)),
                  reseter := delete_where (\<lambda>y. r_Id y = r_Id r) (reseter (db w))\<rparr>)"
proof -
  from assms obtain r w1 u w2 h w3 y w4 z where
      g: "reseter_GetByToken E token w = (Inr r, w1)" and pc: "pass = confirm"
    and u: "GetById E (r_UserId r) w1 = (Inr u, w2)" and h: "GenerateHash E pass w2 = (Inr h, w3)"
    and t: "tx_With E (call (UpdatePassword E (u_Id u) h) fail (\<lambda>_. reseter_DeleteById E (r_Id r))) w3
        = (Inr y, w4)"
    and p: "PublishEmail E \<lparr>em_To = u_Email u, em_Name = ''reset-password'', em_Token = []\<rparr> w4 = (Inr z, w')"
    by (auto simp: ResetPasswordPost_def inr_simps split: if_splits)
  note G = reseter_GetByToken_Inr [OF g] and U = GetById_Inr [OF u] and H = GenerateHash_Inr [OF h]
  have "db w' = db w4" using PublishEmail_db [of E _ w4] p by (metis snd_conv)
  from rr.run_commits [OF t] obtain w5 w6 where d: "db w5 = db w3" "db w4 = db w6"
    and f: "call (UpdatePassword E (u_Id u) h) fail (\<lambda>_. reseter_DeleteById E (r_Id r)) w5 = (Inr y, w6)"
    by blast
  from f obtain a w7 where "UpdatePassword E (u_Id u) h w5 = (Inr a, w7)"
    and "reseter_DeleteById E (r_Id r) w7 = (Inr y, w6)" by (auto simp: inr_simps)
  then have "db w6 = (db w5)\<lparr>users := update_where (\<lambda>v. u_Id v = u_Id u) (\<lambda>u. u\<lparr>u_PasswordHash := h\<rparr>) (users (db w5)),
                  reseter := delete_where (\<lambda>y. r_Id y = r_Id r) (reseter (db w5))\<rparr>"
    by (auto dest!: UpdatePassword_Inr reseter_DeleteById_Inr)
  then show ?thesis using G U H d pc \<open>db w' = db w4\<close> by (auto intro!: bexI [of _ r])
qed

section \<open>From sign-up to login\<close>

lemma GetByEmail_ok:
  assumes "no_faults E" "tx w \<noteq> TxAborted" "keys_ok (db w)" "u \<in> set (users (db w))"
  shows "GetByEmail E (u_Email u) w = (Inr u, tick w)"
proof -
  have "List.find (\<lambda>x. u_Email x = u_Email u) (users (db w)) = Some u"
    by (rule find_unique [of u_Email]) (use assms(3,4) in \<open>simp_all add: keys_ok_def\<close>)
  then have "db_exec E (\<lambda>w'. get_row (List.find (\<lambda>x. u_Email x = u_Email u) (users (db w'))) id (db w')) w =
      (Inr u, (tick w)\<lparr>db := db w\<rparr>)"
    by (intro db_exec_ok assms(1,2)) (simp add: get_row_def)
  then show ?thesis by (simp add: GetByEmail_def tick_def)
qed

lemma Login_ok:
  assumes "no_faults E" "tx w \<noteq> TxAborted" "keys_ok (db w)" "u \<in> set (users (db w))"
    and "CompareHashAndPassword E (u_PasswordHash u) password" "u_Fullname u \<noteq> []" "u_Role u \<noteq> []"
    and "\<And>c k. \<exists>s. jwt_SignedString E c k = Inr s"
  shows "if u_IsVerified u then \<exists>token w'. Login E (u_Email u) password w = (Inr (token, u_Id u), w')
         else fst (Login E (u_Email u) password w) = Inl (AuthE ErrUserNotVerified)"
proof -
  have "\<exists>s. jwt_Create E (u_Fullname u) (u_Id u) (u_Email u) (u_Role u) (tick w) = Inr s"
    using assms(6-8) by (auto simp: jwt_Create_def Let_def)
  then show ?thesis
    using assms(5)
    by (auto simp: Login_def GetByEmail_ok [OF assms(1-4)] pure_call_def call_def ret_def fail_def)
qed

lemma update_users_keep_keys:
  assumes "schema_ok d" "\<And>u. u_Email (f u) = u_Email u \<and> (users_row_ok u \<longrightarrow> users_row_ok (f u))"
  shows "update_users p f d = Inr ((), d\<lparr>users := update_where p f (users d)\<rparr>)"
proof -
  have "map u_Email (update_where p f (users d)) = map u_Email (users d)"
    by (rule map_update_where) (simp add: assms(2))
  moreover have "\<not> list_ex (\<lambda>u. p u \<and> \<not> users_row_ok (f u)) (users d)"
    using assms by (auto simp: list_ex_iff schema_ok_def rows_ok_def)
  ultimately show ?thesis using assms(1)
    by (simp add: update_users_def Let_def schema_ok_def keys_ok_def)
qed

lemma Verify_ok:
  assumes "no_faults E" "tx w = NoTx" "schema_ok (db w)" "v \<in> set (verifier (db w))"
    and "v_Token v = GetTokenHash E token" "now w < v_ExpireAt v"
  shows "\<exists>w'. Verify E token w = (Inr (), w') \<and> db w' = verified v (db w) \<and> tx w' = NoTx \<and> now w' = now w"
proof -
  have "List.find (\<lambda>x. v_Token x = v_Token v \<and> v_ExpireAt x > now w) (verifier (db w)) = Some v"
  proof -
    have "List.find (\<lambda>x. v_Token x = v_Token v) (verifier (db w)) = Some v"
      by (rule find_unique [of v_Token]) (use assms(3,4) in \<open>simp_all add: schema_ok_def keys_ok_def\<close>)
    moreover have "v_Token x = v_Token v \<and> v_ExpireAt x > now w \<longleftrightarrow> v_Token x = v_Token v"
      if "x \<in> set (verifier (db w))" for x
      using distinct_key_eq [of v_Token, OF _ that assms(4)] assms(3,6)
      by (auto simp: schema_ok_def keys_ok_def)
    ultimately show ?thesis by (metis (mono_tags, lifting) find_cong)
  qed
  then have g: "verifier_GetByHash E (GetTokenHash E token) w = (Inr v, tick w)"
    unfolding verifier_GetByHash_def assms(5) [symmetric]
    by (subst db_exec_ok [where x = v and d = "db w"])
      (use assms(1,2) in \<open>simp_all add: get_row_def tick_def\<close>)
  let ?w1 = "(tick (tick w))\<lparr>tx := TxOpen\<rparr>"
  let ?us = "update_where (\<lambda>u. u_Id u = v_UserId v) (\<lambda>u. u\<lparr>u_IsVerified := True\<rparr>) (users (db w))"
  have s: "SetVerified E (v_UserId v) ?w1 = (Inr (), (tick ?w1)\<lparr>db := (db w)\<lparr>users := ?us\<rparr>\<rparr>)"
    unfolding SetVerified_def
    by (rule db_exec_ok) (use assms(1,3) in \<open>simp_all add: update_users_keep_keys users_row_ok_def\<close>)
  have d: "verifier_Delete E (v_Id v) ((tick ?w1)\<lparr>db := (db w)\<lparr>users := ?us\<rparr>\<rparr>) =
      (Inr (), (tick (tick ?w1))\<lparr>db := verified v (db w)\<rparr>)"
    unfolding verifier_Delete_def
    by (subst db_exec_ok [where x = "()" and d = "verified v (db w)"])
      (use assms(1) in \<open>simp_all add: verified_def tick_def\<close>)
  have t: "tx_With E (call (SetVerified E (v_UserId v))
      (\<lambda>e. fail (Wrapf ''authRepo.SetVerified'' [VerifierE ErrSetUserVerifiedFailed, e]))
      (\<lambda>_. verifier_Delete E (v_Id v))) (tick w) =
      (Inr (), (tick ((tick (tick ?w1))\<lparr>db := verified v (db w)\<rparr>))\<lparr>tx := NoTx\<rparr>)"
    unfolding tx_With_def
    by (rule tx_run_ok [OF assms(1)]) (simp_all add: call_def s d)
  show ?thesis
    by (simp add: Verify_def g call_def t ret_def)
qed

lemma Signup_tx:
  assumes "Signup E email username fullname password w = (Inr uid, w')"
  shows "tx w' = NoTx"
proof -
  from assms obtain r w1 u where
      t: "tx_With E (signup_tx E email username fullname password) w = (Inr r, w1)"
    and p: "PublishEmail E (snd r) w1 = (Inr u, w')"
    by (auto simp: Signup_def inr_simps)
  have "tx w1 = NoTx" using tx_run_Inr [OF t [unfolded tx_With_def]] by auto
  moreover have "keeps (\<lambda>w. tx w = NoTx) (PublishEmail E (snd r))"
    unfolding PublishEmail_def by (rule rabbit_publish_keeps) simp_all
  ultimately show ?thesis using keepsD [of "\<lambda>w. tx w = NoTx"] p by fastforce
qed

definition bcrypt_checks :: "env \<Rightarrow> bool" where
  "bcrypt_checks E \<longleftrightarrow> (\<forall>n p c h. bcrypt_Generate E n p c = Some h \<longrightarrow> bcrypt_Compare E h p)"

definition jwt_signs :: "env \<Rightarrow> bool" where
  "jwt_signs E \<longleftrightarrow> (\<forall>c k. \<exists>s. jwt_SignedString E c k = Inr s)"

text \<open>
  Property C4. A new user cannot log in, receives a token by email, and within half an hour can
  verify the address with it and then log in with the password of the sign-up (when nothing
  fails, and given that bcrypt accepts the password it hashed and that signing succeeds).
\<close>

theorem Signup_Verify_Login:
  assumes "no_faults E" "bcrypt_checks E" "jwt_signs E" "service_inv (db w)" "fullname \<noteq> []"
    and "Signup E email username fullname password w = (Inr uid, w1)"
    and "t < now w + 30 * minute"
  shows "fst (Login E email password w1) = Inl (AuthE ErrUserNotVerified) \<and>
    (\<exists>tok w2. last (published w1) =
         (EmailQueue, EmailPayload \<lparr>em_To = email, em_Name = ''signup'', em_Token = tok\<rparr>) \<and>
       Verify E tok (w1\<lparr>now := t\<rparr>) = (Inr (), w2) \<and>
       (\<exists>jwt w3. Login E email password w2 = (Inr (jwt, uid), w3)))"
proof -
  from Signup_Inr [OF assms(6)] obtain h tok where
      h: "bcrypt_Generate E (draws w) (password @ cnf_Pepper E) (cnf_Cost E) = Some h"
    and s: "signed_up E email username fullname h uid tok (now w) (db w) (db w1)"
    and p: "published w1 = published w @
      [(EmailQueue, EmailPayload \<lparr>em_To = email, em_Name = ''signup'', em_Token = tok\<rparr>)]" by blast
  have iv: "service_inv (db w1)"
    using keepsD [OF keeps_auth_services(1) [of False E email username fullname password], of w] assms(4,6)
    by simp
  then have sc: "schema_ok (db w1)" and keys: "keys_ok (db w1)"
    by (simp_all add: tables_ok_def schema_ok_def)
  have tx1: "tx w1 = NoTx" by (rule Signup_tx [OF assms(6)])
  let ?u = "(new_user email username fullname h)\<lparr>u_Id := uid, u_CreatedAt := now w, u_UpdatedAt := now w\<rparr>"
  from s obtain i where
      u: "?u \<in> set (users (db w1))"
    and v: "\<lparr>v_Id = i, v_UserId = uid, v_Token = GetTokenHash E tok, v_CreatedAt = now w,
             v_ExpireAt = now w + 30 * minute\<rparr> \<in> set (verifier (db w1))"
    using account_added_rows by (fastforce simp: signed_up_def)
  have pw: "CompareHashAndPassword E h password"
    using assms(2) h by (auto simp: bcrypt_checks_def CompareHashAndPassword_def)
  have sg: "\<And>c k. \<exists>s. jwt_SignedString E c k = Inr s" using assms(3) by (simp add: jwt_signs_def)
  have l1: "fst (Login E email password w1) = Inl (AuthE ErrUserNotVerified)"
    using Login_ok [OF assms(1) _ keys u _ _ _ sg, of password] tx1 pw assms(5)
    by (simp add: new_user_def)
  have v': "\<lparr>v_Id = i, v_UserId = uid, v_Token = GetTokenHash E tok, v_CreatedAt = now w,
      v_ExpireAt = now w + 30 * minute\<rparr> \<in> set (verifier (db (w1\<lparr>now := t\<rparr>)))" using v by simp
  from Verify_ok [OF assms(1) _ _ v', of tok] tx1 sc assms(7)
  obtain w2 where vf: "Verify E tok (w1\<lparr>now := t\<rparr>) = (Inr (), w2)" and tx2: "tx w2 = NoTx"
    and d2: "db w2 = verified \<lparr>v_Id = i, v_UserId = uid, v_Token = GetTokenHash E tok,
        v_CreatedAt = now w, v_ExpireAt = now w + 30 * minute\<rparr> (db w1)" by auto
  have "service_inv (db w2)"
    using keepsD [OF keeps_auth_services(8) [of False E tok], of "w1\<lparr>now := t\<rparr>"] vf iv by simp
  then have keys2: "keys_ok (db w2)" by (simp add: tables_ok_def schema_ok_def)
  have u2: "?u\<lparr>u_IsVerified := True\<rparr> \<in> set (users (db w2))"
    using u d2 by (force simp: verified_def set_update_where image_iff)
  have "\<exists>jwt w3. Login E email password w2 = (Inr (jwt, uid), w3)"
    using Login_ok [OF assms(1) _ keys2 u2 _ _ _ sg, of password] tx2 pw assms(5)
    by (simp add: new_user_def)
  then show ?thesis using l1 p vf by auto
qed

section \<open>What the reset of a password does not do\<close>

lemma ForgotPassword_last:
  assumes "ForgotPassword E email w = (Inr x, w')"
  shows "\<exists>m tok to. last (published w') = (EmailQueue, EmailPayload
      \<lparr>em_To = to, em_Name = ''forgot-password'', em_Token = tok\<rparr>) \<and> tok = uuid_gen E m"
proof -
  from assms obtain to tok w2 m where
      p: "PublishEmail E \<lparr>em_To = to, em_Name = ''forgot-password'', em_Token = tok\<rparr> w2 = (Inr (), w')"
    and t: "tok = uuid_gen E m"
    by (auto simp: ForgotPassword_def inr_simps with_token_def GenerateToken_def draw_uuid_def Let_def
        split: if_splits option.splits)
  then show ?thesis
    using rabbit_publish_Inr [OF p [unfolded PublishEmail_def]] by auto
qed

text \<open>
  Property C21. The token a forgotten-password email carries is never accepted: the table holds
  its hash, and both steps of the reset search for the text they are given. No later state the
  service can reach changes that, and the refused step writes nothing.
\<close>

theorem emailed_reset_token_refused:
  assumes "\<And>n. length (uuid_gen E n) = 36"
    and "ForgotPassword E email w = (Inr x, w1)"
    and "last (published w1) = (EmailQueue, EmailPayload m)"
    and "service_inv (db w2)"
  shows "(\<exists>e. fst (ResetPasswordGet E (em_Token m) w2) = Inl e) \<and>
    (\<exists>e. fst (ResetPasswordPost E (em_Token m) pass confirm w2) = Inl e) \<and>
    db (snd (ResetPasswordPost E (em_Token m) pass confirm w2)) = db w2"
proof -
  have "length (em_Token m) = 36"
    using ForgotPassword_last [OF assms(2)] assms(1,3) by auto
  moreover have "\<forall>h\<in>set (map r_Token (reseter (db w2))). length h = 64"
    using assms(4) by (simp add: tables_ok_def rest_defs token_hash_length)
  ultimately have "\<exists>e. fst (reseter_GetByToken E (em_Token m) w2) = Inl e"
    by (intro rt.other_length_refused) simp_all
  then obtain e where e: "fst (reseter_GetByToken E (em_Token m) w2) = Inl e" by blast
  have d: "db (snd (reseter_GetByToken E (em_Token m) w2)) = db w2" by (rule rt.lookup_db)
  show ?thesis
  proof (cases "reseter_GetByToken E (em_Token m) w2")
    case (Pair r w3)
    then show ?thesis
      using e d
      by (auto simp: ResetPasswordGet_def ResetPasswordPost_def call_def fail_def)
  qed
qed

text \<open>
  Asking again for a reset does not extend the time to live of the request: of a
  user's row only the hash is replaced. Once the row has expired, a new token is stored that no
  search can find any more, whatever text it is given.
\<close>

theorem ForgotPassword_keeps_expiry:
  assumes "service_inv (db w)" "reseter_Create E uid hash w = (Inr x, w')"
    and "r \<in> set (reseter (db w))" "r_UserId r = uid"
  shows "r\<lparr>r_Token := hash\<rparr> \<in> set (reseter (db w')) \<and>
    (r_ExpireAt r \<le> now w \<longrightarrow>
       (\<forall>t\<ge>now w. \<exists>e. fst (reseter_GetByToken E hash (w'\<lparr>now := t\<rparr>)) = Inl e))"
proof -
  let ?up = "update_where (\<lambda>x. r_UserId x = uid) (\<lambda>x. x\<lparr>r_Token := hash\<rparr>) (reseter (db w))"
  have ex: "list_ex (\<lambda>x. r_UserId x = uid) (reseter (db w))"
    using assms(3,4) by (auto simp: list_ex_iff)
  have d: "db w' = (db w)\<lparr>reseter := ?up\<rparr>"
    and new: "\<forall>x\<in>set (reseter (db w)). r_UserId x \<noteq> uid \<longrightarrow> r_Token x \<noteq> hash"
    using assms(2) ex unfolding reseter_Create_def next_serial_def Let_def prod.case
    by (auto dest!: db_exec_Inr simp: upsert_reseter_def list_ex_iff split: if_splits)
  have uniq: "x = r" if "x \<in> set (reseter (db w))" "r_UserId x = uid" for x
    by (rule distinct_key_eq [of r_UserId, OF _ that(1) assms(3)])
      (use that(2) assms(1,4) in \<open>simp_all add: tables_ok_def schema_ok_def keys_ok_def\<close>)
  have "\<exists>e. fst (reseter_GetByToken E hash (w'\<lparr>now := t\<rparr>)) = Inl e"
    if "r_ExpireAt r \<le> now w" "now w \<le> t" for t
  proof (cases "reseter_GetByToken E hash (w'\<lparr>now := t\<rparr>)")
    case (Pair y w2)
    show ?thesis
    proof (cases y)
      case (Inr z)
      with Pair have z: "z \<in> set (reseter (db w'))" "r_Token z = hash" "t < r_ExpireAt z"
        using reseter_GetByToken_Inr [of E hash "w'\<lparr>now := t\<rparr>" z w2] by auto
      then obtain x where x: "x \<in> set (reseter (db w))"
        "z = (if r_UserId x = uid then x\<lparr>r_Token := hash\<rparr> else x)"
        using d by (auto simp: set_update_where)
      then have "r_UserId x = uid" using new z(2) by (auto split: if_splits)
      then show ?thesis using uniq [OF x(1)] x z(3) that by simp
    qed (use Pair in simp)
  qed
  then show ?thesis using d assms(3,4) by (auto simp: set_update_where image_iff)
qed

section \<open>The properties at concrete inputs\<close>

definition sample_signed :: world where
  "sample_signed = snd (Signup sample_env ''ann@x'' ''ann'' ''Ann'' ''pw'' (world_of 0 empty_db))"

definition sample_ann :: "bool \<Rightarrow> auth_user" where
  "sample_ann b = (new_user ''ann@x'' ''ann'' ''Ann'' ''hpw-pepper'')\<lparr>u_Id := ''u'', u_IsVerified := b\<rparr>"

definition sample_pending_db :: database where
  "sample_pending_db = empty_db\<lparr>users := [sample_ann False],
     verifier := [\<lparr>v_Id = 1, v_UserId = ''u'', v_Token = GetTokenHash sample_env ''t'', v_CreatedAt = 0,
       v_ExpireAt = 1800000\<rparr>]\<rparr>"

definition sample_verified_db :: database where
  "sample_verified_db = empty_db\<lparr>users := [sample_ann True]\<rparr>"

lemma service_inv_empty [simp]: "service_inv empty_db"
  by (simp add: empty_db_def tables_ok_def schema_defs rest_defs)

lemma sample_pending_inv: "service_inv sample_pending_db"
  by (simp add: sample_pending_db_def sample_ann_def empty_db_def tables_ok_def schema_defs rest_defs
      user_exists_def users_row_ok_def varchar_short new_user_def)

lemma sample_verified_inv: "service_inv sample_verified_db"
  by (simp add: sample_verified_db_def sample_ann_def empty_db_def tables_ok_def schema_defs rest_defs
      user_exists_def users_row_ok_def varchar_short new_user_def)

lemma sample_signup_run: "Signup sample_env ''ann@x'' ''ann'' ''Ann'' ''pw'' (world_of 0 empty_db) =
    (Inr (sample_uuid 1), sample_signed)"
  unfolding sample_signed_def by (rule run_pair) code_simp

lemma sample_verify_run:
  "\<exists>w'. Verify sample_env ''t'' (world_of 0 sample_pending_db) = (Inr (), w')"
proof -
  have v: "hd (verifier sample_pending_db) \<in> set (verifier (db (world_of 0 sample_pending_db)))"
    by (simp add: sample_pending_db_def)
  show ?thesis
    using Verify_ok [OF sample_no_faults _ _ v, of "''t''"] sample_pending_inv
    by (auto simp: tables_ok_def sample_pending_db_def)
qed

lemma Signup_success_witness:
  "\<exists>h tok. signed_up sample_env ''ann@x'' ''ann'' ''Ann'' h (sample_uuid 1) tok 0 empty_db
     (db sample_signed)"
  using Signup_success [OF sample_signup_run] by auto

lemma Verify_success_witness:
  "\<exists>v\<in>set (verifier sample_pending_db). \<exists>w'. Verify sample_env ''t'' (world_of 0 sample_pending_db) =
     (Inr (), w') \<and> db w' = verified v sample_pending_db"
  using sample_verify_run Verify_success [of sample_env "''t''" "world_of 0 sample_pending_db"] by fastforce

lemma Verify_once_witness:
  "\<exists>e. fst (Verify sample_env ''t'' (snd (Verify sample_env ''t'' (world_of 0 sample_pending_db)))) = Inl e"
proof -
  obtain w' where "Verify sample_env ''t'' (world_of 0 sample_pending_db) = (Inr (), w')"
    using sample_verify_run by blast
  with Verify_once [OF _ this, of w'] show ?thesis by (simp add: sample_pending_inv)
qed

lemma Login_sound_witness:
  "\<exists>u\<in>set (users sample_verified_db). u_Email u = ''ann@x'' \<and> u_IsVerified u"
proof -
  have "fst (Login sample_env ''ann@x'' ''pw'' (world_of 0 sample_verified_db)) = Inr (''jwt'', ''u'')"
    by code_simp
  from Login_sound [OF run_pair [OF this]] show ?thesis by auto
qed

lemma Signup_Verify_Login_witness:
  "fst (Login sample_env ''ann@x'' ''pw'' sample_signed) = Inl (AuthE ErrUserNotVerified)"
proof -
  have "bcrypt_checks sample_env" "jwt_signs sample_env"
    by (simp_all add: sample_env_def bcrypt_checks_def jwt_signs_def)
  from Signup_Verify_Login [OF sample_no_faults this _ _ sample_signup_run, of 60000]
  show ?thesis by (simp add: minute_def)
qed

definition sample_forgot :: world where
  "sample_forgot = snd (ForgotPassword sample_env ''ann@x'' (world_of 0 sample_verified_db))"

lemma emailed_reset_token_refused_witness:
  "(\<exists>e. fst (ResetPasswordGet sample_env (sample_uuid 0) sample_forgot) = Inl e) \<and>
   db (snd (ResetPasswordPost sample_env (sample_uuid 0) ''new'' ''new'' sample_forgot)) = db sample_forgot"
proof -
  have l: "\<And>n. length (uuid_gen sample_env n) = 36" by (simp add: sample_env_def)
  let ?m = "\<lparr>em_To = ''ann@x'', em_Name = ''forgot-password'', em_Token = sample_uuid 0\<rparr>"
  have "fst (ForgotPassword sample_env ''ann@x'' (world_of 0 sample_verified_db)) = Inr () \<and>
    published (snd (ForgotPassword sample_env ''ann@x'' (world_of 0 sample_verified_db))) =
      [(EmailQueue, EmailPayload ?m)]" by code_simp
  then have r: "ForgotPassword sample_env ''ann@x'' (world_of 0 sample_verified_db) = (Inr (), sample_forgot)"
    and m: "last (published sample_forgot) = (EmailQueue, EmailPayload ?m)"
    unfolding sample_forgot_def by (auto intro: run_pair)
  have "service_inv (db sample_forgot)"
    unfolding sample_forgot_def
    by (rule keepsD [OF keeps_auth_services(4)]) (simp add: sample_verified_inv)
  from emailed_reset_token_refused [OF l r m this] show ?thesis by simp
qed

text \<open>A user with a reset token in the table, stored as the text that is then presented.\<close>

definition sample_reset_db :: database where
  "sample_reset_db = empty_db\<lparr>users := [(new_user ''ann@x'' ''ann'' ''Ann'' ''old'')\<lparr>u_Id := ''u''\<rparr>],
     reseter := [\<lparr>r_Id = 1, r_UserId = ''u'', r_Token = replicate 64 (CHR ''a''), r_Used = False,
       r_CreatedAt = 0, r_ExpireAt = 900000\<rparr>]\<rparr>"

lemma sample_reset_inv: "service_inv sample_reset_db"
  by (simp add: sample_reset_db_def empty_db_def tables_ok_def schema_defs rest_defs
      user_exists_def users_row_ok_def varchar_short new_user_def token_hash_def list_all_iff)

lemma ResetPasswordPost_success_witness:
  "\<exists>h. bcrypt_Generate sample_env 0 (''new'' @ cnf_Pepper sample_env) (cnf_Cost sample_env) = Some h"
proof -
  have "fst (ResetPasswordPost sample_env (replicate 64 (CHR ''a'')) ''new'' ''new''
      (world_of 0 sample_reset_db)) = Inr ()" by code_simp
  from ResetPasswordPost_success [OF run_pair [OF this]] show ?thesis by auto
qed

lemma ForgotPassword_keeps_expiry_witness:
  "\<exists>e. fst (reseter_GetByToken sample_env (replicate 64 (CHR ''b''))
     ((snd (reseter_Create sample_env ''u'' (replicate 64 (CHR ''b'')) (world_of 900000 sample_reset_db)))
        \<lparr>now := 900000\<rparr>)) = Inl e"
proof -
  have r: "fst (reseter_Create sample_env ''u'' (replicate 64 (CHR ''b''))
      (world_of 900000 sample_reset_db)) = Inr ()" by code_simp
  show ?thesis
    using ForgotPassword_keeps_expiry [OF _ run_pair [OF r], of "hd (reseter sample_reset_db)"]
      sample_reset_inv
    by (simp add: sample_reset_db_def)
qed

end
