(* ===== verification/Http.thy ===== *)
theory Http
  imports App_Auth Request
begin

text \<open>
  The parts of \<open>net/http\<close> the transport layer uses, and \<open>internal/transport/http/httputil\<close>. A
  response is built up by its writer: the first status written wins and freezes the headers. A
  handler takes a request and the response so far; \<open>Inl\<close> is a panic, which \<open>net/http\<close> recovers.
\<close>

section \<open>Requests, responses, handlers\<close>

text \<open>
  \<open>rq_Path\<close> is the list of the decoded segments of a clean path (\<open>net/http\<close> redirects any other
  before a handler sees it), \<open>rq_PathValue\<close> the wildcards the router has bound, \<open>rq_Query\<close> the
  first value of a query parameter; both and \<open>rq_Header\<close> are empty for what is absent.
  \<open>rq_Body\<close> is the first JSON value of the body, \<open>None\<close> when it does not start with one, and
  \<open>rq_BodyEnd\<close> the number of bytes to that value's end. The last three fields are the context.
\<close>

record http_request =
  rq_Method :: string
  rq_Path :: "string list"
  rq_PathValue :: "string \<Rightarrow> string"
  rq_Query :: "string \<Rightarrow> string"
  rq_Header :: "string \<Rightarrow> string"
  rq_Body :: "json option"
  rq_BodyEnd :: nat
  rq_RemoteAddr :: string
  rq_RequestID :: "string option"
  rq_Claims :: "jwt_payload option"
  rq_Token :: "string option"

record http_response =
  rs_Status :: "int option"
  rs_Header :: "string \<Rightarrow> string option"
  rs_Body :: "json option"

type_synonym handler = "http_request \<Rightarrow> http_response \<Rightarrow> http_response io"

definition set_header :: "string \<Rightarrow> string \<Rightarrow> http_response \<Rightarrow> http_response" where
  "set_header k v r =
     (case rs_Status r of
        None \<Rightarrow> r\<lparr>rs_Header := (rs_Header r)(k \<mapsto> v)\<rparr>
      | Some _ \<Rightarrow> r)"

definition WriteHeader :: "int \<Rightarrow> http_response \<Rightarrow> http_response" where
  "WriteHeader code r = (case rs_Status r of None \<Rightarrow> r\<lparr>rs_Status := Some code\<rparr> | Some _ \<Rightarrow> r)"

definition write_body :: "json \<Rightarrow> http_response \<Rightarrow> http_response" where
  "write_body b r = (let r1 = WriteHeader 200 r in
     (case rs_Body r1 of None \<Rightarrow> r1\<lparr>rs_Body := Some b\<rparr> | Some _ \<Rightarrow> r1))"

section \<open>send_data.go\<close>

definition SendJson :: "json \<Rightarrow> int \<Rightarrow> http_response \<Rightarrow> http_response" where
  "SendJson v statusCode r =
     write_body v (WriteHeader statusCode (set_header ''Content-Type'' ''application/json'' r))"

definition SendError :: "string \<Rightarrow> string \<Rightarrow> int \<Rightarrow> http_response \<Rightarrow> http_response" where
  "SendError errorCode message statusCode r =
     write_body (JObj [(''error_code'', JStr errorCode), (''message'', JStr message),
                       (''status'', JNum statusCode)])
       (WriteHeader statusCode (set_header ''Content-Type'' ''application/json'' r))"

section \<open>auth_context.go, logger_context.go, origins.go\<close>

definition WithAuthContext :: "http_request \<Rightarrow> jwt_payload \<Rightarrow> string \<Rightarrow> http_request" where
  "WithAuthContext rq claims token = rq\<lparr>rq_Claims := Some claims, rq_Token := Some token\<rparr>"

definition GetClaims :: "http_request \<Rightarrow> jwt_payload option" where
  "GetClaims rq = rq_Claims rq"

definition GetAuthorizationHeader :: "http_request \<Rightarrow> string option" where
  "GetAuthorizationHeader rq = rq_Token rq"

definition GetUserId :: "http_request \<Rightarrow> string" where
  "GetUserId rq = (case GetClaims rq of None \<Rightarrow> [] | Some c \<Rightarrow> c_Subject c)"

definition WithLoggerContext :: "http_request \<Rightarrow> string \<Rightarrow> http_request" where
  "WithLoggerContext rq i = rq\<lparr>rq_RequestID := Some i\<rparr>"

definition GetRequestID :: "http_request \<Rightarrow> string" where
  "GetRequestID rq = (case rq_RequestID rq of None \<Rightarrow> [] | Some i \<Rightarrow> i)"

text \<open>The origin table is filled from the configuration once, at start-up.\<close>

definition InitAllowedOrigins :: "env \<Rightarrow> string \<Rightarrow> bool" where
  "InitAllowedOrigins E origin = (origin \<in> set (cnf_AllowedOrigins E))"

definition CheckOrigin :: "env \<Rightarrow> http_request \<Rightarrow> bool" where
  "CheckOrigin E rq =
     (let origin = rq_Header rq ''Origin''
      in if origin = [] then False else InitAllowedOrigins E origin)"

section \<open>Reading a response\<close>

lemma SendError_sel [simp]:
  "rs_Status r = None \<Longrightarrow> rs_Body r = None \<Longrightarrow> rs_Status (SendError c m s r) = Some s"
  "rs_Status r = None \<Longrightarrow> rs_Body r = None \<Longrightarrow>
     rs_Header (SendError c m s r) = (rs_Header r)(''Content-Type'' \<mapsto> ''application/json'')"
  "rs_Status r = None \<Longrightarrow> rs_Body r = None \<Longrightarrow>
     rs_Body (SendError c m s r) = Some (JObj [(''error_code'', JStr c), (''message'', JStr m),
       (''status'', JNum s)])"
  by (simp_all add: SendError_def write_body_def WriteHeader_def set_header_def Let_def)

lemma set_header_sel [simp]:
  "rs_Status (set_header k v r) = rs_Status r" "rs_Body (set_header k v r) = rs_Body r"
  "rs_Status r = None \<Longrightarrow> rs_Header (set_header k v r) = (rs_Header r)(k \<mapsto> v)"
  by (simp_all add: set_header_def split: option.split)

end
