(* ===== verification/Middleware.thy ===== *)
theory Middleware
  imports Http Storage
begin

text \<open>
  \<open>internal/transport/http/middleware\<close>: authentication, the rate limiter around the script of
  \<open>Redis\<close>, CORS, preflight, request identifiers, and the manager that composes them. \<open>Logger\<close>
  only logs and \<open>BlockIP\<close>, \<open>OneTimePerEmail\<close> pass their request on.
\<close>

section \<open>auth.go\<close>

type_synonym middleware = "handler \<Rightarrow> handler"

definition AUTH_INVALID_CREDENTIALS :: string where
  "AUTH_INVALID_CREDENTIALS = ''AUTH_INVALID_CREDENTIALS''"

definition quoted :: "string \<Rightarrow> string" where
  "quoted s = [CHR 0x22] @ s @ [CHR 0x22]"

definition www_authenticate :: "string \<Rightarrow> string \<Rightarrow> string" where
  "www_authenticate err desc =
     ''Bearer realm='' @ quoted ''ffgif'' @ '', error='' @ quoted err @
     (if desc = [] then [] else '', error_description='' @ quoted desc)"

definition unauthorized :: "string \<Rightarrow> string \<Rightarrow> string \<Rightarrow> http_response \<Rightarrow> http_response" where
  "unauthorized err desc message r =
     SendError AUTH_INVALID_CREDENTIALS message 401
       (set_header ''WWW-Authenticate'' (www_authenticate err desc) r)"

definition Auth :: "env \<Rightarrow> middleware" where
  "Auth E nxt rq r =
     (let h = rq_Header rq ''Authorization''
      in if h = [] \<or> \<not> has_prefix h ''Bearer '' then
           ret (unauthorized ''invalid_request'' [] ''authorization header missing'' r)
         else
           (let tokenStr = trim_prefix h ''Bearer ''
            in attempt (pure_call (jwt_Verify E tokenStr)) (\<lambda>v. case v of
                 Inl e \<Rightarrow>
                   if errors_Is e JwtExpired
                   then ret (unauthorized ''invalid_token'' ''token expired'' ''invalid token'' r)
                   else ret (unauthorized ''invalid_token'' ''invalid token'' ''invalid token'' r)
               | Inr data \<Rightarrow>
                   attempt (redis_Get E (blocklist_key tokenStr)) (\<lambda>g. case g of
                     Inr val \<Rightarrow>
                       if val \<noteq> [] then
                         ret (unauthorized ''invalid_token'' ''token on blocklist'' ''token on blocklist'' r)
                       else nxt (WithAuthContext rq data tokenStr) r
                   | Inl e \<Rightarrow>
                       if \<not> errors_Is e (CacheE ErrCacheMiss) then
                         ret (unauthorized ''invalid_token'' ''unable to verify token status''
                                ''unable to verify token status'' r)
                       else nxt (WithAuthContext rq data tokenStr) r))))"

section \<open>rate_limiter.go\<close>

text \<open>\<open>net.SplitHostPort\<close>, as far as its host part.\<close>

definition before_last_colon :: "string \<Rightarrow> string option" where
  "before_last_colon s =
     (if CHR '':'' \<in> set s then Some (rev (tl (dropWhile (\<lambda>c. c \<noteq> CHR '':'') (rev s)))) else None)"

definition SplitHostPort :: "string \<Rightarrow> string option" where
  "SplitHostPort hostport =
     (case before_last_colon hostport of
        None \<Rightarrow> None
      | Some left \<Rightarrow>
          if hd hostport = CHR ''['' then
            (let host = takeWhile (\<lambda>c. c \<noteq> CHR '']'') (tl hostport);
                 after = dropWhile (\<lambda>c. c \<noteq> CHR '']'') (tl hostport)
             in if after = [] then None
                else if left \<noteq> CHR ''['' # host @ '']'' then None
                else if CHR ''['' \<in> set (tl hostport) then None
                else if CHR '']'' \<in> set (tl after) then None
                else Some host)
          else if CHR '':'' \<in> set left then None
          else if CHR ''['' \<in> set hostport \<or> CHR '']'' \<in> set hostport then None
          else Some left)"

definition getIp :: "string \<Rightarrow> string option" where
  "getIp addr = SplitHostPort addr"

record limit_result =
  lim_allowed :: bool
  lim_wait_ms :: int
  lim_token :: int
  lim_last_refill :: int

text \<open>The type switch on an element of the reply; a float is truncated.\<close>

definition toInt64 :: "redis_value \<Rightarrow> int option" where
  "toInt64 v =
     (case v of
        RInt n \<Rightarrow> Some n
      | RFloat x \<Rightarrow> Some (lua_to_int x)
      | _ \<Rightarrow> None)"

definition setLimit :: "env \<Rightarrow> int \<Rightarrow> int \<Rightarrow> string \<Rightarrow> limit_result io" where
  "setLimit E Capacity Rate key =
     at_now (\<lambda>n.
     call (RunScript E key Capacity Rate n) fail (\<lambda>res.
     case res of
       RArr data \<Rightarrow>
         if length data < 3 then fail (Msg ''rate limiter: response slice has fewer than 3 elements'')
         else (case (toInt64 (data ! 0), toInt64 (data ! 1), toInt64 (data ! 2)) of
           (Some allowed, Some wait_ms, Some token) \<Rightarrow>
             ret \<lparr>lim_allowed = (allowed = 1), lim_wait_ms = wait_ms, lim_token = token,
                  lim_last_refill = n\<rparr>
         | _ \<Rightarrow> fail (Msg ''rate limiter: unsupported element type''))
     | _ \<Rightarrow> fail (Msg ''rate limiter: unexpected response type'')))"

definition limiter_key :: "string \<Rightarrow> string" where
  "limiter_key ip = ''rate_limit:ip:'' @ ip"

definition internal_error :: "http_response \<Rightarrow> http_response" where
  "internal_error r = SendError ''INTERNAL_ERROR'' ''internal server error'' 500 r"

text \<open>A quotient below 1, however it is rounded, is raised to 1.\<close>

definition retryAfterSecs :: "int \<Rightarrow> int" where
  "retryAfterSecs wait_ms = (let s = (wait_ms + 999) div 1000 in if s < 1 then 1 else s)"

definition Limit :: "env \<Rightarrow> int \<Rightarrow> int \<Rightarrow> middleware" where
  "Limit E Rate Capacity nxt rq r =
     (case getIp (rq_RemoteAddr rq) of
        None \<Rightarrow> ret (internal_error r)
      | Some ip \<Rightarrow>
          attempt (setLimit E Capacity Rate (limiter_key ip)) (\<lambda>x. case x of
            Inl _ \<Rightarrow> ret (internal_error r)
          | Inr res \<Rightarrow>
              (let r1 = set_header ''X-RateLimit-Reset'' (show_int (lim_last_refill res))
                         (set_header ''X-RateLimit-Remaining'' (show_int (lim_token res))
                           (set_header ''X-RateLimit-Limit'' (show_int Rate) r))
               in if \<not> lim_allowed res then
                    ret (SendError ''RATE_LIMITED'' ''too many request'' 429
                      (set_header ''Retry-After'' (show_int (retryAfterSecs (lim_wait_ms res))) r1))
                  else nxt rq r1)))"

section \<open>cors.go, preflight.go, request_id.go\<close>

definition Cors :: "env \<Rightarrow> middleware" where
  "Cors E nxt rq r =
     (let origin = rq_Header rq ''Origin'';
          r1 = (if CheckOrigin E rq then set_header ''Access-Control-Allow-Origin'' origin r else r);
          r2 = set_header ''Vary'' ''Origin'' r1;
          r3 = set_header ''Access-Control-Allow-Headers'' ''Content-Type, Authorization, content-type'' r2;
          r4 = set_header ''Access-Control-Allow-Methods'' ''GET, POST, OPTIONS, PUT, DELETE, PATCH'' r3
      in nxt rq r4)"

definition Preflight :: middleware where
  "Preflight nxt rq r =
     (if rq_Method rq = ''OPTIONS'' then ret (WriteHeader 204 r) else nxt rq r)"

definition RequestId :: "env \<Rightarrow> middleware" where
  "RequestId E nxt rq r =
     (if rq_Header rq ''X-Request-Id'' = [] then
        with_uuid_drawn E (\<lambda>i. nxt (WithLoggerContext rq i) (set_header ''X-Request-Id'' i r))
      else
        (let i = rq_Header rq ''X-Request-Id''
         in nxt (WithLoggerContext rq i) (set_header ''X-Request-Id'' i r)))"

text \<open>\<open>Logger\<close> runs the next handler behind a recorder of the status and logs the outcome.\<close>

definition Logger :: middleware where
  "Logger nxt rq r = nxt rq r"

text \<open>\<open>http.MaxBytesReader\<close>: reading past the limit fails, so a longer value is not decoded.\<close>

definition MaxBody1MB :: middleware where
  "MaxBody1MB nxt rq r =
     nxt (if 1024 * 1024 < rq_BodyEnd rq then rq\<lparr>rq_Body := None\<rparr> else rq) r"

definition BlockIP :: middleware where
  "BlockIP nxt rq r = nxt rq r"

definition OneTimePerEmail :: middleware where
  "OneTimePerEmail nxt rq r = nxt rq r"

section \<open>manager.go\<close>

text \<open>The loop from the last middleware to the first, each wrapping what was built so far.\<close>

fun wrap_from_last :: "middleware list \<Rightarrow> nat \<Rightarrow> handler \<Rightarrow> handler" where
  "wrap_from_last ms 0 nxt = nxt"
| "wrap_from_last ms (Suc i) nxt = wrap_from_last ms i ((ms ! i) nxt)"

definition Use :: "middleware list \<Rightarrow> middleware list \<Rightarrow> middleware list" where
  "Use globalMiddlewares middlewares = globalMiddlewares @ middlewares"

definition With :: "handler \<Rightarrow> middleware list \<Rightarrow> handler" where
  "With nxt middlewares = wrap_from_last middlewares (length middlewares) nxt"

definition WrapMux :: "middleware list \<Rightarrow> handler \<Rightarrow> handler" where
  "WrapMux globalMiddlewares nxt = wrap_from_last globalMiddlewares (length globalMiddlewares) nxt"

text \<open>The chain \<open>server.go\<close> installs in front of the routes.\<close>

definition server_chain :: "env \<Rightarrow> handler \<Rightarrow> handler" where
  "server_chain E mux =
     WrapMux (Use [] [RequestId E, Cors E, Preflight, Logger, Limit E 20 35]) mux"

lemma wrap_from_last_foldr:
  "i \<le> length ms \<Longrightarrow> wrap_from_last ms i nxt = foldr (\<lambda>m h. m h) (take i ms) nxt"
  by (induction i arbitrary: nxt) (simp_all add: take_Suc_conv_app_nth)

end
