(* ===== verification/App_User.thy ===== *)
theory App_User
  imports App_Auth
begin

text \<open>
  \<open>internal/app/user\<close>: a user's own account (profile, quota, password, deletion) and
  \<open>internal/app/friend\<close>: friend requests.
\<close>

section \<open>internal/app/user\<close>

definition ChangePassword :: "env \<Rightarrow> string \<Rightarrow> string \<Rightarrow> string \<Rightarrow> string \<Rightarrow> unit io" where
  "ChangePassword E ident currentPass pass confirmPass =
     (case uuid_Parse E ident of
        None \<Rightarrow> fail (Driver ''invalid UUID'')
      | Some i \<Rightarrow>
          call (GetById E i)
            (\<lambda>e. fail (if errors_Is e SqlNoRows then AuthE ErrUserNotFound else e)) (\<lambda>found.
          if pass \<noteq> confirmPass then fail (AppE ErrPasswordMismatched)
          else if currentPass = pass
          then fail (Msg ''new password cannot be the same as current password'')
          else if \<not> CompareHashAndPassword E (u_PasswordHash found) currentPass
          then fail (AuthE ErrInvalidCredential)
          else
            call (GenerateHash E pass)
              (\<lambda>e. fail (Wrapf ''hasher.GenerateHash'' [AppE ErrHashGenFailed, e])) (\<lambda>newPassHash.
            call (user_ChangePassword E ident newPassHash)
              (\<lambda>e. fail (Wrapf ''userRepo.ChangePassword'' [AppE ErrTableUpdateFailed, e])) ret)))"

definition DeleteUser :: "env \<Rightarrow> string \<Rightarrow> string \<Rightarrow> unit io" where
  "DeleteUser E ident pass =
     (case uuid_Parse E ident of
        None \<Rightarrow> fail (Driver ''invalid UUID'')
      | Some i \<Rightarrow>
          call (GetById E i)
            (\<lambda>e. fail (Wrapf ''authRepo.GetById'' [AuthE ErrUserNotFound, e])) (\<lambda>found.
          if \<not> CompareHashAndPassword E (u_PasswordHash found) pass
          then fail (AuthE ErrInvalidCredential)
          else
            call (DeleteById E i)
              (\<lambda>e. fail (Wrapf ''authRepo.DeleteById'' [AppE ErrTableUpdateFailed, e])) ret))"

definition GetProfile :: "env \<Rightarrow> string \<Rightarrow> profile_response io" where
  "GetProfile E ident =
     call (user_GetProfile E ident False)
       (\<lambda>e. fail (if errors_Is e SqlNoRows then AuthE ErrUserNotFound
                  else Wrapf ''userRepo.GetProfile'' [e])) ret"

definition GetQuota :: "env \<Rightarrow> string \<Rightarrow> user_quota io" where
  "GetQuota E ident = quota_GetById E ident"

definition UpdateProfile ::
  "env \<Rightarrow> profile_update_request \<Rightarrow> string \<Rightarrow> string \<Rightarrow> profile_response io" where
  "UpdateProfile E profile userId lastUpdatedAt =
     call (tx_WithRC E
       (call (user_GetProfile E userId True) fail (\<lambda>resp.
        if time_Format E (pr_UpdatedAt resp) \<noteq> lastUpdatedAt
        then fail (GifE ErrETagValidationFailed)
        else user_UpdateProfile E profile userId))) fail ret"

section \<open>internal/app/friend\<close>

definition SendRequest :: "env \<Rightarrow> string \<Rightarrow> string \<Rightarrow> friendship io" where
  "SendRequest E requesterID addresseeID =
     (if requesterID = addresseeID then fail (FriendE ErrCannotFriendSelf)
      else
        call (friend_Exists E requesterID addresseeID)
          (\<lambda>e. fail (Wrapf ''repo.Exists'' [e])) (\<lambda>exists.
        if exists then fail (FriendE ErrAlreadyExists)
        else
          call (friend_Create E requesterID addresseeID)
            (\<lambda>e. fail (Wrapf ''repo.Create'' [e])) ret))"

definition Accept :: "env \<Rightarrow> string \<Rightarrow> string \<Rightarrow> friendship io" where
  "Accept E ident actingUserID =
     call (friend_UpdateStatus E ident StatusAccepted actingUserID)
       (\<lambda>e. fail (if errors_Is e SqlNoRows then FriendE ErrFriendNotFound
                  else Wrapf ''repo.UpdateStatus'' [e])) ret"

definition Reject :: "env \<Rightarrow> string \<Rightarrow> string \<Rightarrow> unit io" where
  "Reject E ident actingUserID = friend_Delete E ident actingUserID"

definition Remove :: "env \<Rightarrow> string \<Rightarrow> string \<Rightarrow> unit io" where
  "Remove E ident actingUserID = friend_Delete E ident actingUserID"

definition ListFriends :: "env \<Rightarrow> string \<Rightarrow> friend_response list io" where
  "ListFriends E userID = friend_ListFriends E userID"

definition ListPendingIncoming :: "env \<Rightarrow> string \<Rightarrow> friend_response list io" where
  "ListPendingIncoming E userID = friend_ListPendingIncoming E userID"

section \<open>The services keep the tables' invariant\<close>

lemma keeps_user_services [keeps_intros]:
  "inv_kept ov (ChangePassword E i c p q)" "inv_kept ov (DeleteUser E i p)" "inv_kept ov (GetProfile E i)"
  "inv_kept ov (GetQuota E i)" "inv_kept ov (UpdateProfile E req i lu)"
  unfolding ChangePassword_def DeleteUser_def GetProfile_def GetQuota_def UpdateProfile_def
  by (intro keeps_intros)+

lemma keeps_friend_services [keeps_intros]:
  "inv_kept ov (Accept E i a)" "inv_kept ov (Reject E i a)" "inv_kept ov (Remove E i a)"
  "inv_kept ov (ListFriends E i)" "inv_kept ov (ListPendingIncoming E i)"
  unfolding Accept_def Reject_def Remove_def ListFriends_def ListPendingIncoming_def
  by (intro keeps_intros)+

text \<open>
  The request is inserted only after the search for a friendship of the two found none, on the
  same tables.
\<close>

lemma friend_Exists_Inr:
  assumes "friend_Exists E r s w = (Inr b, w1)"
  shows "db w1 = db w \<and> now w1 = now w \<and> (\<exists>i j. pg_uuid_in E r = Some i \<and>
    pg_uuid_in E s = Some j \<and> (b \<longleftrightarrow> linked i j (db w)))"
  using db_exec_Inr [OF assms [unfolded friend_Exists_def]]
  by (auto simp: with_uuid_Inr linked_def)

lemma keeps_SendRequest [keeps_intros]: "inv_kept False (SendRequest E r s)"
proof (rule keepsI)
  fix w :: world assume iv: "service_inv (db w)"
  show "service_inv (db (snd (SendRequest E r s w)))"
  proof (cases "friend_Exists E r s w")
    case (Pair x w1)
    have d1: "db w1 = db w"
      using keepsD [OF keeps_uuid_reads(3) [of "\<lambda>d. d = db w" E r s], of w] Pair by simp
    show ?thesis
    proof (cases "r \<noteq> s \<and> x = Inr False")
      case True
      have "service_inv (db (snd (friend_Create E r s w1)))"
      proof (rule friend_Create_inv)
        fix a b assume "pg_uuid_in E r = Some a" "pg_uuid_in E s = Some b"
        then show "\<not> linked a b (db w1)"
          using friend_Exists_Inr [of E r s w False w1] Pair True d1 by auto
      qed (simp add: iv d1)
      then have "service_inv (db (snd (call (friend_Create E r s)
          (\<lambda>e. fail (Wrapf ''repo.Create'' [e])) ret w1)))"
        by (auto simp: call_def fail_def ret_def split: prod.split sum.split)
      moreover have e: "friend_Exists E r s w = (Inr False, w1)" using True Pair by simp
      ultimately show ?thesis using True by (simp add: SendRequest_def call_run [of "friend_Exists E r s" w, OF e])
    next
      case False
      then show ?thesis using Pair iv d1
        by (auto simp: SendRequest_def call_def fail_def split: sum.split)
    qed
  qed
qed

section \<open>Passwords and deletion\<close>

lemma user_ChangePassword_Inr:
  "user_ChangePassword E s h w = (Inr x, w') \<Longrightarrow>
     \<exists>i. pg_uuid_in E s = Some i \<and> now w' = now w \<and>
       db w' = (db w)\<lparr>users := update_where (\<lambda>u. u_Id u = i)
         (\<lambda>u. u\<lparr>u_PasswordHash := h, u_UpdatedAt := now w\<rparr>) (users (db w))\<rparr>"
  unfolding user_ChangePassword_def
  by (drule db_exec_Inr) (auto simp: with_uuid_Inr update_users_def Let_def split: if_splits)

text \<open>
  A change of password that reports success was given the user's current password,
  a different new one, twice; it has stored the new one's bcrypt hash in that user's row and
  changed no other row.
\<close>

theorem ChangePassword_success:
  assumes "ChangePassword E ident cur new confirm w = (Inr x, w')"
    and "\<And>s i. uuid_Parse E s = Some i \<Longrightarrow> pg_uuid_in E s = Some i"
  shows "new = confirm \<and> new \<noteq> cur \<and> (\<exists>u\<in>set (users (db w)). \<exists>n h.
    uuid_Parse E ident = Some (u_Id u) \<and> CompareHashAndPassword E (u_PasswordHash u) cur \<and>
    bcrypt_Generate E n (new @ cnf_Pepper E) (cnf_Cost E) = Some h \<and>
    (\<exists>t. db w' = (db w)\<lparr>users := update_where (\<lambda>v. u_Id v = u_Id u)
       (\<lambda>u. u\<lparr>u_PasswordHash := h, u_UpdatedAt := t\<rparr>) (users (db w))\<rparr>))"
proof -
  from assms(1) obtain i u w1 h w2 where p: "uuid_Parse E ident = Some i"
    and g: "GetById E i w = (Inr u, w1)" and nc: "new = confirm" "cur \<noteq> new"
    and c: "CompareHashAndPassword E (u_PasswordHash u) cur"
    and h: "GenerateHash E new w1 = (Inr h, w2)" and k: "user_ChangePassword E ident h w2 = (Inr x, w')"
    by (auto simp: ChangePassword_def inr_simps split: option.splits if_splits)
  note G = GetById_Inr [OF g] and H = GenerateHash_Inr [OF h] and K = user_ChangePassword_Inr [OF k]
  have "pg_uuid_in E ident = Some i" by (rule assms(2) [OF p])
  then have "db w' = (db w)\<lparr>users := update_where (\<lambda>v. u_Id v = u_Id u)
       (\<lambda>u. u\<lparr>u_PasswordHash := h, u_UpdatedAt := now w2\<rparr>) (users (db w))\<rparr>"
    using G H K by auto
  then show ?thesis using nc p c G H by (intro conjI bexI [of _ u]) auto
qed

text \<open>
  Property C22. Deleting an account asks for its password, and leaves no row of any table that
  belongs to it or refers to it or to one of its gifs, while other users' rows stay.
\<close>

theorem DeleteUser_cascades:
  assumes "service_inv (db w)" "DeleteUser E ident pass w = (Inr x, w')"
  shows "\<exists>u\<in>set (users (db w)). uuid_Parse E ident = Some (u_Id u) \<and>
    CompareHashAndPassword E (u_PasswordHash u) pass \<and> db w' = delete_users (\<lambda>v. u_Id v = u_Id u) (db w) \<and>
    \<not> user_exists (u_Id u) (db w') \<and> set (users (db w')) = {v \<in> set (users (db w)). u_Id v \<noteq> u_Id u} \<and>
    (\<forall>v\<in>set (verifier (db w')). v_UserId v \<noteq> u_Id u) \<and> (\<forall>r\<in>set (reseter (db w')). r_UserId r \<noteq> u_Id u) \<and>
    (\<forall>g\<in>set (gifs (db w')). g_UserId g \<noteq> u_Id u) \<and>
    (\<forall>s\<in>set (shares (db w')). s_OwnerID s \<noteq> u_Id u \<and> s_SharedWith s \<noteq> u_Id u) \<and>
    (\<forall>f\<in>set (friendships (db w')). f_RequesterID f \<noteq> u_Id u \<and> f_AddresseeID f \<noteq> u_Id u) \<and>
    (\<forall>j\<in>set (jobs (db w')). j_UserID j \<noteq> u_Id u)"
proof -
  from assms(2) obtain i u w1 where p: "uuid_Parse E ident = Some i"
    and g: "GetById E i w = (Inr u, w1)" and c: "CompareHashAndPassword E (u_PasswordHash u) pass"
    and d: "DeleteById E i w1 = (Inr x, w')"
    by (auto simp: DeleteUser_def inr_simps split: option.splits if_splits)
  note G = GetById_Inr [OF g]
  have D: "db w' = delete_users (\<lambda>v. u_Id v = u_Id u) (db w)"
    using d G by (auto simp: DeleteById_def dest!: db_exec_Inr)
  have iv: "service_inv (db w')"
    using keepsD [OF keeps_user_services(2) [of False E ident pass], of w] assms by simp
  have no: "\<not> user_exists (u_Id u) (db w')"
    by (auto simp: D delete_users_def Let_def user_exists_iff)
  have us: "set (users (db w')) = {v \<in> set (users (db w)). u_Id v \<noteq> u_Id u}"
    by (auto simp: D delete_users_def Let_def)
  have refs: "refs_ok (db w')" using iv by (simp add: tables_ok_def schema_ok_def)
  show ?thesis
    by (rule bexI [of _ u]) (use p c G D no us refs in \<open>auto simp: refs_ok_def\<close>)
qed

section \<open>Optimistic concurrency\<close>

lemma user_GetProfile_Inr:
  "user_GetProfile E s b w = (Inr p, w') \<Longrightarrow> db w' = db w \<and> now w' = now w \<and>
     (\<exists>i u q. pg_uuid_in E s = Some i \<and> List.find (\<lambda>u. u_Id u = i) (users (db w)) = Some u \<and>
        p = profile_of u q)"
  unfolding user_GetProfile_def
  by (drule db_exec_Inr) (auto simp: with_uuid_Inr get_row_Inr split: option.split_asm)

text \<open>
  A profile update is applied only to the version the client has seen: when the
  stored time of the last change does not print as the client's, the update is refused and
  nothing is written.
\<close>

theorem UpdateProfile_stale:
  assumes "pg_uuid_in E userId = Some i" "List.find (\<lambda>u. u_Id u = i) (users (db w)) = Some u"
    and "time_Format E (u_UpdatedAt u) \<noteq> seen"
  shows "db (snd (UpdateProfile E req userId seen w)) = db w \<and>
    (\<exists>e. fst (UpdateProfile E req userId seen w) = Inl e)"
proof -
  let ?fn = "call (user_GetProfile E userId True) fail (\<lambda>resp.
        if time_Format E (pr_UpdatedAt resp) \<noteq> seen then fail (GifE ErrETagValidationFailed)
        else user_UpdateProfile E req userId)"
  have "\<exists>e. fst (?fn w1) = Inl e" if d: "db w1 = db w" for w1
  proof (cases "user_GetProfile E userId True w1")
    case (Pair r w2)
    show ?thesis
    proof (cases r)
      case (Inr p)
      then have "pr_UpdatedAt p = u_UpdatedAt u"
        using user_GetProfile_Inr [of E userId True w1 p w2] Pair assms(1,2) d
        by (auto simp: profile_of_def)
      then show ?thesis using Pair Inr assms(3) by (simp add: call_def fail_def)
    qed (use Pair in \<open>simp add: call_def fail_def\<close>)
  qed
  then have f: "\<And>w1. db w1 = db w \<Longrightarrow> \<exists>e. fst (?fn w1) = Inl e" .
  have "db (snd (tx_WithRC E ?fn w)) = db w \<and> (\<exists>e. fst (tx_WithRC E ?fn w) = Inl e)"
    by (rule rc.run_fails) (rule f)
  then show ?thesis
    by (cases "tx_WithRC E ?fn w") (auto simp: UpdateProfile_def call_def fail_def)
qed

section \<open>Friends\<close>

definition befriended :: "database \<Rightarrow> uuid \<Rightarrow> uuid \<Rightarrow> bool" where
  "befriended d a b \<longleftrightarrow>
     (\<exists>f\<in>set (friendships d). f_Status f = StatusAccepted \<and>
        (f_RequesterID f = a \<and> f_AddresseeID f = b \<or> f_RequesterID f = b \<and> f_AddresseeID f = a))"

text \<open>
  A friend request that reports success joined two different, existing users who
  had no friendship or request in either direction, and added one pending row.
\<close>

theorem SendRequest_success:
  assumes "SendRequest E r s w = (Inr f, w')"
  shows "\<exists>a b. pg_uuid_in E r = Some a \<and> pg_uuid_in E s = Some b \<and> a \<noteq> b \<and> \<not> linked a b (db w) \<and>
    user_exists a (db w) \<and> user_exists b (db w) \<and> f_RequesterID f = a \<and> f_AddresseeID f = b \<and>
    f_Status f = StatusPending \<and> db w' = (db w)\<lparr>friendships := friendships (db w) @ [f]\<rparr>"
proof -
  from assms obtain w1 where e: "friend_Exists E r s w = (Inr False, w1)"
    and c: "friend_Create E r s w1 = (Inr f, w')"
    by (auto simp: SendRequest_def inr_simps split: if_splits)
  note X = friend_Exists_Inr [OF e]
  from c obtain a b d where ab: "pg_uuid_in E r = Some a" "pg_uuid_in E s = Some b"
    and i: "insert_friendship \<lparr>f_ID = uuid_gen E (draws w1), f_RequesterID = a, f_AddresseeID = b,
      f_Status = ''pending'', f_CreatedAt = now w1, f_UpdatedAt = now w1\<rparr>
      (w1\<lparr>draws := Suc (draws w1)\<rparr>) = Inr (f, d)" and d: "db w' = d"
    unfolding friend_Create_def draw_uuid_def Let_def prod.case
    by (auto dest!: db_exec_Inr simp: with_uuid_Inr)
  show ?thesis
    using X ab i d by (auto simp: insert_friendship_def friendship_row_ok_def StatusPending_def split: if_splits)
qed

text \<open>
  Only the addressee of a request can accept it: an acceptance that reports success
  was made by the user a stored request is addressed to, and made that row accepted and no other.
\<close>

theorem Accept_by_addressee:
  assumes "Accept E ident actor w = (Inr f, w')"
  shows "\<exists>a f0. pg_uuid_in E actor = Some a \<and> pg_uuid_in E ident = Some (f_ID f0) \<and>
    f0 \<in> set (friendships (db w)) \<and> f_AddresseeID f0 = a \<and>
    f = f0\<lparr>f_Status := StatusAccepted, f_UpdatedAt := now w\<rparr> \<and>
    db w' = (db w)\<lparr>friendships := update_where (\<lambda>g. f_ID g = f_ID f0 \<and> f_AddresseeID g = a)
       (\<lambda>g. g\<lparr>f_Status := StatusAccepted, f_UpdatedAt := now w\<rparr>) (friendships (db w))\<rparr>"
proof -
  from assms have u: "friend_UpdateStatus E ident StatusAccepted actor w = (Inr f, w')"
    by (auto simp: Accept_def inr_simps)
  from db_exec_Inr [OF u [unfolded friend_UpdateStatus_def]] obtain i a f0 where
      ia: "pg_uuid_in E ident = Some i" "pg_uuid_in E actor = Some a"
    and fd: "List.find (\<lambda>f. f_ID f = i \<and> f_AddresseeID f = a) (friendships (db w)) = Some f0"
    and r: "f = f0\<lparr>f_Status := StatusAccepted, f_UpdatedAt := now w\<rparr>"
      "db w' = (db w)\<lparr>friendships := update_where (\<lambda>f. f_ID f = i \<and> f_AddresseeID f = a)
         (\<lambda>f. f\<lparr>f_Status := StatusAccepted, f_UpdatedAt := now w\<rparr>) (friendships (db w))\<rparr>"
    by (auto simp: with_uuid_Inr Let_def split: option.split_asm if_split_asm)
  show ?thesis using find_SomeD [OF fd] ia r by auto
qed

text \<open>
  Rejecting a request or removing a friend takes away exactly the row with that
  identifier, if the acting user is one of its two parties; a row of others stays, and the call
  reports success all the same.
\<close>

theorem Remove_only_own:
  assumes "no_faults E" "tx w = NoTx" "pg_uuid_in E ident = Some i" "pg_uuid_in E actor = Some a"
  shows "fst (Remove E ident actor w) = Inr () \<and>
    db (snd (Remove E ident actor w)) = (db w)\<lparr>friendships := delete_where
      (\<lambda>f. f_ID f = i \<and> (f_RequesterID f = a \<or> f_AddresseeID f = a)) (friendships (db w))\<rparr>"
  using assms by (simp add: Remove_def friend_Delete_def no_faults_def db_exec_def with_uuid_def)

text \<open>
  Friendship is symmetric in what users see: an accepted friendship between two
  users lists each of them to the other, and only those are listed.
\<close>

theorem ListFriends_symmetric:
  assumes "service_inv (db w)" "pg_uuid_in E ua = Some a" "pg_uuid_in E ub = Some b"
    and "ListFriends E ua w = (Inr la, w1)" "ListFriends E ub w = (Inr lb, w2)"
  shows "(b \<in> fr_UserID ` set la \<longleftrightarrow> befriended (db w) a b) \<and>
    (b \<in> fr_UserID ` set la \<longleftrightarrow> a \<in> fr_UserID ` set lb)"
proof -
  have ex: "\<And>f. f \<in> set (friendships (db w)) \<Longrightarrow> f_RequesterID f \<in> u_Id ` set (users (db w)) \<and>
      f_AddresseeID f \<in> u_Id ` set (users (db w)) \<and> f_RequesterID f \<noteq> f_AddresseeID f"
    using assms(1)
    by (auto simp: tables_ok_def schema_ok_def refs_ok_def rows_ok_def user_exists_iff friendship_row_ok_def)
  have listed: "y \<in> fr_UserID ` set l \<longleftrightarrow> befriended (db w) x y"
    if l: "ListFriends E s w = (Inr l, w')" and s: "pg_uuid_in E s = Some x" for s x y l w'
  proof -
    have l': "l = [friend_response_of f u.
        f \<leftarrow> friendships (db w),
        (f_RequesterID f = x \<or> f_AddresseeID f = x) \<and> f_Status f = ''accepted'',
        u \<leftarrow> users (db w), u_Id u = (if f_RequesterID f = x then f_AddresseeID f else f_RequesterID f)]"
      using db_exec_Inr [OF l [unfolded ListFriends_def friend_ListFriends_def]] s
      by (simp add: with_uuid_Inr)
    have "y \<in> fr_UserID ` set l \<longleftrightarrow> (\<exists>f\<in>set (friendships (db w)).
        (f_RequesterID f = x \<or> f_AddresseeID f = x) \<and> f_Status f = ''accepted'' \<and>
        (\<exists>u\<in>set (users (db w)). u_Id u = y \<and>
           y = (if f_RequesterID f = x then f_AddresseeID f else f_RequesterID f)))"
      unfolding l' by (auto simp: image_iff friend_response_of_def)
    also have "\<dots> \<longleftrightarrow> befriended (db w) x y"
      unfolding befriended_def StatusAccepted_def
    proof (rule bex_cong [OF refl])
      fix f assume f: "f \<in> set (friendships (db w))"
      show "((f_RequesterID f = x \<or> f_AddresseeID f = x) \<and> f_Status f = ''accepted'' \<and>
          (\<exists>u\<in>set (users (db w)). u_Id u = y \<and>
             y = (if f_RequesterID f = x then f_AddresseeID f else f_RequesterID f))) =
        (f_Status f = ''accepted'' \<and> (f_RequesterID f = x \<and> f_AddresseeID f = y \<or>
           f_RequesterID f = y \<and> f_AddresseeID f = x))"
        using ex [OF f] by (auto split: if_split_asm)
    qed
    finally show ?thesis .
  qed
  have "befriended (db w) a b \<longleftrightarrow> befriended (db w) b a" by (auto simp: befriended_def)
  then show ?thesis using listed [OF assms(4,2)] listed [OF assms(5,3)] by simp
qed

section \<open>The properties at concrete accounts\<close>

definition sample_two_db :: database where
  "sample_two_db = empty_db\<lparr>users := [sample_ann True,
     (new_user ''bob@x'' ''bob'' ''Bob'' ''hpw-pepper'')\<lparr>u_Id := ''v'', u_IsVerified := True\<rparr>]\<rparr>"

definition sample_pending :: friendship where
  "sample_pending = \<lparr>f_ID = ''f'', f_RequesterID = ''u'', f_AddresseeID = ''v'',
     f_Status = StatusPending, f_CreatedAt = 0, f_UpdatedAt = 0\<rparr>"

definition sample_friends_db :: "string \<Rightarrow> database" where
  "sample_friends_db st = sample_two_db\<lparr>friendships := [sample_pending\<lparr>f_Status := st\<rparr>]\<rparr>"

lemma ChangePassword_success_witness:
  "\<exists>t h. db (snd (ChangePassword sample_env ''u'' ''pw'' ''new'' ''new'' (world_of 0 sample_verified_db))) =
     sample_verified_db\<lparr>users := update_where (\<lambda>v. u_Id v = ''u'')
       (\<lambda>u. u\<lparr>u_PasswordHash := h, u_UpdatedAt := t\<rparr>) (users sample_verified_db)\<rparr>"
proof -
  have r: "fst (ChangePassword sample_env ''u'' ''pw'' ''new'' ''new''
      (world_of 0 sample_verified_db)) = Inr ()" by code_simp
  from ChangePassword_success [OF run_pair [OF r]] show ?thesis by (fastforce simp: sample_env_def)
qed

lemma DeleteUser_cascades_witness:
  "\<not> user_exists ''u'' (db (snd (DeleteUser sample_env ''u'' ''pw'' (world_of 0 sample_verified_db))))"
proof -
  have r: "fst (DeleteUser sample_env ''u'' ''pw'' (world_of 0 sample_verified_db)) = Inr ()" by code_simp
  from DeleteUser_cascades [OF _ run_pair [OF r]] show ?thesis
    by (auto simp: sample_verified_inv sample_env_def)
qed

lemma UpdateProfile_stale_witness:
  "db (snd (UpdateProfile sample_env \<lparr>pu_ProfilePic = None, pu_Username = None,
     pu_Fullname = Some ''X'', pu_Email = None\<rparr> ''u'' ''later''
     (world_of 0 sample_verified_db))) = sample_verified_db"
  using UpdateProfile_stale [of sample_env "''u''" "''u''" "world_of 0 sample_verified_db"
      "sample_ann True" "''later''"]
  by (simp add: sample_env_def sample_verified_db_def sample_ann_def new_user_def)

lemma SendRequest_success_witness:
  "\<exists>f. f_Status f = StatusPending \<and>
     db (snd (SendRequest sample_env ''u'' ''v'' (world_of 0 sample_two_db))) =
       sample_two_db\<lparr>friendships := [f]\<rparr>"
proof -
  have "\<exists>f. fst (SendRequest sample_env ''u'' ''v'' (world_of 0 sample_two_db)) = Inr f"
    by (rule exI [of _ "\<lparr>f_ID = sample_uuid 0, f_RequesterID = ''u'', f_AddresseeID = ''v'',
      f_Status = ''pending'', f_CreatedAt = 0, f_UpdatedAt = 0\<rparr>"]) code_simp
  then obtain f where "fst (SendRequest sample_env ''u'' ''v'' (world_of 0 sample_two_db)) = Inr f" by blast
  from SendRequest_success [OF run_pair [OF this]] show ?thesis
    by (auto simp: sample_two_db_def empty_db_def)
qed

lemma Accept_by_addressee_witness:
  "friendships (db (snd (Accept sample_env ''f'' ''v'' (world_of 0 (sample_friends_db StatusPending))))) =
     [sample_pending\<lparr>f_Status := StatusAccepted\<rparr>]"
proof -
  have r: "fst (Accept sample_env ''f'' ''v'' (world_of 0 (sample_friends_db StatusPending))) =
      Inr (sample_pending\<lparr>f_Status := StatusAccepted\<rparr>)" by code_simp
  from Accept_by_addressee [OF run_pair [OF r]] show ?thesis
    by (auto simp: sample_env_def sample_friends_db_def sample_pending_def update_where_def)
qed

lemma Remove_only_own_witness:
  "db (snd (Remove sample_env ''f'' ''w'' (world_of 0 (sample_friends_db StatusAccepted)))) =
     sample_friends_db StatusAccepted"
  using Remove_only_own [of sample_env "world_of 0 (sample_friends_db StatusAccepted)" "''f''" "''f''"
      "''w''" "''w''"]
  by (simp add: sample_friends_db_def sample_pending_def delete_where_def sample_two_db_def empty_db_def)

lemma ListFriends_symmetric_witness:
  "befriended (sample_friends_db StatusAccepted) ''u'' ''v''"
proof -
  let ?w = "world_of 0 (sample_friends_db StatusAccepted)"
  let ?r = "\<lambda>i n f. [\<lparr>fr_UserID = i, fr_Username = n, fr_Fullname = f, fr_Status = StatusAccepted,
      fr_CreatedAt = 0\<rparr>]"
  have a: "fst (ListFriends sample_env ''u'' ?w) = Inr (?r ''v'' ''bob'' ''Bob'')" by code_simp
  have b: "fst (ListFriends sample_env ''v'' ?w) = Inr (?r ''u'' ''ann'' ''Ann'')" by code_simp
  have "service_inv (db ?w)"
    by (simp add: world_of_def sample_friends_db_def sample_two_db_def tables_ok_def, code_simp)
  from ListFriends_symmetric [OF this _ _ run_pair [OF a] run_pair [OF b], of "''u''" "''v''"]
  show ?thesis by (simp add: sample_env_def)
qed

end
