(* ===== verification/Handlers_Auth.thy ===== *)
theory Handlers_Auth
  imports Middleware App_User
begin

text \<open>
  \<open>internal/transport/http/handlers/auth\<close>: a handler decodes the body, has the validator check it,
  calls the service and turns its error into a status. The steps the handlers share come first.
  The encoding of a result lists the fields of its struct by their \<open>json\<close> tags.
\<close>

section \<open>The steps of a handler\<close>

definition bad_request :: "string \<Rightarrow> http_response \<Rightarrow> http_response" where
  "bad_request msg r = SendError ''BAD_REQUEST'' msg 400 r"

definition validation_failed :: "string \<Rightarrow> http_response \<Rightarrow> http_response" where
  "validation_failed msg r = SendError ''VALIDATION_FAILED'' msg 422 r"

text \<open>\<open>json.NewDecoder(r.Body).Decode(&req)\<close> on the zero struct; \<open>bad\<close> is the reply to an error.\<close>

definition decode_body ::
  "'s fields \<Rightarrow> 's \<Rightarrow> string \<Rightarrow> http_request \<Rightarrow> http_response \<Rightarrow> ('s \<Rightarrow> http_response io) \<Rightarrow> http_response io" where
  "decode_body fs zero bad rq r k =
     (case Option.bind (rq_Body rq) (\<lambda>v. decode_struct fs v zero) of
        None \<Rightarrow> ret (bad_request bad r)
      | Some req \<Rightarrow> k req)"

definition validated ::
  "env \<Rightarrow> struct_fields \<Rightarrow> string \<Rightarrow> http_response \<Rightarrow> http_response io \<Rightarrow> http_response io" where
  "validated E fs msg r k = (if validate_Struct E fs then k else ret (validation_failed msg r))"

text \<open>The guard of the handlers behind \<open>Auth\<close>.\<close>

definition user_required ::
  "string \<Rightarrow> http_request \<Rightarrow> http_response \<Rightarrow> (string \<Rightarrow> http_response io) \<Rightarrow> http_response io" where
  "user_required msg rq r k =
     (let i = GetUserId rq
      in if i = [] then ret (unauthorized ''invalid_token'' ''user id not found'' msg r) else k i)"

definition path_required ::
  "string \<Rightarrow> string \<Rightarrow> http_request \<Rightarrow> http_response \<Rightarrow> (string \<Rightarrow> http_response io) \<Rightarrow> http_response io" where
  "path_required name msg rq r k =
     (let v = rq_PathValue rq name
      in if v = [] then ret (bad_request msg r) else k v)"

text \<open>A \<open>switch\<close> of \<open>errors.Is\<close> cases, in order, with its default.\<close>

fun err_switch ::
  "(goerr list \<times> (http_response \<Rightarrow> http_response)) list \<Rightarrow> goerr \<Rightarrow> http_response \<Rightarrow> http_response" where
  "err_switch [] e r = internal_error r"
| "err_switch ((targets, reply) # cases) e r =
     (if list_ex (errors_Is e) targets then reply r else err_switch cases e r)"

text \<open>Calling a service: a reply to its error, or one made of its result.\<close>

definition serve_call ::
  "'a io \<Rightarrow> (goerr \<Rightarrow> http_response \<Rightarrow> http_response) \<Rightarrow> ('a \<Rightarrow> http_response \<Rightarrow> http_response) \<Rightarrow>
     http_response \<Rightarrow> http_response io" where
  "serve_call m on_error reply r =
     attempt m (\<lambda>x. case x of Inl e \<Rightarrow> ret (on_error e r) | Inr v \<Rightarrow> ret (reply v r))"

definition message :: "string \<Rightarrow> json" where
  "message m = JObj [(''msg'', JStr m)]"

definition bearer_invalid :: "string \<Rightarrow> string \<Rightarrow> http_response \<Rightarrow> http_response" where
  "bearer_invalid desc msg r = unauthorized ''invalid_token'' desc msg r"

section \<open>signup.go\<close>

record req_signup =
  su_Username :: string
  su_Fullname :: string
  su_Email :: string
  su_Password :: string
  su_ConfirmPassword :: string

definition special_chars :: string where
  "special_chars = ''!@#$%^&*''"

definition password_rules :: "vrule list" where
  "password_rules = [VRequired, VMin 5, VMax 70, VContainsAny special_chars]"

definition signup_fields :: "req_signup fields" where
  "signup_fields =
     [(''username'', into_string (\<lambda>x s. s\<lparr>su_Username := x\<rparr>)),
      (''fullname'', into_string (\<lambda>x s. s\<lparr>su_Fullname := x\<rparr>)),
      (''email'', into_string (\<lambda>x s. s\<lparr>su_Email := x\<rparr>)),
      (''password'', into_string (\<lambda>x s. s\<lparr>su_Password := x\<rparr>)),
      (''confirm_password'', into_string (\<lambda>x s. s\<lparr>su_ConfirmPassword := x\<rparr>))]"

definition signup_rules :: "req_signup \<Rightarrow> struct_fields" where
  "signup_rules q =
     [(''Username'', FStr (su_Username q), [VRequired, VMin 4, VMax 20, VAlphanum]),
      (''Fullname'', FStr (su_Fullname q), [VRequired, VMin 4, VMax 100]),
      (''Email'', FStr (su_Email q), [VRequired, VEmail, VMax 50]),
      (''Password'', FStr (su_Password q), password_rules),
      (''ConfirmPassword'', FStr (su_ConfirmPassword q), [VEqField ''Password''])]"

definition no_signup :: req_signup where
  "no_signup = \<lparr>su_Username = [], su_Fullname = [], su_Email = [], su_Password = [], su_ConfirmPassword = []\<rparr>"

text \<open>An email that could not be queued is no error of the request: the account exists.\<close>

definition http_Signup :: "env \<Rightarrow> handler" where
  "http_Signup E rq r =
     decode_body signup_fields no_signup ''Bad request'' rq r (\<lambda>req.
     validated E (signup_rules req) ''field required'' r
    (serve_call (Signup E (su_Email req) (su_Username req) (su_Fullname req) (su_Password req))
       (\<lambda>e r. if errors_Is e (AppE ErrMessageQueueFailed) then SendJson (JStr ''user created'') 201 r
              else err_switch [([AuthE ErrUserExists], SendError ''AUTH_USER_EXISTS'' ''email exists'' 409)] e r)
       (\<lambda>i r. SendJson (JStr ''user created'') 201 (set_header ''Location'' (''/users/'' @ i) r)) r))"

section \<open>login.go\<close>

record req_login =
  li_Email :: string
  li_Password :: string

definition login_fields :: "req_login fields" where
  "login_fields =
     [(''email'', into_string (\<lambda>x s. s\<lparr>li_Email := x\<rparr>)),
      (''password'', into_string (\<lambda>x s. s\<lparr>li_Password := x\<rparr>))]"

definition login_rules :: "req_login \<Rightarrow> struct_fields" where
  "login_rules q =
     [(''Email'', FStr (li_Email q), [VRequired, VEmail, VMax 50]),
      (''Password'', FStr (li_Password q), password_rules)]"

definition no_login :: req_login where
  "no_login = \<lparr>li_Email = [], li_Password = []\<rparr>"

definition http_Login :: "env \<Rightarrow> handler" where
  "http_Login E rq r =
     decode_body login_fields no_login ''Bad request'' rq r (\<lambda>req.
     validated E (login_rules req) ''Bad request'' r
    (serve_call (Login E (li_Email req) (li_Password req))
       (err_switch
          [([AuthE ErrUserNotVerified], SendError ''AUTH_USER_NOT_VERIFIED'' ''not verified'' 403),
           ([AuthE ErrInvalidCredential], bearer_invalid ''invalid credentials'' ''invalid credentials'')])
       (\<lambda>(token, i) r. SendJson (JObj [(''token'', JStr token), (''id'', JStr i)]) 200 r) r))"

section \<open>logout.go\<close>

definition http_Logout :: "env \<Rightarrow> handler" where
  "http_Logout E rq r =
     (case GetAuthorizationHeader rq of
        None \<Rightarrow> ret (internal_error r)
      | Some jwt \<Rightarrow>
          (case GetClaims rq of
             None \<Rightarrow> ret (internal_error r)
           | Some claims \<Rightarrow>
               serve_call (Logout E jwt claims) (err_switch [])
                 (\<lambda>_. SendJson (JStr ''logout'') 200) r))"

section \<open>forgot_password.go, resend_verify.go\<close>

record req_email =
  rm_Email :: string

definition email_fields :: "req_email fields" where
  "email_fields = [(''email'', into_string (\<lambda>x s. s\<lparr>rm_Email := x\<rparr>))]"

definition email_rules :: "req_email \<Rightarrow> struct_fields" where
  "email_rules q = [(''Email'', FStr (rm_Email q), [VRequired, VEmail, VMax 50])]"

definition http_ForgotPassword :: "env \<Rightarrow> handler" where
  "http_ForgotPassword E rq r =
     decode_body email_fields \<lparr>rm_Email = []\<rparr> ''Bad request'' rq r (\<lambda>req.
     validated E (email_rules req) ''field required'' r
    (serve_call (ForgotPassword E (rm_Email req))
       (\<lambda>e r. if errors_Is e (AppE ErrMessageQueueFailed) \<or> errors_Is e (AuthE ErrUserNotFound)
              then SendJson (message ''check mail'') 202 r
              else err_switch
                [([AuthE ErrUserNotVerified], SendError ''AUTH_USER_NOT_VERIFIED'' ''user is not varified'' 403)] e r)
       (\<lambda>_. SendJson (message ''check mail'') 202) r))"

definition http_ResendVerify :: "env \<Rightarrow> handler" where
  "http_ResendVerify E rq r =
     decode_body email_fields \<lparr>rm_Email = []\<rparr> ''Bad request'' rq r (\<lambda>req.
     validated E (email_rules req) ''field required'' r
    (serve_call (ResendVerify E (rm_Email req))
       (\<lambda>e r. if errors_Is e (AppE ErrMessageQueueFailed) then SendJson (message ''check mail'') 202 r
              else err_switch
                [([AuthE ErrUserNotFound], SendError ''AUTH_USER_NOT_FOUND'' ''user not found'' 404),
                 ([VerifierE ErrTokenFetchFailed], SendError ''AUTH_USER_NOT_VERIFIED'' ''not verified'' 403),
                 ([AuthE ErrUserNotVerified], SendError ''AUTH_USER_NOT_VERIFIED'' ''not verified'' 403)] e r)
       (\<lambda>_. SendJson (message ''check mail'') 202) r))"

section \<open>reset_password.go\<close>

record req_reset =
  rs_Token :: string
  rs_Password :: string
  rs_ConfirmPassword :: string

definition reset_fields :: "req_reset fields" where
  "reset_fields =
     [(''token'', into_string (\<lambda>x s. s\<lparr>rs_Token := x\<rparr>)),
      (''password'', into_string (\<lambda>x s. s\<lparr>rs_Password := x\<rparr>)),
      (''confirm_password'', into_string (\<lambda>x s. s\<lparr>rs_ConfirmPassword := x\<rparr>))]"

definition reset_rules :: "req_reset \<Rightarrow> struct_fields" where
  "reset_rules q =
     [(''Token'', FStr (rs_Token q), [VRequired, VMax 50]),
      (''Password'', FStr (rs_Password q), password_rules),
      (''ConfirmPassword'', FStr (rs_ConfirmPassword q), [VEqField ''Password''])]"

definition no_reset :: req_reset where
  "no_reset = \<lparr>rs_Token = [], rs_Password = [], rs_ConfirmPassword = []\<rparr>"

definition http_ResetPasswordGet :: "env \<Rightarrow> handler" where
  "http_ResetPasswordGet E rq r =
     (let token = rq_Query rq ''token''
      in if token = [] then ret (bad_request ''Bad request'' r)
         else serve_call (ResetPasswordGet E token)
           (\<lambda>_. SendError ''AUTH_RESET_TOKEN_INVALID'' ''expired or invalid token'' 410)
           (\<lambda>t. SendJson (JObj [(''token'', JStr t)]) 200) r)"

definition http_ResetPasswordPost :: "env \<Rightarrow> handler" where
  "http_ResetPasswordPost E rq r =
     decode_body reset_fields no_reset ''Bad request'' rq r (\<lambda>req.
     validated E (reset_rules req) ''field required'' r
    (serve_call (ResetPasswordPost E (rs_Token req) (rs_Password req) (rs_ConfirmPassword req))
       (\<lambda>e r. if errors_Is e (AppE ErrMessageQueueFailed) then SendJson (JStr ''ok'') 200 r
              else err_switch
                [([VerifierE ErrReseterTokenFatchFailed],
                  SendError ''AUTH_RESET_TOKEN_INVALID'' ''invalid or expired token'' 410)] e r)
       (\<lambda>_. SendJson (JStr ''ok'') 200) r))"

section \<open>verify.go\<close>

definition http_Verify :: "env \<Rightarrow> handler" where
  "http_Verify E rq r =
     (let token = rq_Query rq ''token''
      in if token = [] then ret (bad_request ''token is empty'' r)
         else serve_call (Verify E token)
           (err_switch
              [([VerifierE ErrInvalidToken],
                SendError ''AUTH_VERIFY_TOKEN_INVALID'' ''token expired or invalid'' 410)])
           (\<lambda>_. SendJson (JStr ''account verified'') 200) r)"

end
