(* ===== verification/Handlers_User.thy ===== *)
theory Handlers_User
  imports Handlers_Auth
begin

text \<open>
  \<open>internal/transport/http/handlers/user\<close> and \<open>.../friend\<close>: accounts, profiles and quotas,
  friend requests. Both packages sit behind the authentication middleware.
\<close>

section \<open>Encoding results\<close>

definition json_time :: "env \<Rightarrow> timestamp \<Rightarrow> json" where
  "json_time E t = JStr (time_Format E t)"

definition json_ptr :: "('a \<Rightarrow> json) \<Rightarrow> 'a option \<Rightarrow> json" where
  "json_ptr f v = (case v of None \<Rightarrow> JNull | Some x \<Rightarrow> f x)"

text \<open>Rows that sqlx has selected: for no rows it may leave the slice \<open>nil\<close>, which is \<open>null\<close>.\<close>

definition json_rows :: "env \<Rightarrow> ('a \<Rightarrow> json) \<Rightarrow> 'a list \<Rightarrow> json" where
  "json_rows E f xs = (if xs = [] \<and> sqlx_nil_slices E then JNull else JArr (map f xs))"

definition json_profile :: "env \<Rightarrow> profile_response \<Rightarrow> json" where
  "json_profile E p =
     JObj [(''avatar_url'', JStr (pr_ProfilePic p)), (''username'', JStr (pr_Username p)),
           (''fullname'', JStr (pr_Fullname p)), (''email'', JStr (pr_Email p)),
           (''verified'', JBool (pr_IsVerified p)), (''updated_at'', json_time E (pr_UpdatedAt p))]"

definition json_quota :: "user_quota \<Rightarrow> json" where
  "json_quota q =
     JObj [(''id'', JNum (q_ID q)), (''user_id'', JStr (q_UserID q)),
           (''used_bytes'', JNum (q_UsedBytes q)), (''total_bytes'', JNum (q_TotalBytes q)),
           (''gif_count'', JNum (q_GifCount q)), (''gif_limit'', JNum (q_GitLimit q))]"

definition json_friendship :: "env \<Rightarrow> friendship \<Rightarrow> json" where
  "json_friendship E f =
     JObj [(''id'', JStr (f_ID f)), (''requester_id'', JStr (f_RequesterID f)),
           (''addressee_id'', JStr (f_AddresseeID f)), (''status'', JStr (f_Status f)),
           (''created_at'', json_time E (f_CreatedAt f)), (''updated_at'', json_time E (f_UpdatedAt f))]"

definition json_friend :: "env \<Rightarrow> friend_response \<Rightarrow> json" where
  "json_friend E f =
     JObj [(''user_id'', JStr (fr_UserID f)), (''username'', JStr (fr_Username f)),
           (''fullname'', JStr (fr_Fullname f)), (''status'', JStr (fr_Status f)),
           (''created_at'', json_time E (fr_CreatedAt f))]"

section \<open>user/change_password.go\<close>

record req_change_password =
  cp_CurrentPassword :: string
  cp_Password :: string
  cp_ConfirmPassword :: string

definition change_password_fields :: "req_change_password fields" where
  "change_password_fields =
     [(''current_password'', into_string (\<lambda>x s. s\<lparr>cp_CurrentPassword := x\<rparr>)),
      (''password'', into_string (\<lambda>x s. s\<lparr>cp_Password := x\<rparr>)),
      (''confirm_password'', into_string (\<lambda>x s. s\<lparr>cp_ConfirmPassword := x\<rparr>))]"

definition change_password_rules :: "req_change_password \<Rightarrow> struct_fields" where
  "change_password_rules q =
     [(''CurrentPassword'', FStr (cp_CurrentPassword q), [VRequired, VMin 5, VMax 70]),
      (''Password'', FStr (cp_Password q), password_rules),
      (''ConfirmPassword'', FStr (cp_ConfirmPassword q), [VEqField ''Password''])]"

definition no_change_password :: req_change_password where
  "no_change_password = \<lparr>cp_CurrentPassword = [], cp_Password = [], cp_ConfirmPassword = []\<rparr>"

definition user_not_found :: "http_response \<Rightarrow> http_response" where
  "user_not_found r = SendError ''AUTH_USER_NOT_FOUND'' ''user not found'' 404 r"

definition http_ChangePassword :: "env \<Rightarrow> handler" where
  "http_ChangePassword E rq r =
     user_required ''user id not found'' rq r (\<lambda>i.
     decode_body change_password_fields no_change_password ''Bad request'' rq r (\<lambda>req.
     validated E (change_password_rules req) ''field required'' r
    (serve_call (ChangePassword E i (cp_CurrentPassword req) (cp_Password req) (cp_ConfirmPassword req))
       (err_switch
          [([AuthE ErrUserNotFound], user_not_found),
           ([AppE ErrPasswordMismatched], validation_failed ''password not matched''),
           ([AuthE ErrInvalidCredential], bearer_invalid ''invalid credentials'' ''forbidden'')])
       (\<lambda>_. SendJson (JStr ''changed'') 200) r)))"

section \<open>user/delete_user.go\<close>

record req_delete_password =
  dp_Password :: string

definition delete_password_fields :: "req_delete_password fields" where
  "delete_password_fields = [(''password'', into_string (\<lambda>x s. s\<lparr>dp_Password := x\<rparr>))]"

definition http_DeleteUser :: "env \<Rightarrow> handler" where
  "http_DeleteUser E rq r =
     user_required ''user id not found'' rq r (\<lambda>i.
     decode_body delete_password_fields \<lparr>dp_Password = []\<rparr> ''Bad request'' rq r (\<lambda>req.
     validated E [(''Password'', FStr (dp_Password req), password_rules)] ''field required'' r
    (serve_call (DeleteUser E i (dp_Password req))
       (err_switch
          [([AuthE ErrUserNotFound], user_not_found),
           ([AuthE ErrInvalidCredential], bearer_invalid ''invalid credentials'' ''invalid credentials'')])
       (\<lambda>_. SendJson (message ''user deleted'') 200) r)))"

section \<open>user/get_profile.go, get_quota.go\<close>

definition http_GetProfile :: "env \<Rightarrow> handler" where
  "http_GetProfile E rq r =
     user_required ''user id not found'' rq r (\<lambda>i.
     serve_call (GetProfile E i) (err_switch [([AuthE ErrUserNotFound], user_not_found)])
       (\<lambda>found r. SendJson (json_profile E found) 200
          (set_header ''ETag'' (quoted (time_Format E (pr_UpdatedAt found))) r)) r)"

definition http_GetProfileByID :: "env \<Rightarrow> handler" where
  "http_GetProfileByID E rq r =
     (let targetID = rq_PathValue rq ''userId''
      in if targetID = [] \<or> targetID = ''me'' then http_GetProfile E rq r
         else serve_call (GetProfile E targetID) (err_switch [([AuthE ErrUserNotFound], user_not_found)])
           (\<lambda>found. SendJson (json_profile E found) 200) r)"

definition http_GetQuota :: "env \<Rightarrow> handler" where
  "http_GetQuota E rq r =
     user_required ''user id not found'' rq r (\<lambda>i.
     serve_call (GetQuota E i) (err_switch []) (\<lambda>q. SendJson (json_quota q) 200) r)"

section \<open>user/update_profile.go\<close>

definition profile_update_fields :: "profile_update_request fields" where
  "profile_update_fields =
     [(''avatar_url'', into_string_ptr (\<lambda>x s. s\<lparr>pu_ProfilePic := x\<rparr>)),
      (''username'', into_string_ptr (\<lambda>x s. s\<lparr>pu_Username := x\<rparr>)),
      (''fullname'', into_string_ptr (\<lambda>x s. s\<lparr>pu_Fullname := x\<rparr>)),
      (''email'', into_string_ptr (\<lambda>x s. s\<lparr>pu_Email := x\<rparr>))]"

definition no_profile_update :: profile_update_request where
  "no_profile_update = \<lparr>pu_ProfilePic = None, pu_Username = None, pu_Fullname = None, pu_Email = None\<rparr>"

text \<open>
  The struct has no \<open>validate\<close> tag, so the validator sees no rule. \<open>If-Match\<close> is handed to the
  service as it came, quotes included.
\<close>

definition precondition_failed :: "string \<Rightarrow> http_response \<Rightarrow> http_response" where
  "precondition_failed msg r = SendError ''PRECONDITION_FAILED'' msg 412 r"

definition http_UpdateProfile :: "env \<Rightarrow> handler" where
  "http_UpdateProfile E rq r =
     decode_body profile_update_fields no_profile_update ''Bad request'' rq r (\<lambda>req.
     validated E [] ''field required'' r
    (user_required ''user id not found'' rq r (\<lambda>i.
     let ifMatch = rq_Header rq ''If-Match''
     in if ifMatch = [] then ret (precondition_failed ''If-Match header is empty'' r)
        else serve_call (UpdateProfile E req i ifMatch)
          (err_switch [([GifE ErrETagValidationFailed], precondition_failed ''etag not matched'')])
          (\<lambda>updated. SendJson (json_profile E updated) 200) r)))"

section \<open>friend/send_request.go\<close>

record req_send_request =
  sq_AddresseeID :: string

definition friendship_not_found :: "string \<Rightarrow> http_response \<Rightarrow> http_response" where
  "friendship_not_found msg r = SendError ''FRIENDSHIP_NOT_FOUND'' msg 404 r"

definition friendship_forbidden :: "http_response \<Rightarrow> http_response" where
  "friendship_forbidden r = SendError ''FRIENDSHIP_FORBIDDEN'' ''forbidden'' 403 r"

definition http_SendRequest :: "env \<Rightarrow> handler" where
  "http_SendRequest E rq r =
     user_required ''unauthenticated'' rq r (\<lambda>userId.
     decode_body [(''addressee_id'', into_string (\<lambda>x s. s\<lparr>sq_AddresseeID := x\<rparr>))]
       \<lparr>sq_AddresseeID = []\<rparr> ''bad request'' rq r (\<lambda>req.
     validated E [(''AddresseeID'', FStr (sq_AddresseeID req), [VRequired, VUuid4])] ''field required'' r
    (serve_call (SendRequest E userId (sq_AddresseeID req))
       (err_switch
          [([FriendE ErrCannotFriendSelf], validation_failed ''cannot send a friend request to yourself''),
           ([FriendE ErrAlreadyExists], SendError ''FRIENDSHIP_ALREADY_EXISTS'' ''friendship already exists'' 409),
           ([FriendE ErrFriendNotFound], friendship_not_found ''not found''),
           ([FriendE ErrFriendNotAuthorized], friendship_forbidden)])
       (\<lambda>f. SendJson (json_friendship E f) 201) r)))"

section \<open>friend/accept.go, reject.go, remove.go\<close>

definition friend_errors :: "string \<Rightarrow> goerr \<Rightarrow> http_response \<Rightarrow> http_response" where
  "friend_errors msg =
     err_switch
       [([FriendE ErrFriendNotFound], friendship_not_found msg),
        ([FriendE ErrFriendNotAuthorized], friendship_forbidden)]"

definition http_Accept :: "env \<Rightarrow> handler" where
  "http_Accept E rq r =
     user_required ''unauthenticated'' rq r (\<lambda>userId.
     path_required ''id'' ''friendship request id is missing'' rq r (\<lambda>i.
     serve_call (Accept E i userId) (friend_errors ''friendship request not found'')
       (\<lambda>f. SendJson (json_friendship E f) 200) r))"

definition http_Reject :: "env \<Rightarrow> handler" where
  "http_Reject E rq r =
     user_required ''unauthenticated'' rq r (\<lambda>userId.
     path_required ''id'' ''friendship request id is missing'' rq r (\<lambda>i.
     serve_call (Reject E i userId) (friend_errors ''friendship request not found'')
       (\<lambda>_. SendJson (message ''rejected'') 200) r))"

definition http_Remove :: "env \<Rightarrow> handler" where
  "http_Remove E rq r =
     user_required ''unauthenticated'' rq r (\<lambda>userId.
     path_required ''id'' ''friendship id is missing'' rq r (\<lambda>i.
     serve_call (Remove E i userId) (friend_errors ''friendship not found'')
       (\<lambda>_. SendJson (message ''removed'') 200) r))"

section \<open>friend/list_friends.go, list_pending.go\<close>

definition http_ListFriends :: "env \<Rightarrow> handler" where
  "http_ListFriends E rq r =
     user_required ''unauthenticated'' rq r (\<lambda>userId.
     serve_call (ListFriends E userId) (err_switch [])
       (\<lambda>fs. SendJson (json_rows E (json_friend E) fs) 200) r)"

definition http_ListPendingIncoming :: "env \<Rightarrow> handler" where
  "http_ListPendingIncoming E rq r =
     user_required ''unauthenticated'' rq r (\<lambda>userId.
     serve_call (ListPendingIncoming E userId) (err_switch [])
       (\<lambda>fs. SendJson (json_rows E (json_friend E) fs) 200) r)"

end
