(* ===== verification/App_Share.thy ===== *)
theory App_Share
  imports App_User Storage
begin

text \<open>
  \<open>internal/app/share\<close>: sharing a gif with a user, and by a token sent to an email address. The
  token is generated as the authentication service does it, and looked up as it was received.
\<close>

section \<open>The services\<close>

text \<open>The owner of a gif, with the error mapping its callers share.\<close>

definition gif_owner :: "env \<Rightarrow> string \<Rightarrow> string io" where
  "gif_owner E key =
     call (gif_GetOwner E key)
       (\<lambda>e. fail (if errors_Is e SqlNoRows then Wrapf ''gifRepo.GetOwner'' [GifE ErrGifNotFound, e]
                  else Wrapf ''gifRepo.GetOwner'' [e])) ret"

definition share_Create :: "env \<Rightarrow> string \<Rightarrow> string \<Rightarrow> string \<Rightarrow> timestamp \<Rightarrow> unit io" where
  "share_Create E sharedBy gifKey sharedWith expiresAt =
     at_now (\<lambda>n. if \<not> n < expiresAt then fail (ShareE ErrInvalidExpiry)
     else
       call (GetByEmail E sharedWith)
         (\<lambda>e. fail (if errors_Is e (AuthE ErrInvalidCredential) \<or> errors_Is e SqlNoRows \<or>
                       errors_Is e (AuthE ErrUserNotFound)
                    then Wrapf ''authRepo.GetByEmail'' [AuthE ErrUserNotFound, e]
                    else Wrapf ''authRepo.GetByEmail'' [e])) (\<lambda>sharedUser.
       call (gif_owner E gifKey) fail (\<lambda>owner.
       if owner \<noteq> sharedBy then fail (GifE ErrGifOwnerMismatch)
       else share_repo_Create E \<lparr>s_ID = [], s_GifKey = gifKey, s_OwnerID = sharedBy,
              s_SharedWith = u_Id sharedUser, s_ExpiresAt = Some expiresAt, s_CreatedAt = 0\<rparr>)))"

definition share_CreateByToken :: "env \<Rightarrow> string \<Rightarrow> string \<Rightarrow> string \<Rightarrow> timestamp \<Rightarrow> string io" where
  "share_CreateByToken E sharedBy gifKey sharedWithEmail expiresAt =
     at_now (\<lambda>n. if \<not> n < expiresAt then fail (ShareE ErrInvalidExpiry)
     else
       call (gif_owner E gifKey) fail (\<lambda>owner.
       if owner \<noteq> sharedBy then fail (GifE ErrGifOwnerMismatch)
       else with_token E (\<lambda>rawToken tokenHash.
         call (share_repo_CreateByToken E \<lparr>t_GifKey = gifKey, t_Token = tokenHash,
                 t_Email = sharedWithEmail, t_ExpiresAt = Some expiresAt, t_CreatedAt = 0\<rparr>)
           (\<lambda>e. fail (Wrapf ''shareRepo.CreateByToken'' [e])) (\<lambda>_.
         call (PublishEmail E \<lparr>em_To = sharedWithEmail, em_Name = ''share'', em_Token = rawToken\<rparr>)
           (\<lambda>e. fail (publish_failed e)) (\<lambda>_.
         ret rawToken)))))"

definition share_Delete :: "env \<Rightarrow> string \<Rightarrow> string \<Rightarrow> string \<Rightarrow> unit io" where
  "share_Delete E userId gifKey shareWithId =
     call (share_repo_GetOwner E shareWithId gifKey)
       (\<lambda>e. fail (if errors_Is e SqlNoRows then ShareE ErrShareNotFound else e)) (\<lambda>owner.
     if owner \<noteq> userId then fail (ShareE ErrShareNotAuthorized)
     else share_repo_Delete E gifKey shareWithId)"

definition share_Get :: "env \<Rightarrow> string \<Rightarrow> share_gif_response list io" where
  "share_Get E user = share_repo_Get E user"

definition share_GetByToken :: "env \<Rightarrow> string \<Rightarrow> gif_token_response io" where
  "share_GetByToken E token = share_repo_GetByToken E token"

definition DownloadByToken :: "env \<Rightarrow> string \<Rightarrow> string io" where
  "DownloadByToken E token =
     call (share_repo_GetByToken E token)
       (\<lambda>e. fail (if errors_Is e SqlNoRows then ShareE ErrShareNotFound
                  else Wrapf ''shareRepo.GetByToken'' [e])) (\<lambda>resp.
     call (IncrementDownload E (gt_GifKey resp))
       (\<lambda>e. fail (Wrapf ''gifRepo.IncrementDownload'' [e])) (\<lambda>_.
     call (storage_Download E (gt_GifKey resp) (5 * minute))
       (\<lambda>e. fail (Wrapf ''storage.Download'' [e])) ret))"

section \<open>The services keep the tables' invariant\<close>

lemma keeps_gif_owner [keeps_intros]: "keeps (\<lambda>w. P (db w)) (gif_owner E key)"
  unfolding gif_owner_def by (intro keeps_intros)

lemma keeps_share_services [keeps_intros]:
  "inv_kept ov (share_Create E u key e t)" "inv_kept ov (share_CreateByToken E u key e t)"
  "inv_kept ov (share_Delete E u key sw)" "inv_kept ov (share_Get E u)" "inv_kept ov (share_GetByToken E s)"
  "inv_kept ov (DownloadByToken E s)"
  unfolding share_Create_def share_CreateByToken_def share_Delete_def share_Get_def
    share_GetByToken_def DownloadByToken_def
  by (intro keeps_intros keeps_share_repo_CreateByToken; simp)+

section \<open>Sharing with a user\<close>

lemma gif_owner_Inr:
  "gif_owner E key w = (Inr ow, w') \<Longrightarrow> db w' = db w \<and> now w' = now w \<and>
     (\<exists>g\<in>set (gifs (db w)). g_Key g = key \<and> g_UserId g = ow)"
  by (auto simp: gif_owner_def inr_simps gif_GetOwner_def get_row_Inr
      dest!: db_exec_Inr find_SomeD)

definition same_share :: "string \<Rightarrow> uuid \<Rightarrow> share_row \<Rightarrow> bool" where
  "same_share key sw s \<longleftrightarrow> s_GifKey s = key \<and> s_SharedWith s = sw"

lemma filter_update_other:
  "(\<And>r. p r \<Longrightarrow> p (g r)) \<Longrightarrow> filter (\<lambda>r. \<not> p r) (update_where p g xs) = filter (\<lambda>r. \<not> p r) xs"
  by (induction xs) (auto simp: update_where_def)

lemma upsert_share_Inr:
  assumes "upsert_share s w = Inr (x, d)"
  shows "d = (db w)\<lparr>shares := shares d\<rparr> \<and>
    (\<exists>r\<in>set (shares d). same_share (s_GifKey s) (s_SharedWith s) r \<and> s_ExpiresAt r = s_ExpiresAt s) \<and>
    filter (\<lambda>r. \<not> same_share (s_GifKey s) (s_SharedWith s) r) (shares d) =
      filter (\<lambda>r. \<not> same_share (s_GifKey s) (s_SharedWith s) r) (shares (db w))"
proof -
  let ?p = "same_share (s_GifKey s) (s_SharedWith s)"
  have eq: "(\<lambda>x. s_GifKey x = s_GifKey s \<and> s_SharedWith x = s_SharedWith s) = ?p"
    by (simp add: fun_eq_iff same_share_def)
  show ?thesis
  proof (cases "list_ex ?p (shares (db w))")
    case True
    have "filter (\<lambda>r. \<not> ?p r) (update_where ?p (\<lambda>x. x\<lparr>s_ExpiresAt := s_ExpiresAt s\<rparr>) (shares (db w))) =
        filter (\<lambda>r. \<not> ?p r) (shares (db w))"
      by (rule filter_update_other) (simp add: same_share_def)
    moreover obtain r where "r \<in> set (shares (db w))" "?p r"
      using True by (auto simp: list_ex_iff)
    moreover have d: "d = (db w)\<lparr>shares := update_where ?p (\<lambda>x. x\<lparr>s_ExpiresAt := s_ExpiresAt s\<rparr>) (shares (db w))\<rparr>"
      using assms True unfolding upsert_share_def Let_def eq by simp
    ultimately show ?thesis
      by (auto simp: set_update_where same_share_def
          intro!: bexI [of _ "r\<lparr>s_ExpiresAt := s_ExpiresAt s\<rparr>"])
  next
    case False
    then have d: "d = (db w)\<lparr>shares := shares (db w) @ [s]\<rparr>"
      using assms unfolding upsert_share_def Let_def eq by (auto split: if_splits)
    show ?thesis unfolding d by (simp add: same_share_def)
  qed
qed

lemma share_repo_Create_Inr:
  assumes "share_repo_Create E s w = (Inr x, w')"
  shows "\<exists>ow sw. pg_uuid_in E (s_OwnerID s) = Some ow \<and> pg_uuid_in E (s_SharedWith s) = Some sw \<and>
    db w' = (db w)\<lparr>shares := shares (db w')\<rparr> \<and>
    (\<exists>r\<in>set (shares (db w')). same_share (s_GifKey s) sw r \<and> s_ExpiresAt r = s_ExpiresAt s) \<and>
    filter (\<lambda>r. \<not> same_share (s_GifKey s) sw r) (shares (db w')) =
      filter (\<lambda>r. \<not> same_share (s_GifKey s) sw r) (shares (db w))"
proof -
  obtain ow sw d s' w1 where "pg_uuid_in E (s_OwnerID s) = Some ow" "pg_uuid_in E (s_SharedWith s) = Some sw"
    and u: "upsert_share s' w1 = Inr (x, d)" and "db w1 = db w" "db w' = d"
    and "s_GifKey s' = s_GifKey s" "s_SharedWith s' = sw" "s_ExpiresAt s' = s_ExpiresAt s"
    using assms unfolding share_repo_Create_def draw_uuid_def Let_def prod.case
    by (auto dest!: db_exec_Inr simp: with_uuid_Inr)
  with upsert_share_Inr [OF u] show ?thesis by metis
qed

text \<open>
  A share that reports success was made by the gif's owner, to a registered user,
  for a time still to come; that user's share of the gif then has this expiry, and no other share
  and no other table has changed.
\<close>

theorem share_Create_success:
  assumes "share_Create E sharedBy key email expiresAt w = (Inr x, w')"
  shows "now w < expiresAt \<and> (\<exists>g\<in>set (gifs (db w)). g_Key g = key \<and> g_UserId g = sharedBy) \<and>
    (\<exists>u\<in>set (users (db w)). \<exists>sw. u_Email u = email \<and> pg_uuid_in E (u_Id u) = Some sw \<and>
      db w' = (db w)\<lparr>shares := shares (db w')\<rparr> \<and>
      (\<exists>s\<in>set (shares (db w')). same_share key sw s \<and> s_ExpiresAt s = Some expiresAt) \<and>
      filter (\<lambda>s. \<not> same_share key sw s) (shares (db w')) =
        filter (\<lambda>s. \<not> same_share key sw s) (shares (db w)))"
proof -
  from assms obtain u w1 w2 where t: "now w < expiresAt" and g: "GetByEmail E email w = (Inr u, w1)"
    and o: "gif_owner E key w1 = (Inr sharedBy, w2)"
    and c: "share_repo_Create E \<lparr>s_ID = [], s_GifKey = key, s_OwnerID = sharedBy,
      s_SharedWith = u_Id u, s_ExpiresAt = Some expiresAt, s_CreatedAt = 0\<rparr> w2 = (Inr x, w')"
    by (auto simp: share_Create_def at_now_def inr_simps split: if_splits)
  show ?thesis
    using t GetByEmail_Inr [OF g] gif_owner_Inr [OF o] share_repo_Create_Inr [OF c] by auto
qed

lemma unexpired_mono: "unexpired t e \<Longrightarrow> t' \<le> t \<Longrightarrow> unexpired t' e"
  by (auto simp: unexpired_def split: option.splits)

lemma share_Delete_Inr:
  assumes "share_Delete E userId key shareWithId w = (Inr x, w')"
  shows "\<exists>sw. pg_uuid_in E shareWithId = Some sw \<and>
    (\<exists>s\<in>set (shares (db w)). same_share key sw s \<and> s_OwnerID s = userId \<and> unexpired (now w) (s_ExpiresAt s)) \<and>
    db w' = (db w)\<lparr>shares := delete_where (same_share key sw) (shares (db w))\<rparr>"
proof -
  from assms obtain w1 where g: "share_repo_GetOwner E shareWithId key w = (Inr userId, w1)"
    and d: "share_repo_Delete E key shareWithId w1 = (Inr x, w')"
    by (auto simp: share_Delete_def inr_simps split: if_splits)
  have eq: "same_share key sw = (\<lambda>s. s_GifKey s = key \<and> s_SharedWith s = sw)" for sw
    by (simp add: fun_eq_iff same_share_def)
  show ?thesis
    using db_exec_Inr [OF g [unfolded share_repo_GetOwner_def]]
      db_exec_Inr [OF d [unfolded share_repo_Delete_def]]
    by (auto simp: with_uuid_Inr get_row_Inr eq dest!: find_SomeD)
qed

text \<open>
  Revoking a share takes its owner and an expiry still to come, and removes the
  share of that gif with that user and nothing else. A share that has expired cannot be revoked:
  the owner is looked for among the unexpired shares only, so the row stays.
\<close>

theorem share_Delete_unexpired_only:
  assumes "pg_uuid_in E shareWithId = Some sw"
  shows "(share_Delete E userId key shareWithId w = (Inr x, w') \<longrightarrow>
      (\<exists>s\<in>set (shares (db w)). same_share key sw s \<and> s_OwnerID s = userId \<and>
         unexpired (now w) (s_ExpiresAt s)) \<and>
      db w' = (db w)\<lparr>shares := delete_where (same_share key sw) (shares (db w))\<rparr>) \<and>
    ((\<forall>s\<in>set (shares (db w)). same_share key sw s \<longrightarrow> \<not> unexpired (now w) (s_ExpiresAt s)) \<longrightarrow>
      (\<exists>e. fst (share_Delete E userId key shareWithId w) = Inl e) \<and>
      db (snd (share_Delete E userId key shareWithId w)) = db w)"
proof (intro conjI impI)
  show "\<exists>s\<in>set (shares (db w)). same_share key sw s \<and> s_OwnerID s = userId \<and>
      unexpired (now w) (s_ExpiresAt s)"
    and "db w' = (db w)\<lparr>shares := delete_where (same_share key sw) (shares (db w))\<rparr>"
    if "share_Delete E userId key shareWithId w = (Inr x, w')"
    using share_Delete_Inr [OF that] assms by auto
next
  assume ex: "\<forall>s\<in>set (shares (db w)). same_share key sw s \<longrightarrow> \<not> unexpired (now w) (s_ExpiresAt s)"
  obtain r w1 where g: "share_repo_GetOwner E shareWithId key w = (r, w1)" by fastforce
  have d: "db w1 = db w"
    using keepsD [OF keeps_uuid_reads(8) [of "\<lambda>d. d = db w" E shareWithId key], of w] g by simp
  have "\<exists>e. r = Inl e"
  proof (cases r)
    case (Inr ow)
    then show ?thesis
      using db_exec_Inr [OF g [unfolded share_repo_GetOwner_def Inr]] ex assms
      by (auto simp: with_uuid_Inr get_row_Inr same_share_def dest!: find_SomeD)
  qed simp
  then show "\<exists>e. fst (share_Delete E userId key shareWithId w) = Inl e"
    and "db (snd (share_Delete E userId key shareWithId w)) = db w"
    using g d by (auto simp: share_Delete_def call_def fail_def)
qed

section \<open>Sharing by a token\<close>

lemma share_CreateByToken_Inr:
  assumes "share_CreateByToken E sharedBy key email expiresAt w = (Inr tok, w')"
  shows "now w < expiresAt \<and> (\<exists>g\<in>set (gifs (db w)). g_Key g = key \<and> g_UserId g = sharedBy) \<and>
    (\<exists>n. tok = uuid_gen E n) \<and>
    last (published w') = (EmailQueue, EmailPayload \<lparr>em_To = email, em_Name = ''share'', em_Token = tok\<rparr>) \<and>
    (\<exists>w1 w2. db w1 = db w \<and> db w2 = db w' \<and> now w1 = now w \<and>
       share_repo_CreateByToken E \<lparr>t_GifKey = key, t_Token = GetTokenHash E tok, t_Email = email,
         t_ExpiresAt = Some expiresAt, t_CreatedAt = 0\<rparr> w1 = (Inr (), w2))"
proof -
  let ?m = "\<lparr>em_To = email, em_Name = ''share'', em_Token = tok\<rparr>"
  from assms obtain w1 w2 w3 n where t: "now w < expiresAt"
    and o: "gif_owner E key w = (Inr sharedBy, w1)" and n: "tok = uuid_gen E n"
    and c: "share_repo_CreateByToken E \<lparr>t_GifKey = key, t_Token = GetTokenHash E tok, t_Email = email,
         t_ExpiresAt = Some expiresAt, t_CreatedAt = 0\<rparr> w2 = (Inr (), w3)"
    and w2: "db w2 = db w1" "now w2 = now w1" and p: "PublishEmail E ?m w3 = (Inr (), w')"
    by (auto simp: share_CreateByToken_def at_now_def with_token_def GenerateToken_def draw_uuid_def
        Let_def inr_simps split: if_splits)
  have "db w' = db w3" using PublishEmail_db [of E ?m w3] p by simp
  then show ?thesis
    using t n c w2 gif_owner_Inr [OF o] rabbit_publish_Inr [OF p [unfolded PublishEmail_def]] by auto
qed

text \<open>
  Property C23. A link that shares a gif by email opens nothing: the email carries the token, the
  table its hash, and both readers of the link search the table for the text they are given. No
  later state the services can reach changes that, and no download is counted.
\<close>

theorem emailed_share_token_refused:
  assumes "\<And>n. length (uuid_gen E n) = 36"
    and "share_CreateByToken E sharedBy key email expiresAt w = (Inr tok, w1)"
    and "service_inv (db w2)"
  shows "last (published w1) = (EmailQueue, EmailPayload \<lparr>em_To = email, em_Name = ''share'', em_Token = tok\<rparr>) \<and>
    (\<exists>e. fst (share_GetByToken E tok w2) = Inl e) \<and> (\<exists>e. fst (DownloadByToken E tok w2) = Inl e) \<and>
    db (snd (DownloadByToken E tok w2)) = db w2"
proof -
  note C = share_CreateByToken_Inr [OF assms(2)]
  have "length tok = 36" using C assms(1) by auto
  moreover have "\<forall>h\<in>set (map t_Token (share_tokens (db w2))). length h = 64"
    using assms(3) by (simp add: tables_ok_def rest_defs token_hash_length)
  ultimately have "\<exists>e. fst (share_repo_GetByToken E tok w2) = Inl e"
    by (intro st.other_length_refused) simp_all
  moreover have "db (snd (share_repo_GetByToken E tok w2)) = db w2" by (rule st.lookup_db)
  ultimately show ?thesis using C
    by (cases "share_repo_GetByToken E tok w2")
      (auto simp: share_GetByToken_def DownloadByToken_def call_def fail_def)
qed

text \<open>
  Sharing a gif again with the same address prolongs the old link and sends one that
  was never stored: the row keeps the hash of the first token, only its expiry is the new one.
\<close>

theorem reshared_link_not_stored:
  assumes "share_CreateByToken E sharedBy key email expiresAt w = (Inr tok, w')"
    and "st \<in> set (share_tokens (db w))" "t_GifKey st = key" "t_Email st = email"
  shows "st\<lparr>t_ExpiresAt := Some expiresAt\<rparr> \<in> set (share_tokens (db w')) \<and>
    map t_Token (share_tokens (db w')) = map t_Token (share_tokens (db w)) \<and>
    em_Token (case snd (last (published w')) of EmailPayload m \<Rightarrow> m) = tok"
proof -
  note C = share_CreateByToken_Inr [OF assms(1)]
  let ?same = "\<lambda>x. t_GifKey x = key \<and> t_Email x = email"
  let ?up = "update_where ?same (\<lambda>x. x\<lparr>t_ExpiresAt := Some expiresAt\<rparr>) (share_tokens (db w))"
  have "list_ex ?same (share_tokens (db w))" using assms(2-4) by (auto simp: list_ex_iff)
  moreover obtain w1 w2 where w: "db w1 = db w" "db w' = db w2" and
      c: "share_repo_CreateByToken E \<lparr>t_GifKey = key, t_Token = GetTokenHash E tok, t_Email = email,
         t_ExpiresAt = Some expiresAt, t_CreatedAt = 0\<rparr> w1 = (Inr (), w2)"
    using C by metis
  ultimately have d: "share_tokens (db w') = ?up"
    using db_exec_Inr [OF c [unfolded share_repo_CreateByToken_def]]
    by (auto simp: upsert_share_token_def)
  have "map t_Token ?up = map t_Token (share_tokens (db w))"
    by (rule map_update_where) simp
  moreover have "st\<lparr>t_ExpiresAt := Some expiresAt\<rparr> \<in> set ?up"
    using assms(2-4) by (auto simp: set_update_where intro: rev_image_eqI)
  ultimately show ?thesis using C d by simp
qed

section \<open>The properties at concrete gifs\<close>

definition sample_gif :: media_gif where
  "sample_gif = \<lparr>g_Key = ''k'', g_Name = ''g'', g_UserId = ''u'', g_Status = ''private'', g_Persist = False,
     g_Download = 0, g_Url = ''url'', g_ThumbnailKey = ''th'', g_FileSizeBytes = 1, g_Width = 1,
     g_Height = 1, g_DurationSeconds = 1, g_IsPublic = False, g_CreatedAt = 0, g_UpdatedAt = 0\<rparr>"

definition sample_gif_db :: database where
  "sample_gif_db = sample_two_db\<lparr>gifs := [sample_gif]\<rparr>"

definition sample_shared_db :: database where
  "sample_shared_db = sample_gif_db\<lparr>shares := [\<lparr>s_ID = ''s'', s_GifKey = ''k'', s_OwnerID = ''u'',
     s_SharedWith = ''v'', s_ExpiresAt = Some 10, s_CreatedAt = 0\<rparr>],
     share_tokens := [\<lparr>t_GifKey = ''k'', t_Token = replicate 64 (CHR ''a''), t_Email = ''c@x'',
       t_ExpiresAt = Some 10, t_CreatedAt = 0\<rparr>]\<rparr>"

lemma sample_gif_inv: "service_inv sample_gif_db"
  by code_simp

lemma share_Create_success_witness:
  "\<exists>s. same_share ''k'' ''v'' s \<and> s_ExpiresAt s = Some 10 \<and>
     s \<in> set (shares (db (snd (share_Create sample_env ''u'' ''k'' ''bob@x'' 10 (world_of 0 sample_gif_db)))))"
proof -
  have r: "fst (share_Create sample_env ''u'' ''k'' ''bob@x'' 10 (world_of 0 sample_gif_db)) = Inr ()"
    by code_simp
  from share_Create_success [OF run_pair [OF r]] show ?thesis
    by (auto simp: sample_gif_db_def sample_two_db_def sample_ann_def new_user_def)
qed

lemma share_Delete_unexpired_only_witness:
  "db (snd (share_Delete sample_env ''u'' ''k'' ''v'' (world_of 11 sample_shared_db))) = sample_shared_db"
  using share_Delete_unexpired_only [of sample_env "''v''" "''v''" "''u''" "''k''" "world_of 11 sample_shared_db"]
  by (auto simp: sample_shared_db_def same_share_def unexpired_def)

lemma sample_share_run:
  "share_CreateByToken sample_env ''u'' ''k'' ''c@x'' 10 (world_of 0 d) =
     (Inr (sample_uuid 0), snd (share_CreateByToken sample_env ''u'' ''k'' ''c@x'' 10 (world_of 0 d)))"
  if "d = sample_gif_db \<or> d = sample_shared_db"
  using that by (elim disjE; simp only:; intro run_pair; code_simp)

lemma emailed_share_token_refused_witness:
  "\<exists>e. fst (DownloadByToken sample_env (sample_uuid 0)
     (snd (share_CreateByToken sample_env ''u'' ''k'' ''c@x'' 10 (world_of 0 sample_gif_db)))) = Inl e"
proof -
  let ?w = "snd (share_CreateByToken sample_env ''u'' ''k'' ''c@x'' 10 (world_of 0 sample_gif_db))"
  have l: "\<And>n. length (uuid_gen sample_env n) = 36" by simp
  have iv: "service_inv (db ?w)"
    by (rule keepsD [OF keeps_share_services(2)]) (simp add: sample_gif_inv)
  show ?thesis using emailed_share_token_refused [OF l sample_share_run [OF disjI1] iv] by simp
qed

lemma reshared_link_not_stored_witness:
  "map t_Token (share_tokens (db (snd (share_CreateByToken sample_env ''u'' ''k'' ''c@x'' 10
     (world_of 0 sample_shared_db))))) = [replicate 64 (CHR ''a'')]"
  using reshared_link_not_stored [OF sample_share_run [OF disjI2], of sample_shared_db "hd (share_tokens sample_shared_db)"]
  by (simp add: sample_shared_db_def)

end
