(* ===== verification/App_Media.thy ===== *)
theory App_Media
  imports App_Share Ffmpeg
begin

text \<open>
  \<open>internal/app/media\<close>: uploads, conversions and their status, the gifs. The per-user mutex of
  \<open>Convert\<close> orders conversions of one user, which the sequential model has by construction; the
  job repository is never nil in the program.
\<close>

section \<open>Uploads\<close>

definition strings_Contains_char :: "string \<Rightarrow> char \<Rightarrow> bool" where
  "strings_Contains_char s c = (c \<in> set s)"

text \<open>The guard of \<open>Convert\<close> and \<open>Status\<close>: only keys that name a user are checked.\<close>

definition foreign_key :: "string \<Rightarrow> string \<Rightarrow> bool" where
  "foreign_key userId key \<longleftrightarrow>
     strings_Contains_char key (CHR '':'') \<and> \<not> has_prefix key (userId @ '':'')"

definition uploading_key :: "string \<Rightarrow> string" where
  "uploading_key key = ''uploading:'' @ key"

definition UpdateUploadingStatus :: "env \<Rightarrow> string \<Rightarrow> string \<Rightarrow> unit io" where
  "UpdateUploadingStatus E key status = redis_Set E (uploading_key key) status (5 * minute)"

definition Upload :: "env \<Rightarrow> string \<Rightarrow> string \<Rightarrow> upload_result io" where
  "Upload E filename userId =
     (let ext = filepath_Ext filename
      in if ext = [] \<or> ext = ''.'' then fail (StorageE ErrInvalidExt)
         else
           attempt (quota_GetById E userId) (\<lambda>q.
           if (case q of Inl _ \<Rightarrow> False
               | Inr qt \<Rightarrow> q_TotalBytes qt > 0 \<and> q_UsedBytes qt \<ge> q_TotalBytes qt)
           then fail (QuotaE ErrQuotaExceeded)
           else with_uuid_drawn E (\<lambda>i.
             let key = userId @ '':'' @ i @ ext
             in call (storage_Create E key (5 * minute)) fail (\<lambda>url.
                call (UpdateUploadingStatus E key ''uploading'') fail (\<lambda>_.
                ret \<lparr>ur_Url = url, ur_Key = key, ur_ExpireIn = 300\<rparr>)))))"

definition Status :: "env \<Rightarrow> string \<Rightarrow> string \<Rightarrow> (string \<times> string) io" where
  "Status E userId key =
     (if foreign_key userId key then fail (GifE ErrGifOwnerMismatch)
      else
        call (attempt (redis_Get E (uploading_key key)) (\<lambda>r. case r of
            Inr status \<Rightarrow> ret status
          | Inl e \<Rightarrow> if errors_Is e (CacheE ErrCacheMiss) then ret ''failed'' else fail e)) fail (\<lambda>status.
        if status \<noteq> ''ok'' then ret ([], status)
        else
          call (GetLastVideo E userId)
            (\<lambda>e. fail (if errors_Is e SqlNoRows
                       then Wrapf ''lastVideoRepo.GetLastVideo'' [UploadE ErrLastVideoNotFound, e]
                       else Wrapf ''lastVideoRepo.GetLastVideo'' [e])) (\<lambda>resp.
          ret (lr_FileKey resp, status))))"

definition seperateUserId :: "string \<Rightarrow> string" where
  "seperateUserId key = before_char (CHR '':'') key"

definition last_upload_of ::
  "uuid \<Rightarrow> string \<Rightarrow> string \<Rightarrow> string \<Rightarrow> int \<Rightarrow> string option \<Rightarrow> timestamp \<Rightarrow> last_upload" where
  "last_upload_of userID fileKey filename contentType sz thumb uploadedAt =
     \<lparr>l_ID = 0, l_UserID = userID, l_FileKey = fileKey, l_Filename = filename,
      l_ContentType = contentType, l_SizeBytes = Some sz, l_DurationSec = None,
      l_ThumbnailURL = thumb, l_UploadedAt = uploadedAt, l_DeletedAt = None, l_UpdatedAt = None\<rparr>"

definition ProcessAndSave :: "env \<Rightarrow> string \<Rightarrow> unit io" where
  "ProcessAndSave E key =
     (if key = [] then fail (StorageE ErrEmptyKey)
      else
        call (PreProcess E key)
          (\<lambda>e. fail (Wrapf ''processor.PreProcess'' [StorageE ErrInvalidFiletype, e])) (\<lambda>res.
        if seperateUserId key = [] then fail (Msg ''Empty user id'')
        else case ParseInt 64 (pp_Size res) of
          None \<Rightarrow> fail (Msg ''strconv failed'')
        | Some sz \<Rightarrow>
            if sz > cnf_MaxUploadBytes E then fail (Msg ''uploaded file exceeds max allowed size'')
            else (case uuid_Parse E (seperateUserId key) of
              None \<Rightarrow> fail (Msg ''user id uuid convertion failed'')
            | Some userID \<Rightarrow>
                at_now (\<lambda>n.
                call (last_Create E (last_upload_of userID (pp_VideoKey res) [] (pp_ContentType res) sz
                        (Some (pp_ThumbnailKey res)) n))
                  (\<lambda>e. fail (Wrapf ''lastVideoRepo.Create() failed'' [e])) ret))))"

definition SaveMetadata :: "env \<Rightarrow> save_video_message \<Rightarrow> unit io" where
  "SaveMetadata E msg =
     (case uuid_Parse E (sm_UserID msg) of
        None \<Rightarrow> fail (JobE ErrInvalidUserID)
      | Some userID \<Rightarrow>
          call (storage_Status E (sm_Key msg))
            (\<lambda>e. call (PublishRetrySaveVideo E msg)
                   (\<lambda>retyErr. fail (errors_Join e (Some retyErr))) (\<lambda>_. fail e)) (\<lambda>info.
          last_Create E (last_upload_of userID (sm_Key msg) (sm_Filename msg) (i_ContentType info)
            (i_Size info) None (i_UploadedAt info))))"

definition LastVideo :: "env \<Rightarrow> string \<Rightarrow> last_upload_response io" where
  "LastVideo E userId =
     call (GetLastVideo E userId)
       (\<lambda>e. fail (if errors_Is e SqlNoRows
                  then Wrapf ''lastVideoRepo.GetLastVideo'' [UploadE ErrLastVideoNotFound, e]
                  else Wrapf ''lastVideoRepo.GetLastVideo'' [e])) ret"

definition Stream :: "env \<Rightarrow> string \<Rightarrow> string \<Rightarrow> stream_result io" where
  "Stream E userId key =
     call (GetStreamURL E key minute)
       (\<lambda>e. fail (Wrapf ''storage.GetStreamURL'' [e])) (\<lambda>url.
     ret \<lparr>st_PresignedUrl = url, st_ExpireIn = 60\<rparr>)"

section \<open>Conversions\<close>

definition job_owner_key :: "string \<Rightarrow> string" where
  "job_owner_key i = ''messaage_queue_owner:job_id:'' @ i"

definition job_status_key :: "string \<Rightarrow> string" where
  "job_status_key i = ''messaage_queue:job_id:'' @ i"

definition job_gif_key :: "string \<Rightarrow> string" where
  "job_gif_key i = ''messaage_queue_gif:job_id:'' @ i"

text \<open>A call whose error is dropped: \<open>_ = f()\<close>.\<close>

definition ignore_err :: "'a io \<Rightarrow> 'b io \<Rightarrow> 'b io" where
  "ignore_err m k = attempt m (\<lambda>_. k)"

definition Convert ::
  "env \<Rightarrow> string \<Rightarrow> string \<Rightarrow> rat \<Rightarrow> rat \<Rightarrow> int \<Rightarrow> int \<Rightarrow> bool \<Rightarrow> (string \<times> string) io" where
  "Convert E userId key start stop fps width lp =
     (if foreign_key userId key then fail (GifE ErrGifOwnerMismatch)
      else
        attempt (quota_GetById E userId) (\<lambda>q.
        if (case q of Inl _ \<Rightarrow> False
            | Inr qt \<Rightarrow> q_GifCount qt > 0 \<and> q_GifCount qt \<ge> q_GitLimit qt)
        then fail (QuotaE ErrQuotaExceeded)
        else with_uuid_drawn E (\<lambda>i.
          let status = ''queued'';
              msg = \<lparr>vm_UserID = userId, vm_JobId = i, vm_Key = key, vm_Start = start, vm_End = stop,
                     vm_Width = width, vm_FPS = fps, vm_Loop = lp, vm_Retries = 0\<rparr>
          in
          call (redis_Set E (job_owner_key i) userId (5 * minute))
            (\<lambda>e. fail (Wrapf ''cache.Set(owner)'' [AppE ErrCacheSetFailed, e])) (\<lambda>_.
          call (redis_Set E (job_status_key i) status (5 * minute))
            (\<lambda>e. fail (Wrapf ''cache.Set(job)'' [AppE ErrCacheSetFailed, e])) (\<lambda>_.
          call (redis_Set E (job_gif_key i) status (5 * minute))
            (\<lambda>e. fail (Wrapf ''cache.Set(gif)'' [AppE ErrCacheSetFailed, e])) (\<lambda>_.
          call (job_Create E \<lparr>j_ID = i, j_UserID = userId, j_Type = ''video_to_gif'',
                  j_Status = JobQueued, j_Progress = 0, j_ErrorMessage = [], j_ResultKey = [],
                  j_CreatedAt = 0, j_UpdatedAt = 0\<rparr>)
            (\<lambda>e. fail (Wrapf ''jobRepo.Create(ctx, job)'' [e])) (\<lambda>_.
          call (PublishVideo E msg)
            (\<lambda>e. ignore_err (redis_Set E (job_status_key i) ''failed'' (5 * minute))
                 (ignore_err (redis_Set E (job_gif_key i) ''failed'' (5 * minute))
                 (ignore_err (job_UpdateStatus E i JobFailed 0 [] ''queue publish failed'')
                 (fail (Wrapf ''queue.PublishVideo'' [AppE ErrMessageQueueFailed, e]))))) (\<lambda>_.
          ret (i, status)))))))))"

text \<open>\<open>errors.Join(err, s.cache.Set(...))\<close>: the second error is the one of the call, if any.\<close>

definition fail_marking :: "env \<Rightarrow> string \<Rightarrow> goerr \<Rightarrow> 'a io" where
  "fail_marking E i e =
     attempt (redis_Set E (job_status_key i) ''failed'' (5 * minute))
       (\<lambda>r. fail (errors_Join e (err_of r)))"

definition Process :: "env \<Rightarrow> video_message \<Rightarrow> unit io" where
  "Process E msg =
     (let i = vm_JobId msg in
      call (redis_Set E (job_status_key i) ''processing'' (10 * minute)) fail (\<lambda>_.
      ignore_err (job_UpdateStatus E i JobProcessing 20 [] [])
     (call (ffmpeg_Process E i (vm_Key msg) (vm_Start msg) (vm_End msg) (vm_Width msg) (vm_FPS msg)
              (vm_Loop msg))
        (\<lambda>e. ignore_err (job_UpdateStatus E i JobFailed 0 [] (error_text e)) (fail_marking E i e)) (\<lambda>result.
      call (redis_Set E (job_gif_key i) (jr_GifKey result) (5 * minute)) fail (\<lambda>_.
      call (redis_Set E (job_status_key i) ''completed'' (5 * minute)) fail (\<lambda>_.
      ignore_err (job_UpdateStatus E i JobDone 100 (jr_GifKey result) [])
     (call (gif_Create E \<lparr>g_Key = jr_GifKey result, g_Name = [], g_UserId = vm_UserID msg,
              g_Status = [], g_Persist = False, g_Download = 0, g_Url = jr_GifKey result,
              g_ThumbnailKey = jr_ThumbKey result, g_FileSizeBytes = 0, g_Width = 0, g_Height = 0,
              g_DurationSeconds = 0, g_IsPublic = False, g_CreatedAt = 0, g_UpdatedAt = 0\<rparr>)
        (fail_marking E i) (\<lambda>_.
      call (IncrementUsage E (vm_UserID msg) 0 1) (fail_marking E i) (\<lambda>ok.
      ret ())))))))))"

text \<open>The fields of \<open>StatusResult\<close>; a hit of the cache leaves the last two at their zero values.\<close>

record status_result =
  sr_JobId :: string
  sr_Status :: string
  sr_GifId :: string
  sr_Progress :: int
  sr_UpdatedAt :: timestamp

definition job_row_status :: "env \<Rightarrow> string \<Rightarrow> string \<Rightarrow> goerr option \<Rightarrow> status_result io" where
  "job_row_status E userId jobId cacheErr =
     attempt (job_GetByID E jobId) (\<lambda>r. case r of
       Inr job \<Rightarrow>
         if j_UserID job \<noteq> userId then fail (GifE ErrGifOwnerMismatch)
         else ret \<lparr>sr_JobId = j_ID job, sr_Status = j_Status job, sr_GifId = j_ResultKey job,
                   sr_Progress = j_Progress job, sr_UpdatedAt = j_UpdatedAt job\<rparr>
     | Inl _ \<Rightarrow>
         (case cacheErr of
            Some e \<Rightarrow>
              if errors_Is e (CacheE ErrCacheMiss)
              then fail (Wrapf ''cache.Get(owner)'' [AppE ErrCacheGetFailed])
              else fail (Wrapf ''cache.Get(owner)'' [e])
          | None \<Rightarrow> fail (Wrapf ''cache.Get'' [AppE ErrCacheGetFailed])))"

definition ConversionStatus :: "env \<Rightarrow> string \<Rightarrow> string \<Rightarrow> status_result io" where
  "ConversionStatus E userId jobId =
     attempt (redis_Get E (job_owner_key jobId)) (\<lambda>r. case r of
       Inl e \<Rightarrow> job_row_status E userId jobId (Some e)
     | Inr owner \<Rightarrow>
         if owner \<noteq> userId then fail (GifE ErrGifOwnerMismatch)
         else attempt (redis_Get E (job_status_key jobId)) (\<lambda>v. case v of
           Inl _ \<Rightarrow> job_row_status E userId jobId None
         | Inr val \<Rightarrow>
             attempt (redis_Get E (job_gif_key jobId)) (\<lambda>g.
             ret \<lparr>sr_JobId = jobId, sr_Status = val,
                  sr_GifId = (case g of Inl _ \<Rightarrow> [] | Inr gif \<Rightarrow> gif),
                  sr_Progress = 0, sr_UpdatedAt = 0\<rparr>)))"

section \<open>Gifs\<close>

definition gif_service_Delete :: "env \<Rightarrow> string \<Rightarrow> string \<Rightarrow> unit io" where
  "gif_service_Delete E userId key =
     call (gif_owner E key) fail (\<lambda>ownerId.
     if ownerId \<noteq> userId then fail (GifE ErrGifOwnerMismatch)
     else
       call (gif_Delete E key)
         (\<lambda>e. fail (Wrapf ''gifRepo.Delete'' [StorageE ErrDeleteByKeyFailed, e])) (\<lambda>_.
       ignore_err (storage_Delete E key) (ret ())))"

definition Download :: "env \<Rightarrow> string \<Rightarrow> string \<Rightarrow> string io" where
  "Download E userId key =
     call (gif_owner E key) fail (\<lambda>ownerId.
     attempt (share_repo_GetOwner E userId key) (\<lambda>r.
     case err_except SqlNoRows r of
       Some e \<Rightarrow> fail (Wrapf ''shareRepo.GetOwner'' [e])
     | None \<Rightarrow>
         (let sharedOwnerId = (case r of Inl _ \<Rightarrow> [] | Inr i \<Rightarrow> i)
          in if ownerId \<noteq> userId \<and> sharedOwnerId \<noteq> ownerId then fail (GifE ErrGifOwnerMismatch)
             else
               call (IncrementDownload E key)
                 (\<lambda>e. fail (Wrapf ''gifRepo.IncrementDownload'' [e])) (\<lambda>_.
               call (storage_Download E key (5 * minute))
                 (\<lambda>e. fail (Wrapf ''storage.Download'' [e])) ret))))"

text \<open>Page numbers start at 1; out-of-range requests take the defaults.\<close>

record gif_result =
  gres_Data :: "gif_response list"
  gres_Total :: int
  gres_Page :: int
  gres_Limit :: int

text \<open>Go's \<open>int\<close> on a 64-bit machine, for the one product of numbers a client chooses.\<close>

definition int64 :: "int \<Rightarrow> int" where
  "int64 n = (n + 2 ^ 63) mod 2 ^ 64 - 2 ^ 63"

definition GetGifs :: "env \<Rightarrow> string \<Rightarrow> string \<Rightarrow> int \<Rightarrow> int \<Rightarrow> gif_result io" where
  "GetGifs E userId flt page0 limit0 =
     (let pg = (if page0 < 1 then 1 else page0);
          lim = (if limit0 < 1 then 20 else limit0);
          offset = int64 ((pg - 1) * lim)
      in call (gif_Get E userId flt lim offset)
           (\<lambda>e. fail (Wrapf ''gifRepo.Get'' [GifE ErrGifFetchFailed, e])) (\<lambda>gs.
         ret \<lparr>gres_Data = gs, gres_Total = int (length gs), gres_Page = pg, gres_Limit = lim\<rparr>))"

definition GetByKey :: "env \<Rightarrow> string \<Rightarrow> string \<Rightarrow> gif_response io" where
  "GetByKey E userId key =
     call (gif_owner E key) fail (\<lambda>ownerId.
     if ownerId \<noteq> userId then fail (GifE ErrGifOwnerMismatch)
     else
       call (gif_GetByKey E key False)
         (\<lambda>e. fail (Wrapf ''gifRepo.GetByKey'' [GifE ErrGifFetchFailed, e])) ret)"

definition fetch_gif :: "env \<Rightarrow> string \<Rightarrow> bool \<Rightarrow> gif_response io" where
  "fetch_gif E key forUpdate =
     call (gif_GetByKey E key forUpdate)
       (\<lambda>e. fail (if errors_Is e SqlNoRows then Wrapf ''gifRepo.GetByKey'' [GifE ErrGifNotFound, e]
                  else Wrapf ''gifRepo.GetByKey'' [GifE ErrGifFetchFailed, e])) ret"

definition GetGifThumbnail :: "env \<Rightarrow> string \<Rightarrow> string \<Rightarrow> string io" where
  "GetGifThumbnail E userId key =
     call (gif_owner E key) fail (\<lambda>ownerId.
     if ownerId \<noteq> userId then fail (GifE ErrGifOwnerMismatch)
     else
       call (fetch_gif E key False) fail (\<lambda>gif.
       if gr_ThumbnailKey gif = [] then fail (GifE ErrThumbnailNotFound)
       else
         call (GetThumbnailURL E (gr_ThumbnailKey gif))
           (\<lambda>e. fail (Wrapf ''storage.GetThumbnailURL'' [e])) ret))"

definition GetRecents :: "env \<Rightarrow> string \<Rightarrow> gif_response list io" where
  "GetRecents E userId =
     call (gif_GetRecents E userId)
       (\<lambda>e. fail (Wrapf ''gifRepo.GetRecents'' [GifE ErrGifFetchFailed, e])) ret"

definition Save :: "env \<Rightarrow> string \<Rightarrow> string \<Rightarrow> unit io" where
  "Save E userId key =
     call (gif_owner E key) fail (\<lambda>owner.
     if owner \<noteq> userId then fail (GifE ErrGifOwnerMismatch) else gif_SaveRecent E key)"

definition Update ::
  "env \<Rightarrow> string \<Rightarrow> string \<Rightarrow> gif_update_request \<Rightarrow> string \<Rightarrow> gif_response io" where
  "Update E userId key req lastUpdatedAt =
     call (gif_owner E key) fail (\<lambda>ownerId.
     if ownerId \<noteq> userId then fail (GifE ErrGifOwnerMismatch)
     else
       call (tx_WithRC E
         (call (fetch_gif E key True) fail (\<lambda>resp.
          if time_Format E (gr_UpdatedAt resp) \<noteq> lastUpdatedAt
          then fail (GifE ErrETagValidationFailed)
          else
            call (gif_Update E key req) (\<lambda>e. fail (Wrapf ''gifRepo.Update'' [e])) ret))) fail ret)"

section \<open>The services keep the tables' invariant\<close>

lemma keeps_ignore_err [keeps_intros]: "keeps P m \<Longrightarrow> keeps P k \<Longrightarrow> keeps P (ignore_err m k)"
  unfolding ignore_err_def by (intro keeps_intros)

lemma keeps_upload_services [keeps_intros]:
  "inv_kept ov (UpdateUploadingStatus E key st)" "inv_kept ov (ProcessAndSave E key)"
  "inv_kept ov (SaveMetadata E msg)" "inv_kept ov (LastVideo E u)" "inv_kept ov (Stream E u key)"
  unfolding UpdateUploadingStatus_def ProcessAndSave_def SaveMetadata_def LastVideo_def Stream_def
  by (intro keeps_intros)+

lemma keeps_Upload [keeps_intros]: "inv_kept ov (Upload E f u)" "inv_kept ov (Status E u key)"
  unfolding Upload_def Status_def Let_def by (intro keeps_intros)+

lemma keeps_conversion_services [keeps_intros]:
  "inv_kept ov (Convert E u key s e f wd l)" "inv_kept ov (Process E msg)"
  "inv_kept ov (ConversionStatus E u jid)"
  unfolding Convert_def Process_def fail_marking_def ConversionStatus_def job_row_status_def Let_def
  by (intro keeps_intros)+

lemma keeps_gif_services [keeps_intros]:
  "inv_kept ov (gif_service_Delete E u key)" "inv_kept ov (Download E u key)"
  "inv_kept ov (GetGifs E u flt p l)" "inv_kept ov (GetByKey E u key)" "inv_kept ov (GetGifThumbnail E u key)"
  "inv_kept ov (GetRecents E u)" "inv_kept ov (Save E u key)" "inv_kept ov (Update E u key req lu)"
  unfolding gif_service_Delete_def Download_def GetGifs_def GetByKey_def GetGifThumbnail_def
    GetRecents_def Save_def Update_def fetch_gif_def Let_def
  by (intro keeps_intros)+

end
