(* ===== verification/Handlers_Media.thy ===== *)
theory Handlers_Media
  imports Handlers_User App_Media
begin

text \<open>
  \<open>internal/transport/http/handlers/media\<close>: uploads, conversions and gifs.
\<close>

section \<open>Encoding results\<close>

definition json_gif :: "env \<Rightarrow> gif_response \<Rightarrow> json" where
  "json_gif E g =
     JObj [(''key'', JStr (gr_Key g)), (''name'', JStr (gr_Name g)), (''status'', JStr (gr_Status g)),
           (''persist'', JBool (gr_Persist g)), (''url'', JStr (gr_Url g)),
           (''thumbnail_key'', JStr (gr_ThumbnailKey g)), (''download'', JNum (gr_Download g)),
           (''file_size_bytes'', JNum (gr_FileSizeBytes g)), (''width'', JNum (gr_Width g)),
           (''height'', JNum (gr_Height g)), (''duration_seconds'', JRat (gr_DurationSeconds g)),
           (''is_public'', JBool (gr_IsPublic g)), (''created_at'', json_time E (gr_CreatedAt g)),
           (''updated_at'', json_time E (gr_UpdatedAt g))]"

definition json_gifs :: "env \<Rightarrow> gif_result \<Rightarrow> json" where
  "json_gifs E g =
     JObj [(''data'', json_rows E (json_gif E) (gres_Data g)), (''total'', JNum (gres_Total g)),
           (''page'', JNum (gres_Page g)), (''limit'', JNum (gres_Limit g))]"

definition json_upload :: "upload_result \<Rightarrow> json" where
  "json_upload u =
     JObj [(''upload_url'', JStr (ur_Url u)), (''key'', JStr (ur_Key u)), (''expires_in'', JNum (ur_ExpireIn u))]"

definition json_stream :: "stream_result \<Rightarrow> json" where
  "json_stream s = JObj [(''url'', JStr (st_PresignedUrl s)), (''expires_in'', JNum (st_ExpireIn s))]"

text \<open>A \<open>nil\<close> pointer tagged \<open>omitempty\<close> is left out.\<close>

definition omit_empty :: "string \<Rightarrow> ('a \<Rightarrow> json) \<Rightarrow> 'a option \<Rightarrow> (string \<times> json) list" where
  "omit_empty name f v = (case v of None \<Rightarrow> [] | Some x \<Rightarrow> [(name, f x)])"

definition json_last_upload :: "env \<Rightarrow> last_upload_response \<Rightarrow> json" where
  "json_last_upload E l =
     JObj ([(''user_id'', JStr (lr_UserID l)), (''key'', JStr (lr_FileKey l)),
            (''filename'', JStr (lr_Filename l)), (''content_type'', JStr (lr_ContentType l))] @
           omit_empty ''size_bytes'' JNum (lr_SizeBytes l) @
           omit_empty ''duration_sec'' JRat (lr_DurationSec l) @
           [(''uploaded_at'', json_time E (lr_UploadedAt l))] @
           omit_empty ''thumbnail_url'' JStr (lr_ThumbnailURL l))"

definition json_job_status :: "env \<Rightarrow> status_result \<Rightarrow> json" where
  "json_job_status E s =
     JObj [(''job_id'', JStr (sr_JobId s)), (''status'', JStr (sr_Status s)), (''gif_id'', JStr (sr_GifId s)),
           (''progress'', JNum (sr_Progress s)), (''updated_at'', json_time E (sr_UpdatedAt s))]"

definition gif_not_found :: "string \<Rightarrow> http_response \<Rightarrow> http_response" where
  "gif_not_found msg r = SendError ''GIF_NOT_FOUND'' msg 404 r"

definition gif_forbidden :: "http_response \<Rightarrow> http_response" where
  "gif_forbidden r = SendError ''GIF_FORBIDDEN'' ''forbidden'' 403 r"

definition gif_cases :: "(goerr list \<times> (http_response \<Rightarrow> http_response)) list" where
  "gif_cases = [([GifE ErrGifNotFound], gif_not_found ''gif not found''), ([GifE ErrGifOwnerMismatch], gif_forbidden)]"

text \<open>The missing-user reply of the three media handlers that call it an internal error.\<close>

definition user_expected ::
  "http_request \<Rightarrow> http_response \<Rightarrow> (string \<Rightarrow> http_response io) \<Rightarrow> http_response io" where
  "user_expected rq r k =
     (let i = GetUserId rq in if i = [] then ret (internal_error r) else k i)"

section \<open>upload.go, status.go, last_video.go, stream.go\<close>

record req_upload =
  ru_Filename :: string

definition http_Upload :: "env \<Rightarrow> handler" where
  "http_Upload E rq r =
     decode_body [(''filename'', into_string (\<lambda>x s. s\<lparr>ru_Filename := x\<rparr>))] \<lparr>ru_Filename = []\<rparr>
       ''Bad request'' rq r (\<lambda>req.
     validated E [(''Filename'', FStr (ru_Filename req), [VRequired])] ''field required'' r
    (user_expected rq r (\<lambda>userId.
     serve_call (Upload E (ru_Filename req) userId) (err_switch [])
       (\<lambda>result r. SendJson (json_upload result) 201
          (set_header ''Location'' (''/uploads/'' @ ur_Key result) r)) r)))"

definition http_Status :: "env \<Rightarrow> handler" where
  "http_Status E rq r =
     path_required ''key'' ''bad request'' rq r (\<lambda>key.
     user_required ''user id not found'' rq r (\<lambda>i.
     serve_call (Status E i key) (err_switch [])
       (\<lambda>(streamingKey, status) r. SendJson (JObj [(''status'', JStr status)]) 200
          (if status = ''ok''
           then set_header ''Location'' (''/uploads/'' @ streamingKey @ ''/stream'') r else r)) r))"

definition http_LastVideo :: "env \<Rightarrow> handler" where
  "http_LastVideo E rq r =
     user_required ''user id not found'' rq r (\<lambda>userId.
     serve_call (LastVideo E userId)
       (err_switch [([UploadE ErrLastVideoNotFound], gif_not_found ''video not found'')])
       (\<lambda>result r. SendJson (json_last_upload E result) 200
          (set_header ''Location'' (''/uploads/'' @ lr_FileKey result @ ''/stream'') r)) r)"

definition http_Stream :: "env \<Rightarrow> handler" where
  "http_Stream E rq r =
     path_required ''key'' ''bad request'' rq r (\<lambda>key.
     user_expected rq r (\<lambda>userId.
     serve_call (Stream E userId key) (err_switch []) (\<lambda>res. SendJson (json_stream res) 200) r))"

section \<open>convert.go, conversion_status.go\<close>

record req_convert =
  rc_Key :: string
  rc_Start :: rat
  rc_End :: rat
  rc_Width :: int
  rc_FPS :: int
  rc_Loop :: bool

definition convert_fields :: "req_convert fields" where
  "convert_fields =
     [(''upload_key'', into_string (\<lambda>x s. s\<lparr>rc_Key := x\<rparr>)),
      (''start_time'', into_float32 (\<lambda>x s. s\<lparr>rc_Start := x\<rparr>)),
      (''end_time'', into_float32 (\<lambda>x s. s\<lparr>rc_End := x\<rparr>)),
      (''width'', into_int (\<lambda>x s. s\<lparr>rc_Width := x\<rparr>)),
      (''fps'', into_int (\<lambda>x s. s\<lparr>rc_FPS := x\<rparr>)),
      (''loop'', into_bool (\<lambda>x s. s\<lparr>rc_Loop := x\<rparr>))]"

definition convert_rules :: "req_convert \<Rightarrow> struct_fields" where
  "convert_rules q =
     [(''Key'', FStr (rc_Key q), [VRequired]),
      (''Start'', FFloat (rc_Start q), [VGte 0]),
      (''End'', FFloat (rc_End q), [VGt 0]),
      (''Width'', FInt (rc_Width q), [VGte 100, VLte 1920]),
      (''FPS'', FInt (rc_FPS q), [VGte 1, VLte 30])]"

definition no_convert :: req_convert where
  "no_convert = \<lparr>rc_Key = [], rc_Start = 0, rc_End = 0, rc_Width = 0, rc_FPS = 0, rc_Loop = False\<rparr>"

definition http_Convert :: "env \<Rightarrow> handler" where
  "http_Convert E rq r =
     decode_body convert_fields no_convert ''Bad request'' rq r (\<lambda>req.
     validated E (convert_rules req) ''field required'' r
    (if rc_End req \<le> rc_Start req
     then ret (validation_failed ''end_time must be greater than start_time'' r)
     else user_required ''unauthorized'' rq r (\<lambda>userId.
       serve_call (Convert E userId (rc_Key req) (rc_Start req) (rc_End req) (rc_FPS req) (rc_Width req)
           (rc_Loop req)) (err_switch [])
         (\<lambda>(i, status) r. SendJson (JObj [(''job_id'', JStr i), (''status'', JStr status)]) 202
            (set_header ''Location'' (''/jobs/'' @ i @ ''/status'') r)) r)))"

definition http_ConversionStatus :: "env \<Rightarrow> handler" where
  "http_ConversionStatus E rq r =
     user_required ''user id not found'' rq r (\<lambda>userId.
     path_required ''jobId'' ''bad request'' rq r (\<lambda>jobId.
     serve_call (ConversionStatus E userId jobId)
       (err_switch
          [([AppE ErrCacheGetFailed, StorageE ErrEmptyKey], SendError ''JOB_NOT_FOUND'' ''job not found'' 404)])
       (\<lambda>result. SendJson (json_job_status E result) 200) r))"

section \<open>get.go, get_by_key.go, get_recent.go, get_gif_thumbnail.go\<close>

text \<open>The query of a listing: \<open>page\<close> and \<open>limit\<close> fall back to 1 and 20, the filter to \<open>all\<close>.\<close>

definition positive_or :: "int \<Rightarrow> string \<Rightarrow> int" where
  "positive_or dflt s = (case ParseInt 64 s of Some n \<Rightarrow> if n > 0 then n else dflt | None \<Rightarrow> dflt)"

definition list_gifs :: "env \<Rightarrow> string \<Rightarrow> handler" where
  "list_gifs E userId rq r =
     (let f = rq_Query rq ''status'';
          flt = (if f \<noteq> [] then f else ''all'');
          page = positive_or 1 (rq_Query rq ''page'');
          lmt = positive_or 20 (rq_Query rq ''limit'')
      in serve_call (GetGifs E userId flt page lmt) (err_switch [])
           (\<lambda>result. SendJson (json_gifs E result) 200) r)"

definition http_GetGifs :: "env \<Rightarrow> handler" where
  "http_GetGifs E rq r = user_required ''user id not found'' rq r (\<lambda>i. list_gifs E i rq r)"

definition http_GetGifsByUserID :: "env \<Rightarrow> handler" where
  "http_GetGifsByUserID E rq r =
     (let userId = rq_PathValue rq ''userId''
      in if userId = [] \<or> userId = ''me'' then http_GetGifs E rq r else list_gifs E userId rq r)"

definition http_GetByKey :: "env \<Rightarrow> handler" where
  "http_GetByKey E rq r =
     path_required ''key'' ''gif key is missing'' rq r (\<lambda>key.
     user_expected rq r (\<lambda>userId.
     serve_call (GetByKey E userId key) (err_switch gif_cases)
       (\<lambda>resp r. SendJson (json_gif E resp) 200
          (set_header ''ETag'' (quoted (time_Format E (gr_UpdatedAt resp))) r)) r))"

definition http_GetRecents :: "env \<Rightarrow> handler" where
  "http_GetRecents E rq r =
     user_required ''user id not found'' rq r (\<lambda>i.
     serve_call (GetRecents E i) (err_switch []) (\<lambda>gs. SendJson (json_rows E (json_gif E) gs) 200) r)"

definition http_GetGifThumbnail :: "env \<Rightarrow> handler" where
  "http_GetGifThumbnail E rq r =
     path_required ''key'' ''gif key is missing'' rq r (\<lambda>key.
     user_expected rq r (\<lambda>userId.
     serve_call (GetGifThumbnail E userId key)
       (\<lambda>e r. if list_ex (errors_Is e) [GifE ErrGifNotFound, GifE ErrGifOwnerMismatch]
              then err_switch gif_cases e r
              else SendError ''INTERNAL_ERROR'' ''failed to get gif thumbnail'' 500 r)
       (\<lambda>url. SendJson (JObj [(''thumbnail'', JStr url)]) 200) r))"

section \<open>save.go, update.go, delete.go, download.go\<close>

definition http_Save :: "env \<Rightarrow> handler" where
  "http_Save E rq r =
     user_required ''user id not found'' rq r (\<lambda>i.
     serve_call (Save E i (rq_PathValue rq ''key'')) (err_switch []) (\<lambda>_. WriteHeader 204) r)"

definition gif_update_fields :: "gif_update_request fields" where
  "gif_update_fields =
     [(''name'', into_string_ptr (\<lambda>x s. s\<lparr>gu_Name := x\<rparr>)),
      (''status'', into_string_ptr (\<lambda>x s. s\<lparr>gu_Status := x\<rparr>)),
      (''persist'', into_bool_ptr (\<lambda>x s. s\<lparr>gu_Persist := x\<rparr>)),
      (''is_public'', into_bool_ptr (\<lambda>x s. s\<lparr>gu_IsPublic := x\<rparr>))]"

definition no_gif_update :: gif_update_request where
  "no_gif_update = \<lparr>gu_Name = None, gu_Status = None, gu_Persist = None, gu_IsPublic = None\<rparr>"

definition http_Update :: "env \<Rightarrow> handler" where
  "http_Update E rq r =
     user_required ''user id not found'' rq r (\<lambda>i.
     path_required ''key'' ''gif key is missing'' rq r (\<lambda>key.
     decode_body gif_update_fields no_gif_update ''Bad request'' rq r (\<lambda>req.
     validated E [] ''field required'' r
    (let ifMatch = rq_Header rq ''If-Match''
     in if ifMatch = [] then ret (precondition_failed ''If-Match header is empty'' r)
        else serve_call (Update E i key req ifMatch)
          (err_switch (gif_cases @
             [([GifE ErrETagValidationFailed], precondition_failed ''If-Match header is empty'')]))
          (\<lambda>g. SendJson (json_gif E g) 200) r))))"

definition http_Delete :: "env \<Rightarrow> handler" where
  "http_Delete E rq r =
     user_required ''user id not found'' rq r (\<lambda>i.
     path_required ''key'' ''gif key is missing'' rq r (\<lambda>key.
     serve_call (gif_service_Delete E i key) (err_switch gif_cases)
       (\<lambda>_. SendJson (JObj [(''gif_key'', JStr key), (''status'', JStr ''deleted'')]) 200) r))"

definition http_Download :: "env \<Rightarrow> handler" where
  "http_Download E rq r =
     user_required ''user id not found'' rq r (\<lambda>i.
     path_required ''key'' ''gif key is missing'' rq r (\<lambda>key.
     serve_call (Download E i key) (err_switch gif_cases)
       (\<lambda>url. SendJson (JObj [(''url'', JStr url)]) 200) r))"

end
