(* ===== verification/Handlers_Share.thy ===== *)
theory Handlers_Share
  imports Handlers_Media
begin

text \<open>
  \<open>internal/transport/http/handlers/share\<close>, with the two routes that need no account, and
  \<open>.../static\<close>, which serves the built front end.
\<close>

section \<open>Encoding results\<close>

definition json_share :: "env \<Rightarrow> share_gif_response \<Rightarrow> json" where
  "json_share E s =
     JObj [(''id'', JStr (sg_ID s)), (''name'', JStr (sg_Name s)), (''url'', JStr (sg_Url s)),
           (''thumbnail_url'', JStr (sg_ThumbnailUrl s)), (''gif_key'', JStr (sg_GifKey s)),
           (''owner_id'', JStr (sg_OwnerID s)), (''shared_with'', JStr (sg_SharedWith s)),
           (''expires_at'', json_ptr (json_time E) (sg_ExpiresAt s))]"

definition json_gif_token :: "env \<Rightarrow> gif_token_response \<Rightarrow> json" where
  "json_gif_token E g =
     JObj [(''gif_key'', JStr (gt_GifKey g)), (''name'', JStr (gt_Name g)), (''url'', JStr (gt_Url g)),
           (''thumbnail_url'', JStr (gt_ThumbnailUrl g)),
           (''expires_at'', json_ptr (json_time E) (gt_ExpiresAt g)),
           (''created_at'', json_time E (gt_CreatedAt g))]"

section \<open>create.go, create_by_token.go\<close>

record req_share =
  rh_SharedWith :: string
  rh_ExpireAt :: timestamp

text \<open>The expiry is checked against the clock here, and once more by the service.\<close>

definition http_share_Create :: "env \<Rightarrow> handler" where
  "http_share_Create E rq r =
     user_required ''unauthenticated'' rq r (\<lambda>i.
     path_required ''key'' ''gif key is missing'' rq r (\<lambda>gifId.
     decode_body
       [(''shared_with'', into_string (\<lambda>x s. s\<lparr>rh_SharedWith := x\<rparr>)),
        (''expire_at'', into_time E (\<lambda>x s. s\<lparr>rh_ExpireAt := x\<rparr>))]
       \<lparr>rh_SharedWith = [], rh_ExpireAt = time_zero\<rparr> ''bad request'' rq r (\<lambda>req.
     validated E [(''SharedWith'', FStr (rh_SharedWith req), [VRequired, VEmail]),
                  (''ExpireAt'', FTime (rh_ExpireAt req), [VRequired])] ''validation failed'' r
    (at_now (\<lambda>n.
     if rh_ExpireAt req = time_zero \<or> rh_ExpireAt req < n
     then ret (validation_failed ''expiry must be in the future'' r)
     else serve_call (share_Create E i gifId (rh_SharedWith req) (rh_ExpireAt req)) (err_switch gif_cases)
       (\<lambda>_ r. SendJson (JStr ''shared'') 201
          (set_header ''Location'' (''/gifs/me/'' @ gifId @ ''/shares/'' @ rh_SharedWith req) r)) r)))))"

record req_share_token =
  rk_GifKey :: string
  rk_Email :: string
  rk_ExpireAt :: timestamp

text \<open>The program always passes a validator, so the test for \<open>nil\<close> is true.\<close>

definition http_share_CreateByToken :: "env \<Rightarrow> handler" where
  "http_share_CreateByToken E rq r =
     user_required ''unauthenticated'' rq r (\<lambda>i.
     decode_body
       [(''gif_key'', into_string (\<lambda>x s. s\<lparr>rk_GifKey := x\<rparr>)),
        (''email'', into_string (\<lambda>x s. s\<lparr>rk_Email := x\<rparr>)),
        (''expire_at'', into_time E (\<lambda>x s. s\<lparr>rk_ExpireAt := x\<rparr>))]
       \<lparr>rk_GifKey = [], rk_Email = [], rk_ExpireAt = time_zero\<rparr> ''bad request'' rq r (\<lambda>req.
     validated E [(''GifKey'', FStr (rk_GifKey req), [VRequired]),
                  (''Email'', FStr (rk_Email req), [VRequired, VEmail]),
                  (''ExpireAt'', FTime (rk_ExpireAt req), [VRequired])] ''bad request'' r
    (serve_call (share_CreateByToken E i (rk_GifKey req) (rk_Email req) (rk_ExpireAt req))
       (err_switch gif_cases)
       (\<lambda>token r. SendJson (JObj [(''token'', JStr token)]) 201 (set_header ''Location'' (''/s/'' @ token) r)) r)))"

section \<open>get.go, delete.go\<close>

definition http_share_Get :: "env \<Rightarrow> handler" where
  "http_share_Get E rq r =
     user_required ''unauthenticated'' rq r (\<lambda>i.
     serve_call (share_Get E i) (err_switch []) (\<lambda>gs. SendJson (json_rows E (json_share E) gs) 200) r)"

definition http_share_Delete :: "env \<Rightarrow> handler" where
  "http_share_Delete E rq r =
     user_required ''unauthenticated'' rq r (\<lambda>i.
     path_required ''key'' ''gif key is missing'' rq r (\<lambda>key.
     path_required ''shareWithId'' ''share id is missing'' rq r (\<lambda>shareWithId.
     serve_call (share_Delete E i key shareWithId)
       (err_switch
          [([ShareE ErrShareNotAuthorized], SendError ''SHARE_FORBIDDEN'' ''forbidden'' 403),
           ([ShareE ErrShareNotFound], SendError ''SHARE_NOT_FOUND'' ''not found'' 404)])
       (\<lambda>_. SendJson (message ''share deleted'') 200) r)))"

section \<open>get_by_token.go, download_by_token.go\<close>

definition token_cases :: "(goerr list \<times> (http_response \<Rightarrow> http_response)) list" where
  "token_cases =
     [([ShareE ErrShareNotFound, SqlNoRows], SendError ''SHARE_NOT_FOUND'' ''share not found or expired'' 404)]"

definition http_GetByToken :: "env \<Rightarrow> handler" where
  "http_GetByToken E rq r =
     path_required ''token'' ''token is missing'' rq r (\<lambda>token.
     serve_call (share_GetByToken E token) (err_switch token_cases)
       (\<lambda>resp. SendJson (json_gif_token E resp) 200) r)"

definition http_DownloadByToken :: "env \<Rightarrow> handler" where
  "http_DownloadByToken E rq r =
     path_required ''token'' ''token is missing'' rq r (\<lambda>token.
     serve_call (DownloadByToken E token) (err_switch token_cases)
       (\<lambda>url. SendJson (JObj [(''download_url'', JStr url)]) 200) r)"

end
