(* ===== verification/Server.thy ===== *)
theory Server
  imports Handlers_Share
begin

text \<open>
  \<open>internal/transport/http/server.go\<close>, the \<open>RegisterRoutes\<close> of every handler package and
  \<open>handlers/static\<close>: the table of routes, each behind its middleware, the choice \<open>http.ServeMux\<close>
  makes among them, and the chain in front.
\<close>

section \<open>static/routes.go\<close>

text \<open>Paths: the one of a request, \<open>filepath.Clean\<close> of a rooted path, \<open>Join("./dist", path)\<close>.\<close>

definition slashed :: "string list \<Rightarrow> string" where
  "slashed segs = concat (map (\<lambda>s. CHR ''/'' # s) segs)"

definition url_path :: "http_request \<Rightarrow> string" where
  "url_path rq = slashed (rq_Path rq)"

definition clean_rooted :: "string \<Rightarrow> string" where
  "clean_rooted p =
     (case clean_elems [] (split_slash p) of [] \<Rightarrow> ''/'' | e # es \<Rightarrow> slashed (e # es))"

definition in_dist :: "string \<Rightarrow> string" where
  "in_dist path = ''dist'' @ slashed (clean_elems [] (split_slash path))"

text \<open>A file's content is the body's text here.\<close>

definition serve_path :: "env \<Rightarrow> string \<Rightarrow> http_response \<Rightarrow> http_response" where
  "serve_path E p r = (case fs_ServeHTTP E p of (code, body) \<Rightarrow> write_body (JStr body) (WriteHeader code r))"

definition static_files :: "env \<Rightarrow> handler" where
  "static_files E rq r =
     (let path = clean_rooted (url_path rq);
          fullPath = in_dist path
      in if os_Stat E fullPath = Some False then ret (serve_path E (url_path rq) r)
         else if os_Stat E (fullPath @ ''.html'') \<noteq> None
         then ret (serve_path E ((if path = ''/'' then [] else path) @ ''.html'') r)
         else if os_Stat E ''dist/index.html'' \<noteq> None
         then (case fs_ServeFile E (url_path rq) ''dist/index.html'' of (code, body) \<Rightarrow>
                 ret (write_body (JStr body) (WriteHeader code r)))
         else ret (serve_path E (url_path rq) r))"

definition health :: handler where
  "health rq r = ret (SendJson (JObj []) 200 r)"

section \<open>The routes\<close>

text \<open>A pattern segment: a literal, a wildcard \<open>{name}\<close>, or the rest of the path (a final \<open>/\<close>).\<close>

datatype segment = Lit string | Wild string | Rest

record route =
  rt_method :: string
  rt_pattern :: "segment list"
  rt_handler :: handler

definition handle :: "string \<Rightarrow> segment list \<Rightarrow> handler \<Rightarrow> route" where
  "handle m p h = \<lparr>rt_method = m, rt_pattern = p, rt_handler = h\<rparr>"

definition auth_routes :: "env \<Rightarrow> route list" where
  "auth_routes E =
     [handle ''POST'' [Lit ''auth'', Lit ''signup''] (With (http_Signup E) [MaxBody1MB]),
      handle ''GET'' [Lit ''auth'', Lit ''verify''] (With (http_Verify E) []),
      handle ''POST'' [Lit ''auth'', Lit ''verify'', Lit ''resend'']
        (With (http_ResendVerify E) [MaxBody1MB, OneTimePerEmail, BlockIP]),
      handle ''POST'' [Lit ''auth'', Lit ''login''] (With (http_Login E) [MaxBody1MB]),
      handle ''POST'' [Lit ''auth'', Lit ''forgot-password'']
        (With (http_ForgotPassword E) [MaxBody1MB, OneTimePerEmail, BlockIP]),
      handle ''POST'' [Lit ''auth'', Lit ''reset'']
        (With (http_ResetPasswordPost E) [MaxBody1MB, OneTimePerEmail, BlockIP]),
      handle ''GET'' [Lit ''auth'', Lit ''reset'']
        (With (http_ResetPasswordGet E) [MaxBody1MB, OneTimePerEmail, BlockIP]),
      handle ''POST'' [Lit ''auth'', Lit ''logout''] (With (http_Logout E) [Auth E])]"

definition media_routes :: "env \<Rightarrow> route list" where
  "media_routes E =
     [handle ''GET'' [Lit ''gifs'', Lit ''me''] (With (http_GetGifs E) [Auth E]),
      handle ''GET'' [Lit ''gifs'', Lit ''user'', Wild ''userId''] (With (http_GetGifsByUserID E) [Auth E]),
      handle ''GET'' [Lit ''gifs'', Lit ''me'', Wild ''key''] (With (http_GetByKey E) [Auth E]),
      handle ''GET'' [Lit ''gifs'', Lit ''me'', Wild ''key'', Lit ''download''] (With (http_Download E) [Auth E]),
      handle ''GET'' [Lit ''gifs'', Lit ''me'', Wild ''key'', Lit ''thumbnail'']
        (With (http_GetGifThumbnail E) [Auth E]),
      handle ''PATCH'' [Lit ''gifs'', Lit ''me'', Wild ''key''] (With (http_Update E) [Auth E]),
      handle ''GET'' [Lit ''gifs'', Lit ''me'', Lit ''recents''] (With (http_GetRecents E) [Auth E]),
      handle ''DELETE'' [Lit ''gifs'', Lit ''me'', Wild ''key''] (With (http_Delete E) [Auth E]),
      handle ''POST'' [Lit ''gifs'', Lit ''me'', Lit ''recents'', Wild ''key'', Lit ''save'']
        (With (http_Save E) [Auth E]),
      handle ''GET'' [Lit ''uploads'', Wild ''key'', Lit ''status''] (With (http_Status E) [Auth E]),
      handle ''GET'' [Lit ''uploads'', Wild ''key'', Lit ''stream''] (With (http_Stream E) [Auth E]),
      handle ''GET'' [Lit ''uploads'', Lit ''last''] (With (http_LastVideo E) [Auth E]),
      handle ''POST'' [Lit ''uploads''] (With (http_Upload E) [Auth E]),
      handle ''GET'' [Lit ''jobs'', Wild ''jobId'', Lit ''status''] (With (http_ConversionStatus E) [Auth E]),
      handle ''POST'' [Lit ''jobs''] (With (http_Convert E) [Auth E])]"

definition share_routes :: "env \<Rightarrow> route list" where
  "share_routes E =
     [handle ''POST'' [Lit ''gifs'', Lit ''me'', Wild ''key'', Lit ''shares''] (With (http_share_Create E) [Auth E]),
      handle ''GET'' [Lit ''gifs'', Lit ''me'', Lit ''shares''] (With (http_share_Get E) [Auth E]),
      handle ''DELETE'' [Lit ''gifs'', Lit ''me'', Wild ''key'', Lit ''shares'', Wild ''shareWithId'']
        (With (http_share_Delete E) [Auth E]),
      handle ''POST'' [Lit ''s''] (With (http_share_CreateByToken E) [Auth E]),
      handle ''GET'' [Lit ''s'', Wild ''token''] (With (http_GetByToken E) []),
      handle ''GET'' [Lit ''s'', Wild ''token'', Lit ''download''] (With (http_DownloadByToken E) [])]"

definition friend_routes :: "env \<Rightarrow> route list" where
  "friend_routes E =
     [handle ''POST'' [Lit ''friends'', Lit ''requests''] (With (http_SendRequest E) [Auth E]),
      handle ''GET'' [Lit ''friends'', Lit ''requests''] (With (http_ListPendingIncoming E) [Auth E]),
      handle ''PATCH'' [Lit ''friends'', Lit ''requests'', Wild ''id''] (With (http_Accept E) [Auth E]),
      handle ''DELETE'' [Lit ''friends'', Lit ''requests'', Wild ''id''] (With (http_Reject E) [Auth E]),
      handle ''GET'' [Lit ''friends''] (With (http_ListFriends E) [Auth E]),
      handle ''DELETE'' [Lit ''friends'', Wild ''id''] (With (http_Remove E) [Auth E])]"

definition user_routes :: "env \<Rightarrow> route list" where
  "user_routes E =
     [handle ''GET'' [Lit ''users'', Lit ''me'', Lit ''profile''] (With (http_GetProfile E) [Auth E]),
      handle ''GET'' [Lit ''users'', Wild ''userId'', Lit ''profile''] (With (http_GetProfileByID E) [Auth E]),
      handle ''GET'' [Lit ''users'', Lit ''me'', Lit ''quota''] (With (http_GetQuota E) [Auth E]),
      handle ''PATCH'' [Lit ''users'', Lit ''me'', Lit ''profile''] (With (http_UpdateProfile E) [Auth E]),
      handle ''PATCH'' [Lit ''users'', Lit ''me'', Lit ''change-password''] (With (http_ChangePassword E) [Auth E]),
      handle ''DELETE'' [Lit ''users'', Lit ''me''] (With (http_DeleteUser E) [Auth E])]"

definition static_routes :: "env \<Rightarrow> route list" where
  "static_routes E = [handle ''GET'' [Rest] (static_files E), handle ''GET'' [Lit ''health''] health]"

definition routes :: "env \<Rightarrow> route list" where
  "routes E = auth_routes E @ media_routes E @ share_routes E @ friend_routes E @ user_routes E @ static_routes E"

section \<open>http.ServeMux\<close>

text \<open>A wildcard matches one segment, which is not empty; it is bound to it.\<close>

fun match_segments :: "segment list \<Rightarrow> string list \<Rightarrow> (string \<times> string) list option" where
  "match_segments [] [] = Some []"
| "match_segments [Rest] ss = Some []"
| "match_segments (Lit l # ps) (s # ss) = (if l = s then match_segments ps ss else None)"
| "match_segments (Wild n # ps) (s # ss) =
     (if s = [] then None else map_option ((#) (n, s)) (match_segments ps ss))"
| "match_segments _ _ = None"

text \<open>Which of two patterns that match the same path the tree search reaches first.\<close>

fun more_specific :: "segment list \<Rightarrow> segment list \<Rightarrow> bool" where
  "more_specific (Lit _ # p) (Lit _ # q) = more_specific p q"
| "more_specific (Lit _ # p) _ = True"
| "more_specific (Wild _ # p) (Wild _ # q) = more_specific p q"
| "more_specific (Wild _ # p) (Rest # q) = True"
| "more_specific _ _ = False"

fun most_specific :: "route list \<Rightarrow> route option" where
  "most_specific [] = None"
| "most_specific (x # xs) =
     (case most_specific xs of
        None \<Rightarrow> Some x
      | Some y \<Rightarrow> if more_specific (rt_pattern y) (rt_pattern x) then Some y else Some x)"

definition candidates :: "route list \<Rightarrow> string \<Rightarrow> string list \<Rightarrow> route list" where
  "candidates rts m path = filter (\<lambda>x. rt_method x = m \<and> match_segments (rt_pattern x) path \<noteq> None) rts"

text \<open>\<open>HEAD\<close> falls back to the patterns for \<open>GET\<close>.\<close>

definition find_route :: "route list \<Rightarrow> string \<Rightarrow> string list \<Rightarrow> route option" where
  "find_route rts m path =
     (case most_specific (candidates rts m path) of
        Some x \<Rightarrow> Some x
      | None \<Rightarrow> if m = ''HEAD'' then most_specific (candidates rts ''GET'' path) else None)"

definition path_value :: "(string \<times> string) list \<Rightarrow> string \<Rightarrow> string" where
  "path_value binds name = (case map_of binds name of None \<Rightarrow> [] | Some v \<Rightarrow> v)"

text \<open>
  No route for the method: 405 when the path has one for another method, 404 otherwise. (The
  \<open>Allow\<close> header of the 405 is left out.)
\<close>

definition no_route :: "route list \<Rightarrow> handler" where
  "no_route rts rq r =
     (let code = (if list_ex (\<lambda>x. match_segments (rt_pattern x) (rq_Path rq) \<noteq> None) rts then 405 else 404)
      in ret (write_body (JStr (if code = 405 then ''Method Not Allowed'' else ''404 page not found''))
               (WriteHeader code r)))"

definition mux :: "route list \<Rightarrow> handler" where
  "mux rts rq r =
     (case find_route rts (rq_Method rq) (rq_Path rq) of
        None \<Rightarrow> no_route rts rq r
      | Some x \<Rightarrow>
          (case match_segments (rt_pattern x) (rq_Path rq) of
             None \<Rightarrow> no_route rts rq r
           | Some binds \<Rightarrow> rt_handler x (rq\<lparr>rq_PathValue := path_value binds\<rparr>) r))"

definition serve :: "env \<Rightarrow> handler" where
  "serve E rq r = server_chain E (mux (routes E)) rq r"

end
