(* ===== verification/Gateway_Laws.thy ===== *)
theory Gateway_Laws
  imports Middleware
begin

text \<open>
  What the middleware promises: which requests reach the handler behind it, which are refused and
  with which status, and in which order the chain that the server installs runs.
\<close>

section \<open>Authentication\<close>

definition fresh :: "http_response \<Rightarrow> bool" where
  "fresh r \<longleftrightarrow> rs_Status r = None \<and> rs_Body r = None"

lemma fresh_set_header [simp]: "fresh (set_header k v r) \<longleftrightarrow> fresh r"
  by (simp add: fresh_def)

lemma SendError_status: "fresh r \<Longrightarrow> rs_Status (SendError c m s r) = Some s"
  by (simp add: fresh_def)

lemma unauthorized_status: "fresh r \<Longrightarrow> rs_Status (unauthorized e d m r) = Some 401"
  by (simp add: unauthorized_def SendError_status)

text \<open>A request that carries a token the library accepts and the blocklist does not hold.\<close>

definition authenticated :: "env \<Rightarrow> http_request \<Rightarrow> world \<Rightarrow> string \<Rightarrow> jwt_payload \<Rightarrow> bool" where
  "authenticated E rq w tok claims \<longleftrightarrow>
     rq_Header rq ''Authorization'' = ''Bearer '' @ tok \<and> jwt_Verify E tok w = Inr claims \<and>
     cache_view (now w) w (blocklist_key tok) \<in> {None, Some []}"

lemma Auth_cases:
  assumes "fresh r" "Auth E nxt rq r w = (Inr resp, w')"
  shows "(\<exists>tok claims. authenticated E rq w tok claims \<and>
      nxt (WithAuthContext rq claims tok) r (tick w) = (Inr resp, w')) \<or>
    (rs_Status resp = Some 401 \<and> w' \<in> {w, tick w})"
proof -
  let ?h = "rq_Header rq ''Authorization''"
  show ?thesis
  proof (cases "?h = [] \<or> \<not> has_prefix ?h ''Bearer ''")
    case True
    then show ?thesis using assms
      by (auto simp: Auth_def Let_def ret_def unauthorized_status)
  next
    case False
    then obtain tok where h: "?h = ''Bearer '' @ tok" by (auto simp: has_prefix_iff)
    have t: "trim_prefix ?h ''Bearer '' = tok" unfolding h by (rule trim_prefix_append)
    show ?thesis
    proof (cases "jwt_Verify E tok w")
      case (Inl e)
      then show ?thesis using assms False t
        by (auto simp: Auth_def Let_def attempt_def pure_call_def ret_def unauthorized_status split: if_splits)
    next
      case (Inr claims)
      obtain g where g: "redis_Get E (blocklist_key tok) w = (g, tick w)"
        by (metis prod.collapse redis_Get_snd)
      have "(case g of
          Inr val \<Rightarrow> if val \<noteq> [] then ret (unauthorized ''invalid_token'' ''token on blocklist'' ''token on blocklist'' r)
                     else nxt (WithAuthContext rq claims tok) r
        | Inl e \<Rightarrow> if \<not> errors_Is e (CacheE ErrCacheMiss) then
                     ret (unauthorized ''invalid_token'' ''unable to verify token status''
                       ''unable to verify token status'' r)
                   else nxt (WithAuthContext rq claims tok) r) (tick w) = (Inr resp, w')"
        using assms(2) False t Inr g
        by (cases g) (auto simp: Auth_def Let_def attempt_def pure_call_def split: if_splits)
      moreover have "g = Inr [] \<Longrightarrow> cache_view (now w) w (blocklist_key tok) = Some []"
        using redis_Get_Inr [of E "blocklist_key tok" w] g by simp
      moreover have "g = Inl e \<Longrightarrow> errors_Is e (CacheE ErrCacheMiss) \<Longrightarrow>
          cache_view (now w) w (blocklist_key tok) = None" for e
        using redis_Get_Inl [of E "blocklist_key tok" w e] g by auto
      ultimately show ?thesis
        using h Inr assms(1)
        by (cases g) (auto simp: authenticated_def ret_def unauthorized_status split: if_splits)
    qed
  qed
qed

text \<open>
  The handler behind \<open>Auth\<close> runs only for a request whose bearer token the library
  accepts and which is not on the blocklist, and it runs with that token's claims; every other
  request is answered 401, without a change to the tables or the cache.
\<close>

theorem Auth_sound:
  assumes "fresh r" "Auth E nxt rq r w = (Inr resp, w')"
  shows "(\<exists>tok claims. authenticated E rq w tok claims \<and>
      nxt (WithAuthContext rq claims tok) r (tick w) = (Inr resp, w')) \<or>
    (rs_Status resp = Some 401 \<and> w' \<in> {w, tick w})"
  by (rule Auth_cases [OF assms(1) assms(2)])

text \<open>
  A token that has been logged out is refused for as long as the library would still
  accept it: its entry in the blocklist lasts until the token expires.
\<close>

theorem Logout_revokes:
  assumes "fresh r" "Logout E tok claims w = (Inr (), w')" "c_ExpiresAt claims = Some e"
    and "jwt_expiry_checked E" "\<And>t c. jwt_ParseWithClaims E t tok (jwt_keyfunc E) = Inr c \<Longrightarrow> c = claims"
    and "now w \<le> t" "Auth E nxt rq r (w'\<lparr>now := t\<rparr>) = (Inr resp, w2)"
    and "rq_Header rq ''Authorization'' = ''Bearer '' @ tok"
  shows "rs_Status resp = Some 401"
proof -
  from Auth_cases [OF assms(1,7)] show ?thesis
  proof
    assume "\<exists>tok' c. authenticated E rq (w'\<lparr>now := t\<rparr>) tok' c \<and>
      nxt (WithAuthContext rq c tok') r (tick (w'\<lparr>now := t\<rparr>)) = (Inr resp, w2)"
    then obtain c where a: "authenticated E rq (w'\<lparr>now := t\<rparr>) tok c"
      using assms(8) by (auto simp: authenticated_def)
    then have j: "jwt_ParseWithClaims E t tok (jwt_keyfunc E) = Inr c"
      by (simp add: authenticated_def jwt_Verify_def)
    have "t < e"
      using j assms(3) assms(5) [OF j] assms(4) by (auto simp: jwt_expiry_checked_def)
    then have "w' = stored (blocklist_key tok) ''1'' (e - now w) (tick w)"
      using assms(2,3,6) by (auto simp: Logout_def at_now_def inr_simps dest!: redis_Set_Inr split: if_splits)
    then have "cache_view t w' (blocklist_key tok) = Some ''1''"
      using \<open>t < e\<close> assms(6) by (simp add: cache_view_stored)
    moreover have "cache_view t (w'\<lparr>now := t\<rparr>) = cache_view t w'"
      by (rule ext) (simp add: cache_view_def)
    ultimately show ?thesis using a by (simp add: authenticated_def)
  qed simp
qed

section \<open>Rate limiting\<close>

definition limit_headers :: "int \<Rightarrow> limit_result \<Rightarrow> http_response \<Rightarrow> http_response" where
  "limit_headers Rate res r =
     set_header ''X-RateLimit-Reset'' (show_int (lim_last_refill res))
       (set_header ''X-RateLimit-Remaining'' (show_int (lim_token res))
         (set_header ''X-RateLimit-Limit'' (show_int Rate) r))"

text \<open>
  The limiter fails closed: the handler behind it runs only when the script has
  admitted the request and its reply is the triple of numbers it should be; a refused request is
  answered 429, and one whose address or reply cannot be read 500.
\<close>

theorem Limit_fails_closed:
  assumes "fresh r" "Limit E Rate Capacity nxt rq r w = (Inr resp, w')"
  shows "(\<exists>ip res w1. getIp (rq_RemoteAddr rq) = Some ip \<and>
      setLimit E Capacity Rate (limiter_key ip) w = (Inr res, w1) \<and>
      (if lim_allowed res
       then nxt rq (limit_headers Rate res r) w1 = (Inr resp, w')
       else rs_Status resp = Some 429 \<and> w' = w1)) \<or>
    rs_Status resp = Some 500"
proof (cases "getIp (rq_RemoteAddr rq)")
  case None
  then show ?thesis using assms by (auto simp: Limit_def ret_def internal_error_def SendError_status)
next
  case (Some ip)
  obtain x w1 where s: "setLimit E Capacity Rate (limiter_key ip) w = (x, w1)" by fastforce
  show ?thesis
  proof (cases x)
    case (Inl e)
    then show ?thesis using assms Some s
      by (auto simp: Limit_def attempt_def ret_def internal_error_def SendError_status split: if_splits)
  next
    case (Inr res)
    then show ?thesis using assms Some s
      by (auto simp: Limit_def attempt_def ret_def SendError_status Let_def limit_headers_def split: if_splits)
  qed
qed

lemma setLimit_ok:
  assumes "no_faults E"
  shows "setLimit E Capacity Rate key w =
    (let ((allowed, wait_ms, token), b) =
       limiter_script Capacity Rate (now w) (live_bucket (now w) (buckets w key))
     in (Inr \<lparr>lim_allowed = (allowed = 1), lim_wait_ms = wait_ms, lim_token = lua_to_int token,
           lim_last_refill = now w\<rparr>, (tick w)\<lparr>buckets := (buckets w)(key \<mapsto> b)\<rparr>))"
  using assms
  by (auto simp: setLimit_def at_now_def RunScript_def ext_call_ok call_def Let_def ret_def toInt64_def
      split: prod.split)

text \<open>
  When Redis answers, a request passes the limiter exactly when its address's bucket
  admits it, the bucket is written back, and a refused client is told to wait at least one second
  and at least as long as the bucket needs.
\<close>

theorem Limit_follows_bucket:
  assumes "no_faults E" "getIp (rq_RemoteAddr rq) = Some ip"
    and "limiter_script Capacity Rate (now w) (live_bucket (now w) (buckets w (limiter_key ip))) =
      ((allowed, wait_ms, token), b)"
    and "fresh r" "Limit E Rate Capacity nxt rq r w = (Inr resp, w')"
  shows "if allowed = 1
    then nxt rq (limit_headers Rate \<lparr>lim_allowed = True, lim_wait_ms = wait_ms,
        lim_token = lua_to_int token, lim_last_refill = now w\<rparr> r) ((tick w)\<lparr>buckets := (buckets w)(limiter_key ip \<mapsto> b)\<rparr>) = (Inr resp, w')
    else rs_Status resp = Some 429 \<and> w' = (tick w)\<lparr>buckets := (buckets w)(limiter_key ip \<mapsto> b)\<rparr> \<and>
      (\<exists>s. rs_Header resp ''Retry-After'' = Some (show_int s) \<and> 1 \<le> s \<and> wait_ms \<le> 1000 * s)"
proof -
  have s: "setLimit E Capacity Rate (limiter_key ip) w =
      (Inr \<lparr>lim_allowed = (allowed = 1), lim_wait_ms = wait_ms, lim_token = lua_to_int token,
           lim_last_refill = now w\<rparr>, (tick w)\<lparr>buckets := (buckets w)(limiter_key ip \<mapsto> b)\<rparr>)"
    using setLimit_ok [OF assms(1), of Capacity Rate "limiter_key ip" w] assms(3) by simp
  have wt: "1 \<le> retryAfterSecs wait_ms" "wait_ms \<le> 1000 * retryAfterSecs wait_ms"
    unfolding retryAfterSecs_def Let_def by (simp_all, linarith?)
  show ?thesis
    using assms(2,4,5) s wt
    by (auto simp: Limit_def attempt_def Let_def ret_def SendError_status fresh_def limit_headers_def split: if_splits)
qed

section \<open>The chain\<close>

lemma wrap_all: "wrap_from_last ms (length ms) nxt = foldr (\<lambda>m h. m h) ms nxt"
  by (simp add: wrap_from_last_foldr)

text \<open>
  Middleware runs in the order it is listed: wrapping with two lists is wrapping with
  the second and then with the first, and the global list runs before a route's own.
\<close>

theorem With_order:
  "With h (ms @ ns) = With (With h ns) ms \<and> With h (m # ms) = m (With h ms) \<and> With h [] = h \<and>
   WrapMux (Use gs ms) h = With (With h ms) gs"
  unfolding With_def WrapMux_def Use_def wrap_all by simp

lemma server_chain_unfold:
  "server_chain E mux = RequestId E (Cors E (Preflight (Logger (Limit E 20 35 mux))))"
  unfolding server_chain_def WrapMux_def Use_def wrap_all by simp

text \<open>
  A preflight request is answered 204 in front of the limiter: it uses no token of
  its address's bucket, reaches no route, and names an allowed origin only when it came from one.
\<close>

theorem preflight_before_limiter:
  assumes "fresh r" "rq_Method rq = ''OPTIONS''" "rs_Header r ''Access-Control-Allow-Origin'' = None"
  shows "\<exists>resp w'. server_chain E mux rq r w = (Inr resp, w') \<and> rs_Status resp = Some 204 \<and>
    buckets w' = buckets w \<and> db w' = db w \<and> cache_keys w' = cache_keys w \<and>
    rs_Header resp ''Access-Control-Allow-Origin'' =
      (if rq_Header rq ''Origin'' \<in> set (cnf_AllowedOrigins E) - {[]} then Some (rq_Header rq ''Origin'') else None)"
proof -
  have "rs_Status (WriteHeader 204 r) = Some 204" "rs_Header (WriteHeader 204 r) = rs_Header r"
    if "fresh r" for r using that by (simp_all add: fresh_def WriteHeader_def)
  then show ?thesis using assms
    by (simp add: server_chain_unfold RequestId_def Cors_def Preflight_def Let_def with_uuid_drawn_def
        draw_uuid_def ret_def CheckOrigin_def InitAllowedOrigins_def WithLoggerContext_def fresh_def set_header_def
        split: option.split)
qed

section \<open>The properties at concrete requests\<close>

definition sample_request :: "string \<Rightarrow> (string \<Rightarrow> string) \<Rightarrow> http_request" where
  "sample_request m h = \<lparr>rq_Method = m, rq_Path = [], rq_PathValue = (\<lambda>_. []), rq_Query = (\<lambda>_. []),
     rq_Header = h, rq_Body = None, rq_BodyEnd = 0, rq_RemoteAddr = ''1.2.3.4:5'', rq_RequestID = None,
     rq_Claims = None, rq_Token = None\<rparr>"

definition no_response :: http_response where
  "no_response = \<lparr>rs_Status = None, rs_Header = (\<lambda>_. None), rs_Body = None\<rparr>"

definition hello :: handler where
  "hello rq r = ret (SendJson (JStr (GetUserId rq)) 200 r)"

lemma no_response_fresh [simp]: "fresh no_response"
  by (simp add: fresh_def no_response_def)

lemma Auth_sound_witness:
  "\<exists>resp w'. Auth sample_env hello (sample_request ''GET'' (\<lambda>_. [])) no_response (world_of 0 empty_db) =
     (Inr resp, w') \<and> rs_Status resp = Some 401"
proof -
  let ?rq = "sample_request ''GET'' (\<lambda>_. [])"
  obtain resp w' where a: "Auth sample_env hello ?rq no_response (world_of 0 empty_db) = (Inr resp, w')"
    by (simp add: Auth_def sample_request_def ret_def)
  have "\<not> authenticated sample_env ?rq (world_of 0 empty_db) tok c" for tok c
    by (simp add: authenticated_def sample_request_def)
  with Auth_sound [OF no_response_fresh a] a show ?thesis by blast
qed

definition bearer_t :: "string \<Rightarrow> string" where
  "bearer_t k = (if k = ''Authorization'' then ''Bearer t'' else [])"

lemma Logout_revokes_witness:
  "\<exists>resp w2. Auth sample_env hello (sample_request ''GET'' bearer_t) no_response
     ((snd (Logout sample_env ''t'' sample_claims (world_of 0 empty_db)))\<lparr>now := 5\<rparr>) = (Inr resp, w2) \<and>
     rs_Status resp = Some 401"
proof -
  let ?w = "snd (Logout sample_env ''t'' sample_claims (world_of 0 empty_db))"
  have l: "Logout sample_env ''t'' sample_claims (world_of 0 empty_db) = (Inr (), ?w)"
    by (rule run_pair) code_simp
  have e: "jwt_expiry_checked sample_env"
    by (simp add: jwt_expiry_checked_def sample_env_def sample_claims_def)
  have c: "\<And>t c. jwt_ParseWithClaims sample_env t ''t'' (jwt_keyfunc sample_env) = Inr c \<Longrightarrow> c = sample_claims"
    by (simp add: sample_env_def split: if_splits)
  have "fst (Auth sample_env hello (sample_request ''GET'' bearer_t) no_response (?w\<lparr>now := 5\<rparr>)) \<noteq> Inl e" for e
    by (auto simp: Auth_def attempt_def pure_call_def jwt_Verify_def sample_env_def ret_def hello_def
        sample_request_def bearer_t_def redis_Get_def ext_call_def Let_def
        split: prod.split sum.split if_splits option.splits)
  then obtain resp w2 where "Auth sample_env hello (sample_request ''GET'' bearer_t) no_response (?w\<lparr>now := 5\<rparr>) =
      (Inr resp, w2)" by (metis sum.exhaust prod.collapse)
  with Logout_revokes [OF no_response_fresh l _ e c _ this, of 86400000] show ?thesis
    by (auto simp: sample_claims_def sample_request_def bearer_t_def)
qed

lemma sample_admitted:
  "limiter_script 35 20 (now (world_of 0 empty_db)) (live_bucket (now (world_of 0 empty_db))
     (buckets (world_of 0 empty_db) (limiter_key ''1.2.3.4''))) =
   ((1, 0, 34), \<lparr>bk_token = 34, bk_last_refill = 0, bk_deadline = 6000\<rparr>)"
  by (simp add: world_of_def live_bucket_def limiter_script_def refilled_def bucket_ttl_def)

lemma sample_ip: "getIp (rq_RemoteAddr (sample_request m h)) = Some ''1.2.3.4''"
  by (simp add: sample_request_def, code_simp)

lemma sample_limit_run:
  "\<exists>resp w'. Limit sample_env 20 35 hello (sample_request ''GET'' bearer_t) no_response (world_of 0 empty_db) =
     (Inr resp, w')"
  using sample_admitted
  by (simp add: Limit_def sample_ip attempt_def setLimit_ok hello_def ret_def Let_def)

lemma Limit_fails_closed_witness:
  "\<exists>resp w'. Limit sample_env 20 35 hello (sample_request ''GET'' bearer_t) no_response (world_of 0 empty_db) =
     (Inr resp, w') \<and>
     ((\<exists>res w1. setLimit sample_env 35 20 (limiter_key ''1.2.3.4'') (world_of 0 empty_db) = (Inr res, w1)) \<or>
      rs_Status resp = Some 500)"
proof -
  obtain resp w' where "Limit sample_env 20 35 hello (sample_request ''GET'' bearer_t) no_response
      (world_of 0 empty_db) = (Inr resp, w')" using sample_limit_run by blast
  with Limit_fails_closed [OF no_response_fresh this] show ?thesis by (auto simp: sample_ip)
qed

lemma Limit_follows_bucket_witness:
  "\<exists>resp w' w1. Limit sample_env 20 35 hello (sample_request ''GET'' bearer_t) no_response (world_of 0 empty_db) =
     (Inr resp, w') \<and> hello (sample_request ''GET'' bearer_t)
       (limit_headers 20 \<lparr>lim_allowed = True, lim_wait_ms = 0, lim_token = 34, lim_last_refill = 0\<rparr> no_response)
       w1 = (Inr resp, w')"
proof -
  obtain resp w' where l: "Limit sample_env 20 35 hello (sample_request ''GET'' bearer_t) no_response
      (world_of 0 empty_db) = (Inr resp, w')" using sample_limit_run by blast
  from Limit_follows_bucket [OF sample_no_faults sample_ip sample_admitted no_response_fresh l]
  have "hello (sample_request ''GET'' bearer_t)
       (limit_headers 20 \<lparr>lim_allowed = True, lim_wait_ms = 0, lim_token = 34, lim_last_refill = 0\<rparr> no_response)
       ((tick (world_of 0 empty_db))\<lparr>buckets := (buckets (world_of 0 empty_db))(limiter_key ''1.2.3.4'' \<mapsto>
         \<lparr>bk_token = 34, bk_last_refill = 0, bk_deadline = 6000\<rparr>)\<rparr>) = (Inr resp, w')"
    by (simp add: lua_to_int_def)
  with l show ?thesis by blast
qed

lemma preflight_before_limiter_witness:
  "\<exists>resp w'. server_chain sample_env hello (sample_request ''OPTIONS'' (\<lambda>_. [])) no_response (world_of 0 empty_db) =
     (Inr resp, w') \<and> rs_Status resp = Some 204"
  using preflight_before_limiter [OF no_response_fresh, of "sample_request ''OPTIONS'' (\<lambda>_. [])" sample_env hello
      "world_of 0 empty_db"]
  by (auto simp: sample_request_def no_response_def)

end
