(* ===== verification/Router_Laws.thy ===== *)
theory Router_Laws
  imports Server Gateway_Laws
begin

text \<open>
  The table of routes: which handler a request reaches, that registering the table raises no
  conflict, and that everything but the public routes is behind the authentication middleware.
\<close>

section \<open>The table\<close>

text \<open>Methods and patterns, which do not depend on the environment.\<close>

definition signature :: "route \<Rightarrow> string \<times> segment list" where
  "signature x = (rt_method x, rt_pattern x)"

definition table :: "(string \<times> segment list) list" where
  "table =
     [(''POST'', [Lit ''auth'', Lit ''signup'']), (''GET'', [Lit ''auth'', Lit ''verify'']),
      (''POST'', [Lit ''auth'', Lit ''verify'', Lit ''resend'']), (''POST'', [Lit ''auth'', Lit ''login'']),
      (''POST'', [Lit ''auth'', Lit ''forgot-password'']), (''POST'', [Lit ''auth'', Lit ''reset'']),
      (''GET'', [Lit ''auth'', Lit ''reset'']), (''POST'', [Lit ''auth'', Lit ''logout'']),
      (''GET'', [Lit ''gifs'', Lit ''me'']), (''GET'', [Lit ''gifs'', Lit ''user'', Wild ''userId'']),
      (''GET'', [Lit ''gifs'', Lit ''me'', Wild ''key'']),
      (''GET'', [Lit ''gifs'', Lit ''me'', Wild ''key'', Lit ''download'']),
      (''GET'', [Lit ''gifs'', Lit ''me'', Wild ''key'', Lit ''thumbnail'']),
      (''PATCH'', [Lit ''gifs'', Lit ''me'', Wild ''key'']),
      (''GET'', [Lit ''gifs'', Lit ''me'', Lit ''recents'']),
      (''DELETE'', [Lit ''gifs'', Lit ''me'', Wild ''key'']),
      (''POST'', [Lit ''gifs'', Lit ''me'', Lit ''recents'', Wild ''key'', Lit ''save'']),
      (''GET'', [Lit ''uploads'', Wild ''key'', Lit ''status'']),
      (''GET'', [Lit ''uploads'', Wild ''key'', Lit ''stream'']),
      (''GET'', [Lit ''uploads'', Lit ''last'']), (''POST'', [Lit ''uploads'']),
      (''GET'', [Lit ''jobs'', Wild ''jobId'', Lit ''status'']), (''POST'', [Lit ''jobs'']),
      (''POST'', [Lit ''gifs'', Lit ''me'', Wild ''key'', Lit ''shares'']),
      (''GET'', [Lit ''gifs'', Lit ''me'', Lit ''shares'']),
      (''DELETE'', [Lit ''gifs'', Lit ''me'', Wild ''key'', Lit ''shares'', Wild ''shareWithId'']),
      (''POST'', [Lit ''s'']), (''GET'', [Lit ''s'', Wild ''token'']),
      (''GET'', [Lit ''s'', Wild ''token'', Lit ''download'']),
      (''POST'', [Lit ''friends'', Lit ''requests'']), (''GET'', [Lit ''friends'', Lit ''requests'']),
      (''PATCH'', [Lit ''friends'', Lit ''requests'', Wild ''id'']),
      (''DELETE'', [Lit ''friends'', Lit ''requests'', Wild ''id'']), (''GET'', [Lit ''friends'']),
      (''DELETE'', [Lit ''friends'', Wild ''id'']),
      (''GET'', [Lit ''users'', Lit ''me'', Lit ''profile'']),
      (''GET'', [Lit ''users'', Wild ''userId'', Lit ''profile'']),
      (''GET'', [Lit ''users'', Lit ''me'', Lit ''quota'']),
      (''PATCH'', [Lit ''users'', Lit ''me'', Lit ''profile'']),
      (''PATCH'', [Lit ''users'', Lit ''me'', Lit ''change-password'']),
      (''DELETE'', [Lit ''users'', Lit ''me'']), (''GET'', [Rest]), (''GET'', [Lit ''health''])]"

lemmas route_defs = routes_def auth_routes_def media_routes_def share_routes_def friend_routes_def
  user_routes_def static_routes_def handle_def

lemma signatures: "map signature (routes E) = table"
  by (simp add: route_defs signature_def table_def)

section \<open>Which patterns meet\<close>

fun overlap :: "segment list \<Rightarrow> segment list \<Rightarrow> bool" where
  "overlap [] [] = True"
| "overlap [Rest] q = True"
| "overlap p [Rest] = True"
| "overlap (Lit a # p) (Lit b # q) = (a = b \<and> overlap p q)"
| "overlap (Lit a # p) (Wild n # q) = (a \<noteq> [] \<and> overlap p q)"
| "overlap (Wild n # p) (Lit a # q) = (a \<noteq> [] \<and> overlap p q)"
| "overlap (Wild n # p) (Wild n' # q) = overlap p q"
| "overlap _ _ = False"

fun below :: "segment list \<Rightarrow> segment list \<Rightarrow> bool" where
  "below p [Rest] = True"
| "below [] [] = True"
| "below (Lit a # p) (Lit b # q) = (a = b \<and> below p q)"
| "below (Lit a # p) (Wild n # q) = (a \<noteq> [] \<and> below p q)"
| "below (Wild n # p) (Wild n' # q) = below p q"
| "below _ _ = False"

lemma match_Rest [simp]: "match_segments [Rest] ss = Some []"
  by (cases ss) simp_all

lemma overlap_sound:
  "match_segments p ss \<noteq> None \<Longrightarrow> match_segments q ss \<noteq> None \<Longrightarrow> overlap p q"
  by (induction p q arbitrary: ss rule: overlap.induct; case_tac ss) (auto split: if_splits)

lemma below_sound: "below p q \<Longrightarrow> match_segments p ss \<noteq> None \<Longrightarrow> match_segments q ss \<noteq> None"
  by (induction p q arbitrary: ss rule: below.induct; case_tac ss) (auto split: if_splits)

text \<open>
  Two routes do not get in each other's way: other methods, no common path, or one is within the
  other and the search prefers it. \<open>ServeMux\<close> panics when a route is registered that does.
\<close>

fun clear_of :: "string \<times> segment list \<Rightarrow> string \<times> segment list \<Rightarrow> bool" where
  "clear_of (m, p) (m', q) =
     (m \<noteq> m' \<or> \<not> overlap p q \<or> (below p q \<and> more_specific p q) \<or> (below q p \<and> more_specific q p))"

fun all_pairs :: "('a \<Rightarrow> 'a \<Rightarrow> bool) \<Rightarrow> 'a list \<Rightarrow> bool" where
  "all_pairs P [] = True"
| "all_pairs P (x # xs) = (list_all (P x) xs \<and> all_pairs P xs)"

lemma all_pairs_map: "all_pairs P (map f xs) = all_pairs (\<lambda>x y. P (f x) (f y)) xs"
  by (induction xs) (simp_all add: list.pred_map comp_def)

lemma all_pairs_filter:
  "all_pairs P xs \<Longrightarrow> (\<And>x y. R x \<Longrightarrow> R y \<Longrightarrow> P x y \<Longrightarrow> Q x y) \<Longrightarrow> all_pairs Q (filter R xs)"
  by (induction xs) (auto simp: list_all_iff)

lemma table_clear: "all_pairs clear_of table"
  by code_simp

lemma more_specific_trans: "more_specific p q \<Longrightarrow> more_specific q r \<Longrightarrow> more_specific p r"
proof (induction p arbitrary: q r)
  case (Cons a p)
  show ?case
  proof (cases q)
    case (Cons b q')
    show ?thesis
    proof (cases r)
      case (Cons c r')
      then show ?thesis using Cons.prems Cons.IH [of q' r'] \<open>q = b # q'\<close> by (cases a; cases b; cases c; simp)
    qed (use Cons.prems \<open>q = b # q'\<close> in \<open>cases a; cases b; simp\<close>)
  qed (use Cons.prems in \<open>cases a; cases r; simp\<close>)
qed simp

lemma most_specific_best:
  assumes "all_pairs (\<lambda>x y. more_specific (rt_pattern x) (rt_pattern y) \<or> more_specific (rt_pattern y) (rt_pattern x)) c"
    and "most_specific c = Some x"
  shows "x \<in> set c \<and> (\<forall>y\<in>set c. y = x \<or> more_specific (rt_pattern x) (rt_pattern y))"
  using assms
proof (induction c arbitrary: x)
  case (Cons a c)
  show ?case
  proof (cases "most_specific c")
    case None
    then have "c = []" by (cases c; cases "most_specific (tl c)") (auto split: if_splits)
    then show ?thesis using Cons.prems by simp
  next
    case (Some y)
    then have y: "y \<in> set c" "\<forall>z\<in>set c. z = y \<or> more_specific (rt_pattern y) (rt_pattern z)"
      using Cons.IH Cons.prems by auto
    have ay: "more_specific (rt_pattern a) (rt_pattern y) \<or> more_specific (rt_pattern y) (rt_pattern a)"
      using Cons.prems y(1) by (simp add: list_all_iff)
    show ?thesis
    proof (cases "more_specific (rt_pattern y) (rt_pattern a)")
      case True
      then show ?thesis using Cons.prems Some y by auto
    next
      case False
      then have "x = a" "more_specific (rt_pattern a) (rt_pattern y)" using ay Cons.prems Some by auto
      then show ?thesis using y more_specific_trans by auto
    qed
  qed
qed simp

lemma most_specific_None: "most_specific c = None \<longleftrightarrow> c = []"
  by (cases c; cases "most_specific (tl c)") (auto split: if_splits)

lemma more_specific_irrefl [simp]: "\<not> more_specific p p"
proof (induction p)
  case (Cons a p)
  then show ?case by (cases a) simp_all
qed simp

lemma candidates_comparable:
  "all_pairs (\<lambda>x y. more_specific (rt_pattern x) (rt_pattern y) \<or> more_specific (rt_pattern y) (rt_pattern x))
     (candidates (routes E) m path)"
proof -
  have "all_pairs (\<lambda>x y. clear_of (signature x) (signature y)) (routes E)"
    using table_clear unfolding signatures [of E, symmetric] by (simp add: all_pairs_map)
  then show ?thesis unfolding candidates_def
    by (rule all_pairs_filter) (use overlap_sound in \<open>auto simp: signature_def\<close>)
qed

text \<open>On this table, to be preferred is to match fewer paths.\<close>

lemma table_ordered:
  "list_all (\<lambda>(m, p). list_all (\<lambda>(m', q).
     m = m' \<and> overlap p q \<and> more_specific p q \<longrightarrow> below p q) table) table"
  by code_simp

lemma routes_below:
  assumes "x \<in> set (routes E)" "y \<in> set (routes E)" "rt_method x = rt_method y"
    and "match_segments (rt_pattern x) path \<noteq> None" "match_segments (rt_pattern y) path \<noteq> None"
    and "more_specific (rt_pattern x) (rt_pattern y)"
  shows "below (rt_pattern x) (rt_pattern y)"
proof -
  have "signature x \<in> set table" "signature y \<in> set table"
    unfolding signatures [of E, symmetric] using assms(1,2) by simp_all
  then show ?thesis
    using table_ordered assms(3,6) overlap_sound [OF assms(4,5)]
    unfolding list_all_iff signature_def by fastforce
qed


section \<open>Who is let in\<close>

text \<open>The routes that need no account.\<close>

definition public_routes :: "(string \<times> segment list) list" where
  "public_routes =
     [(''POST'', [Lit ''auth'', Lit ''signup'']), (''GET'', [Lit ''auth'', Lit ''verify'']),
      (''POST'', [Lit ''auth'', Lit ''verify'', Lit ''resend'']), (''POST'', [Lit ''auth'', Lit ''login'']),
      (''POST'', [Lit ''auth'', Lit ''forgot-password'']), (''POST'', [Lit ''auth'', Lit ''reset'']),
      (''GET'', [Lit ''auth'', Lit ''reset'']), (''GET'', [Lit ''s'', Wild ''token'']),
      (''GET'', [Lit ''s'', Wild ''token'', Lit ''download'']), (''GET'', [Rest]), (''GET'', [Lit ''health''])]"

lemma With_one: "With h [m] = m h"
  by (simp add: With_def)

definition guarded :: "env \<Rightarrow> handler \<Rightarrow> bool" where
  "guarded E f \<longleftrightarrow> (\<exists>h. f = Auth E h)"

lemma guarded_Auth [simp]: "guarded E (Auth E h)"
  by (auto simp: guarded_def)

lemma guarded_routes: "list_all (\<lambda>x. guarded E (rt_handler x)) (media_routes E)"
  "list_all (\<lambda>x. guarded E (rt_handler x)) (friend_routes E)"
  "list_all (\<lambda>x. guarded E (rt_handler x)) (user_routes E)"
  by (simp_all add: media_routes_def friend_routes_def user_routes_def handle_def With_one)

lemma mixed_routes:
  "list_all (\<lambda>x. signature x \<in> set public_routes \<or> guarded E (rt_handler x)) (auth_routes E)"
  "list_all (\<lambda>x. signature x \<in> set public_routes \<or> guarded E (rt_handler x)) (share_routes E)"
  "list_all (\<lambda>x. signature x \<in> set public_routes \<or> guarded E (rt_handler x)) (static_routes E)"
  by (simp_all add: auth_routes_def share_routes_def static_routes_def handle_def With_one signature_def
      public_routes_def)

lemma routes_guarded:
  "x \<in> set (routes E) \<Longrightarrow> signature x \<notin> set public_routes \<Longrightarrow> guarded E (rt_handler x)"
  using guarded_routes [of E] mixed_routes [of E] unfolding routes_def list_all_iff by auto

lemma find_route_in: "find_route rts m path = Some x \<Longrightarrow>
    x \<in> set rts \<and> match_segments (rt_pattern x) path \<noteq> None"
proof -
  have "most_specific c = Some x \<Longrightarrow> x \<in> set c" for c
    by (induction c arbitrary: x) (auto split: option.splits if_splits)
  then show "find_route rts m path = Some x \<Longrightarrow> ?thesis"
    unfolding find_route_def candidates_def by (fastforce split: option.splits if_splits)
qed

text \<open>
  Property C11. Behind the router, a request for anything but the public routes whose bearer token
  is missing, not accepted by the library or revoked gets 401, and nothing in the tables or the
  cache has changed.
\<close>

theorem unauthenticated_refused:
  assumes "find_route (routes E) (rq_Method rq) (rq_Path rq) = Some x" "signature x \<notin> set public_routes"
    and "\<nexists>tok claims. authenticated E rq w tok claims" "fresh r"
    and "mux (routes E) rq r w = (Inr resp, w')"
  shows "rs_Status resp = Some 401 \<and> db w' = db w \<and> cache_keys w' = cache_keys w"
proof -
  obtain binds where b: "match_segments (rt_pattern x) (rq_Path rq) = Some binds"
    using find_route_in [OF assms(1)] by auto
  obtain h where "rt_handler x = Auth E h"
    using routes_guarded find_route_in [OF assms(1)] assms(2) unfolding guarded_def by blast
  then have "Auth E h (rq\<lparr>rq_PathValue := path_value binds\<rparr>) r w = (Inr resp, w')"
    using assms(1,5) b by (simp add: mux_def)
  from Auth_cases [OF assms(4) this] show ?thesis
    using assms(3) by (auto simp: authenticated_def tick_def)
qed

section \<open>The properties at concrete requests\<close>

lemma find_route_recents:
  "find_route (routes E) ''GET'' [''gifs'', ''me'', ''recents''] =
     Some (handle ''GET'' [Lit ''gifs'', Lit ''me'', Lit ''recents''] (With (http_GetRecents E) [Auth E]))"
  by (simp add: find_route_def candidates_def route_defs)

lemma find_route_listing:
  "find_route (routes E) ''GET'' [''gifs'', ''me''] =
     Some (handle ''GET'' [Lit ''gifs'', Lit ''me''] (With (http_GetGifs E) [Auth E]))"
  by (simp add: find_route_def candidates_def route_defs)


lemma unauthenticated_refused_witness:
  "\<exists>resp w'. mux (routes sample_env) ((sample_request ''GET'' (\<lambda>_. []))\<lparr>rq_Path := [''gifs'', ''me'']\<rparr>) no_response
     (world_of 0 empty_db) = (Inr resp, w') \<and> rs_Status resp = Some 401 \<and> db w' = empty_db"
proof -
  let ?rq = "(sample_request ''GET'' (\<lambda>_. []))\<lparr>rq_Path := [''gifs'', ''me'']\<rparr>"
  have f: "find_route (routes sample_env) (rq_Method ?rq) (rq_Path ?rq) =
      Some (handle ''GET'' [Lit ''gifs'', Lit ''me''] (With (http_GetGifs sample_env) [Auth sample_env]))"
    by (simp add: sample_request_def find_route_listing)
  have p: "signature (handle ''GET'' [Lit ''gifs'', Lit ''me''] h) \<notin> set public_routes" for h
    by (simp add: signature_def handle_def public_routes_def)
  have a: "\<nexists>tok claims. authenticated sample_env ?rq (world_of 0 empty_db) tok claims"
    by (simp add: authenticated_def sample_request_def)
  obtain resp w' where m: "mux (routes sample_env) ?rq no_response (world_of 0 empty_db) = (Inr resp, w')"
    unfolding mux_def f
    by (simp add: handle_def With_one Auth_def sample_request_def ret_def)
  from unauthenticated_refused [OF f p a no_response_fresh m] m show ?thesis by auto
qed

end
