(* ===== verification/Handler_Frames.thy ===== *)
theory Handler_Frames
  imports Router_Laws Frames
begin

text \<open>
  How a property of the world passes through a handler, through the middleware and through the
  router to the whole server. Whatever the steps of a handler keep, the server keeps.
\<close>

section \<open>The steps of a handler\<close>

lemma keeps_decode_body [keeps_intros]:
  "(\<And>req. keeps P (k req)) \<Longrightarrow> keeps P (decode_body fs zero bad rq r k)"
  unfolding decode_body_def by (intro keeps_intros)

lemma keeps_validated [keeps_intros]: "keeps P k \<Longrightarrow> keeps P (validated E fs msg r k)"
  unfolding validated_def by (intro keeps_intros)

lemma keeps_user_required [keeps_intros]: "(\<And>i. keeps P (k i)) \<Longrightarrow> keeps P (user_required msg rq r k)"
  unfolding user_required_def by (intro keeps_intros)

lemma keeps_user_expected [keeps_intros]: "(\<And>i. keeps P (k i)) \<Longrightarrow> keeps P (user_expected rq r k)"
  unfolding user_expected_def by (intro keeps_intros)

lemma keeps_path_required [keeps_intros]: "(\<And>v. keeps P (k v)) \<Longrightarrow> keeps P (path_required n msg rq r k)"
  unfolding path_required_def by (intro keeps_intros)

lemma keeps_serve_call [keeps_intros]: "keeps P m \<Longrightarrow> keeps P (serve_call m on_error reply r)"
  unfolding serve_call_def by (intro keeps_intros)

text \<open>\<open>handler_keeps P h\<close>: the handler keeps \<open>P\<close> on every request.\<close>

definition handler_keeps :: "(world \<Rightarrow> bool) \<Rightarrow> handler \<Rightarrow> bool" where
  "handler_keeps P h \<longleftrightarrow> (\<forall>rq r. keeps P (h rq r))"

lemma handler_keepsI: "(\<And>rq r. keeps P (h rq r)) \<Longrightarrow> handler_keeps P h"
  by (simp add: handler_keeps_def)

lemma handler_keepsD: "handler_keeps P h \<Longrightarrow> keeps P (h rq r)"
  by (simp add: handler_keeps_def)

section \<open>The middleware\<close>

text \<open>
  Two facts about a predicate carry the middleware: it does not look at the counters of external
  calls and of draws, nor at the buckets.
\<close>

definition counters_free :: "(world \<Rightarrow> bool) \<Rightarrow> bool" where
  "counters_free P \<longleftrightarrow>
     (\<forall>w. P w \<longrightarrow> P (tick w)) \<and> (\<forall>w n. P w \<longrightarrow> P (w\<lparr>draws := n\<rparr>)) \<and> (\<forall>w b. P w \<longrightarrow> P (w\<lparr>buckets := b\<rparr>))"

lemma counters_free_tick: "counters_free P \<Longrightarrow> P w \<Longrightarrow> P (tick w)"
  by (simp add: counters_free_def)

lemma keeps_RunScript: "counters_free P \<Longrightarrow> keeps P (RunScript E key c rt t)"
  unfolding RunScript_def
  by (rule ext_call_keeps) (auto simp: keeps_def counters_free_def Let_def split: prod.split)

lemma keeps_setLimit: "counters_free P \<Longrightarrow> keeps P (setLimit E c rt key)"
  unfolding setLimit_def
  by (intro keeps_intros keeps_RunScript) (auto intro!: keeps_intros split: redis_value.split option.split)

lemma handler_keeps_Limit: "counters_free P \<Longrightarrow> handler_keeps P h \<Longrightarrow> handler_keeps P (Limit E rt c h)"
  by (rule handler_keepsI, unfold Limit_def Let_def)
    (intro keeps_intros keeps_setLimit, assumption+, erule handler_keepsD)

lemma handler_keeps_chain:
  "handler_keeps P h \<Longrightarrow> handler_keeps P (Cors E h)" "handler_keeps P h \<Longrightarrow> handler_keeps P (Preflight h)"
  "handler_keeps P h \<Longrightarrow> handler_keeps P (Logger h)" "handler_keeps P h \<Longrightarrow> handler_keeps P (MaxBody1MB h)"
  "handler_keeps P h \<Longrightarrow> handler_keeps P (BlockIP h)" "handler_keeps P h \<Longrightarrow> handler_keeps P (OneTimePerEmail h)"
  by (auto simp: handler_keeps_def Cors_def Preflight_def Logger_def MaxBody1MB_def BlockIP_def
      OneTimePerEmail_def Let_def intro: keeps_intros)

lemma handler_keeps_RequestId:
  assumes "counters_free P" "handler_keeps P h"
  shows "handler_keeps P (RequestId E h)"
proof (rule handler_keepsI, rule keepsI)
  fix rq r w assume "P w"
  then have "P (w\<lparr>draws := Suc (draws w)\<rparr>)" using assms(1) by (simp add: counters_free_def)
  then show "P (snd (RequestId E h rq r w))"
    using \<open>P w\<close> assms(2)
    by (simp add: RequestId_def with_uuid_drawn_def draw_uuid_def Let_def handler_keeps_def keeps_def)
qed

text \<open>Behind \<open>Auth\<close> a handler sees only claims the JWT library has returned for the token.\<close>

lemma keeps_Auth:
  assumes "counters_free P"
    and "\<And>tok claims t. jwt_ParseWithClaims E t tok (jwt_keyfunc E) = Inr claims \<Longrightarrow>
      keeps P (h (WithAuthContext rq claims tok) r)"
  shows "keeps P (Auth E h rq r)"
proof (rule keepsI)
  fix w assume p: "P w"
  let ?tok = "trim_prefix (rq_Header rq ''Authorization'') ''Bearer ''"
  have g: "snd (redis_Get E k w) = tick w" for k by simp
  have t: "P (tick w)" using p assms(1) by (simp add: counters_free_def)
  show "P (snd (Auth E h rq r w))"
  proof (cases "jwt_Verify E ?tok w")
    case (Inl e)
    then show ?thesis using p by (auto simp: Auth_def Let_def attempt_def pure_call_def ret_def)
  next
    case (Inr claims)
    then have k: "keeps P (h (WithAuthContext rq claims ?tok) r)"
      using assms(2) by (auto simp: jwt_Verify_def)
    have "keeps P (attempt (redis_Get E (blocklist_key ?tok)) (\<lambda>g. case g of
        Inr val \<Rightarrow>
          if val \<noteq> [] then
            ret (unauthorized ''invalid_token'' ''token on blocklist'' ''token on blocklist'' r)
          else h (WithAuthContext rq claims ?tok) r
      | Inl e \<Rightarrow>
          if \<not> errors_Is e (CacheE ErrCacheMiss) then
            ret (unauthorized ''invalid_token'' ''unable to verify token status''
                   ''unable to verify token status'' r)
          else h (WithAuthContext rq claims ?tok) r))"
      by (intro keeps_intros k redis_Get_keeps) (use assms(1) in \<open>simp add: counters_free_def\<close>)
    from keepsD [OF this p] show ?thesis using p Inr
      by (auto simp: Auth_def Let_def attempt_def pure_call_def ret_def)
  qed
qed

lemma handler_keeps_Auth: "counters_free P \<Longrightarrow> handler_keeps P h \<Longrightarrow> handler_keeps P (Auth E h)"
  by (rule handler_keepsI, rule keeps_Auth) (auto simp: handler_keeps_def)

section \<open>The router and the server\<close>

lemma handler_keeps_mux:
  assumes "list_all (\<lambda>x. handler_keeps P (rt_handler x)) rts"
  shows "handler_keeps P (mux rts)"
proof (rule handler_keepsI)
  fix rq r
  show "keeps P (mux rts rq r)"
  proof (cases "find_route rts (rq_Method rq) (rq_Path rq)")
    case None
    then show ?thesis by (simp add: mux_def no_route_def Let_def keeps_ret)
  next
    case (Some x)
    then obtain binds where "x \<in> set rts" "match_segments (rt_pattern x) (rq_Path rq) = Some binds"
      using find_route_in by fastforce
    then show ?thesis using Some assms by (simp add: mux_def list_all_iff handler_keeps_def)
  qed
qed

lemma handler_keeps_serve:
  assumes "counters_free P" "list_all (\<lambda>x. handler_keeps P (rt_handler x)) (routes E)"
  shows "handler_keeps P (serve E)"
proof -
  have "handler_keeps P (server_chain E (mux (routes E)))"
    unfolding server_chain_unfold
    by (intro handler_keeps_RequestId handler_keeps_chain handler_keeps_Limit handler_keeps_mux assms)
  then show ?thesis by (simp add: serve_def handler_keeps_def)
qed

text \<open>
  The contract of the services towards the server: each keeps \<open>P\<close>, whatever it is called with;
  a logout need do so only for a token with the claims the JWT library returns for it.
\<close>

locale kept_by_services =
  fixes E :: env and P :: "world \<Rightarrow> bool"
  assumes counters: "counters_free P"
    and auth: "keeps P (Signup E email name full pass)" "keeps P (Login E email pass)"
      "keeps P (ForgotPassword E email)" "keeps P (ResendVerify E email)" "keeps P (ResetPasswordGet E tok)"
      "keeps P (ResetPasswordPost E tok pass confirm)" "keeps P (Verify E tok)"
    and logout: "jwt_ParseWithClaims E t tok (jwt_keyfunc E) = Inr claims \<Longrightarrow> keeps P (Logout E tok claims)"
    and user: "keeps P (ChangePassword E u cur new confirm)" "keeps P (DeleteUser E u pass)"
      "keeps P (GetProfile E u)" "keeps P (GetQuota E u)" "keeps P (UpdateProfile E prof u seen)"
    and friend: "keeps P (SendRequest E u v)" "keeps P (Accept E i u)" "keeps P (Reject E i u)"
      "keeps P (Remove E i u)" "keeps P (ListFriends E u)" "keeps P (ListPendingIncoming E u)"
    and share: "keeps P (share_Create E u key email t)" "keeps P (share_CreateByToken E u key email t)"
      "keeps P (share_Delete E u key v)" "keeps P (share_Get E u)" "keeps P (share_GetByToken E tok)"
      "keeps P (DownloadByToken E tok)"
    and media: "keeps P (Upload E filename u)" "keeps P (Status E u key)" "keeps P (LastVideo E u)"
      "keeps P (Stream E u key)" "keeps P (Convert E u key start stop fps width lp)"
      "keeps P (ConversionStatus E u i)" "keeps P (gif_service_Delete E u key)" "keeps P (Download E u key)"
      "keeps P (GetGifs E u flt pg lm)" "keeps P (GetByKey E u key)" "keeps P (GetGifThumbnail E u key)"
      "keeps P (GetRecents E u)" "keeps P (Save E u key)" "keeps P (Update E u key req seen)"
begin

lemmas services = auth user friend share media

lemma auth_handlers:
  "handler_keeps P (http_Signup E)" "handler_keeps P (http_Login E)" "handler_keeps P (http_ForgotPassword E)"
  "handler_keeps P (http_ResendVerify E)" "handler_keeps P (http_ResetPasswordGet E)"
  "handler_keeps P (http_ResetPasswordPost E)" "handler_keeps P (http_Verify E)"
  unfolding http_Signup_def http_Login_def http_ForgotPassword_def http_ResendVerify_def
    http_ResetPasswordGet_def http_ResetPasswordPost_def http_Verify_def Let_def
  by (intro handler_keepsI keeps_intros services)+

lemma user_handlers:
  "handler_keeps P (http_ChangePassword E)" "handler_keeps P (http_DeleteUser E)"
  "handler_keeps P (http_GetProfile E)" "handler_keeps P (http_GetProfileByID E)"
  "handler_keeps P (http_GetQuota E)" "handler_keeps P (http_UpdateProfile E)"
  unfolding http_ChangePassword_def http_DeleteUser_def http_GetProfile_def http_GetProfileByID_def
    http_GetQuota_def http_UpdateProfile_def Let_def
  by (intro handler_keepsI keeps_intros services)+

lemma friend_handlers:
  "handler_keeps P (http_SendRequest E)" "handler_keeps P (http_Accept E)" "handler_keeps P (http_Reject E)"
  "handler_keeps P (http_Remove E)" "handler_keeps P (http_ListFriends E)"
  "handler_keeps P (http_ListPendingIncoming E)"
  unfolding http_SendRequest_def http_Accept_def http_Reject_def http_Remove_def http_ListFriends_def
    http_ListPendingIncoming_def
  by (intro handler_keepsI keeps_intros services)+

lemma share_handlers:
  "handler_keeps P (http_share_Create E)" "handler_keeps P (http_share_CreateByToken E)"
  "handler_keeps P (http_share_Get E)" "handler_keeps P (http_share_Delete E)"
  "handler_keeps P (http_GetByToken E)" "handler_keeps P (http_DownloadByToken E)"
  unfolding http_share_Create_def http_share_CreateByToken_def http_share_Get_def http_share_Delete_def
    http_GetByToken_def http_DownloadByToken_def
  by (intro handler_keepsI keeps_intros services)+

lemma upload_handlers:
  "handler_keeps P (http_Upload E)" "handler_keeps P (http_Status E)" "handler_keeps P (http_LastVideo E)"
  "handler_keeps P (http_Stream E)" "handler_keeps P (http_Convert E)" "handler_keeps P (http_ConversionStatus E)"
  unfolding http_Upload_def http_Status_def http_LastVideo_def http_Stream_def http_Convert_def
    http_ConversionStatus_def
  by (intro handler_keepsI keeps_intros services)+

lemma gif_handlers:
  "handler_keeps P (http_GetGifs E)" "handler_keeps P (http_GetGifsByUserID E)" "handler_keeps P (http_GetByKey E)"
  "handler_keeps P (http_GetRecents E)" "handler_keeps P (http_GetGifThumbnail E)" "handler_keeps P (http_Save E)"
  "handler_keeps P (http_Update E)" "handler_keeps P (http_Delete E)" "handler_keeps P (http_Download E)"
  unfolding http_GetGifs_def http_GetGifsByUserID_def http_GetByKey_def http_GetRecents_def
    http_GetGifThumbnail_def http_Save_def http_Update_def http_Delete_def http_Download_def list_gifs_def Let_def
  by (intro handler_keepsI keeps_intros services)+

lemma logout_route: "handler_keeps P (Auth E (http_Logout E))"
proof (rule handler_keepsI, rule keeps_Auth [OF counters])
  fix rq r tok claims t
  assume "jwt_ParseWithClaims E t tok (jwt_keyfunc E) = Inr claims"
  then show "keeps P (http_Logout E (WithAuthContext rq claims tok) r)"
    by (simp add: http_Logout_def WithAuthContext_def GetAuthorizationHeader_def GetClaims_def
        keeps_serve_call logout)
qed

lemma static_handlers: "handler_keeps P (static_files E)" "handler_keeps P health"
  unfolding static_files_def health_def Let_def
  by (rule handler_keepsI; auto intro!: keeps_intros split: prod.split)+

lemmas handlers = auth_handlers user_handlers friend_handlers share_handlers upload_handlers gif_handlers
  static_handlers

lemma routes_keep: "list_all (\<lambda>x. handler_keeps P (rt_handler x)) (routes E)"
  unfolding route_defs
  by (simp add: With_def handler_keeps_Auth [OF counters] handler_keeps_chain handlers logout_route)

text \<open>So does the server, on every request.\<close>

lemma serve_keeps: "keeps P (serve E rq r)"
  by (rule handler_keepsD [OF handler_keeps_serve [OF counters routes_keep]])

end

end
