(* ===== verification/Workers.thy ===== *)
theory Workers
  imports App_Media Mailer
begin

text \<open>
  \<open>internal/worker\<close>: what each consumer does with one delivery. A delivery carries the decoded
  message, \<open>None\<close> when its body is not the JSON of one. The outcome is how the broker was told to
  dispose of it; a panic in a handler unwinds the goroutine and ends the process with the
  delivery unsettled. The \<open>Run\<close> loops only hand deliveries to handlers, one at a time here.
\<close>

section \<open>Settling a delivery\<close>

datatype disposition = Acked | AckLost | Nacked bool

text \<open>\<open>d.Nack(false, requeue)\<close>, whose error is dropped everywhere.\<close>

definition Nack :: "env \<Rightarrow> bool \<Rightarrow> disposition io" where
  "Nack E requeue = ignore_err (ext_call E (ret ())) (ret (Nacked requeue))"

text \<open>\<open>d.Ack(false)\<close>: on an error the handlers return, after logging it.\<close>

definition Ack_then :: "env \<Rightarrow> disposition io \<Rightarrow> disposition io" where
  "Ack_then E k =
     attempt (ext_call E (ret ())) (\<lambda>r. case r of Inl _ \<Rightarrow> ret AckLost | Inr _ \<Rightarrow> k)"

section \<open>converter_worker.go\<close>

definition VideoWorker_handle :: "env \<Rightarrow> video_message option \<Rightarrow> disposition io" where
  "VideoWorker_handle E body =
     (case body of
        None \<Rightarrow> Nack E False
      | Some msg \<Rightarrow>
          attempt (Process E msg) (\<lambda>r. case r of
            Inl _ \<Rightarrow> Nack E False
          | Inr _ \<Rightarrow> Ack_then E (ret Acked)))"

text \<open>
  The headers of a delivery, as far as \<open>retryCount\<close> tells their Go types apart: the value under
  \<open>x-death\<close> in each of the three slice types it looks for, or anything else.
\<close>

datatype amqp_value =
    AInt64 int | AInt int | ATable "(string \<times> amqp_value) list" | AMap "(string \<times> amqp_value) list"
  | AAnys "amqp_value list" | ATables "(string \<times> amqp_value) list list"
  | AMaps "(string \<times> amqp_value) list list" | ANil | AOther

definition entry_count :: "(string \<times> amqp_value) list \<Rightarrow> int" where
  "entry_count entry =
     (case map_of entry ''count'' of
        Some (AInt64 c) \<Rightarrow> c
      | Some (AInt c) \<Rightarrow> c
      | _ \<Rightarrow> 0)"

definition retryCount :: "(string \<times> amqp_value) list option \<Rightarrow> int" where
  "retryCount headers =
     (case headers of
        None \<Rightarrow> 0
      | Some h \<Rightarrow>
          (case map_of h ''x-death'' of
             None \<Rightarrow> 0
           | Some raw \<Rightarrow>
               (let firstEntry =
                  (case raw of
                     AAnys (x # _) \<Rightarrow> x
                   | ATables (x # _) \<Rightarrow> ATable x
                   | AMaps (x # _) \<Rightarrow> AMap x
                   | _ \<Rightarrow> ANil)
                in case firstEntry of
                     ATable entry \<Rightarrow> entry_count entry
                   | AMap entry \<Rightarrow> entry_count entry
                   | _ \<Rightarrow> 0)))"

section \<open>email_worker.go\<close>

definition EmailWorker_handle :: "env \<Rightarrow> email_message option \<Rightarrow> disposition io" where
  "EmailWorker_handle E body =
     (case body of
        None \<Rightarrow> Nack E False
      | Some msg \<Rightarrow>
          (let sent =
             (if em_Name msg = ''signup'' then Some (SendVerificationToken E (em_To msg) (em_Token msg))
              else if em_Name msg = ''forgot-password''
              then Some (SendResetPassword E (em_To msg) (em_Token msg))
              else if em_Name msg = ''resend-verify''
              then Some (SendVerificationToken E (em_To msg) (em_Token msg))
              else if em_Name msg = ''reset-password'' then Some (SendResetNotification E (em_To msg))
              else if em_Name msg = ''share''
              then Some (SendShareNotification E (em_To msg) (em_Token msg))
              else None)
           in case sent of
                None \<Rightarrow> Nack E False
              | Some m \<Rightarrow>
                  attempt m (\<lambda>r. case r of
                    Inl _ \<Rightarrow> Nack E False
                  | Inr _ \<Rightarrow> Ack_then E (ret Acked))))"

section \<open>processing_worker.go\<close>

text \<open>\<open>url.QueryUnescape\<close>.\<close>

definition hex_val :: "char \<Rightarrow> nat option" where
  "hex_val c =
     (let n = (of_char c :: nat)
      in if 48 \<le> n \<and> n \<le> 57 then Some (n - 48)
         else if 97 \<le> n \<and> n \<le> 102 then Some (n - 87)
         else if 65 \<le> n \<and> n \<le> 70 then Some (n - 55)
         else None)"

fun QueryUnescape :: "string \<Rightarrow> string option" where
  "QueryUnescape [] = Some []"
| "QueryUnescape (c # cs) =
     (if c = CHR ''%'' then
        (case cs of
           a # b # rest \<Rightarrow>
             (case (hex_val a, hex_val b) of
                (Some x, Some y) \<Rightarrow> map_option ((#) (char_of (16 * x + y))) (QueryUnescape rest)
              | _ \<Rightarrow> None)
         | _ \<Rightarrow> None)
      else if c = CHR ''+'' then map_option ((#) (CHR '' '')) (QueryUnescape cs)
      else map_option ((#) c) (QueryUnescape cs))"

text \<open>A MinIO notification: its error, and the object keys of its records.\<close>

record notification =
  nt_Err :: bool
  nt_Keys :: "string list"

definition ProcessingWorker_handle :: "env \<Rightarrow> notification option \<Rightarrow> disposition io" where
  "ProcessingWorker_handle E body =
     (case body of
        None \<Rightarrow> Nack E False
      | Some msg \<Rightarrow>
          if nt_Err msg \<or> nt_Keys msg = [] then Nack E False
          else
            (case QueryUnescape (hd (nt_Keys msg)) of
               None \<Rightarrow> Nack E False
             | Some key \<Rightarrow>
                 attempt (UpdateUploadingStatus E key ''processing'') (\<lambda>r. case r of
                   Inl _ \<Rightarrow> Nack E False
                 | Inr _ \<Rightarrow>
                     attempt (ProcessAndSave E key) (\<lambda>r. case r of
                       Inl _ \<Rightarrow> ignore_err (UpdateUploadingStatus E key ''failed'') (Nack E False)
                     | Inr _ \<Rightarrow>
                         Ack_then E
                           (ignore_err (UpdateUploadingStatus E key ''ok'') (ret Acked))))))"

section \<open>save_metadata_worker.go\<close>

definition SaveVideoWorker_handle :: "env \<Rightarrow> save_video_message option \<Rightarrow> disposition io" where
  "SaveVideoWorker_handle E body =
     (case body of
        None \<Rightarrow> Nack E False
      | Some msg \<Rightarrow>
          attempt (SaveMetadata E msg) (\<lambda>r. case r of
            Inl e \<Rightarrow>
              if errors_Is e (JobE ErrInvalidUserID) \<or> error_text e = ''invalid user id''
              then Nack E False
              else Nack E True
          | Inr _ \<Rightarrow> Ack_then E (ret Acked)))"

section \<open>The workers keep the tables' invariant\<close>

lemma keeps_settle [keeps_intros]: "keeps (\<lambda>w. P (db w)) (Nack E rq)"
  unfolding Nack_def by (intro keeps_intros keeps_ext_call) (simp add: ret_def)

lemma keeps_Ack_then [keeps_intros]:
  "keeps (\<lambda>w. P (db w)) k \<Longrightarrow> keeps (\<lambda>w. P (db w)) (Ack_then E k)"
  unfolding Ack_then_def by (intro keeps_intros keeps_ext_call) (simp_all add: ret_def)

lemma keeps_workers [keeps_intros]:
  "inv_kept ov (VideoWorker_handle E vb)" "inv_kept ov (ProcessingWorker_handle E nb)"
  "inv_kept ov (SaveVideoWorker_handle E sb)"
  unfolding VideoWorker_handle_def ProcessingWorker_handle_def SaveVideoWorker_handle_def
  by (intro keeps_intros)+

lemma keeps_EmailWorker [keeps_intros]: "inv_kept ov (EmailWorker_handle E eb)"
  unfolding EmailWorker_handle_def Let_def
  by (auto split: option.split intro!: keeps_intros)

end
