(* ===== verification/Conversion_Laws.thy ===== *)
theory Conversion_Laws
  imports App_Media
begin

text \<open>
  What \<open>App_Media\<close>'s uploads and conversions promise: who may upload under which key, what a
  queued conversion leaves in the cache, the tables and the queue, what its status then reads as
  and to whom, and what the worker's processing of it adds.
\<close>

section \<open>Keys that name their user\<close>

lemma foreign_key_own [simp]: "\<not> foreign_key u (u @ CHR '':'' # t)"
  unfolding foreign_key_def using has_prefix_append [of "u @ '':''" t] by simp

lemma foreign_key_other:
  assumes "CHR '':'' \<notin> set u" "CHR '':'' \<notin> set v" "u \<noteq> v"
  shows "foreign_key v (u @ CHR '':'' # t)"
proof -
  have "\<not> has_prefix (u @ CHR '':'' # t) (v @ '':'')"
  proof
    assume "has_prefix (u @ CHR '':'' # t) (v @ '':'')"
    then obtain s where "u @ CHR '':'' # t = v @ CHR '':'' # s" by (auto simp: has_prefix_iff)
    then have "before_char (CHR '':'') (u @ CHR '':'' # t) = before_char (CHR '':'') (v @ CHR '':'' # s)"
      by simp
    then show False using assms by (simp add: before_char_append)
  qed
  then show ?thesis by (simp add: foreign_key_def strings_Contains_char_def)
qed

lemma redis_Get_ok:
  "no_faults E \<Longrightarrow> redis_Get E k w =
     ((case cache_view (now w) w k of Some v \<Rightarrow> Inr v | None \<Rightarrow> Inl (CacheE ErrCacheMiss)), tick w)"
  by (simp add: redis_Get_def ext_call_def no_faults_def split: option.split)

lemma Upload_Inr:
  assumes "Upload E filename userId w = (Inr r, w')"
  shows "ur_Key r = userId @ '':'' @ uuid_gen E (draws w) @ filepath_Ext filename \<and>
    filepath_Ext filename \<noteq> [] \<and> filepath_Ext filename \<noteq> ''.'' \<and> now w' = now w \<and> db w' = db w \<and>
    cache_view (now w) w' (uploading_key (ur_Key r)) = Some ''uploading''"
proof -
  let ?k = "userId @ '':'' @ uuid_gen E (draws w) @ filepath_Ext filename"
  have d: "draws (snd (quota_GetById E userId w)) = draws w" "now (snd (quota_GetById E userId w)) = now w"
    "db (snd (quota_GetById E userId w)) = db w"
    using keepsD [OF keeps_uuid_reads(2) [of "\<lambda>d. d = db w" E userId], of w]
    by (simp_all add: quota_GetById_def frame)
  from assms obtain url w1 w2 where
      c: "storage_Create E ?k (5 * minute) w1 = (Inr url, w2)" and w1: "now w1 = now w" "db w1 = db w"
    and u: "UpdateUploadingStatus E ?k ''uploading'' w2 = (Inr (), w')" and r: "ur_Key r = ?k"
    and x: "filepath_Ext filename \<noteq> []" "filepath_Ext filename \<noteq> ''.''"
    using d by (cases "quota_GetById E userId w")
      (auto simp: Upload_def Let_def inr_simps with_uuid_drawn_def draw_uuid_def split: if_splits)
  have w2: "now w2 = now w" "db w2 = db w"
    using c w1 ext_call_snd unfolding storage_Create_def presigned_def
    by (auto dest!: ext_call_Inr)
  have s: "w' = stored (uploading_key ?k) ''uploading'' (5 * minute) (tick w2)"
    using u by (auto simp: UpdateUploadingStatus_def dest!: redis_Set_Inr)
  then have "now w' = now w" "db w' = db w" using w2 by (simp_all add: stored_def)
  moreover have "cache_view (now w) w' (uploading_key ?k) = Some ''uploading''"
    using w2 unfolding s cache_view_stored by (simp add: minute_def)
  ultimately show ?thesis using r x by simp
qed

text \<open>
  An upload that is granted has a key under the user's own name with the file's
  extension; asked at once for its status, the service tells that user it is uploading, and tells
  another user nothing.
\<close>

theorem Upload_then_Status:
  assumes "no_faults E" "Upload E filename userId w = (Inr r, w')"
    and "CHR '':'' \<notin> set userId" "CHR '':'' \<notin> set other" "other \<noteq> userId"
  shows "seperateUserId (ur_Key r) = userId \<and> db w' = db w \<and>
    fst (Status E userId (ur_Key r) w') = Inr ([], ''uploading'') \<and>
    Status E other (ur_Key r) w' = (Inl (GifE ErrGifOwnerMismatch), w')"
proof -
  note U = Upload_Inr [OF assms(2)]
  then obtain t where k: "ur_Key r = userId @ CHR '':'' # t" by simp
  have "foreign_key other (ur_Key r)"
    unfolding k by (rule foreign_key_other) (use assms(3-5) in auto)
  moreover have "cache_view (now w') w' (uploading_key (ur_Key r)) = Some ''uploading''"
    using U by metis
  then have "fst (Status E userId (ur_Key r) w') = Inr ([], ''uploading'')"
    using redis_Get_ok [OF assms(1), of "uploading_key (ur_Key r)" w'] k
    by (simp add: Status_def call_def attempt_def ret_def)
  ultimately show ?thesis using U k assms(3)
    by (simp add: Status_def fail_def seperateUserId_def before_char_append)
qed

section \<open>Conversions\<close>

text \<open>Handlers of an error that do more than wrap it, and fail all the same.\<close>

lemma ignore_err_Inr:
  "ignore_err m k w = (Inr y, w') \<longleftrightarrow>
     (\<exists>x w1. m w = (x, w1) \<and> (\<forall>e. x = Inl e \<longrightarrow> \<not> is_panic e) \<and> k w1 = (Inr y, w'))"
  by (simp add: ignore_err_def attempt_Inr)

lemma call_failing_handler:
  assumes "\<And>e w x w'. h e w \<noteq> (Inr x, w')"
  shows "call m h k w = (Inr y, w') \<longleftrightarrow> (\<exists>x w1. m w = (Inr x, w1) \<and> k x w1 = (Inr y, w'))"
  using assms by (cases "m w") (auto simp: call_def split: sum.splits)

lemma fail_marking_fails: "fail_marking E i e w \<noteq> (Inr x, w')"
  by (simp add: fail_marking_def attempt_Inr fail_def)

lemma handler_Inr [inr_simps]:
  "call m (\<lambda>e. ignore_err a (ignore_err b (ignore_err c (fail (g e))))) k w = (Inr y, w') \<longleftrightarrow>
     (\<exists>x w1. m w = (Inr x, w1) \<and> k x w1 = (Inr y, w'))"
  "call m (\<lambda>e. ignore_err (f e) (fail_marking E i e)) k w = (Inr y, w') \<longleftrightarrow>
     (\<exists>x w1. m w = (Inr x, w1) \<and> k x w1 = (Inr y, w'))"
  "call m (fail_marking E i) k w = (Inr y, w') \<longleftrightarrow>
     (\<exists>x w1. m w = (Inr x, w1) \<and> k x w1 = (Inr y, w'))"
  by (rule call_failing_handler; simp add: ignore_err_Inr fail_def fail_marking_fails)+

definition conversion_queued ::
  "string \<Rightarrow> string \<Rightarrow> string \<Rightarrow> rat \<Rightarrow> rat \<Rightarrow> int \<Rightarrow> int \<Rightarrow> bool \<Rightarrow> video_message" where
  "conversion_queued i userId key start stop fps width lp =
     \<lparr>vm_UserID = userId, vm_JobId = i, vm_Key = key, vm_Start = start, vm_End = stop,
      vm_Width = width, vm_FPS = fps, vm_Loop = lp, vm_Retries = 0\<rparr>"

lemma job_keys_distinct [simp]:
  "job_owner_key i \<noteq> job_status_key j" "job_owner_key i \<noteq> job_gif_key j"
  "job_status_key i \<noteq> job_gif_key j" "job_status_key i \<noteq> job_owner_key j"
  "job_gif_key i \<noteq> job_owner_key j" "job_gif_key i \<noteq> job_status_key j"
  by (simp_all add: job_owner_key_def job_status_key_def job_gif_key_def)

lemma job_Create_Inr:
  assumes "job_Create E j w = (Inr x, w')"
  shows "\<exists>i u. pg_uuid_in E (j_ID j) = Some i \<and>
    pg_uuid_in E (j_UserID j) = Some u \<and> db w' = (db w)\<lparr>jobs := jobs (db w')\<rparr> \<and>
    (\<exists>k\<in>set (jobs (db w')). j_ID k = i \<and> j_Status k = j_Status j) \<and> now w' = now w \<and>
    cache_keys w' = cache_keys w \<and> published w' = published w"
proof -
  from db_exec_Inr [OF assms(1) [unfolded job_Create_def]] obtain i u d j' where
      p: "pg_uuid_in E (j_ID j) = Some i" "pg_uuid_in E (j_UserID j) = Some u"
    and s: "upsert_job j' w = Inr (x, d)" and j': "j_ID j' = i" "j_Status j' = j_Status j"
    and d: "w' = (tick w)\<lparr>db := d\<rparr>"
    by (auto simp: with_uuid_Inr)
  have "d = (db w)\<lparr>jobs := jobs d\<rparr> \<and> (\<exists>k\<in>set (jobs d). j_ID k = i \<and> j_Status k = j_Status j)"
  proof (cases "\<exists>k\<in>set (jobs (db w)). j_ID k = i")
    case True
    then have "d = (db w)\<lparr>jobs := update_where (\<lambda>x. j_ID x = i)
        (\<lambda>x. x\<lparr>j_Status := j_Status j, j_Progress := j_Progress j', j_ErrorMessage := j_ErrorMessage j',
           j_ResultKey := j_ResultKey j', j_UpdatedAt := now w\<rparr>) (jobs (db w))\<rparr>"
      using s j' by (auto simp: upsert_job_def list_ex_iff split: if_splits)
    then show ?thesis using True by (auto simp: set_update_where Bex_def image_iff)
  next
    case False
    then have "d = (db w)\<lparr>jobs := jobs (db w) @ [j']\<rparr>"
      using s j' by (auto simp: upsert_job_def list_ex_iff split: if_splits)
    then show ?thesis using j' by simp
  qed
  then show ?thesis using p d by auto
qed

text \<open>What a conversion that was accepted has left behind.\<close>

definition queued_state :: "string \<Rightarrow> string \<Rightarrow> timestamp \<Rightarrow> world \<Rightarrow> bool" where
  "queued_state i userId t w \<longleftrightarrow>
     (\<forall>x<t + 5 * minute.
        cache_view x w (job_owner_key i) = Some userId \<and>
        cache_view x w (job_status_key i) = Some ''queued'' \<and>
        cache_view x w (job_gif_key i) = Some ''queued'')"

lemma queued_state_stored:
  assumes "cache_keys w' = cache_keys (stored (job_gif_key i) ''queued'' (5 * minute) (tick
    (stored (job_status_key i) ''queued'' (5 * minute) (tick
      (stored (job_owner_key i) userId (5 * minute) (tick w))))))"
  shows "queued_state i userId (now w) w'"
proof -
  have "cache_view x w' = cache_view x (stored (job_gif_key i) ''queued'' (5 * minute) (tick
    (stored (job_status_key i) ''queued'' (5 * minute) (tick
      (stored (job_owner_key i) userId (5 * minute) (tick w))))))" for x
    by (rule ext) (simp add: cache_view_def assms)
  moreover have "now (stored k v e (tick x)) = now x" for k v e x by (simp add: stored_def)
  moreover have "cache_view x (tick y) = cache_view x y" for x y by (rule ext) (simp add: cache_view_def)
  ultimately show ?thesis
    by (simp add: queued_state_def cache_view_stored minute_def)
qed

lemma quota_read_frame:
  "now (snd (quota_GetById E u w)) = now w" "draws (snd (quota_GetById E u w)) = draws w"
  "db (snd (quota_GetById E u w)) = db w" "published (snd (quota_GetById E u w)) = published w"
  using keepsD [OF keeps_uuid_reads(2) [of "\<lambda>d. d = db w" E u], of w]
  by (simp_all add: quota_GetById_def frame)

lemma rabbit_publish_rest:
  "rabbit_publish E q m w = (Inr x, w') \<Longrightarrow>
     db w' = db w \<and> cache_keys w' = cache_keys w \<and> now w' = now w \<and> tx w' = tx w"
  by (auto simp: rabbit_publish_def call_def ext_call_def ret_def fail_def
      split: fault.splits sum.splits prod.splits)

lemma Convert_Inr:
  assumes "Convert E userId key start stop fps width lp w = (Inr (i, st), w')"
  shows "\<not> foreign_key userId key \<and> i = uuid_gen E (draws w) \<and> st = ''queued'' \<and>
    (\<forall>q. fst (quota_GetById E userId w) = Inr q \<longrightarrow> q_GifCount q \<le> 0 \<or> q_GifCount q < q_GitLimit q) \<and>
    queued_state i userId (now w) w' \<and> now w' = now w \<and>
    published w' = published w @
      [(ProcessQueue, VideoPayload (conversion_queued i userId key start stop fps width lp))] \<and>
    db w' = (db w)\<lparr>jobs := jobs (db w')\<rparr> \<and>
    (\<exists>p. pg_uuid_in E i = Some p \<and> (\<exists>k\<in>set (jobs (db w')). j_ID k = p \<and> j_Status k = JobQueued))"
proof -
  let ?j = "\<lparr>j_ID = i, j_UserID = userId, j_Type = ''video_to_gif'', j_Status = JobQueued,
    j_Progress = 0, j_ErrorMessage = [], j_ResultKey = [], j_CreatedAt = 0, j_UpdatedAt = 0\<rparr>"
  obtain q wq where q: "quota_GetById E userId w = (q, wq)" by fastforce
  from assms obtain w1 w2 w3 w4 w5 where nf: "\<not> foreign_key userId key" and st: "st = ''queued''"
    and i: "i = uuid_gen E (draws w)"
    and qo: "\<forall>qt. q = Inr qt \<longrightarrow> q_GifCount qt \<le> 0 \<or> q_GifCount qt < q_GitLimit qt"
    and s1: "redis_Set E (job_owner_key i) userId (5 * minute) w1 = (Inr (), w2)"
    and s2: "redis_Set E (job_status_key i) ''queued'' (5 * minute) w2 = (Inr (), w3)"
    and s3: "redis_Set E (job_gif_key i) ''queued'' (5 * minute) w3 = (Inr (), w4)"
    and c: "job_Create E ?j w4 = (Inr (), w5)"
    and p: "PublishVideo E (conversion_queued i userId key start stop fps width lp) w5 = (Inr (), w')"
    and w1: "db w1 = db w" "now w1 = now w" "published w1 = published w"
    using quota_read_frame [of E userId w] q
    by (cases q) (auto simp: Convert_def Let_def inr_simps with_uuid_drawn_def draw_uuid_def
        conversion_queued_def split: if_splits)
  note S = redis_Set_Inr [OF s1] redis_Set_Inr [OF s2] redis_Set_Inr [OF s3]
  from job_Create_Inr [OF c] have C: "cache_keys w5 = cache_keys w4" "now w5 = now w4" "published w5 = published w4"
      "db w5 = (db w4)\<lparr>jobs := jobs (db w5)\<rparr>"
      "\<exists>x. pg_uuid_in E i = Some x \<and> (\<exists>k\<in>set (jobs (db w5)). j_ID k = x \<and> j_Status k = JobQueued)"
    by (auto simp only: media_job.simps)
  have P: "db w' = db w5" "cache_keys w' = cache_keys w5" "now w' = now w5"
    using rabbit_publish_rest [OF p [unfolded PublishVideo_def]] by auto
  have w4: "db w4 = db w" "now w4 = now w" "published w4 = published w"
    using S w1 by (simp_all add: stored_def)
  have "queued_state i userId (now w1) w'"
    by (rule queued_state_stored) (use P(2) C(1) S in simp)
  moreover have "published w' = published w5 @
      [(ProcessQueue, VideoPayload (conversion_queued i userId key start stop fps width lp))]"
    using rabbit_publish_Inr [OF p [unfolded PublishVideo_def]] .
  moreover have "db w' = (db w)\<lparr>jobs := jobs (db w')\<rparr>" using C(4) P(1) w4(1) by metis
  moreover have "\<exists>x. pg_uuid_in E i = Some x \<and> (\<exists>k\<in>set (jobs (db w')). j_ID k = x \<and> j_Status k = JobQueued)"
    using C(5) P(1) by simp
  ultimately show ?thesis using nf st i qo q w1(2) w4 P(3) C(2,3) by simp
qed

text \<open>
  A conversion is accepted only for a key that is not another user's and within the
  user's quota; it then has one queued row in the jobs table, its owner and status in the cache for
  five minutes, and exactly one message for the processing worker, with the user's own options.
\<close>

theorem Convert_queues_once:
  assumes "Convert E userId key start stop fps width lp w = (Inr (i, st), w')"
  shows "\<not> foreign_key userId key \<and> st = ''queued'' \<and>
    (\<forall>q. fst (quota_GetById E userId w) = Inr q \<longrightarrow> q_GifCount q \<le> 0 \<or> q_GifCount q < q_GitLimit q) \<and>
    queued_state i userId (now w) w' \<and>
    published w' = published w @
      [(ProcessQueue, VideoPayload (conversion_queued i userId key start stop fps width lp))] \<and>
    db w' = (db w)\<lparr>jobs := jobs (db w')\<rparr> \<and>
    (\<exists>p. pg_uuid_in E i = Some p \<and> (\<exists>k\<in>set (jobs (db w')). j_ID k = p \<and> j_Status k = JobQueued))"
  using Convert_Inr [OF assms] by blast

lemma ConversionStatus_cached:
  assumes "no_faults E" "cache_view (now w) w (job_owner_key i) = Some own"
    "cache_view (now w) w (job_status_key i) = Some st" "cache_view (now w) w (job_gif_key i) = Some g"
  shows "fst (ConversionStatus E u i w) =
    (if own \<noteq> u then Inl (GifE ErrGifOwnerMismatch)
     else Inr \<lparr>sr_JobId = i, sr_Status = st, sr_GifId = g, sr_Progress = 0, sr_UpdatedAt = 0\<rparr>)"
proof -
  have t: "cache_view t (tick x) = cache_view t x" for t x
    by (rule ext) (simp add: cache_view_def)
  show ?thesis using assms(2-4)
    by (simp add: ConversionStatus_def attempt_def redis_Get_ok [OF assms(1)] fail_def ret_def t)
qed

text \<open>
  Property C24. Within five minutes of queueing a conversion its owner reads it as queued, with the
  word \<open>queued\<close> in the place of the gif's key, and any other user is refused; this does not
  depend on the jobs table.
\<close>

theorem Convert_then_ConversionStatus:
  assumes "no_faults E" "Convert E userId key start stop fps width lp w = (Inr (i, st), w')"
    and "now w \<le> t" "t < now w + 5 * minute"
  shows "fst (ConversionStatus E u i (w'\<lparr>now := t, db := d\<rparr>)) =
    (if u \<noteq> userId then Inl (GifE ErrGifOwnerMismatch)
     else Inr \<lparr>sr_JobId = i, sr_Status = ''queued'', sr_GifId = ''queued'', sr_Progress = 0,
       sr_UpdatedAt = 0\<rparr>)"
proof -
  have q: "queued_state i userId (now w) w'" using Convert_Inr [OF assms(2)] by blast
  have "cache_view x (w'\<lparr>now := t, db := d\<rparr>) = cache_view x w'" for x
    by (rule ext) (simp add: cache_view_def)
  then have "cache_view t (w'\<lparr>now := t, db := d\<rparr>) (job_owner_key i) = Some userId"
    "cache_view t (w'\<lparr>now := t, db := d\<rparr>) (job_status_key i) = Some ''queued''"
    "cache_view t (w'\<lparr>now := t, db := d\<rparr>) (job_gif_key i) = Some ''queued''"
    using q assms(4) by (simp_all add: queued_state_def)
  then show ?thesis
    using ConversionStatus_cached [OF assms(1), of "w'\<lparr>now := t, db := d\<rparr>" i userId "''queued''" "''queued''" u]
    by auto
qed

section \<open>Processing\<close>

lemma db_exec_NoTx: "tx w = NoTx \<Longrightarrow> tx (snd (db_exec E stmt w)) = NoTx"
  by (auto simp: db_exec_def tx_abort_def tick_def split: fault.splits sum.splits prod.splits)

lemma job_UpdateStatus_NoTx: "tx w = NoTx \<Longrightarrow> tx (snd (job_UpdateStatus E i s p r m w)) = NoTx"
  unfolding job_UpdateStatus_def by (rule db_exec_NoTx)

lemma job_UpdateStatus_rest:
  "now (snd (job_UpdateStatus E i s p r m w)) = now w"
  "cache_keys (snd (job_UpdateStatus E i s p r m w)) = cache_keys w"
  "gifs (db (snd (job_UpdateStatus E i s p r m w))) = gifs (db w)"
  "quota (db (snd (job_UpdateStatus E i s p r m w))) = quota (db w)"
  "users (db (snd (job_UpdateStatus E i s p r m w))) = users (db w)"
  "draws (snd (job_UpdateStatus E i s p r m w)) = draws w"
proof -
  have "gifs (db (snd (job_UpdateStatus E i s p r m w))) = gifs (db w) \<and>
      quota (db (snd (job_UpdateStatus E i s p r m w))) = quota (db w) \<and>
      users (db (snd (job_UpdateStatus E i s p r m w))) = users (db w)"
    unfolding job_UpdateStatus_def
    by (rule db_exec_db [where P = "\<lambda>d. gifs d = gifs (db w) \<and> quota d = quota (db w) \<and> users d = users (db w)"])
      (auto simp: with_uuid_Inr split: if_splits)
  then show "gifs (db (snd (job_UpdateStatus E i s p r m w))) = gifs (db w)"
    "quota (db (snd (job_UpdateStatus E i s p r m w))) = quota (db w)"
    "users (db (snd (job_UpdateStatus E i s p r m w))) = users (db w)" by simp_all
qed (simp_all add: job_UpdateStatus_def frame)

lemma gif_Create_Inr:
  "gif_Create E g w = (Inr x, w') \<Longrightarrow> \<exists>u. pg_uuid_in E (g_UserId g) = Some u \<and>
     (\<forall>y\<in>set (gifs (db w)). g_Key y \<noteq> g_Key g) \<and> now w' = now w \<and> cache_keys w' = cache_keys w \<and>
     db w' = (db w)\<lparr>gifs := gifs (db w) @ [g\<lparr>g_UserId := u, g_Status := ''private'', g_Persist := False,
       g_Download := 0, g_DurationSeconds := numeric_6_2 (g_DurationSeconds g),
       g_CreatedAt := now w, g_UpdatedAt := now w\<rparr>]\<rparr>"
  unfolding gif_Create_def
  by (drule db_exec_Inr) (auto simp: with_uuid_Inr insert_gif_def list_ex_iff split: if_splits)

lemma IncrementUsage_result:
  "IncrementUsage E s b c w = (Inr ok, w') \<Longrightarrow>
     \<exists>i. pg_uuid_in E s = Some i \<and> now w' = now w \<and> cache_keys w' = cache_keys w \<and>
       db w' = (db w)\<lparr>quota := update_where (\<lambda>q. q_UserID q = i \<and> quota_fits b c q)
         (\<lambda>q. q\<lparr>q_UsedBytes := q_UsedBytes q + b, q_GifCount := q_GifCount q + c\<rparr>) (quota (db w))\<rparr>"
  unfolding IncrementUsage_def
  by (drule db_exec_Inr) (auto simp: with_uuid_Inr Let_def split: if_splits)

text \<open>The pipelines run no statement, so they do not touch the state of a transaction.\<close>

lemma tx_with_uuid_drawn [keeps_intros]:
  assumes "\<And>i. keeps (\<lambda>w. R (tx w)) (k i)"
  shows "keeps (\<lambda>w. R (tx w)) (with_uuid_drawn E k)"
  using assms by (simp add: keeps_def with_uuid_drawn_def draw_uuid_def)

lemma tx_ext_call:
  assumes "\<And>w. tx (snd (f w)) = tx w"
  shows "keeps (\<lambda>w. R (tx w)) (ext_call E f)"
  by (rule ext_call_keeps) (simp_all add: keeps_def assms)

lemma tx_upload_attempts [keeps_intros]: "keeps (\<lambda>w. R (tx w)) (upload_attempts E key n)"
proof (induction n)
  case (Suc n)
  show ?case unfolding upload_attempts.simps FPutObject_def
    by (intro keeps_intros tx_ext_call Suc.IH) simp
qed (simp add: keeps_ret)

lemma tx_pipelines [keeps_intros]:
  "keeps (\<lambda>w. R (tx w)) (DownloadLocal E key p)" "keeps (\<lambda>w. R (tx w)) (storage_Upload E key f c)"
  "keeps (\<lambda>w. R (tx w)) (GifConverter_Run E gc)" "keeps (\<lambda>w. R (tx w)) (single_Run E cm)"
  unfolding DownloadLocal_def FGetObject_def storage_Upload_def GifConverter_Run_def single_Run_def run_exec_def
  by (auto split: option.split intro!: keeps_intros tx_ext_call)

lemma tx_ffmpeg_Process: "keeps (\<lambda>w. R (tx w)) (ffmpeg_Process E j k s e wd fps l)"
  unfolding ffmpeg_Process_def Let_def by (intro keeps_intros)

lemma ffmpeg_Process_rest:
  "now (snd (ffmpeg_Process E j k s e wd fps l w)) = now w"
  "cache_keys (snd (ffmpeg_Process E j k s e wd fps l w)) = cache_keys w"
  "db (snd (ffmpeg_Process E j k s e wd fps l w)) = db w"
  "tx (snd (ffmpeg_Process E j k s e wd fps l w)) = tx w"
proof -
  have "keeps (\<lambda>x. outside x = outside w) (ffmpeg_Process E j k s e wd fps l)"
    "keeps (\<lambda>x. db x = db w) (ffmpeg_Process E j k s e wd fps l)"
    by (rule outside_pipelines [of "\<lambda>x. x = outside w"] keeps_pipelines [of "\<lambda>d. d = db w"])+
  moreover have "keeps (\<lambda>x. tx x = tx w) (ffmpeg_Process E j k s e wd fps l)"
    by (rule tx_ffmpeg_Process [of "\<lambda>x. x = tx w"])
  ultimately show "now (snd (ffmpeg_Process E j k s e wd fps l w)) = now w"
    "tx (snd (ffmpeg_Process E j k s e wd fps l w)) = tx w"
    "cache_keys (snd (ffmpeg_Process E j k s e wd fps l w)) = cache_keys w"
    "db (snd (ffmpeg_Process E j k s e wd fps l w)) = db w"
    by (auto dest!: keepsD [where w = w] simp: outside_def)
qed

text \<open>When nothing fails, a conversion of one's own video within the quota is accepted.\<close>

lemma redis_Set_ok: "no_faults E \<Longrightarrow> redis_Set E k v e w = (Inr (), stored k v e (tick w))"
  by (simp add: redis_Set_def ext_call_ok stored_def)

lemma quota_GetById_result:
  assumes "quota_GetById E s w = (r, w1)"
  shows "(\<forall>e. r = Inl e \<longrightarrow> \<not> is_panic e) \<and> (\<forall>q. r = Inr q \<longrightarrow> q \<in> set (quota (db w)))"
proof (intro conjI allI impI)
  fix e assume "r = Inl e"
  then show "\<not> is_panic e" using assms
    by (auto simp: quota_GetById_def db_exec_def with_uuid_def get_row_def
        split: if_splits fault.splits sum.splits prod.splits option.splits)
next
  fix q assume r: "r = Inr q"
  show "q \<in> set (quota (db w))"
    using db_exec_Inr [OF assms [unfolded r quota_GetById_def]]
    by (auto simp: with_uuid_Inr get_row_Inr dest: find_SomeD)
qed

lemma Convert_ok:
  assumes "no_faults E" "tx w = NoTx" "\<not> foreign_key userId key" "pg_uuid_in E userId = Some u"
    and "user_exists u (db w)" "pg_uuid_in E (uuid_gen E (draws w)) = Some i"
    and "\<forall>j\<in>set (jobs (db w)). j_ID j \<noteq> i"
    and "\<forall>q\<in>set (quota (db w)). q_GifCount q \<le> 0 \<or> q_GifCount q < q_GitLimit q"
  shows "\<exists>w'. Convert E userId key start stop fps width lp w =
    (Inr (uuid_gen E (draws w), ''queued''), w') \<and> draws w' = Suc (draws w) \<and> tx w' = NoTx \<and>
    j_ID ` set (jobs (db w')) = insert i (j_ID ` set (jobs (db w)))"
proof -
  obtain r w1 where q: "quota_GetById E userId w = (r, w1)" by fastforce
  have w1: "draws w1 = draws w" "db w1 = db w" using quota_read_frame [of E userId w] q by simp_all
  have "tx (snd (quota_GetById E userId w)) = NoTx"
    unfolding quota_GetById_def by (rule db_exec_NoTx [OF assms(2)])
  then have t1: "tx w1 = NoTx" using q by simp
  have g: "(case r of Inl _ \<Rightarrow> False
      | Inr qt \<Rightarrow> q_GifCount qt > 0 \<and> q_GifCount qt \<ge> q_GitLimit qt) = False"
    using quota_GetById_result [OF q] assms(8) by (cases r) (auto dest: bspec)
  let ?i = "uuid_gen E (draws w)"
  let ?j = "\<lparr>j_ID = ?i, j_UserID = userId, j_Type = ''video_to_gif'', j_Status = JobQueued,
    j_Progress = 0, j_ErrorMessage = [], j_ResultKey = [], j_CreatedAt = 0, j_UpdatedAt = 0\<rparr>"
  define w4 where "w4 = stored (job_gif_key ?i) ''queued'' (5 * minute) (tick
    (stored (job_status_key ?i) ''queued'' (5 * minute) (tick
      (stored (job_owner_key ?i) userId (5 * minute) (tick (w1\<lparr>draws := Suc (draws w)\<rparr>))))))"
  have w4: "db w4 = db w" "tx w4 = NoTx" "draws w4 = Suc (draws w)"
    by (simp_all add: w4_def stored_def w1 t1)
  have "\<exists>w5. job_Create E ?j w4 = (Inr (), w5) \<and> draws w5 = draws w4 \<and> tx w5 = NoTx \<and>
      j_ID ` set (jobs (db w5)) = insert i (j_ID ` set (jobs (db w)))"
    unfolding job_Create_def
    by (subst db_exec_ok [OF assms(1)]) (use assms(4-7) w4 in
      \<open>auto simp: with_uuid_def upsert_job_def varchar_short int4_def list_ex_iff JobQueued_def\<close>)
  then obtain w5 where j: "job_Create E ?j w4 = (Inr (), w5)" and w5: "draws w5 = draws w4" "tx w5 = NoTx"
    "j_ID ` set (jobs (db w5)) = insert i (j_ID ` set (jobs (db w)))" by blast
  have "\<exists>w6. PublishVideo E m w5 = (Inr (), w6) \<and> draws w6 = draws w5 \<and> tx w6 = tx w5 \<and> db w6 = db w5" for m
    using assms(1) by (simp add: PublishVideo_def rabbit_publish_def ext_call_ok call_def ret_def)
  then obtain w6 where p: "PublishVideo E (conversion_queued ?i userId key start stop fps width lp) w5 =
      (Inr (), w6)" and w6: "draws w6 = draws w5" "tx w6 = tx w5" "db w6 = db w5" by blast
  have a: "attempt (quota_GetById E userId) k w = k r w1" for k :: "user_quota result \<Rightarrow> (string \<times> string) io"
    using quota_GetById_result [OF q] by (auto simp: attempt_def q split: sum.split)
  show ?thesis
    using assms(3) j p [unfolded conversion_queued_def] w1(1) w4(3) w5 w6
    by (simp add: Convert_def Let_def a g with_uuid_drawn_def draw_uuid_def call_def
        redis_Set_ok [OF assms(1)] ret_def flip: w4_def)
qed

text \<open>The steps of a processing that reports success.\<close>

lemma Process_Inr:
  assumes "Process E msg w = (Inr x, w')"
  obtains jr :: job_result and w3 w5 w6 w7 :: world and ok where
    "gifs (db w3) = gifs (db w)" "quota (db w3) = quota (db w)" "now w3 = now w" "tx w = NoTx \<longrightarrow> tx w3 = NoTx"
    "w5 = stored (job_status_key (vm_JobId msg)) ''completed'' (5 * minute)
       (tick (stored (job_gif_key (vm_JobId msg)) (jr_GifKey jr) (5 * minute) (tick w3)))"
    "w6 = snd (job_UpdateStatus E (vm_JobId msg) JobDone 100 (jr_GifKey jr) [] w5)"
    "gif_Create E \<lparr>g_Key = jr_GifKey jr, g_Name = [], g_UserId = vm_UserID msg,
       g_Status = [], g_Persist = False, g_Download = 0, g_Url = jr_GifKey jr,
       g_ThumbnailKey = jr_ThumbKey jr, g_FileSizeBytes = 0, g_Width = 0, g_Height = 0,
       g_DurationSeconds = 0, g_IsPublic = False, g_CreatedAt = 0, g_UpdatedAt = 0\<rparr> w6 = (Inr (), w7)"
    "IncrementUsage E (vm_UserID msg) 0 1 w7 = (Inr ok, w')"
proof -
  let ?i = "vm_JobId msg"
  from assms obtain w1 w2 w3 w4 w5 w7 jr ok where
      a: "redis_Set E (job_status_key ?i) ''processing'' (10 * minute) w = (Inr (), w1)"
    and b: "w2 = snd (job_UpdateStatus E ?i JobProcessing 20 [] [] w1)"
    and c: "ffmpeg_Process E ?i (vm_Key msg) (vm_Start msg) (vm_End msg) (vm_Width msg) (vm_FPS msg)
        (vm_Loop msg) w2 = (Inr jr, w3)"
    and d: "redis_Set E (job_gif_key ?i) (jr_GifKey jr) (5 * minute) w3 = (Inr (), w4)"
    and e: "redis_Set E (job_status_key ?i) ''completed'' (5 * minute) w4 = (Inr (), w5)"
    and g: "gif_Create E \<lparr>g_Key = jr_GifKey jr, g_Name = [], g_UserId = vm_UserID msg,
       g_Status = [], g_Persist = False, g_Download = 0, g_Url = jr_GifKey jr,
       g_ThumbnailKey = jr_ThumbKey jr, g_FileSizeBytes = 0, g_Width = 0, g_Height = 0,
       g_DurationSeconds = 0, g_IsPublic = False, g_CreatedAt = 0, g_UpdatedAt = 0\<rparr>
       (snd (job_UpdateStatus E ?i JobDone 100 (jr_GifKey jr) [] w5)) = (Inr (), w7)"
    and h: "IncrementUsage E (vm_UserID msg) 0 1 w7 = (Inr ok, w')"
    by (auto simp: Process_def Let_def inr_simps ignore_err_Inr)
  note A = redis_Set_Inr [OF a]
  have w3: "gifs (db w3) = gifs (db w)" "quota (db w3) = quota (db w)" "now w3 = now w"
      "tx w = NoTx \<longrightarrow> tx w3 = NoTx"
    using ffmpeg_Process_rest [of E ?i "vm_Key msg" "vm_Start msg" "vm_End msg" "vm_Width msg"
        "vm_FPS msg" "vm_Loop msg" w2] c A job_UpdateStatus_rest [of E ?i JobProcessing 20 "[]" "[]" w1]
      job_UpdateStatus_NoTx [of w1 E]
    by (simp_all add: b stored_def)
  have w5: "w5 = stored (job_status_key ?i) ''completed'' (5 * minute)
       (tick (stored (job_gif_key ?i) (jr_GifKey jr) (5 * minute) (tick w3)))"
    using redis_Set_Inr [OF d] redis_Set_Inr [OF e] by simp
  show thesis by (rule that [OF w3 w5 refl g h])
qed

text \<open>When nothing fails and the tools do their work, a processing succeeds.\<close>

definition tools_work :: "env \<Rightarrow> bool" where
  "tools_work E \<longleftrightarrow> no_faults E \<and> (\<forall>n args. run_cmd E n args) \<and> (\<forall>n b k d. minio_FGet E n b k d)"

lemma tools_work_steps:
  assumes "tools_work E"
  shows "run_exec E args w = (Inr (), tick w)" "DownloadLocal E key p w = (Inr (), tick w)"
    "storage_Upload E key f c w = (Inr (), (tick w)\<lparr>objects := objects w @ [(cnf_StorageBucket E, key)]\<rparr>)"
  using assms by (simp_all add: tools_work_def run_exec_def DownloadLocal_def FGetObject_def
      storage_Upload_def FPutObject_def ext_call_ok attempt_def ret_def numeral_3_eq_3)

lemma ffmpeg_Process_ok:
  assumes "tools_work E"
  shows "\<exists>w'. ffmpeg_Process E j k s e wd fps l w = (Inr \<lparr>jr_GifKey = uuid_gen E (draws w) @ ''_output.gif'',
    jr_ThumbKey = ''thumpnail_'' @ uuid_gen E (Suc (draws w)) @ ''.jpg''\<rparr>, w') \<and> draws w' = draws w + 2"
  using tools_work_steps [OF assms]
  by (simp add: ffmpeg_Process_def Let_def call_def GifConverter_Run_def NewGifConverter_def
      single_Run_def with_uuid_drawn_def draw_uuid_def ret_def)

lemma ignore_job_update:
  "ignore_err (job_UpdateStatus E i s p r m) k w = k (snd (job_UpdateStatus E i s p r m w))"
proof -
  have "\<not> is_panic e" if "fst (job_UpdateStatus E i s p r m w) = Inl e" for e
    using that by (auto simp: job_UpdateStatus_def db_exec_def with_uuid_def
        split: if_splits fault.splits sum.splits prod.splits option.splits)
  then show ?thesis
    by (cases "job_UpdateStatus E i s p r m w") (auto simp: ignore_err_def attempt_def split: sum.split)
qed

lemma Process_ok:
  assumes "tools_work E" "tx w = NoTx" "pg_uuid_in E (vm_UserID msg) = Some u" "user_exists u (db w)"
    and "\<forall>g\<in>set (gifs (db w)). g_Key g \<noteq> uuid_gen E (draws w) @ ''_output.gif''"
    and "\<forall>q\<in>set (quota (db w)). int4 (q_UsedBytes q) \<and> int4 (q_GifCount q + 1)"
  shows "\<exists>w' g. Process E msg w = (Inr (), w') \<and> draws w' = draws w + 2 \<and> tx w' = NoTx \<and>
    users (db w') = users (db w) \<and> gifs (db w') = gifs (db w) @ [g] \<and>
    g_Key g = uuid_gen E (draws w) @ ''_output.gif''"
proof -
  let ?i = "vm_JobId msg"
  have nf: "no_faults E" using assms(1) by (simp add: tools_work_def)
  define w1 where "w1 = stored (job_status_key ?i) ''processing'' (10 * minute) (tick w)"
  define w2 where "w2 = snd (job_UpdateStatus E ?i JobProcessing 20 [] [] w1)"
  have w1: "draws w1 = draws w" "db w1 = db w" "tx w1 = NoTx" by (simp_all add: w1_def stored_def assms(2))
  have w2: "draws w2 = draws w" "tx w2 = NoTx" "gifs (db w2) = gifs (db w)" "quota (db w2) = quota (db w)"
    "users (db w2) = users (db w)"
    unfolding w2_def using w1 by (simp_all add: job_UpdateStatus_NoTx job_UpdateStatus_rest)
  obtain w3 jr where f: "ffmpeg_Process E ?i (vm_Key msg) (vm_Start msg) (vm_End msg) (vm_Width msg)
      (vm_FPS msg) (vm_Loop msg) w2 = (Inr jr, w3)" and jr: "jr_GifKey jr = uuid_gen E (draws w) @ ''_output.gif''"
    and dr: "draws w3 = draws w + 2"
    using ffmpeg_Process_ok [OF assms(1), of ?i "vm_Key msg" "vm_Start msg" "vm_End msg" "vm_Width msg"
      "vm_FPS msg" "vm_Loop msg" w2] w2(1) by fastforce
  have w3: "db w3 = db w2" "tx w3 = NoTx"
    using ffmpeg_Process_rest [of E ?i "vm_Key msg" "vm_Start msg" "vm_End msg" "vm_Width msg"
      "vm_FPS msg" "vm_Loop msg" w2] f w2(2) by simp_all
  define w5 where "w5 = stored (job_status_key ?i) ''completed'' (5 * minute)
    (tick (stored (job_gif_key ?i) (jr_GifKey jr) (5 * minute) (tick w3)))"
  define w6 where "w6 = snd (job_UpdateStatus E ?i JobDone 100 (jr_GifKey jr) [] w5)"
  have w5: "db w5 = db w2" "tx w5 = NoTx" by (simp_all add: w5_def stored_def w3)
  have w6: "tx w6 = NoTx" "gifs (db w6) = gifs (db w)" "quota (db w6) = quota (db w)"
    "users (db w6) = users (db w)" "draws w6 = draws w + 2"
    unfolding w6_def using w5 w2 dr
    by (simp_all add: job_UpdateStatus_NoTx job_UpdateStatus_rest) (simp add: w5_def stored_def)
  let ?g = "\<lparr>g_Key = jr_GifKey jr, g_Name = [], g_UserId = vm_UserID msg,
       g_Status = [], g_Persist = False, g_Download = 0, g_Url = jr_GifKey jr,
       g_ThumbnailKey = jr_ThumbKey jr, g_FileSizeBytes = 0, g_Width = 0, g_Height = 0,
       g_DurationSeconds = 0, g_IsPublic = False, g_CreatedAt = 0, g_UpdatedAt = 0\<rparr>"
  have "\<exists>d g. gif_Create E ?g w6 = (Inr (), (tick w6)\<lparr>db := d\<rparr>) \<and> quota d = quota (db w) \<and>
      users d = users (db w) \<and> gifs d = gifs (db w) @ [g] \<and> g_Key g = jr_GifKey jr"
    unfolding gif_Create_def
    by (subst db_exec_ok [OF nf]) (use assms(3-5) w6 jr in
      \<open>auto simp: with_uuid_def insert_gif_def int4_def numeric_6_2_def user_exists_def list_ex_iff\<close>)
  then obtain d g where g: "gif_Create E ?g w6 = (Inr (), (tick w6)\<lparr>db := d\<rparr>)" and d: "quota d = quota (db w)"
    "users d = users (db w)" "gifs d = gifs (db w) @ [g]" "g_Key g = jr_GifKey jr"
    by blast
  have "\<exists>ok w'. IncrementUsage E (vm_UserID msg) 0 1 ((tick w6)\<lparr>db := d\<rparr>) = (Inr ok, w')"
    unfolding IncrementUsage_def
    by (subst db_exec_ok [OF nf]) (use assms(3,6) w6(1) d in \<open>auto simp: with_uuid_def list_ex_iff Let_def\<close>)
  then obtain ok w' where q: "IncrementUsage E (vm_UserID msg) 0 1 ((tick w6)\<lparr>db := d\<rparr>) = (Inr ok, w')"
    by blast
  have w': "draws w' = draws w6" "tx w' = tx w6" "users (db w') = users d" "gifs (db w') = gifs d"
    using IncrementUsage_result [OF q] q w6(1) db_exec_NoTx [of "(tick w6)\<lparr>db := d\<rparr>" E]
    by (auto simp: IncrementUsage_def db_exec_def split: if_splits fault.splits sum.splits)
  have "Process E msg w = (Inr (), w')"
    by (simp add: Process_def Let_def call_def redis_Set_ok [OF nf] ignore_job_update f g q ret_def
        flip: w1_def w2_def w5_def w6_def)
  then show ?thesis using w' w6 d jr by metis
qed

lemma updated_rows:
  assumes "\<And>j. p j \<Longrightarrow> Q (f j)" "\<And>j. \<not> p j \<Longrightarrow> \<not> p' j" 
  shows "\<forall>j\<in>set (update_where p f t). p' j \<longrightarrow> Q j"
  using assms by (auto simp: set_update_where)

lemma job_UpdateStatus_done:
  assumes "no_faults E" "tx w \<noteq> TxAborted" "pg_uuid_in E i = Some p" "varchar 50 s" "int4 n"
  shows "jobs (db (snd (job_UpdateStatus E i s n r m w))) = update_where (\<lambda>j. j_ID j = p)
    (\<lambda>j. j\<lparr>j_Status := s, j_Progress := n, j_ResultKey := r, j_ErrorMessage := m, j_UpdatedAt := now w\<rparr>)
    (jobs (db w))"
  unfolding job_UpdateStatus_def
  by (subst db_exec_ok [OF assms(1,2), where x = "()" and d = "(db w)\<lparr>jobs := update_where (\<lambda>j. j_ID j = p)
    (\<lambda>j. j\<lparr>j_Status := s, j_Progress := n, j_ResultKey := r, j_ErrorMessage := m, j_UpdatedAt := now w\<rparr>)
    (jobs (db w))\<rparr>"]) (use assms(3-5) in \<open>simp_all add: with_uuid_def\<close>)

lemma Process_adds_one:
  assumes "Process E msg w = (Inr x, w')"
  shows "\<exists>g u. gifs (db w') = gifs (db w) @ [g] \<and> (\<forall>y\<in>set (gifs (db w)). g_Key y \<noteq> g_Key g) \<and>
    pg_uuid_in E (vm_UserID msg) = Some u \<and> g_UserId g = u \<and> g_Status g = ''private'' \<and> \<not> g_IsPublic g \<and>
    quota (db w') = update_where (\<lambda>q. q_UserID q = u \<and> quota_fits 0 1 q)
      (\<lambda>q. q\<lparr>q_GifCount := q_GifCount q + 1\<rparr>) (quota (db w)) \<and>
    (\<forall>t<now w + 5 * minute. cache_view t w' (job_status_key (vm_JobId msg)) = Some ''completed'' \<and>
       cache_view t w' (job_gif_key (vm_JobId msg)) = Some (g_Key g))"
proof -
  obtain jr :: job_result and w3 w5 w6 w7 :: world and ok where
      w3: "gifs (db w3) = gifs (db w)" "quota (db w3) = quota (db w)" "now w3 = now w"
      "tx w = NoTx \<longrightarrow> tx w3 = NoTx"
    and w5: "w5 = stored (job_status_key (vm_JobId msg)) ''completed'' (5 * minute)
       (tick (stored (job_gif_key (vm_JobId msg)) (jr_GifKey jr) (5 * minute) (tick w3)))"
    and w6: "w6 = snd (job_UpdateStatus E (vm_JobId msg) JobDone 100 (jr_GifKey jr) [] w5)"
    and g: "gif_Create E \<lparr>g_Key = jr_GifKey jr, g_Name = [], g_UserId = vm_UserID msg,
       g_Status = [], g_Persist = False, g_Download = 0, g_Url = jr_GifKey jr,
       g_ThumbnailKey = jr_ThumbKey jr, g_FileSizeBytes = 0, g_Width = 0, g_Height = 0,
       g_DurationSeconds = 0, g_IsPublic = False, g_CreatedAt = 0, g_UpdatedAt = 0\<rparr> w6 = (Inr (), w7)"
    and h: "IncrementUsage E (vm_UserID msg) 0 1 w7 = (Inr ok, w')"
    by (rule Process_Inr [OF assms], rule that; assumption)
  note G = gif_Create_Inr [OF g] and H = IncrementUsage_result [OF h]
  have d6: "gifs (db w6) = gifs (db w)" "quota (db w6) = quota (db w)"
    using w3 w5 by (simp_all add: w6 job_UpdateStatus_rest stored_def)
  have k: "cache_keys w' = cache_keys w5" using G H w6 by (auto simp: job_UpdateStatus_rest)
  have view: "cache_view t w' = cache_view t w5" for t
    by (rule ext) (simp add: cache_view_def k)
  have tk: "cache_view t (tick v) = cache_view t v" for t v
    by (rule ext) (simp add: cache_view_def)
  have "\<forall>t<now w + 5 * minute. cache_view t w' (job_status_key (vm_JobId msg)) = Some ''completed'' \<and>
       cache_view t w' (job_gif_key (vm_JobId msg)) = Some (jr_GifKey jr)"
    using w3(3) by (simp add: view w5 cache_view_stored tk minute_def) (simp add: stored_def)
  then show ?thesis using G H d6 by auto
qed

text \<open>
  A processing that reports success has added one gif, private, of the user who asked
  for it, under the key that the conversion's status gives from then on, and has counted it for
  every quota row of that user with room for one more, and no other; every run adds another one,
  so a message that is delivered twice is counted twice.
\<close>

theorem Process_adds_one_gif:
  assumes "Process E msg w = (Inr x, w')"
  shows "\<exists>g u. gifs (db w') = gifs (db w) @ [g] \<and> (\<forall>y\<in>set (gifs (db w)). g_Key y \<noteq> g_Key g) \<and>
    pg_uuid_in E (vm_UserID msg) = Some u \<and> g_UserId g = u \<and> g_Status g = ''private'' \<and> \<not> g_IsPublic g \<and>
    quota (db w') = update_where (\<lambda>q. q_UserID q = u \<and> quota_fits 0 1 q)
      (\<lambda>q. q\<lparr>q_GifCount := q_GifCount q + 1\<rparr>) (quota (db w)) \<and>
    (\<forall>t<now w + 5 * minute. cache_view t w' (job_status_key (vm_JobId msg)) = Some ''completed'' \<and>
       cache_view t w' (job_gif_key (vm_JobId msg)) = Some (g_Key g))"
  by (rule Process_adds_one [OF assms])

text \<open>
  When nothing fails, the jobs table reads the processed conversion as done, with all
  of its progress and the key of the new gif, and the cache reads it as completed: the word a
  client sees depends on which of the two answers.
\<close>

theorem Process_job_done:
  assumes "no_faults E" "tx w = NoTx" "pg_uuid_in E (vm_JobId msg) = Some p"
    and "Process E msg w = (Inr x, w')"
  shows "(\<forall>j\<in>set (jobs (db w')). j_ID j = p \<longrightarrow> j_Status j = JobDone \<and> j_Progress j = 100 \<and>
      j_ResultKey j = g_Key (last (gifs (db w')))) \<and>
    cache_view (now w) w' (job_status_key (vm_JobId msg)) = Some ''completed'' \<and> JobDone \<noteq> ''completed''"
proof -
  obtain jr :: job_result and w3 w5 w6 w7 :: world and ok where
      w3: "gifs (db w3) = gifs (db w)" "quota (db w3) = quota (db w)" "now w3 = now w"
      "tx w = NoTx \<longrightarrow> tx w3 = NoTx"
    and w5: "w5 = stored (job_status_key (vm_JobId msg)) ''completed'' (5 * minute)
       (tick (stored (job_gif_key (vm_JobId msg)) (jr_GifKey jr) (5 * minute) (tick w3)))"
    and w6: "w6 = snd (job_UpdateStatus E (vm_JobId msg) JobDone 100 (jr_GifKey jr) [] w5)"
    and g: "gif_Create E \<lparr>g_Key = jr_GifKey jr, g_Name = [], g_UserId = vm_UserID msg,
       g_Status = [], g_Persist = False, g_Download = 0, g_Url = jr_GifKey jr,
       g_ThumbnailKey = jr_ThumbKey jr, g_FileSizeBytes = 0, g_Width = 0, g_Height = 0,
       g_DurationSeconds = 0, g_IsPublic = False, g_CreatedAt = 0, g_UpdatedAt = 0\<rparr> w6 = (Inr (), w7)"
    and h: "IncrementUsage E (vm_UserID msg) 0 1 w7 = (Inr ok, w')"
    by (rule Process_Inr [OF assms(4)], rule that; assumption)
  have t5: "tx w5 \<noteq> TxAborted" using w3 w5 assms(2) by (simp add: stored_def)
  have j: "jobs (db w6) = update_where (\<lambda>j. j_ID j = p)
    (\<lambda>j. j\<lparr>j_Status := JobDone, j_Progress := 100, j_ResultKey := jr_GifKey jr, j_ErrorMessage := [],
           j_UpdatedAt := now w5\<rparr>) (jobs (db w5))"
    unfolding w6
    by (rule job_UpdateStatus_done [OF assms(1) t5 assms(3)]) (simp_all add: varchar_short int4_def JobDone_def)
  have e: "jobs (db w') = jobs (db w6)" "g_Key (last (gifs (db w'))) = jr_GifKey jr"
    using gif_Create_Inr [OF g] IncrementUsage_result [OF h] by auto
  have "\<forall>j\<in>set (jobs (db w')). j_ID j = p \<longrightarrow> j_Status j = JobDone \<and> j_Progress j = 100 \<and>
      j_ResultKey j = g_Key (last (gifs (db w')))"
    unfolding e j by (rule updated_rows) simp_all
  moreover have "cache_view (now w) w' (job_status_key (vm_JobId msg)) = Some ''completed''"
    using Process_adds_one [OF assms(4)] by (auto simp: minute_def)
  ultimately show ?thesis by (simp add: JobDone_def)
qed

section \<open>The properties at concrete conversions\<close>

definition sample_quota_db :: database where
  "sample_quota_db = sample_gif_db\<lparr>quota := [\<lparr>q_ID = 1, q_UserID = ''u'', q_UsedBytes = 0, q_TotalBytes = 100,
     q_GifCount = 0, q_GitLimit = 5\<rparr>]\<rparr>"

definition sample_msg :: video_message where
  "sample_msg = conversion_queued ''j'' ''u'' ''k'' 0 1 10 480 True"

definition sample_processing_db :: database where
  "sample_processing_db = sample_quota_db\<lparr>jobs := [\<lparr>j_ID = ''j'', j_UserID = ''u'',
     j_Type = ''video_to_gif'', j_Status = JobQueued, j_Progress = 0, j_ErrorMessage = [],
     j_ResultKey = [], j_CreatedAt = 0, j_UpdatedAt = 0\<rparr>]\<rparr>"

lemma Upload_then_Status_witness:
  "fst (Status sample_env ''u'' (''u:'' @ sample_uuid 0 @ ''.mp4'')
     (snd (Upload sample_env ''cat.mp4'' ''u'' (world_of 0 sample_quota_db)))) = Inr ([], ''uploading'')"
proof -
  let ?k = "''u:'' @ sample_uuid 0 @ ''.mp4''"
  have r: "fst (Upload sample_env ''cat.mp4'' ''u'' (world_of 0 sample_quota_db)) =
      Inr \<lparr>ur_Url = ''http://minio/'' @ ?k, ur_Key = ?k, ur_ExpireIn = 300\<rparr>" by code_simp
  from Upload_then_Status [OF sample_no_faults run_pair [OF r], of "''v''"]
  show ?thesis by auto
qed

lemma sample_convert_run:
  "Convert sample_env ''u'' ''k'' 0 1 10 480 True (world_of 0 sample_quota_db) =
     (Inr (sample_uuid 0, ''queued''),
      snd (Convert sample_env ''u'' ''k'' 0 1 10 480 True (world_of 0 sample_quota_db)))"
proof (rule run_pair)
  have "\<exists>w'. Convert sample_env ''u'' ''k'' 0 1 10 480 True (world_of 0 sample_quota_db) =
      (Inr (sample_uuid 0, ''queued''), w')"
    using Convert_ok [of sample_env "world_of 0 sample_quota_db" "''u''" "''k''" "''u''" "sample_uuid 0"
      0 1 10 480 True]
    by (auto simp: foreign_key_def strings_Contains_char_def sample_quota_db_def sample_gif_db_def
        sample_two_db_def empty_db_def sample_ann_def new_user_def user_exists_def)
  then show "fst (Convert sample_env ''u'' ''k'' 0 1 10 480 True (world_of 0 sample_quota_db)) =
      Inr (sample_uuid 0, ''queued'')" by auto
qed

lemma Convert_queues_once_witness:
  "published (snd (Convert sample_env ''u'' ''k'' 0 1 10 480 True (world_of 0 sample_quota_db))) =
     [(ProcessQueue, VideoPayload (conversion_queued (sample_uuid 0) ''u'' ''k'' 0 1 10 480 True))]"
  using Convert_queues_once [OF sample_convert_run] by simp

lemma Convert_then_ConversionStatus_witness:
  "fst (ConversionStatus sample_env ''v'' (sample_uuid 0)
     ((snd (Convert sample_env ''u'' ''k'' 0 1 10 480 True (world_of 0 sample_quota_db)))
        \<lparr>now := 1, db := empty_db\<rparr>)) = Inl (GifE ErrGifOwnerMismatch)"
  using Convert_then_ConversionStatus [OF sample_no_faults sample_convert_run, of 1 "''v''" empty_db]
  by (simp add: minute_def)

lemma sample_process_run:
  "Process sample_env sample_msg (world_of 0 sample_processing_db) =
     (Inr (), snd (Process sample_env sample_msg (world_of 0 sample_processing_db)))"
proof (rule run_pair)
  have "tools_work sample_env" by (simp add: tools_work_def sample_env_def no_faults_def)
  from Process_ok [OF this, of "world_of 0 sample_processing_db" sample_msg "''u''"]
  have "\<exists>w'. Process sample_env sample_msg (world_of 0 sample_processing_db) = (Inr (), w')"
    by (auto simp: sample_msg_def conversion_queued_def sample_processing_db_def sample_quota_db_def
        sample_gif_db_def sample_two_db_def sample_ann_def new_user_def user_exists_def sample_gif_def int4_def)
  then show "fst (Process sample_env sample_msg (world_of 0 sample_processing_db)) = Inr ()" by auto
qed

lemma Process_adds_one_gif_witness:
  "\<exists>g. gifs (db (snd (Process sample_env sample_msg (world_of 0 sample_processing_db)))) = [sample_gif, g]"
  using Process_adds_one_gif [OF sample_process_run]
  by (auto simp: sample_processing_db_def sample_quota_db_def sample_gif_db_def)

lemma Process_job_done_witness:
  "filter (\<lambda>j. j_ID j = ''j'' \<and> j_Status j \<noteq> JobDone)
     (jobs (db (snd (Process sample_env sample_msg (world_of 0 sample_processing_db))))) = []"
  using Process_job_done [OF sample_no_faults _ _ sample_process_run, of "''j''"]
  by (auto simp: sample_msg_def conversion_queued_def filter_empty_conv)

text \<open>
  A run in which the statement that inserts the gif fails: the environment drops the call of
  that number.
\<close>

definition fail_call :: "nat \<Rightarrow> env" where
  "fail_call n = sample_env\<lparr>fault := (\<lambda>i. if i = n then FailBefore ''connection reset'' else NoFault)\<rparr>"

end
