(* ===== verification/Gif_Laws.thy ===== *)
theory Gif_Laws
  imports Conversion_Laws
begin

text \<open>
  What \<open>App_Media\<close> promises of stored gifs and of a user's last upload: who may change, delete or
  download a gif and what that does to the tables, how a listing is cut into pages, and that
  saved metadata is what is read back.
\<close>

section \<open>Changes by the owner\<close>

definition owned_gif :: "string \<Rightarrow> string \<Rightarrow> database \<Rightarrow> bool" where
  "owned_gif u key d \<longleftrightarrow> (\<exists>g\<in>set (gifs d). g_Key g = key \<and> g_UserId g = u)"

lemma gif_owner_owned:
  "gif_owner E key w = (Inr u, w1) \<Longrightarrow> db w1 = db w \<and> now w1 = now w \<and> owned_gif u key (db w)"
  using gif_owner_Inr [of E key w u w1] by (auto simp: owned_gif_def)

text \<open>
  Deleting a gif that reports success was asked for by its owner and leaves no trace
  of it: the row, every share of it and every emailed link to it are gone, and nothing else is.
\<close>

theorem gif_Delete_by_owner:
  assumes "gif_service_Delete E u key w = (Inr x, w')"
  shows "owned_gif u key (db w) \<and> db w' = delete_gifs (\<lambda>g. g_Key g = key) (db w) \<and>
    \<not> gif_exists key (db w') \<and> set (gifs (db w')) = {g \<in> set (gifs (db w)). g_Key g \<noteq> key} \<and>
    set (shares (db w')) = {s \<in> set (shares (db w)). s_GifKey s \<noteq> key} \<and>
    set (share_tokens (db w')) = {t \<in> set (share_tokens (db w)). t_GifKey t \<noteq> key}"
proof -
  from assms obtain w1 w2 r w3 where o: "gif_owner E key w = (Inr u, w1)"
    and d: "gif_Delete E key w1 = (Inr (), w2)" and s: "storage_Delete E key w2 = (r, w3)" and w': "w' = w3"
    by (auto simp: gif_service_Delete_def inr_simps ignore_err_Inr split: if_splits)
  note O = gif_owner_owned [OF o]
  have "db w2 = delete_gifs (\<lambda>g. g_Key g = key) (db w1)"
    using db_exec_Inr [OF d [unfolded gif_Delete_def]] by auto
  moreover have "db w3 = db w2"
    using keepsD [OF keeps_storage(7) [of "\<lambda>d. d = db w2" E key], of w2] s by simp
  ultimately have D: "db w' = delete_gifs (\<lambda>g. g_Key g = key) (db w)" using O w' by simp
  show ?thesis using O by (auto simp: D delete_gifs_def gif_exists_iff Let_def list_ex_iff owned_gif_def)
qed

lemma fetch_gif_Inr:
  "fetch_gif E key fu w = (Inr r, w') \<Longrightarrow> db w' = db w \<and> now w' = now w \<and>
     (\<exists>g\<in>set (gifs (db w)). g_Key g = key \<and> r = gif_response_of g)"
  by (auto simp: fetch_gif_def inr_simps gif_GetByKey_def get_row_Inr dest!: db_exec_Inr find_SomeD)

lemma Update_Inr:
  assumes "Update E u key req seen w = (Inr r, w')"
  shows "owned_gif u key (db w) \<and>
    (\<exists>g\<in>set (gifs (db w)). g_Key g = key \<and> time_Format E (g_UpdatedAt g) = seen) \<and>
    (\<exists>t. db w' = (db w)\<lparr>gifs := update_where (\<lambda>g. g_Key g = key)
      (\<lambda>g. g\<lparr>g_Name := coalesce (gu_Name req) (g_Name g), g_Status := coalesce (gu_Status req) (g_Status g),
             g_Persist := coalesce (gu_Persist req) (g_Persist g),
             g_IsPublic := coalesce (gu_IsPublic req) (g_IsPublic g), g_UpdatedAt := t\<rparr>) (gifs (db w))\<rparr>)"
proof -
  let ?fn = "call (fetch_gif E key True) fail (\<lambda>resp.
      if time_Format E (gr_UpdatedAt resp) \<noteq> seen then fail (GifE ErrETagValidationFailed)
      else call (gif_Update E key req) (\<lambda>e. fail (Wrapf ''gifRepo.Update'' [e])) ret)"
  from assms obtain w1 where o: "gif_owner E key w = (Inr u, w1)" and t: "tx_WithRC E ?fn w1 = (Inr r, w')"
    by (auto simp: Update_def inr_simps split: if_splits)
  note O = gif_owner_owned [OF o]
  from tx_run_Inr [OF t [unfolded tx_WithRC_def]] obtain w2 where
      f: "?fn ((tick w1)\<lparr>tx := TxOpen\<rparr>) = (Inr r, w2)" and w': "db w' = db w2"
    by auto
  from f obtain resp w3 where g: "fetch_gif E key True ((tick w1)\<lparr>tx := TxOpen\<rparr>) = (Inr resp, w3)"
    and v: "time_Format E (gr_UpdatedAt resp) = seen" and u: "gif_Update E key req w3 = (Inr r, w2)"
    by (auto simp: inr_simps split: if_splits)
  note G = fetch_gif_Inr [OF g]
  have "db w2 = (db w3)\<lparr>gifs := update_where (\<lambda>g. g_Key g = key)
      (\<lambda>g. g\<lparr>g_Name := coalesce (gu_Name req) (g_Name g), g_Status := coalesce (gu_Status req) (g_Status g),
             g_Persist := coalesce (gu_Persist req) (g_Persist g),
             g_IsPublic := coalesce (gu_IsPublic req) (g_IsPublic g), g_UpdatedAt := now w3\<rparr>) (gifs (db w3))\<rparr>"
    using db_exec_Inr [OF u [unfolded gif_Update_def]] by (auto simp: Let_def get_row_Inr)
  then show ?thesis using O G v w' by (auto simp: gif_response_of_def)
qed

text \<open>
  A gif is edited only by its owner and only in the version the client has seen: an
  edit that reports success finds the stored time of the last change printing as the client's, and
  changes the named fields of that row, its time of change and nothing else.
\<close>

theorem gif_Update_by_owner:
  assumes "Update E u key req seen w = (Inr r, w')"
  shows "owned_gif u key (db w) \<and>
    (\<exists>g\<in>set (gifs (db w)). g_Key g = key \<and> time_Format E (g_UpdatedAt g) = seen) \<and>
    (\<exists>t. db w' = (db w)\<lparr>gifs := update_where (\<lambda>g. g_Key g = key)
      (\<lambda>g. g\<lparr>g_Name := coalesce (gu_Name req) (g_Name g), g_Status := coalesce (gu_Status req) (g_Status g),
             g_Persist := coalesce (gu_Persist req) (g_Persist g),
             g_IsPublic := coalesce (gu_IsPublic req) (g_IsPublic g), g_UpdatedAt := t\<rparr>) (gifs (db w))\<rparr>)"
  by (rule Update_Inr [OF assms])

lemma Download_Inr:
  assumes "Download E u key w = (Inr url, w')" "\<not> owned_gif [] key (db w)"
  shows "(owned_gif u key (db w) \<or>
      (\<exists>s\<in>set (shares (db w)). s_GifKey s = key \<and> pg_uuid_in E u = Some (s_SharedWith s) \<and>
         unexpired (now w) (s_ExpiresAt s) \<and> owned_gif (s_OwnerID s) key (db w))) \<and>
    (\<exists>t. db w' = (db w)\<lparr>gifs := update_where (\<lambda>g. g_Key g = key)
      (\<lambda>g. g\<lparr>g_Download := g_Download g + 1, g_UpdatedAt := t\<rparr>) (gifs (db w))\<rparr>)"
proof -
  let ?shared = "\<lambda>r. case r of Inl _ \<Rightarrow> [] | Inr i \<Rightarrow> i"
  from assms(1) obtain ow w1 r w2 w3 where o: "gif_owner E key w = (Inr ow, w1)"
    and s: "share_repo_GetOwner E u key w1 = (r, w2)" and ok: "\<not> (ow \<noteq> u \<and> ?shared r \<noteq> ow)"
    and i: "IncrementDownload E key w2 = (Inr (), w3)" and d: "storage_Download E key (5 * minute) w3 = (Inr url, w')"
    by (auto simp: Download_def inr_simps Let_def split: if_splits option.splits)
  note O = gif_owner_owned [OF o]
  have w2: "db w2 = db w"
    using keepsD [OF keeps_uuid_reads(8) [of "\<lambda>d. d = db w1" E u key], of w1] s O by simp
  have sh: "?shared r \<noteq> [] \<Longrightarrow> \<exists>s\<in>set (shares (db w)). s_GifKey s = key \<and>
      pg_uuid_in E u = Some (s_SharedWith s) \<and> unexpired (now w) (s_ExpiresAt s) \<and> s_OwnerID s = ?shared r"
    using s O by (cases r) (auto simp: share_repo_GetOwner_def with_uuid_Inr get_row_Inr
        dest!: db_exec_Inr find_SomeD)
  have "db w3 = (db w)\<lparr>gifs := update_where (\<lambda>g. g_Key g = key)
      (\<lambda>g. g\<lparr>g_Download := g_Download g + 1, g_UpdatedAt := now w2\<rparr>) (gifs (db w))\<rparr>"
    using db_exec_Inr [OF i [unfolded IncrementDownload_def]] w2 by (auto split: if_splits)
  moreover have "db w' = db w3"
    using keepsD [OF keeps_storage(2) [of "\<lambda>x. x = db w3" E key "5 * minute"], of w3] d by simp
  moreover have "ow \<noteq> []" using O assms(2) by auto
  ultimately show ?thesis using O ok sh by (cases "ow = u") auto
qed

text \<open>
  Property C29. A download link is given to the owner of a gif, and to a user with whom its owner
  has shared it for a time still to come, and to no one else; giving one counts one download of
  that gif and changes nothing else.
\<close>

theorem Download_allowed:
  assumes "Download E u key w = (Inr url, w')" "\<not> owned_gif [] key (db w)"
  shows "(owned_gif u key (db w) \<or>
      (\<exists>s\<in>set (shares (db w)). s_GifKey s = key \<and> pg_uuid_in E u = Some (s_SharedWith s) \<and>
         unexpired (now w) (s_ExpiresAt s) \<and> owned_gif (s_OwnerID s) key (db w))) \<and>
    (\<exists>t. db w' = (db w)\<lparr>gifs := update_where (\<lambda>g. g_Key g = key)
      (\<lambda>g. g\<lparr>g_Download := g_Download g + 1, g_UpdatedAt := t\<rparr>) (gifs (db w))\<rparr>)"
  by (rule Download_Inr [OF assms])

section \<open>Listings\<close>

definition listing :: "uuid \<Rightarrow> string \<Rightarrow> database \<Rightarrow> gif_response list" where
  "listing i flt d = map gif_response_of (sort_key (\<lambda>g. - g_CreatedAt g)
     (filter (\<lambda>g. g_UserId g = i \<and> (flt \<noteq> ''all'' \<longrightarrow> g_Status g = flt)) (gifs d)))"

lemma int64_id: "- (2 ^ 63) \<le> n \<Longrightarrow> n < 2 ^ 63 \<Longrightarrow> int64 n = n"
  by (simp add: int64_def)

lemma gif_Get_ok:
  assumes "no_faults E" "tx w = NoTx" "pg_uuid_in E u = Some i" "0 \<le> lm" "0 \<le> off"
  shows "gif_Get E u flt lm off w =
    (Inr (take (nat lm) (drop (nat off) (listing i flt (db w)))), (tick w)\<lparr>db := db w\<rparr>)"
  unfolding gif_Get_def
  by (rule db_exec_ok [OF assms(1)]) (use assms(2-5) in
    \<open>auto simp: with_uuid_def page_def listing_def take_map drop_map\<close>)

text \<open>
  The pages of a user's listing follow each other without gap or overlap, newest gif
  first, as long as the offset fits an \<open>int\<close>; the total a page reports is the number of gifs on
  that page, not in the listing.
\<close>

theorem GetGifs_page:
  assumes "no_faults E" "tx w = NoTx" "pg_uuid_in E u = Some i" "1 \<le> pg" "1 \<le> lm"
    and "(pg - 1) * lm < 2 ^ 63"
  shows "\<exists>w'. GetGifs E u flt pg lm w =
    (Inr \<lparr>gres_Data = take (nat lm) (drop (nat ((pg - 1) * lm)) (listing i flt (db w))),
          gres_Total = min lm (max 0 (int (length (listing i flt (db w))) - (pg - 1) * lm)),
          gres_Page = pg, gres_Limit = lm\<rparr>, w')"
proof -
  let ?off = "(pg - 1) * lm"
  have off: "0 \<le> ?off" using assms(4,5) by simp
  then have w: "int64 ?off = ?off" using assms(6) by (intro int64_id) auto
  let ?data = "take (nat lm) (drop (nat ?off) (listing i flt (db w)))"
  have g: "gif_Get E u flt lm ?off w = (Inr ?data, (tick w)\<lparr>db := db w\<rparr>)"
    by (rule gif_Get_ok [OF assms(1-3) _ off]) (use assms(5) in simp)
  have "int (length ?data) = min lm (max 0 (int (length (listing i flt (db w))) - ?off))"
    using assms(5) off by (auto simp: min_def max_def)
  then show ?thesis using assms(4,5)
    by (simp add: GetGifs_def Let_def w call_def g ret_def)
qed

section \<open>The last upload\<close>

lemma find_update_where:
  assumes "\<And>x. p x \<Longrightarrow> p (f x)"
  shows "List.find p (update_where p f xs) = map_option f (List.find p xs)"
  using assms by (induction xs) (auto simp: update_where_def)

lemma last_Create_Inr:
  assumes "last_Create E l w = (Inr x, w')"
  shows "\<exists>r. List.find (\<lambda>r. l_UserID r = l_UserID l) (last_uploads (db w')) = Some r \<and>
    l_FileKey r = l_FileKey l \<and> l_Filename r = l_Filename l \<and> l_ContentType r = l_ContentType l \<and>
    l_SizeBytes r = l_SizeBytes l \<and> l_UploadedAt r = l_UploadedAt l \<and> l_ThumbnailURL r = l_ThumbnailURL l"
proof -
  let ?p = "\<lambda>r. l_UserID r = l_UserID l"
  from assms obtain l' w1 d where u: "upsert_last_upload l' w1 = Inr ((), d)" and d: "db w' = d"
    and l': "l_UserID l' = l_UserID l" "l_FileKey l' = l_FileKey l" "l_Filename l' = l_Filename l"
      "l_ContentType l' = l_ContentType l" "l_SizeBytes l' = l_SizeBytes l"
      "l_UploadedAt l' = l_UploadedAt l" "l_ThumbnailURL l' = l_ThumbnailURL l"
    unfolding last_Create_def next_serial_def Let_def prod.case
    by (auto simp: inr_simps dest!: db_exec_Inr)
  show ?thesis
  proof (cases "list_ex ?p (last_uploads (db w1))")
    case True
    let ?f = "\<lambda>x. l'\<lparr>l_ID := l_ID x, l_DeletedAt := l_DeletedAt x\<rparr>"
    have "last_uploads d = update_where ?p ?f (last_uploads (db w1))"
      using u True l'(1) by (auto simp: upsert_last_upload_def Let_def split: if_splits)
    moreover obtain r0 where "List.find ?p (last_uploads (db w1)) = Some r0"
      using True by (cases "List.find ?p (last_uploads (db w1))") (auto simp: find_None_iff list_ex_iff)
    ultimately show ?thesis using l' d find_update_where [of ?p ?f "last_uploads (db w1)"] by auto
  next
    case False
    then have "last_uploads d = last_uploads (db w1) @ [l']"
      using u l'(1) by (auto simp: upsert_last_upload_def Let_def split: if_splits)
    moreover have "List.find ?p (xs @ [l']) = Some l'" if "\<not> list_ex ?p xs" for xs
      using that l'(1) by (induction xs) auto
    ultimately show ?thesis using False l' d by auto
  qed
qed

lemma GetLastVideo_ok:
  assumes "no_faults E" "tx w = NoTx" "pg_uuid_in E u = Some i"
    and "List.find (\<lambda>l. l_UserID l = i) (last_uploads (db w)) = Some l"
  shows "\<exists>w'. LastVideo E u w = (Inr (last_upload_response_of l), w')"
proof -
  have "GetLastVideo E u w = (Inr (last_upload_response_of l), (tick w)\<lparr>db := db w\<rparr>)"
    unfolding GetLastVideo_def
    by (rule db_exec_ok [OF assms(1)]) (use assms in \<open>auto simp: with_uuid_def get_row_def\<close>)
  then show ?thesis by (simp add: LastVideo_def call_def ret_def)
qed

text \<open>
  Metadata saved for a user's video is what the user's last video reads back, with the
  size and type the object store gave, and an earlier upload is replaced.
\<close>

theorem SaveMetadata_then_LastVideo:
  assumes "no_faults E" "tx w' = NoTx" "SaveMetadata E msg w = (Inr x, w')"
    and "\<And>s i. uuid_Parse E s = Some i \<Longrightarrow> pg_uuid_in E s = Some i"
  shows "\<exists>r w''. LastVideo E (sm_UserID msg) w' = (Inr r, w'') \<and> lr_FileKey r = sm_Key msg \<and>
    lr_Filename r = sm_Filename msg \<and> uuid_Parse E (sm_UserID msg) = Some (lr_UserID r) \<and>
    (\<exists>info. minio_Stat E (Suc (calls w)) (cnf_StorageBucket E) (sm_Key msg) = Inr info \<and>
      lr_ContentType r = i_ContentType info \<and> lr_SizeBytes r = Some (i_Size info))"
proof -
  have h: "call m (\<lambda>e. call (PublishRetrySaveVideo E msg)
                   (\<lambda>retyErr. fail (errors_Join e (Some retyErr))) (\<lambda>_. fail e)) k v = (Inr y, v') \<longleftrightarrow>
      (\<exists>x v1. m v = (Inr x, v1) \<and> k x v1 = (Inr y, v'))"
    for m :: "storage_info io" and k :: "storage_info \<Rightarrow> unit io" and v y v'
    by (rule call_failing_handler) (simp add: inr_simps)
  from assms(3) obtain i info w1 where p: "uuid_Parse E (sm_UserID msg) = Some i"
    and s: "storage_Status E (sm_Key msg) w = (Inr info, w1)"
    and c: "last_Create E (last_upload_of i (sm_Key msg) (sm_Filename msg) (i_ContentType info)
            (i_Size info) None (i_UploadedAt info)) w1 = (Inr x, w')"
    by (auto simp: SaveMetadata_def h inr_simps split: option.splits)
  from last_Create_Inr [OF c] obtain r where
      f: "List.find (\<lambda>r. l_UserID r = i) (last_uploads (db w')) = Some r"
    and r: "l_FileKey r = sm_Key msg" "l_Filename r = sm_Filename msg" "l_ContentType r = i_ContentType info"
      "l_SizeBytes r = Some (i_Size info)"
    by (auto simp: last_upload_of_def)
  have "l_UserID r = i" using find_SomeD [OF f] by simp
  moreover have "minio_Stat E (Suc (calls w)) (cnf_StorageBucket E) (sm_Key msg) = Inr info"
    using s assms(1) by (simp add: storage_Status_def StatObject_def ext_call_ok)
  ultimately show ?thesis
    using GetLastVideo_ok [OF assms(1,2) assms(4) [OF p] f] p r
    by (auto simp: last_upload_response_of_def)
qed

section \<open>The properties at a concrete gif\<close>

lemma gif_Delete_by_owner_witness:
  "\<not> gif_exists ''k'' (db (snd (gif_service_Delete sample_env ''u'' ''k'' (world_of 0 sample_shared_db)))) \<and>
   set (share_tokens (db (snd (gif_service_Delete sample_env ''u'' ''k'' (world_of 0 sample_shared_db))))) = {}"
proof -
  have r: "fst (gif_service_Delete sample_env ''u'' ''k'' (world_of 0 sample_shared_db)) = Inr ()" by code_simp
  have "{t \<in> set (share_tokens (db (world_of 0 sample_shared_db))). t_GifKey t \<noteq> ''k''} = {}"
    by (simp add: sample_shared_db_def)
  with gif_Delete_by_owner [OF run_pair [OF r]] show ?thesis by metis
qed

definition sample_edit :: gif_update_request where
  "sample_edit = \<lparr>gu_Name = Some ''n'', gu_Status = None, gu_Persist = None, gu_IsPublic = None\<rparr>"

lemma gif_Update_by_owner_witness:
  "\<exists>t. gifs (db (snd (Update sample_env ''u'' ''k'' sample_edit ''epoch'' (world_of 0 sample_gif_db)))) =
     [sample_gif\<lparr>g_Name := ''n'', g_UpdatedAt := t\<rparr>]"
proof -
  have "fst (Update sample_env ''u'' ''k'' sample_edit ''epoch'' (world_of 0 sample_gif_db)) =
      Inr (gif_response_of (sample_gif\<lparr>g_Name := ''n''\<rparr>))" by code_simp
  from gif_Update_by_owner [OF run_pair [OF this]] show ?thesis
    by (auto simp: sample_gif_db_def sample_gif_def sample_edit_def update_where_def coalesce_def)
qed

lemma Download_allowed_witness:
  "\<exists>t. gifs (db (snd (Download sample_env ''v'' ''k'' (world_of 0 sample_shared_db)))) =
     [sample_gif\<lparr>g_Download := 1, g_UpdatedAt := t\<rparr>]"
proof -
  have r: "fst (Download sample_env ''v'' ''k'' (world_of 0 sample_shared_db)) = Inr ''http://minio/k''" by code_simp
  have "\<not> owned_gif [] ''k'' (db (world_of 0 sample_shared_db))"
    by (simp add: owned_gif_def sample_shared_db_def sample_gif_db_def sample_gif_def)
  from Download_allowed [OF run_pair [OF r] this] show ?thesis
    by (auto simp: sample_shared_db_def sample_gif_db_def sample_gif_def update_where_def)
qed

lemma GetGifs_page_witness:
  "\<exists>w'. GetGifs sample_env ''u'' ''all'' 1 20 (world_of 0 sample_gif_db) =
     (Inr \<lparr>gres_Data = [gif_response_of sample_gif], gres_Total = 1, gres_Page = 1, gres_Limit = 20\<rparr>, w')"
  using GetGifs_page [of sample_env "world_of 0 sample_gif_db" "''u''" "''u''" 1 20 "''all''"]
  by (simp add: listing_def sample_gif_db_def sample_gif_def)

lemma SaveMetadata_then_LastVideo_witness:
  "\<exists>r w''. LastVideo sample_env ''u'' (snd (SaveMetadata sample_env \<lparr>sm_Key = ''k'', sm_UserID = ''u'',
     sm_Filename = ''cat'', sm_Retries = 0\<rparr> (world_of 0 sample_gif_db))) = (Inr r, w'') \<and> lr_FileKey r = ''k''"
proof -
  let ?m = "\<lparr>sm_Key = ''k'', sm_UserID = ''u'', sm_Filename = ''cat'', sm_Retries = 0\<rparr>"
  have r: "fst (SaveMetadata sample_env ?m (world_of 0 sample_gif_db)) = Inr () \<and>
      tx (snd (SaveMetadata sample_env ?m (world_of 0 sample_gif_db))) = NoTx" by code_simp
  from SaveMetadata_then_LastVideo [OF _ _ run_pair [OF conjunct1 [OF r]]] r show ?thesis by fastforce
qed

end
