(* ===== verification/Worker_Laws.thy ===== *)
theory Worker_Laws
  imports Workers Gif_Laws
begin

text \<open>
  What the consumers make of a delivery: which messages can be delivered again, what the email of
  each kind of message is, what an upload reads as once it has been processed, and how often a
  video whose object is not there yet is tried.
\<close>

section \<open>Where a rejected message goes\<close>

lemma rabbit_Setup_ok:
  "(\<And>n. refuse n = None) \<Longrightarrow> rabbit_Setup E refuse \<lparr>tp_queues = [], tp_exchanges = [], tp_bindings = []\<rparr> =
     (None, \<lparr>tp_queues = setup_order @ [declareUploadProcessQueue],
        tp_exchanges = [(cnf_ExchangeQueue E, ''fanout'')],
        tp_bindings = [(cnf_ExchangeQueue E, UploadProcessQueue)]\<rparr>)"
  by (simp add: rabbit_Setup_def declare_all_ok)


section \<open>Settling\<close>

lemma Nack_ok: "no_faults E \<Longrightarrow> Nack E rq w = (Inr (Nacked rq), tick w)"
  by (simp add: Nack_def ignore_err_def attempt_def ext_call_ok ret_def)

lemma Ack_ok: "no_faults E \<Longrightarrow> Ack_then E k w = k (tick w)"
  by (simp add: Ack_then_def attempt_def ext_call_ok ret_def)

lemma Nack_result: "fst (Nack E rq w) = Inr (Nacked rq)"
proof -
  have "\<not> is_panic e" if "fst (ext_call E (ret ()) w) = Inl e" for e
    using that by (auto simp: ext_call_def ret_def split: fault.splits)
  then show ?thesis
    by (cases "ext_call E (ret ()) w") (auto simp: Nack_def ignore_err_def attempt_def ret_def split: sum.split)
qed

lemma Ack_result: "fst (Ack_then E (ret Acked) w) \<in> {Inr Acked, Inr AckLost}"
proof -
  have "\<not> is_panic e" if "fst (ext_call E (ret ()) w) = Inl e" for e
    using that by (auto simp: ext_call_def ret_def split: fault.splits)
  then show ?thesis
    by (cases "ext_call E (ret ()) w") (auto simp: Ack_then_def attempt_def ret_def split: sum.split)
qed

text \<open>
  The converter and the email worker never put a message back: a delivery ends
  acknowledged, rejected to the dead letters, or with a panic of the handler; a body that is not
  a message is rejected to the dead letters by every worker.
\<close>

theorem no_requeue:
  "fst (VideoWorker_handle E vb w) \<in> {Inr Acked, Inr AckLost, Inr (Nacked False)} \<union> {Inl e | e. is_panic e} \<and>
   fst (EmailWorker_handle E eb w) \<in> {Inr Acked, Inr AckLost, Inr (Nacked False)} \<union> {Inl e | e. is_panic e} \<and>
   fst (VideoWorker_handle E None w) = Inr (Nacked False) \<and>
   fst (EmailWorker_handle E None w) = Inr (Nacked False) \<and>
   fst (ProcessingWorker_handle E None w) = Inr (Nacked False) \<and>
   fst (SaveVideoWorker_handle E None w) = Inr (Nacked False)"
proof -
  let ?ok = "{Inr Acked, Inr AckLost, Inr (Nacked False)} \<union> {Inl e | e. is_panic e}"
  have a: "fst (attempt m (\<lambda>r. case r of Inl _ \<Rightarrow> Nack E False | Inr _ \<Rightarrow> Ack_then E (ret Acked)) w) \<in> ?ok"
    for m :: "unit io"
    using Nack_result [of E False] Ack_result [of E]
    by (cases "m w") (auto simp: attempt_def split: sum.split)
  have "fst (VideoWorker_handle E vb w) \<in> ?ok"
    using a Nack_result [of E False] by (auto simp: VideoWorker_handle_def split: option.split)
  moreover have "fst (EmailWorker_handle E eb w) \<in> ?ok"
    using a Nack_result [of E False] by (auto simp: EmailWorker_handle_def Let_def split: option.split)
  ultimately show ?thesis
    by (simp add: VideoWorker_handle_def EmailWorker_handle_def ProcessingWorker_handle_def
        SaveVideoWorker_handle_def Nack_result)
qed

section \<open>A video that is not there yet\<close>

text \<open>
  The two ways a message comes back to the queue of the metadata worker: requeued by a negative
  acknowledgement, and published to the retry queue, whose expired messages return.
\<close>

definition comes_back :: "disposition result \<Rightarrow> save_video_message \<Rightarrow> world \<Rightarrow> world \<Rightarrow> save_video_message list" where
  "comes_back r m w w' =
     (case r of Inr (Nacked True) \<Rightarrow> [m] | _ \<Rightarrow> []) @
     concat (map (\<lambda>(q, p). case p of SavePayload m' \<Rightarrow> if q = SaveRetryQueue then [m'] else [] | _ \<Rightarrow> [])
       (drop (length (published w)) (published w')))"

fun save_round :: "env \<Rightarrow> save_video_message list \<Rightarrow> world \<Rightarrow> save_video_message list \<times> world" where
  "save_round E [] w = ([], w)"
| "save_round E (m # ms) w =
     (let (r, w1) = SaveVideoWorker_handle E (Some m) w; (back, w2) = save_round E ms w1
      in (comes_back r m w w1 @ back, w2))"

fun save_rounds :: "env \<Rightarrow> nat \<Rightarrow> save_video_message list \<Rightarrow> world \<Rightarrow> save_video_message list \<times> world" where
  "save_rounds E 0 ms w = (ms, w)"
| "save_rounds E (Suc n) ms w = (let (ms', w') = save_round E ms w in save_rounds E n ms' w')"

lemma SaveVideoWorker_absent:
  assumes "no_faults E" "uuid_Parse E (sm_UserID m) = Some i" "s \<noteq> ''invalid user id''"
    and "\<And>n. minio_Stat E n (cnf_StorageBucket E) (sm_Key m) = Inl (Driver s)"
  shows "\<exists>w'. SaveVideoWorker_handle E (Some m) w = (Inr (Nacked True), w') \<and>
    published w' = published w @ [(SaveRetryQueue, SavePayload m)]"
  using assms
  by (simp add: SaveVideoWorker_handle_def SaveMetadata_def storage_Status_def StatObject_def ext_call_ok
      call_def attempt_def fail_def PublishRetrySaveVideo_def rabbit_publish_def ret_def Nack_ok)

text \<open>
  Property C31. While the object of a video is missing, one message becomes \<open>2 ^ n\<close> messages after
  \<open>n\<close> rounds of deliveries: the service publishes a retry and the worker puts the same delivery back,
  so no message is ever dead-lettered and each of the two is tried again.
\<close>

theorem save_retry_doubles:
  assumes "no_faults E" "uuid_Parse E (sm_UserID m) = Some i" "s \<noteq> ''invalid user id''"
    and "\<And>n. minio_Stat E n (cnf_StorageBucket E) (sm_Key m) = Inl (Driver s)"
  shows "fst (save_rounds E n [m] w) = replicate (2 ^ n) m"
proof -
  have one: "\<exists>w'. SaveVideoWorker_handle E (Some m) w = (Inr (Nacked True), w') \<and>
      comes_back (Inr (Nacked True)) m w w' = [m, m]" for w
    using SaveVideoWorker_absent [OF assms(1-3), of w] assms(4) by (auto simp: comes_back_def)
  have round: "fst (save_round E (replicate k m) w) = replicate (2 * k) m" for k w
  proof (induction k arbitrary: w)
    case (Suc k)
    from one [of w] obtain w' where "SaveVideoWorker_handle E (Some m) w = (Inr (Nacked True), w')"
      "comes_back (Inr (Nacked True)) m w w' = [m, m]" by blast
    then show ?case using Suc.IH [of w'] by (simp add: split_beta)
  qed simp
  have "fst (save_rounds E n (replicate k m) w) = replicate (2 ^ n * k) m" for k
  proof (induction n arbitrary: k w)
    case (Suc n)
    have "fst (save_round E (replicate k m) w) = replicate (2 * k) m" by (rule round)
    then show ?case using Suc.IH [of "2 * k" "snd (save_round E (replicate k m) w)"]
      by (simp add: split_beta mult.assoc mult.commute)
  qed simp
  from this [of 1] show ?thesis by simp
qed

section \<open>Emails\<close>

definition carries :: "string \<Rightarrow> string \<Rightarrow> bool" where
  "carries body token \<longleftrightarrow> (\<exists>p q. body = p @ token @ q)"

lemma carries_refl: "carries t t"
  unfolding carries_def by (rule exI [of _ "[]"], rule exI [of _ "[]"]) simp

lemma carries_right: "carries b t \<Longrightarrow> carries (a @ b) t"
  unfolding carries_def by (metis append_assoc)

lemma carries_left: "carries a t \<Longrightarrow> carries (a @ b) t"
  unfolding carries_def by (metis append_assoc)

lemma bodies_carry: "carries (verifyAccountBody t) t" "carries (sendPasswordResetBody t) t" "carries (sendShareBody t) t"
  unfolding verifyAccountBody_def sendPasswordResetBody_def sendShareBody_def Let_def
  by ((rule carries_right)?, intro carries_left carries_right carries_refl;
      (rule carries_refl | (rule carries_right)+, rule carries_refl))+

definition mail_kinds :: "string list" where
  "mail_kinds = [''signup'', ''resend-verify'', ''forgot-password'', ''share'']"

text \<open>
  When nothing fails, a message of a known kind becomes exactly one mail to its
  recipient, with the token inside for every kind that carries one, and is acknowledged; a message
  of another kind sends nothing and is dead-lettered.
\<close>

theorem EmailWorker_one_mail:
  assumes "no_faults E"
  shows "\<exists>w'. EmailWorker_handle E (Some m) w = (Inr (if em_Name m \<in> set (''reset-password'' # mail_kinds)
      then Acked else Nacked False), w') \<and>
    (if em_Name m \<in> set (''reset-password'' # mail_kinds)
     then \<exists>subject body. mails w' = mails w @ [(em_To m, subject, body)] \<and>
       (if em_Name m \<in> set mail_kinds then carries body (em_Token m) else True)
     else mails w' = mails w)"
proof -
  have send: "DialAndSend E to subj body v = (Inr (), (tick v)\<lparr>mails := mails v @ [(to, subj, body)]\<rparr>)"
    for to subj body v
    using assms by (simp add: DialAndSend_def ext_call_ok)
  consider "em_Name m = ''signup''" | "em_Name m = ''resend-verify''" | "em_Name m = ''forgot-password''"
    | "em_Name m = ''share''" | "em_Name m = ''reset-password''"
    | "em_Name m \<notin> set (''reset-password'' # mail_kinds)"
    by (auto simp: mail_kinds_def)
  then show ?thesis
    by cases (simp_all add: EmailWorker_handle_def Let_def SendVerificationToken_def SendResetPassword_def
        SendResetNotification_def SendShareNotification_def send attempt_def ret_def
        Ack_ok [OF assms] Nack_ok [OF assms] bodies_carry mail_kinds_def)
qed

section \<open>Uploads that have been processed\<close>

lemma PreProcess_key:
  "PreProcess E key w = (Inr res, w') \<Longrightarrow> \<exists>n. pp_VideoKey res = ''converted_'' @ uuid_gen E n @ ''.mp4''"
  by (auto simp: PreProcess_def Let_def inr_simps with_uuid_drawn_def draw_uuid_def split: if_splits)

lemma ProcessAndSave_Inr:
  assumes "ProcessAndSave E key w = (Inr x, w')"
  shows "\<exists>i n r. uuid_Parse E (seperateUserId key) = Some i \<and>
    List.find (\<lambda>r. l_UserID r = i) (last_uploads (db w')) = Some r \<and>
    l_FileKey r = ''converted_'' @ uuid_gen E n @ ''.mp4''"
proof -
  from assms obtain res w1 i sz t where p: "PreProcess E key w = (Inr res, w1)"
    and i: "uuid_Parse E (seperateUserId key) = Some i"
    and c: "last_Create E (last_upload_of i (pp_VideoKey res) [] (pp_ContentType res) sz
      (Some (pp_ThumbnailKey res)) t) w1 = (Inr x, w')"
    by (auto simp: ProcessAndSave_def inr_simps at_now_def split: if_splits option.splits)
  show ?thesis using PreProcess_key [OF p] i last_Create_Inr [OF c] by (auto simp: last_upload_of_def)
qed

lemma cache_view_tick [simp]: "cache_view t (tick w) = cache_view t w"
  by (rule ext) (simp add: cache_view_def)


section \<open>A probe without streams\<close>

text \<open>
  A video for which ffprobe names no stream panics the worker that processes it,
  after the size and score checks have let it through: the delivery is neither acknowledged nor
  rejected, so the broker hands it out again.
\<close>

theorem no_stream_panics:
  assumes "tools_work E" "\<And>n args. probe_cmd E n args = Inr fo" "fo_Stream fo = []"
    and "50 \<le> ff_ProbeScore (fo_Format fo)"
    and "ParseInt 32 (ff_Size (fo_Format fo)) = Some sz" "sz \<le> 500 * 1024 * 1024"
    and "\<not> nt_Err nt" "nt_Keys nt = k # ks" "QueryUnescape k = Some key" "key \<noteq> []"
  shows "\<exists>s. fst (ProcessingWorker_handle E (Some nt) w) = Inl (Panic s)"
proof -
  have nf: "no_faults E" using assms(1) by (simp add: tools_work_def)
  have get: "DownloadLocalRawVideo E key' p v = (Inr (), tick v)" for key' p v
    using assms(1) by (simp add: tools_work_def DownloadLocalRawVideo_def FGetObject_def ext_call_ok)
  have "IsValid fo = Inl (Panic ''index out of range [0] with length 0'')"
    using assms(3-6) by (simp add: IsValid_def)
  then have pp: "\<exists>s v'. PreProcess E key v = (Inl (Panic s), v')" for v
    by (simp add: PreProcess_def Let_def call_def get ProbeExtractor_Run_def ext_call_ok [OF nf] assms(2)
        ret_def pure_call_def)
  have ps: "\<exists>s v'. ProcessAndSave E key v = (Inl (Panic s), v')" for v
    using pp [of v] assms(10) by (auto simp: ProcessAndSave_def call_def)
  show ?thesis
    using assms(7-9) ps [of "stored (uploading_key key) ''processing'' (5 * minute) (tick w)"]
    by (auto simp: ProcessingWorker_handle_def attempt_def UpdateUploadingStatus_def redis_Set_ok [OF nf])
qed

section \<open>A run in which nothing fails\<close>

lemma PreProcess_ok:
  assumes "tools_work E" "\<And>n args. probe_cmd E n args = Inr fo" "IsValid fo = Inr True"
  shows "\<exists>res w'. PreProcess E key w = (Inr res, w') \<and> db w' = db w \<and> tx w' = tx w \<and>
    pp_Size res = ff_Size (fo_Format fo)"
proof -
  have "no_faults E" using assms(1) by (simp add: tools_work_def)
  moreover have "DownloadLocalRawVideo E k p v = (Inr (), tick v)" for k p v
    using assms(1) by (simp add: tools_work_def DownloadLocalRawVideo_def FGetObject_def ext_call_ok)
  ultimately show ?thesis
    using tools_work_steps [OF assms(1)] assms(2,3)
    by (simp add: PreProcess_def Let_def call_def ProbeExtractor_Run_def ext_call_ok single_Run_def
        with_uuid_drawn_def draw_uuid_def ret_def pure_call_def)
qed

lemma last_Create_ok:
  assumes "no_faults E" "tx w \<noteq> TxAborted" "user_exists (l_UserID l) (db w)" "l_DurationSec l = None"
  shows "\<exists>w'. last_Create E l w = (Inr (), w') \<and> tx w' = tx w"
proof -
  have "\<exists>d. db_exec E (upsert_last_upload l') v = (Inr (), (tick v)\<lparr>db := d\<rparr>)"
    if h: "tx v \<noteq> TxAborted" "user_exists (l_UserID l') (db v)" "l_DurationSec l' = None" for l' v
  proof -
    have "\<exists>d. upsert_last_upload l' v = Inr ((), d)"
      using h(2,3) by (simp add: upsert_last_upload_def Let_def)
    then obtain d where "upsert_last_upload l' v = Inr ((), d)" ..
    then have "db_exec E (upsert_last_upload l') v = (Inr (), (tick v)\<lparr>db := d\<rparr>)"
      by (rule db_exec_ok [OF assms(1) h(1)])
    then show ?thesis ..
  qed
  from this [of "w\<lparr>serial := serial w + 1\<rparr>" "l\<lparr>l_ID := serial w, l_DurationSec := None,
    l_DeletedAt := None, l_UpdatedAt := Some (now w)\<rparr>"]
  show ?thesis using assms(2-4)
    by (auto simp: last_Create_def next_serial_def Let_def call_def ret_def)
qed

lemma ProcessingWorker_ok:
  assumes "tools_work E" "\<And>n args. probe_cmd E n args = Inr fo" "IsValid fo = Inr True"
    and "ParseInt 64 (ff_Size (fo_Format fo)) = Some sz" "sz \<le> cnf_MaxUploadBytes E" "tx w = NoTx"
    and "\<not> nt_Err nt" "nt_Keys nt = k # ks" "QueryUnescape k = Some key" "key \<noteq> []"
    and "seperateUserId key \<noteq> []" "uuid_Parse E (seperateUserId key) = Some i" "user_exists i (db w)"
  shows "\<exists>w'. ProcessingWorker_handle E (Some nt) w = (Inr Acked, w') \<and> tx w' = NoTx"
proof -
  have nf: "no_faults E" using assms(1) by (simp add: tools_work_def)
  have st: "tx (stored k v e x) = tx x" for k v e x by (simp add: stored_def)
  define w1 where "w1 = stored (uploading_key key) ''processing'' (5 * minute) (tick w)"
  have w1: "db w1 = db w" "tx w1 = NoTx" by (simp_all add: w1_def stored_def assms(6))
  from PreProcess_ok [OF assms(1-3), of key w1] obtain res w2 where
      p: "PreProcess E key w1 = (Inr res, w2)" and w2: "db w2 = db w" "tx w2 = NoTx"
    and sz: "pp_Size res = ff_Size (fo_Format fo)" using w1 by auto
  from last_Create_ok [OF nf, of w2 "last_upload_of i (pp_VideoKey res) [] (pp_ContentType res) sz
      (Some (pp_ThumbnailKey res)) (now w2)"] obtain w3 where
      c: "last_Create E (last_upload_of i (pp_VideoKey res) [] (pp_ContentType res) sz
      (Some (pp_ThumbnailKey res)) (now w2)) w2 = (Inr (), w3)" and w3: "tx w3 = NoTx"
    using w2 assms(13) by (auto simp: last_upload_of_def)
  have "ProcessAndSave E key w1 = (Inr (), w3)"
    using assms(4,5,10-12) by (simp add: ProcessAndSave_def call_def p sz at_now_def c ret_def)
  then show ?thesis
    using assms(7-9) w3 by (simp add: ProcessingWorker_handle_def attempt_def UpdateUploadingStatus_def
        redis_Set_ok [OF nf] Ack_ok [OF nf] ignore_err_def ret_def st flip: w1_def)
qed

section \<open>The properties at concrete deliveries\<close>


definition absent_env :: env where
  "absent_env = sample_env\<lparr>minio_Stat := (\<lambda>_ _ _. Inl (Driver ''not found''))\<rparr>"

definition sample_save :: save_video_message where
  "sample_save = \<lparr>sm_Key = ''k'', sm_UserID = ''u'', sm_Filename = ''cat'', sm_Retries = 0\<rparr>"

lemma save_retry_doubles_witness:
  "fst (save_rounds absent_env 3 [sample_save] (world_of 0 sample_gif_db)) = replicate 8 sample_save"
  using save_retry_doubles [of absent_env sample_save "''u''" "''not found''" 3 "world_of 0 sample_gif_db"]
  by (simp add: absent_env_def sample_env_def sample_save_def no_faults_def)

lemma EmailWorker_one_mail_witness:
  "\<exists>w'. EmailWorker_handle sample_env (Some \<lparr>em_To = ''ann@x'', em_Name = ''other'', em_Token = ''t''\<rparr>)
     (world_of 0 empty_db) = (Inr (Nacked False), w') \<and> mails w' = mails (world_of 0 empty_db)"
  using EmailWorker_one_mail [OF sample_no_faults, of "\<lparr>em_To = ''ann@x'', em_Name = ''other'', em_Token = ''t''\<rparr>"
      "world_of 0 empty_db"]
  by (simp add: mail_kinds_def)

definition sample_note :: notification where
  "sample_note = \<lparr>nt_Err = False, nt_Keys = [''u:x'']\<rparr>"


definition no_stream_env :: env where
  "no_stream_env = sample_env\<lparr>probe_cmd := (\<lambda>_ _. Inr \<lparr>fo_Format = \<lparr>ff_Filename = [], ff_FormatName = [],
     ff_Duration = ''1'', ff_Size = ''1000'', ff_ProbeScore = 100\<rparr>, fo_Stream = []\<rparr>)\<rparr>"

lemma no_stream_panics_witness:
  "\<exists>s. fst (ProcessingWorker_handle no_stream_env (Some sample_note) (world_of 0 sample_gif_db)) = Inl (Panic s)"
proof -
  have "tools_work no_stream_env"
    by (simp add: tools_work_def no_stream_env_def sample_env_def no_faults_def)
  moreover have "ParseInt 32 ''1000'' = Some 1000" "QueryUnescape ''u:x'' = Some ''u:x''" by code_simp+
  ultimately show ?thesis
    using no_stream_panics [of no_stream_env "\<lparr>fo_Format = \<lparr>ff_Filename = [], ff_FormatName = [],
      ff_Duration = ''1'', ff_Size = ''1000'', ff_ProbeScore = 100\<rparr>, fo_Stream = []\<rparr>" 1000 sample_note
      "''u:x''" "[]" "''u:x''" "world_of 0 sample_gif_db"]
    by (simp add: no_stream_env_def sample_note_def)
qed

end
