(* ===== verification/System.thy ===== *)
theory System
  imports Handler_Frames Worker_Laws
begin

text \<open>
  The program as a whole: a step is one request to the server, one call of a service, one delivery
  to a worker, or the passing of time. Whatever fails in a step, and in whatever order steps come,
  the tables keep the invariant that \<open>Invariant\<close> states, and the blocklist keeps what was put on it.
\<close>

section \<open>Steps\<close>

inductive step :: "env \<Rightarrow> world \<Rightarrow> world \<Rightarrow> bool" for E where
  Time: "now w \<le> t \<Longrightarrow> step E w (w\<lparr>now := t\<rparr>)"
| Request: "step E w (snd (serve E rq r w))"
| Signup: "step E w (snd (Signup E email name full pass w))"
| Login: "step E w (snd (Login E email pass w))"
| Logout: "jwt_Verify E tok w = Inr claims \<Longrightarrow> step E w (snd (Logout E tok claims w))"
| ForgotPassword: "step E w (snd (ForgotPassword E email w))"
| ResendVerify: "step E w (snd (ResendVerify E email w))"
| ResetPasswordGet: "step E w (snd (ResetPasswordGet E tok w))"
| ResetPasswordPost: "step E w (snd (ResetPasswordPost E tok pass confirm w))"
| Verify: "step E w (snd (Verify E tok w))"
| ChangePassword: "step E w (snd (ChangePassword E u cur new confirm w))"
| DeleteUser: "step E w (snd (DeleteUser E u pass w))"
| GetProfile: "step E w (snd (GetProfile E u w))"
| GetQuota: "step E w (snd (GetQuota E u w))"
| UpdateProfile: "step E w (snd (UpdateProfile E prof u seen w))"
| SendRequest: "step E w (snd (SendRequest E u v w))"
| Accept: "step E w (snd (Accept E i u w))"
| Reject: "step E w (snd (Reject E i u w))"
| Remove: "step E w (snd (Remove E i u w))"
| ListFriends: "step E w (snd (ListFriends E u w))"
| ListPendingIncoming: "step E w (snd (ListPendingIncoming E u w))"
| Share: "step E w (snd (share_Create E u key email t w))"
| ShareByToken: "step E w (snd (share_CreateByToken E u key email t w))"
| ShareDelete: "step E w (snd (share_Delete E u key v w))"
| ShareGet: "step E w (snd (share_Get E u w))"
| ShareGetByToken: "step E w (snd (share_GetByToken E tok w))"
| DownloadByToken: "step E w (snd (DownloadByToken E tok w))"
| Upload: "step E w (snd (Upload E filename u w))"
| Status: "step E w (snd (Status E u key w))"
| LastVideo: "step E w (snd (LastVideo E u w))"
| Stream: "step E w (snd (Stream E u key w))"
| Convert: "step E w (snd (Convert E u key start stop fps width lp w))"
| ConversionStatus: "step E w (snd (ConversionStatus E u i w))"
| GifDelete: "step E w (snd (gif_service_Delete E u key w))"
| Download: "step E w (snd (Download E u key w))"
| GetGifs: "step E w (snd (GetGifs E u flt pg lm w))"
| GetByKey: "step E w (snd (GetByKey E u key w))"
| GetGifThumbnail: "step E w (snd (GetGifThumbnail E u key w))"
| GetRecents: "step E w (snd (GetRecents E u w))"
| Save: "step E w (snd (Save E u key w))"
| Update: "step E w (snd (Update E u key req seen w))"
| VideoWorker: "step E w (snd (VideoWorker_handle E vb w))"
| EmailWorker: "step E w (snd (EmailWorker_handle E eb w))"
| ProcessingWorker: "step E w (snd (ProcessingWorker_handle E nb w))"
| SaveVideoWorker: "step E w (snd (SaveVideoWorker_handle E sb w))"

inductive reachable :: "env \<Rightarrow> world \<Rightarrow> world \<Rightarrow> bool" for E w0 where
  start: "reachable E w0 w0"
| step: "reachable E w0 w \<Longrightarrow> step E w w' \<Longrightarrow> reachable E w0 w'"

lemmas inv_services = keeps_auth_services keeps_user_services keeps_friend_services keeps_SendRequest
  keeps_share_services keeps_upload_services keeps_Upload keeps_conversion_services keeps_gif_services
  keeps_workers keeps_EmailWorker

lemma counters_free_db: "counters_free (\<lambda>w. Q (db w))"
  by (simp add: counters_free_def tick_def)

interpretation inv: kept_by_services E "\<lambda>w. service_inv (db w)" for E
  by (unfold_locales; (rule inv_services counters_free_db)+)

lemma step_inv: "step E w w' \<Longrightarrow> service_inv (db w) \<Longrightarrow> service_inv (db w')"
  by (induction rule: step.induct) (simp, (rule keepsD, (rule inv.serve_keeps | rule inv_services), assumption)+)


section \<open>The blocklist\<close>

abbreviation cache_kept :: "(timestamp \<Rightarrow> (string \<Rightarrow> (string \<times> timestamp option) option) \<Rightarrow> bool) \<Rightarrow> 'a io \<Rightarrow> bool" where
  "cache_kept Q m \<equiv> keeps (\<lambda>w. Q (fst (outside w)) (fst (snd (outside w)))) m"

text \<open>An entry of the blocklist: the token, and the time the entry lasts until.\<close>

definition blocked :: "string \<Rightarrow> timestamp \<Rightarrow> timestamp \<Rightarrow> (string \<Rightarrow> (string \<times> timestamp option) option) \<Rightarrow> bool" where
  "blocked tok e t c \<longleftrightarrow> c (blocklist_key tok) = Some (''1'', Some e)"

lemma blocked_world: "blocked tok e (fst (outside w)) (fst (snd (outside w))) \<longleftrightarrow>
    cache_keys w (blocklist_key tok) = Some (''1'', Some e)"
  by (simp add: blocked_def outside_def)

lemma blocked_Set [keeps_intros]:
  assumes "key \<noteq> blocklist_key tok"
  shows "cache_kept (blocked tok e) (redis_Set E key val n)"
  using assms by (intro redis_Set_keeps) (simp_all add: blocked_def outside_def)

lemma cache_kept_auth:
  "cache_kept Q (Signup E email name full pass)" "cache_kept Q (Login E email pass)"
  "cache_kept Q (ForgotPassword E email)" "cache_kept Q (ResendVerify E email)"
  "cache_kept Q (ResetPasswordGet E tok)" "cache_kept Q (ResetPasswordPost E tok pass confirm)"
  "cache_kept Q (Verify E tok)"
  unfolding Signup_def signup_tx_def Login_def ForgotPassword_def ResendVerify_def ResetPasswordGet_def
    ResetPasswordPost_def Verify_def
  by (intro keeps_intros)+

lemma cache_kept_user:
  "cache_kept Q (ChangePassword E u cur new confirm)" "cache_kept Q (DeleteUser E u pass)"
  "cache_kept Q (GetProfile E u)" "cache_kept Q (GetQuota E u)" "cache_kept Q (UpdateProfile E prof u seen)"
  "cache_kept Q (SendRequest E u v)" "cache_kept Q (Accept E i u)" "cache_kept Q (Reject E i u)"
  "cache_kept Q (Remove E i u)" "cache_kept Q (ListFriends E u)" "cache_kept Q (ListPendingIncoming E u)"
  unfolding ChangePassword_def DeleteUser_def GetProfile_def GetQuota_def UpdateProfile_def SendRequest_def
    Accept_def Reject_def Remove_def ListFriends_def ListPendingIncoming_def Let_def
  by (intro keeps_intros)+

lemma cache_kept_share:
  "cache_kept Q (share_Create E u key email t)" "cache_kept Q (share_CreateByToken E u key email t)"
  "cache_kept Q (share_Delete E u key v)" "cache_kept Q (share_Get E u)"
  "cache_kept Q (share_GetByToken E tok)" "cache_kept Q (DownloadByToken E tok)"
  unfolding share_Create_def share_CreateByToken_def share_Delete_def share_Get_def share_GetByToken_def
    DownloadByToken_def gif_owner_def Let_def
  by (intro keeps_intros)+

lemma cache_kept_gifs:
  "cache_kept Q (gif_service_Delete E u key)" "cache_kept Q (Download E u key)"
  "cache_kept Q (GetGifs E u flt pg lm)" "cache_kept Q (GetByKey E u key)"
  "cache_kept Q (GetGifThumbnail E u key)" "cache_kept Q (GetRecents E u)" "cache_kept Q (Save E u key)"
  "cache_kept Q (Update E u key req seen)" "cache_kept Q (LastVideo E u)" "cache_kept Q (Stream E u key)"
  "cache_kept Q (Status E u key)" "cache_kept Q (ConversionStatus E u i)" "cache_kept Q (SaveMetadata E msg)"
  unfolding gif_service_Delete_def Download_def GetGifs_def GetByKey_def GetGifThumbnail_def GetRecents_def
    Save_def Update_def fetch_gif_def gif_owner_def LastVideo_def Stream_def Status_def ConversionStatus_def
    job_row_status_def SaveMetadata_def Let_def
  by (intro keeps_intros)+

text \<open>The services that store under keys of their own.\<close>

lemma service_keys [simp]:
  "uploading_key key \<noteq> blocklist_key tok" "job_owner_key i \<noteq> blocklist_key tok"
  "job_status_key i \<noteq> blocklist_key tok" "job_gif_key i \<noteq> blocklist_key tok"
  "blocklist_key tok' = blocklist_key tok \<longleftrightarrow> tok' = tok"
  by (simp_all add: uploading_key_def job_owner_key_def job_status_key_def job_gif_key_def blocklist_key_def)

lemma blocked_settle [keeps_intros]: "cache_kept Q (Nack E rq)"
  "cache_kept Q k \<Longrightarrow> cache_kept Q (Ack_then E k)"
  unfolding Nack_def Ack_then_def by (intro keeps_intros outside_ext_call; simp add: ret_def)+

lemma blocked_media [keeps_intros]:
  "cache_kept (blocked tok e) (Upload E filename u)"
  "cache_kept (blocked tok e) (Convert E u key start stop fps width lp)"
  "cache_kept (blocked tok e) (UpdateUploadingStatus E key st)"
  "cache_kept (blocked tok e) (ProcessAndSave E key)" "cache_kept (blocked tok e) (Process E msg)"
  unfolding Upload_def Convert_def UpdateUploadingStatus_def ProcessAndSave_def Process_def fail_marking_def Let_def
  by (intro keeps_intros service_keys)+

lemma blocked_workers:
  "cache_kept (blocked tok e) (VideoWorker_handle E vb)" "cache_kept (blocked tok e) (ProcessingWorker_handle E nb)"
  "cache_kept (blocked tok e) (SaveVideoWorker_handle E sb)" "cache_kept (blocked tok e) (EmailWorker_handle E eb)"
  unfolding VideoWorker_handle_def ProcessingWorker_handle_def SaveVideoWorker_handle_def EmailWorker_handle_def Let_def
  by (auto split: option.split intro!: keeps_intros cache_kept_gifs)

lemma Logout_keeps_blocked:
  assumes "tok' = tok \<Longrightarrow> c_ExpiresAt claims = Some e"
  shows "cache_kept (blocked tok e) (Logout E tok' claims)"
proof (rule keepsI)
  fix w assume b: "blocked tok e (fst (outside w)) (fst (snd (outside w)))"
  have s: "blocked tok e (fst (outside (snd (redis_Set E (blocklist_key tok') ''1'' (x - now w) w))))
     (fst (snd (outside (snd (redis_Set E (blocklist_key tok') ''1'' (x - now w) w)))))"
    if "0 < x - now w" "tok' = tok \<Longrightarrow> x = e" for x
    using redis_Set_snd [of E "blocklist_key tok'" "''1''" "x - now w" w] b that
    by (auto simp: blocked_world stored_def)
  show "blocked tok e (fst (outside (snd (Logout E tok' claims w)))) (fst (snd (outside (snd (Logout E tok' claims w)))))"
  proof (cases "c_ExpiresAt claims")
    case None
    then show ?thesis using b by (simp add: Logout_def fail_def)
  next
    case (Some x)
    then show ?thesis using b s [of x] assms
      by (auto simp: Logout_def at_now_def call_def ret_def fail_def split: prod.splits sum.splits)
  qed
qed

lemmas blocked_kept = cache_kept_auth cache_kept_user cache_kept_share cache_kept_gifs blocked_media blocked_workers

lemma blocked_services:
  assumes "\<And>t c. jwt_ParseWithClaims E t tok (jwt_keyfunc E) = Inr c \<Longrightarrow> c_ExpiresAt c = Some e"
  shows "kept_by_services E (\<lambda>w. blocked tok e (fst (outside w)) (fst (snd (outside w))))"
  by (unfold_locales; (rule blocked_kept Logout_keeps_blocked)?)
    (auto simp: counters_free_def dest: assms)

lemma step_blocked:
  assumes "step E w w'" "\<And>t c. jwt_ParseWithClaims E t tok (jwt_keyfunc E) = Inr c \<Longrightarrow> c_ExpiresAt c = Some e"
    and "blocked tok e (fst (outside w)) (fst (snd (outside w)))"
  shows "blocked tok e (fst (outside w')) (fst (snd (outside w')))"
  using assms(1,3)
proof (induction rule: step.induct)
  case (Time w t)
  then show ?case by (simp add: blocked_world)
next
  case (Logout tok' w claims)
  have "tok' = tok \<Longrightarrow> c_ExpiresAt claims = Some e"
    using Logout.hyps assms(2) by (simp add: jwt_Verify_def)
  then show ?case using keepsD [OF Logout_keeps_blocked] Logout.prems by blast
next
  case (Request w rq r)
  from keepsD [OF kept_by_services.serve_keeps [OF blocked_services [OF assms(2)]] Request.prems]
  show ?case .
qed (rule keepsD, rule blocked_kept, assumption)+

lemma reachable_blocked:
  assumes "reachable E w0 w" "\<And>t c. jwt_ParseWithClaims E t tok (jwt_keyfunc E) = Inr c \<Longrightarrow> c_ExpiresAt c = Some e"
    and "blocked tok e (fst (outside w0)) (fst (snd (outside w0)))"
  shows "blocked tok e (fst (outside w)) (fst (snd (outside w)))"
  using assms(1,3)
proof (induction rule: reachable.induct)
  case (step w w')
  show ?case by (rule step_blocked [OF step.hyps(2) assms(2) step.IH [OF step.prems]])
qed

text \<open>
  Property C3. Once a logout has reported success, no request with the token gets through again:
  in every state the services, the workers and the clock can reach from there, the middleware
  answers 401.
\<close>

theorem revoked_everywhere:
  assumes "jwt_Verify E tok w = Inr claims" "c_ExpiresAt claims = Some e" "Logout E tok claims w = (Inr (), w1)"
    and "jwt_expiry_checked E" "jwt_claims_stable E" "reachable E w1 w2"
    and "fresh r" "rq_Header rq ''Authorization'' = ''Bearer '' @ tok" "Auth E nxt rq r w2 = (Inr resp, w3)"
  shows "rs_Status resp = Some 401"
proof -
  have c: "c_ExpiresAt c = Some e" if "jwt_ParseWithClaims E t tok (jwt_keyfunc E) = Inr c" for t c
    using that assms(1,2,5) unfolding jwt_claims_stable_def jwt_Verify_def by metis
  have "now w < e"
    using assms(1,2,4) unfolding jwt_expiry_checked_def jwt_Verify_def by blast
  then have "w1 = stored (blocklist_key tok) ''1'' (e - now w) (tick w)"
    using assms(2,3) by (auto simp: Logout_def at_now_def inr_simps dest!: redis_Set_Inr split: if_splits)
  then have "blocked tok e (fst (outside w1)) (fst (snd (outside w1)))"
    using \<open>now w < e\<close> by (simp add: blocked_world stored_def)
  then have b: "cache_keys w2 (blocklist_key tok) = Some (''1'', Some e)"
    using reachable_blocked [OF assms(6) c] by (simp add: blocked_world)
  have "\<not> authenticated E rq w2 tok' c'" for tok' c'
  proof
    assume a: "authenticated E rq w2 tok' c'"
    then have "tok' = tok" using assms(8) by (simp add: authenticated_def)
    then have j: "jwt_ParseWithClaims E (now w2) tok (jwt_keyfunc E) = Inr c'"
      using a by (simp add: authenticated_def jwt_Verify_def)
    have "now w2 < e" using assms(4) j c [OF j] unfolding jwt_expiry_checked_def by blast
    then show False using a b \<open>tok' = tok\<close> by (simp add: authenticated_def cache_view_def)
  qed
  with Auth_cases [OF assms(7,9)] show ?thesis by blast
qed

section \<open>The properties at a concrete run\<close>

text \<open>A signup, a day's wait and a friend request, from empty tables.\<close>

definition sample_run :: world where
  "sample_run = snd (SendRequest sample_env ''u1'' ''u2''
     ((snd (Signup sample_env ''a@x'' ''a'' ''A'' ''pw'' (world_of 0 empty_db)))\<lparr>now := 86400000\<rparr>))"

lemma Signup_now: "now (snd (Signup E email name full pass w)) = now w"
  using keepsD [OF cache_kept_auth(1) [of "\<lambda>t c. t = now w"], of w] by (simp add: outside_def)

lemma sample_run_reachable: "reachable sample_env (world_of 0 empty_db) sample_run"
proof -
  let ?w = "world_of 0 empty_db"
  have "reachable sample_env ?w (snd (Signup sample_env ''a@x'' ''a'' ''A'' ''pw'' ?w))"
    by (rule reachable.step [OF reachable.start step.Signup])
  then have "reachable sample_env ?w ((snd (Signup sample_env ''a@x'' ''a'' ''A'' ''pw'' ?w))\<lparr>now := 86400000\<rparr>)"
    by (rule reachable.step) (rule step.Time, simp add: Signup_now world_of_def)
  then show ?thesis unfolding sample_run_def by (rule reachable.step) (rule step.SendRequest)
qed


lemma revoked_everywhere_witness:
  "\<exists>resp w3. Auth sample_env hello (sample_request ''GET'' bearer_t) no_response
     (snd (SendRequest sample_env ''u1'' ''u2'' (snd (Logout sample_env ''t'' sample_claims (world_of 0 empty_db))))) =
     (Inr resp, w3) \<and> rs_Status resp = Some 401"
proof -
  let ?w1 = "snd (Logout sample_env ''t'' sample_claims (world_of 0 empty_db))"
  let ?w2 = "snd (SendRequest sample_env ''u1'' ''u2'' ?w1)"
  have l: "Logout sample_env ''t'' sample_claims (world_of 0 empty_db) = (Inr (), ?w1)"
    by (rule run_pair) code_simp
  have r: "reachable sample_env ?w1 ?w2"
    by (rule reachable.step [OF reachable.start step.SendRequest])
  have j: "jwt_Verify sample_env ''t'' (world_of 0 empty_db) = Inr sample_claims"
    by (simp add: jwt_Verify_def sample_env_def)
  have p: "jwt_expiry_checked sample_env" "jwt_claims_stable sample_env"
    by (simp_all add: jwt_expiry_checked_def jwt_claims_stable_def sample_env_def sample_claims_def)
  have "fst (Auth sample_env hello (sample_request ''GET'' bearer_t) no_response ?w2) \<noteq> Inl e" for e
    by (auto simp: Auth_def attempt_def pure_call_def jwt_Verify_def sample_env_def ret_def hello_def
        sample_request_def bearer_t_def redis_Get_def ext_call_def Let_def
        split: prod.split sum.split if_splits option.splits)
  then obtain resp w3 where a: "Auth sample_env hello (sample_request ''GET'' bearer_t) no_response ?w2 = (Inr resp, w3)"
    by (metis sum.exhaust prod.collapse)
  have "rs_Status resp = Some 401"
    by (rule revoked_everywhere [OF j _ l p r no_response_fresh _ a])
      (simp_all add: sample_claims_def sample_request_def bearer_t_def)
  then show ?thesis using a by blast
qed

end
