(* ===== verification/Error_Laws.thy ===== *)
theory Error_Laws
  imports Handlers_Auth
begin

text \<open>
  Which errors an operation can end with. A calculus for "this error never comes out of that
  operation", and what it gives for a sign-up: where the error that is no error of the request
  comes from, and that the validator's limits are within the columns' widths.
\<close>

section \<open>Errors that do not occur\<close>

definition avoids :: "goerr \<Rightarrow> 'a io \<Rightarrow> bool" where
  "avoids t m \<longleftrightarrow> (\<forall>w e w'. m w = (Inl e, w') \<longrightarrow> \<not> errors_Is e t)"

text \<open>An error that no lost connection, aborted transaction or queue stands for.\<close>

definition not_lost :: "env \<Rightarrow> goerr \<Rightarrow> bool" where
  "not_lost E t \<longleftrightarrow> ((\<forall>s. t \<noteq> Driver s) \<or> no_faults E) \<and>
     t \<notin> {Driver ''25P02 in_failed_sql_transaction'', Driver ''commit of a failed transaction''}"

named_theorems avoids_intros \<open>errors that do not come out of operations\<close>

lemma avoidsD: "avoids t m \<Longrightarrow> m w = (Inl e, w') \<Longrightarrow> \<not> errors_Is e t"
  unfolding avoids_def by blast

lemma avoids_fail [avoids_intros]: "\<not> errors_Is e t \<Longrightarrow> avoids t (fail e)"
  by (simp add: avoids_def fail_def)

lemma avoids_ret [avoids_intros]: "avoids t (ret x)"
  by (simp add: avoids_def ret_def)

lemma avoids_call [avoids_intros]:
  "avoids t m \<Longrightarrow> (\<And>e. \<not> errors_Is e t \<Longrightarrow> avoids t (h e)) \<Longrightarrow>
     (\<And>x. \<exists>w w'. m w = (Inr x, w') \<Longrightarrow> avoids t (k x)) \<Longrightarrow> avoids t (call m h k)"
  unfolding avoids_def call_def by (fastforce split: prod.splits sum.splits if_splits)

lemma avoids_attempt [avoids_intros]:
  "avoids t m \<Longrightarrow> (\<And>r. avoids t (k r)) \<Longrightarrow> avoids t (attempt m k)"
  unfolding avoids_def attempt_def by (fastforce split: prod.splits sum.splits if_splits)

lemma avoids_case [avoids_intros]:
  "(\<And>e. avoids t (f e)) \<Longrightarrow> (\<And>v. avoids t (g v)) \<Longrightarrow> avoids t (case r of Inl e \<Rightarrow> f e | Inr v \<Rightarrow> g v)"
  by (cases r) auto

lemma avoids_with_token [avoids_intros]:
  "(\<And>tok. avoids t (k tok (GetTokenHash E tok))) \<Longrightarrow> avoids t (with_token E k)"
  by (simp add: avoids_def with_token_def GenerateToken_def draw_uuid_def)

lemma avoids_db_exec:
  assumes "not_lost E t" "\<And>w e. stmt w = Inl e \<Longrightarrow> \<not> errors_Is e t"
  shows "avoids t (db_exec E stmt)"
  unfolding avoids_def db_exec_def
  using assms by (auto simp: not_lost_def no_faults_def split: fault.splits sum.splits if_splits)

lemma avoids_statement:
  assumes "not_lost E t" "\<And>w. \<exists>w1 stmt. m w = db_exec E stmt w1 \<and>
    (\<forall>w e. stmt w = Inl e \<longrightarrow> \<not> errors_Is e t)"
  shows "avoids t m"
  using assms avoids_db_exec unfolding avoids_def by metis

lemma avoids_tx: "not_lost E t \<Longrightarrow> avoids t m \<Longrightarrow> avoids t (tx_With E m)"
  unfolding avoids_def tx_With_def tx_run_def not_lost_def no_faults_def
  by (fastforce split: fault.splits prod.splits sum.splits if_splits)

section \<open>Signing up\<close>

text \<open>The errors of the statements of a sign-up but for a value that is too long.\<close>

definition sql_errors :: "goerr set" where
  "sql_errors = {SqlNoRows, Driver ''23505'', Driver ''23503'', Driver ''bcrypt''}"

lemma users_row_ok_times [simp]:
  "users_row_ok (u\<lparr>u_Id := i, u_CreatedAt := c, u_UpdatedAt := d\<rparr>) = users_row_ok u"
  by (simp add: users_row_ok_def)

lemma avoids_signup_repos [avoids_intros]:
  assumes "not_lost E t" "t \<notin> sql_errors"
  shows "avoids t (GetByEmail E email)"
    and "(t = Driver ''22001'' \<Longrightarrow> users_row_ok u) \<Longrightarrow> avoids t (auth_Create E u)"
    and "(t = Driver ''22001'' \<Longrightarrow> varchar 70 h) \<Longrightarrow> avoids t (verifier_Create E i h)"
    and "avoids t (SetProfile E i p)" "avoids t (quota_Create E i)" "avoids t (GenerateHash E pass)"
proof -
  show "avoids t (GetByEmail E email)"
    by (rule avoids_statement [OF assms(1)], unfold GetByEmail_def, intro exI conjI, rule refl)
      (use assms(2) in \<open>auto simp: get_row_def sql_errors_def split: option.splits\<close>)
  show "avoids t (auth_Create E u)" if "t = Driver ''22001'' \<Longrightarrow> users_row_ok u"
    by (rule avoids_statement [OF assms(1)], unfold auth_Create_def draw_uuid_def Let_def prod.case,
        intro exI conjI, rule refl)
      (use assms(2) that in \<open>auto simp: insert_user_def sql_errors_def split: if_splits\<close>)
  show "avoids t (verifier_Create E i h)" if "t = Driver ''22001'' \<Longrightarrow> varchar 70 h"
    by (rule avoids_statement [OF assms(1)], unfold verifier_Create_def next_serial_def Let_def prod.case,
        intro exI conjI, rule refl)
      (use assms(2) that in \<open>auto simp: insert_verifier_def sql_errors_def split: if_splits\<close>)
  show "avoids t (SetProfile E i p)"
    by (rule avoids_statement [OF assms(1)], unfold SetProfile_def next_serial_def Let_def prod.case,
        intro exI conjI, rule refl)
      (use assms(2) in \<open>auto simp: insert_profile_def sql_errors_def split: if_splits\<close>)
  show "avoids t (quota_Create E i)"
    by (rule avoids_statement [OF assms(1)], unfold quota_Create_def next_serial_def Let_def prod.case,
        intro exI conjI, rule refl)
      (use assms(2) in \<open>auto simp: insert_quota_def sql_errors_def split: if_splits\<close>)
  show "avoids t (GenerateHash E pass)"
    using assms(2) by (auto simp: avoids_def GenerateHash_def Let_def sql_errors_def split: option.splits)
qed

lemma GenerateHash_some:
  "GenerateHash E pass w = (Inr h, w') \<Longrightarrow>
     \<exists>n. bcrypt_Generate E n (pass @ cnf_Pepper E) (cnf_Cost E) = Some h"
  by (auto simp: GenerateHash_def Let_def split: option.splits)

lemma avoids_signup_tx:
  assumes "not_lost E t" "t \<notin> sql_errors" "\<And>p es. t \<noteq> Wrapf p es"
    and "t \<notin> {AppE ErrHashGenFailed, AuthE ErrUserExists, AuthE ErrUserCreateFailed,
      VerifierE ErrVerifierTokenCreateFailed, VerifierE ErrSetProfileFailed, VerifierE ErrQuotaCreateFailed}"
    and "\<And>n h. t = Driver ''22001'' \<Longrightarrow>
      bcrypt_Generate E n (pass @ cnf_Pepper E) (cnf_Cost E) = Some h \<Longrightarrow> users_row_ok (new_user email name full h)"
  shows "avoids t (signup_tx E email name full pass)"
  unfolding signup_tx_def
proof (intro avoids_intros assms(1,2))
  show "users_row_ok (new_user email name full h)"
    if "\<exists>w w'. GenerateHash E pass w = (Inr h, w')" "t = Driver ''22001''" for h
    using that GenerateHash_some assms(5) by blast
qed (use assms(3,4) in \<open>auto simp: errors_Is_Wrapf varchar_short\<close>)

text \<open>What the documentation of bcrypt says of a hash: it has 60 bytes.\<close>

definition bcrypt_length :: "env \<Rightarrow> bool" where
  "bcrypt_length E \<longleftrightarrow> (\<forall>n p c h. bcrypt_Generate E n p c = Some h \<longrightarrow> length h = 60)"

lemma avoids_publish: "no_faults E \<Longrightarrow> avoids t (PublishEmail E m)"
  by (simp add: avoids_def PublishEmail_def rabbit_publish_def ext_call_ok call_def ret_def)

text \<open>
  Property C34. The limits in the struct tags are within the widths of the columns: a sign-up
  whose fields the validator accepts never fails because a value is too long for its column
  (22001), whatever its bytes, as both count characters.
\<close>

theorem valid_signup_fits:
  assumes "validator_sound E" "bcrypt_length E" "no_faults E" "validate_Struct E (signup_rules q)"
    and "Signup E (su_Email q) (su_Username q) (su_Fullname q) (su_Password q) w = (Inl e, w')"
  shows "\<not> errors_Is e (Driver ''22001'')"
proof -
  let ?t = "Driver ''22001''"
  have nl: "not_lost E ?t" using assms(3) by (simp add: not_lost_def)
  have len: "rune_count (su_Username q) \<le> 20" "rune_count (su_Fullname q) \<le> 100" "rune_count (su_Email q) \<le> 50"
    using assms(1,4) by (auto simp: validator_sound_def rules_hold_def signup_rules_def)
  have ok: "users_row_ok (new_user (su_Email q) (su_Username q) (su_Fullname q) h)"
    if "bcrypt_Generate E n (su_Password q @ cnf_Pepper E) (cnf_Cost E) = Some h" for n h
  proof -
    have "length h = 60" using assms(2) that unfolding bcrypt_length_def by blast
    then show ?thesis using len by (simp add: users_row_ok_def new_user_def varchar_short) (simp add: varchar_def)
  qed
  have tx: "avoids ?t (tx_With E (signup_tx E (su_Email q) (su_Username q) (su_Fullname q) (su_Password q)))"
    by (rule avoids_tx [OF nl], rule avoids_signup_tx [OF nl]) (simp_all add: sql_errors_def ok)
  have "avoids ?t (Signup E (su_Email q) (su_Username q) (su_Fullname q) (su_Password q))"
    unfolding Signup_def
    by (intro avoids_intros tx avoids_publish assms(3)) (auto simp: publish_failed_def errors_Is_Wrapf)
  then show ?thesis using assms(5) by (rule avoidsD)
qed

text \<open>A sign-up for an address that is taken, with a bcrypt that yields 60 bytes.\<close>

definition long_hash_env :: env where
  "long_hash_env = sample_env\<lparr>bcrypt_Generate := (\<lambda>_ _ _. Some (replicate 60 (CHR ''h'')))\<rparr>"

definition taken_signup :: req_signup where
  "taken_signup = \<lparr>su_Username = ''anna'', su_Fullname = ''Anna'', su_Email = ''ann@x'', su_Password = ''pa$sw'',
     su_ConfirmPassword = ''pa$sw''\<rparr>"

lemma valid_signup_fits_witness:
  "\<exists>e w'. Signup long_hash_env (su_Email taken_signup) (su_Username taken_signup) (su_Fullname taken_signup)
     (su_Password taken_signup) (world_of 0 sample_verified_db) = (Inl e, w') \<and> \<not> errors_Is e (Driver ''22001'')"
proof -
  let ?s = "Signup long_hash_env (su_Email taken_signup) (su_Username taken_signup) (su_Fullname taken_signup)
     (su_Password taken_signup) (world_of 0 sample_verified_db)"
  have "validator_sound long_hash_env" "bcrypt_length long_hash_env" "no_faults long_hash_env"
    by (simp_all add: validator_sound_def bcrypt_length_def long_hash_env_def sample_env_def no_faults_def)
  moreover have "validate_Struct long_hash_env (signup_rules taken_signup)" by code_simp
  moreover have "isl (fst ?s)" by code_simp
  then obtain e w' where "?s = (Inl e, w')" by (cases ?s) (auto simp: isl_def)
  ultimately show ?thesis using valid_signup_fits by blast
qed

end
