(* ===== verification/Handler_Laws.thy ===== *)
theory Handler_Laws
  imports System Error_Laws
begin

text \<open>
  What a client of the HTTP interface can rely on, and where the interface and the services behind
  it do not fit together: properties of whole handlers, from the request's body to the status and
  the tables.
\<close>

section \<open>Reasoning about a handler\<close>

lemma SendJson_status: "fresh r \<Longrightarrow> rs_Status (SendJson v c r) = Some c"
  by (simp add: SendJson_def write_body_def WriteHeader_def set_header_def fresh_def Let_def)

lemma SendJson_header:
  "fresh r \<Longrightarrow> rs_Header (SendJson v c r) = (rs_Header r)(''Content-Type'' \<mapsto> ''application/json'')"
  by (simp add: SendJson_def write_body_def WriteHeader_def set_header_def fresh_def Let_def)

lemma SendError_header:
  "fresh r \<Longrightarrow> rs_Header (SendError c m s r) = (rs_Header r)(''Content-Type'' \<mapsto> ''application/json'')"
  by (simp add: fresh_def)

named_theorems reply_simps \<open>status and headers of the replies\<close>

lemmas [reply_simps] = SendError_status SendJson_status SendError_header SendJson_header
  bad_request_def validation_failed_def internal_error_def unauthorized_def bearer_invalid_def
  precondition_failed_def gif_not_found_def gif_forbidden_def gif_cases_def

lemma refusal_status [simp]:
  assumes "fresh r"
  shows "rs_Status (bad_request msg r) = Some 400" "rs_Status (validation_failed msg r) = Some 422"
    "rs_Status (internal_error r) = Some 500" "rs_Status (unauthorized e d msg r) = Some 401"
    "rs_Status (precondition_failed msg r) = Some 412" "rs_Status (gif_not_found msg r) = Some 404"
    "rs_Status (gif_forbidden r) = Some 403"
  using assms by (simp_all add: reply_simps)

text \<open>
  A refusal or an error reply sets the content type and perhaps the challenge, no other header.
\<close>

definition plain_headers :: "http_response \<Rightarrow> http_response \<Rightarrow> bool" where
  "plain_headers r resp \<longleftrightarrow>
     (\<forall>h. h \<notin> {''Content-Type'', ''WWW-Authenticate''} \<longrightarrow> rs_Header resp h = rs_Header r h)"

lemma plain_headers_replies [simp]:
  assumes "fresh r"
  shows "plain_headers r (SendError c m s r)" "plain_headers r (SendJson v s r)"
    "plain_headers r (bad_request msg r)" "plain_headers r (validation_failed msg r)"
    "plain_headers r (internal_error r)" "plain_headers r (unauthorized e d msg r)"
  using assms by (auto simp: plain_headers_def reply_simps fresh_def)

text \<open>
  \<open>ends Q m\<close>: however \<open>m\<close> ends, unless by a panic, its response and the world it leaves stand in
  the relation \<open>Q\<close> to the world it began in. One rule for each step of a handler.
\<close>

definition ends :: "(world \<Rightarrow> http_response \<Rightarrow> world \<Rightarrow> bool) \<Rightarrow> http_response io \<Rightarrow> bool" where
  "ends Q m \<longleftrightarrow> (\<forall>w resp w'. m w = (Inr resp, w') \<longrightarrow> Q w resp w')"

named_theorems ends_intros \<open>rules for the steps of a handler\<close>

lemma endsD: "ends Q m \<Longrightarrow> m w = (Inr resp, w') \<Longrightarrow> Q w resp w'"
  by (simp add: ends_def)

lemma ends_ret [ends_intros]: "(\<And>w. Q w resp w) \<Longrightarrow> ends Q (ret resp)"
  by (simp add: ends_def ret_def)

lemma ends_if [ends_intros]: "(b \<Longrightarrow> ends Q m) \<Longrightarrow> (\<not> b \<Longrightarrow> ends Q n) \<Longrightarrow> ends Q (if b then m else n)"
  by simp

lemma ends_let [ends_intros]: "ends Q (f x) \<Longrightarrow> ends Q (let y = x in f y)"
  by simp

lemma ends_decode_body [ends_intros]:
  "(\<And>w. Q w (bad_request bad r) w) \<Longrightarrow> 
   (\<And>req. Option.bind (rq_Body rq) (\<lambda>v. decode_struct fs v zero) = Some req \<Longrightarrow> ends Q (k req)) \<Longrightarrow>
     ends Q (decode_body fs zero bad rq r k)"
  by (auto simp: decode_body_def intro!: ends_ret split: option.split)

lemma ends_validated [ends_intros]:
  "(\<And>w. Q w (validation_failed msg r) w) \<Longrightarrow> (validate_Struct E fs \<Longrightarrow> ends Q k) \<Longrightarrow>
     ends Q (validated E fs msg r k)"
  by (auto simp: validated_def intro!: ends_ret)

lemma ends_user_required [ends_intros]:
  "(\<And>w. Q w (unauthorized ''invalid_token'' ''user id not found'' msg r) w) \<Longrightarrow> ends Q (k (GetUserId rq)) \<Longrightarrow>
     ends Q (user_required msg rq r k)"
  by (auto simp: user_required_def Let_def intro!: ends_ret)

lemma ends_user_expected [ends_intros]:
  "(\<And>w. Q w (internal_error r) w) \<Longrightarrow> ends Q (k (GetUserId rq)) \<Longrightarrow> ends Q (user_expected rq r k)"
  by (auto simp: user_expected_def Let_def intro!: ends_ret)

lemma ends_path_required [ends_intros]:
  "(\<And>w. Q w (bad_request msg r) w) \<Longrightarrow> ends Q (k (rq_PathValue rq n)) \<Longrightarrow> ends Q (path_required n msg rq r k)"
  by (auto simp: path_required_def Let_def intro!: ends_ret)

lemma ends_serve_call:
  assumes "\<And>w v w'. m w = (Inr v, w') \<Longrightarrow> Q w (reply v r) w'"
    and "\<And>w e w'. m w = (Inl e, w') \<Longrightarrow> \<not> is_panic e \<Longrightarrow> Q w (on_error e r) w'"
  shows "ends Q (serve_call m on_error reply r)"
  unfolding ends_def serve_call_def attempt_def
  using assms by (auto simp: ret_def split: prod.splits sum.splits if_splits)

section \<open>Conversions\<close>

text \<open>
  Property C8. A conversion the server accepts (202) has queued one message, of the requesting
  user, whose interval is not empty and starts at or after 0, with a width from 100 to 1920 and 1
  to 30 frames a second; whatever the body held, nothing else gets to the converter.
\<close>

theorem accepted_conversion_bounds:
  assumes "validator_sound E" "fresh r" "http_Convert E rq r w = (Inr resp, w')" "rs_Status resp = Some 202"
  shows "\<exists>msg. published w' = published w @ [(ProcessQueue, VideoPayload msg)] \<and>
    vm_UserID msg = GetUserId rq \<and> vm_Key msg \<noteq> [] \<and> 0 \<le> vm_Start msg \<and> vm_Start msg < vm_End msg \<and>
    100 \<le> vm_Width msg \<and> vm_Width msg \<le> 1920 \<and> 1 \<le> vm_FPS msg \<and> vm_FPS msg \<le> 30"
proof -
  let ?Q = "\<lambda>w resp w'. rs_Status resp = Some 202 \<longrightarrow>
    (\<exists>msg. published w' = published w @ [(ProcessQueue, VideoPayload msg)] \<and>
    vm_UserID msg = GetUserId rq \<and> vm_Key msg \<noteq> [] \<and> 0 \<le> vm_Start msg \<and> vm_Start msg < vm_End msg \<and>
    100 \<le> vm_Width msg \<and> vm_Width msg \<le> 1920 \<and> 1 \<le> vm_FPS msg \<and> vm_FPS msg \<le> 30)"
  have served: "?Q w1 any w2"
    if "validate_Struct E (convert_rules req)" "\<not> rc_End req \<le> rc_Start req"
      "Convert E (GetUserId rq) (rc_Key req) (rc_Start req) (rc_End req) (rc_FPS req) (rc_Width req)
         (rc_Loop req) w1 = (Inr (i, st), w2)" for req i st w1 w2 any
  proof -
    have "rules_hold (convert_rules req)" using that(1) assms(1) by (simp add: validator_sound_def)
    then show ?thesis using Convert_Inr [OF that(3)] that(2)
      by (intro impI exI [of _ "conversion_queued i (GetUserId rq) (rc_Key req) (rc_Start req) (rc_End req)
          (rc_FPS req) (rc_Width req) (rc_Loop req)"])
        (simp add: conversion_queued_def rules_hold_def convert_rules_def)
  qed
  have "ends ?Q (http_Convert E rq r)"
    unfolding http_Convert_def
    by (intro ends_intros ends_serve_call; clarsimp simp: assms(2)) (erule (2) served [THEN mp, simplified])
  from endsD [OF this assms(3)] assms(4) show ?thesis by simp
qed

section \<open>Resetting a password\<close>

lemma token_hash_runes:
  assumes "token_hash s"
  shows "rune_count s = 64"
proof -
  have "filter (\<lambda>c. let n = (of_char c :: nat) in n < 128 \<or> 192 \<le> n) s = s"
    using assms by (simp add: token_hash_def list_all_iff filter_id_conv Let_def)
  then show ?thesis using assms by (simp add: rune_count_def token_hash_def)
qed

lemma reseter_GetByToken_Inl:
  assumes "reseter_GetByToken E s w = (Inl e, w')"
  shows "e = SqlNoRows \<or> (\<exists>d. e = Driver d)"
  using assms
  by (auto simp: reseter_GetByToken_def db_exec_def get_row_def split: fault.splits if_splits option.splits)

lemma ResetPasswordPost_unknown:
  assumes "s \<notin> set (map r_Token (reseter (db w)))"
  shows "\<exists>e. fst (ResetPasswordPost E s pass confirm w) =
      Inl (Wrapf ''reseterRepo.GetByToken'' [VerifierE ErrReseterTokenFatchFailed, e]) \<and>
    (e = SqlNoRows \<or> (\<exists>d. e = Driver d)) \<and> db (snd (ResetPasswordPost E s pass confirm w)) = db w"
proof (cases "reseter_GetByToken E s w")
  case (Pair r w1)
  then obtain e where e: "r = Inl e" using rt.lookup_hit [of E s w _ w1] assms by (cases r) auto
  have "db w1 = db w" using rt.lookup_db [of E s w] Pair by simp
  then show ?thesis
    using reseter_GetByToken_Inl [of E s w e w1] Pair e
    by (auto simp: ResetPasswordPost_def call_def fail_def)
qed

text \<open>
  Property C37. No request resets a password: the form takes tokens of at most 50 characters, every
  stored token is a hash of 64, so in every state that keeps the invariant the handler refuses,
  with 400, 422 or 410, and changes no table.
\<close>

theorem reset_over_http_refused:
  assumes "validator_sound E" "service_inv (db w)" "fresh r"
    and "http_ResetPasswordPost E rq r w = (Inr resp, w')"
  shows "rs_Status resp \<in> {Some 400, Some 422, Some 410} \<and> db w' = db w"
proof -
  let ?Q = "\<lambda>w resp w'. service_inv (db w) \<longrightarrow>
    rs_Status resp \<in> {Some 400, Some 422, Some 410} \<and> db w' = db w"
  have refused: "\<exists>e. x = Inl (Wrapf ''reseterRepo.GetByToken'' [VerifierE ErrReseterTokenFatchFailed, e]) \<and>
      (e = SqlNoRows \<or> (\<exists>d. e = Driver d)) \<and> db w2 = db w1"
    if "validate_Struct E (reset_rules req)" "service_inv (db w1)"
      "ResetPasswordPost E (rs_Token req) pass confirm w1 = (x, w2)" for req pass confirm x w1 w2
  proof -
    have "rune_count (rs_Token req) \<le> 50"
      using that(1) assms(1) by (auto simp: validator_sound_def rules_hold_def reset_rules_def)
    then have "rs_Token req \<notin> set (map r_Token (reseter (db w1)))"
      using that(2) token_hash_runes by (fastforce simp: tables_ok_def rest_defs)
    from ResetPasswordPost_unknown [OF this, of E pass confirm] that(3) show ?thesis by simp
  qed
  have "ends ?Q (http_ResetPasswordPost E rq r)"
    unfolding http_ResetPasswordPost_def
    by (intro ends_intros ends_serve_call) (auto simp: assms(3) reply_simps dest: refused)
  from endsD [OF this assms(4)] assms(2) show ?thesis by simp
qed

section \<open>Entity tags\<close>

lemma Update_wrong_tag_keeps:
  assumes "\<And>t. time_Format E t \<noteq> seen"
  shows "keeps (\<lambda>w. P (db w)) (Update E u key req seen)"
proof -
  have *: "(if time_Format E (gr_UpdatedAt g) \<noteq> seen then fail (GifE ErrETagValidationFailed)
      else call (gif_Update E key req) (\<lambda>e. fail (Wrapf ''gifRepo.Update'' [e])) ret) =
      fail (GifE ErrETagValidationFailed)" for g
    using assms by simp
  show ?thesis unfolding Update_def fetch_gif_def * by (intro keeps_intros)
qed

lemma Update_wrong_tag:
  assumes "\<And>t. time_Format E t \<noteq> seen" "Update E u key req seen w = (r, w')"
  shows "(\<exists>e. r = Inl e) \<and> db w' = db w"
proof -
  have "r \<noteq> Inr g" for g
    using Update_Inr [of E u key req seen w g w'] assms by auto
  then show ?thesis
    using assms(2) keepsD [OF Update_wrong_tag_keeps [of E seen "\<lambda>d. d = db w"], of w u key req] assms(1)
    by (cases r) auto
qed

lemma UpdateProfile_wrong_tag:
  assumes "\<And>t. time_Format E t \<noteq> seen" "UpdateProfile E req u seen w = (r, w')"
  shows "(\<exists>e. r = Inl e) \<and> db w' = db w"
proof -
  have *: "(if time_Format E (pr_UpdatedAt p) \<noteq> seen then fail (GifE ErrETagValidationFailed)
      else user_UpdateProfile E req u) = fail (GifE ErrETagValidationFailed)" for p
    using assms(1) by simp
  have k: "keeps (\<lambda>w. P (db w)) (UpdateProfile E req u seen)" for P
    unfolding UpdateProfile_def * by (intro keeps_intros)
  have "tx_WithRC E (call (user_GetProfile E u True) fail
      (\<lambda>resp. fail (GifE ErrETagValidationFailed))) w \<noteq> (Inr g, w1)" for g :: profile_response and w1
    unfolding tx_WithRC_def tx_run_def call_def fail_def by (auto split: fault.splits prod.splits sum.splits if_splits)
  then have "\<exists>e. r = Inl e"
    using assms(2) unfolding UpdateProfile_def * call_def fail_def ret_def by (cases r) (auto split: prod.splits sum.splits if_splits)
  then show ?thesis using keepsD [OF k [of "\<lambda>d. d = db w"], of w] assms(2) by simp
qed

text \<open>The tags the server gives out: the quoted time of a gif, or of a profile.\<close>

lemma served_etags:
  assumes "fresh r" "rs_Header r ''ETag'' = None"
    and "http_GetByKey E rq r w = (Inr resp, w') \<or> http_GetProfile E rq r w = (Inr resp, w')"
    and "rs_Header resp ''ETag'' = Some etag"
  shows "\<exists>t. etag = quoted (time_Format E t)"
proof -
  let ?Q = "\<lambda>(_ :: world) resp (_ :: world). rs_Header resp ''ETag'' = Some etag \<longrightarrow>
    (\<exists>t. etag = quoted (time_Format E t))"
  have "ends ?Q (http_GetByKey E rq r)" "ends ?Q (http_GetProfile E rq r)"
    unfolding http_GetByKey_def http_GetProfile_def
    by (intro ends_intros ends_serve_call; use assms(1,2) in \<open>auto simp: reply_simps fresh_def user_not_found_def\<close>)+
  from this [THEN endsD] assms(3,4) show ?thesis by blast
qed

text \<open>
  Property C38. The tags the server gives out are of no use: one sent back in \<open>If-Match\<close> as it
  came makes every later update of a gif or of a profile fail and changes no table, because the tag
  is quoted and the services compare it with the unquoted time.
\<close>

theorem served_etag_refused:
  assumes "\<And>t. \<not> has_prefix (time_Format E t) [CHR 0x22]"
    and "fresh r" "rs_Header r ''ETag'' = None"
    and "http_GetByKey E rq r w = (Inr resp, w1) \<or> http_GetProfile E rq r w = (Inr resp, w1)"
    and "rs_Header resp ''ETag'' = Some etag"
    and "fresh r'" "rq_Header rq' ''If-Match'' = etag"
    and "http_Update E rq' r' w2 = (Inr resp', w3) \<or> http_UpdateProfile E rq' r' w2 = (Inr resp', w3)"
  shows "rs_Status resp' \<noteq> Some 200 \<and> db w3 = db w2"
proof -
  obtain t where e: "etag = quoted (time_Format E t)"
    using served_etags [OF assms(2-5)] by blast
  have ne: "time_Format E t' \<noteq> etag" for t'
    using assms(1) [of t'] unfolding e quoted_def has_prefix_iff by (metis append_Cons append_Nil)
  let ?Q = "\<lambda>w resp w'. rs_Status resp \<noteq> Some 200 \<and> db w' = db w"
  have "ends ?Q (http_Update E rq' r')"
    unfolding http_Update_def assms(7)
    by (intro ends_intros ends_serve_call)
      (auto simp: assms(6) reply_simps dest: Update_wrong_tag [OF ne])
  moreover have "ends ?Q (http_UpdateProfile E rq' r')"
    unfolding http_UpdateProfile_def assms(7)
    by (intro ends_intros ends_serve_call)
      (auto simp: assms(6) reply_simps dest: UpdateProfile_wrong_tag [OF ne])
  ultimately show ?thesis using assms(8) by (blast dest: endsD)
qed

section \<open>Signing up\<close>

text \<open>A sign-up that fails because of the queue alone has committed the account.\<close>

lemma Signup_unqueued:
  assumes "Signup E email name full pass w = (Inl e, w')" "errors_Is e (AppE ErrMessageQueueFailed)"
  shows "\<exists>h tok uid. signed_up E email name full h uid tok (now w) (db w) (db w')"
proof (cases "tx_With E (signup_tx E email name full pass) w")
  case (Pair x w1)
  have q: "not_lost E (AppE ErrMessageQueueFailed)" "AppE ErrMessageQueueFailed \<notin> sql_errors"
    by (simp_all add: not_lost_def sql_errors_def)
  obtain r where x: "x = Inr r"
    using assms Pair avoidsD [OF avoids_tx [OF q(1) avoids_signup_tx [OF q(1,2)]]]
    unfolding Signup_def call_def fail_def by (cases x) (auto split: if_splits)
  from tx_run_Inr [OF Pair [unfolded x tx_With_def]] obtain w2 where
    "signup_tx E email name full pass ((tick w)\<lparr>tx := TxOpen\<rparr>) = (Inr r, w2)" "db w1 = db w2" by auto
  from signup_tx_Inr [OF this(1)] this(2)
  have "\<exists>h tok. signed_up E email name full h (fst r) tok (now w) (db w) (db w1)" by auto
  moreover have "PublishEmail E m w1 = (y, w2) \<Longrightarrow> db w2 = db w1" for m y w2
    by (metis PublishEmail_db snd_conv)
  then have "db w' = db w1"
    using assms(1) Pair x
    unfolding Signup_def call_def fail_def ret_def by (auto split: prod.splits sum.splits if_splits)
  ultimately show ?thesis by auto
qed

text \<open>
  An answer of 201 means that the account of a valid request exists, with its
  verification row, profile and quota; the answer names the user unless the verification email
  could not be queued.
\<close>

theorem created_account_exists:
  assumes "fresh r" "rs_Header r ''Location'' = None" "http_Signup E rq r w = (Inr resp, w')"
    and "rs_Status resp = Some 201"
  shows "\<exists>req h tok uid. Option.bind (rq_Body rq) (\<lambda>v. decode_struct signup_fields v no_signup) = Some req \<and>
    validate_Struct E (signup_rules req) \<and>
    signed_up E (su_Email req) (su_Username req) (su_Fullname req) h uid tok (now w) (db w) (db w') \<and>
    (rs_Header resp ''Location'' = None \<or> rs_Header resp ''Location'' = Some (''/users/'' @ uid))"
proof -
  let ?Q = "\<lambda>w resp w'. rs_Status resp = Some 201 \<longrightarrow> (\<exists>req h tok uid.
    Option.bind (rq_Body rq) (\<lambda>v. decode_struct signup_fields v no_signup) = Some req \<and>
    validate_Struct E (signup_rules req) \<and>
    signed_up E (su_Email req) (su_Username req) (su_Fullname req) h uid tok (now w) (db w) (db w') \<and>
    (rs_Header resp ''Location'' = None \<or> rs_Header resp ''Location'' = Some (''/users/'' @ uid)))"
  have "ends ?Q (http_Signup E rq r)"
    unfolding http_Signup_def
  proof (intro ends_intros ends_serve_call, goal_cases)
    case (3 req w uid w')
    from Signup_Inr [OF 3(3)] 3(1,2) show ?case
      using assms(1) by (auto simp: reply_simps fresh_def)
  next
    case (4 req w e w')
    then show ?case
      using assms(1,2) Signup_unqueued [OF 4(3)] by (auto simp: reply_simps)
  qed (simp_all add: assms(1))
  from endsD [OF this assms(3)] assms(4) show ?thesis by simp
qed

section \<open>Logging in\<close>

text \<open>
  Property C16. The token of a login is the user's key to the routes behind \<open>Auth\<close>: until it
  expires, a day later to the second, or is revoked, a request that carries it reaches its handler,
  and the handler takes it for that user's.
\<close>

theorem login_token_authenticates:
  assumes "jwt_sign_verify E" "no_faults E" "Login E email pass w = (Inr (tok, i), w1)"
    and "now w2 < NewNumericDate (now w + 24 * hour)" "cache_view (now w2) w2 (blocklist_key tok) = None"
    and "rq_Header rq ''Authorization'' = ''Bearer '' @ tok"
  shows "\<exists>claims. GetUserId (WithAuthContext rq claims tok) = i \<and>
    Auth E nxt rq r w2 = nxt (WithAuthContext rq claims tok) r (tick w2)"
proof -
  obtain c where c: "jwt_SignedString E c (cnf_JwtSecretKey E) = Inr tok" "c_Subject c = i"
      "c_ExpiresAt c = Some (NewNumericDate (now w + 24 * hour))"
    using Login_Inr [OF assms(3)] by blast
  have "jwt_Verify E tok w2 = Inr c"
    using assms(1,4) c unfolding jwt_sign_verify_def jwt_Verify_def by (simp add: jwt_keyfunc_def)
  moreover have "redis_Get E (blocklist_key tok) w2 = (Inl (CacheE ErrCacheMiss), tick w2)"
    using assms(2,5) by (simp add: redis_Get_def ext_call_ok)
  ultimately have "Auth E nxt rq r w2 = nxt (WithAuthContext rq c tok) r (tick w2)"
    using assms(6) trim_prefix_append [of "''Bearer ''" tok] has_prefix_append [of "''Bearer ''" tok]
    by (simp add: Auth_def attempt_def pure_call_def)
  then show ?thesis using c(2) by (intro exI [of _ c]) (simp add: GetUserId_def GetClaims_def WithAuthContext_def)
qed

section \<open>Galleries\<close>

text \<open>
  Another user's gallery is not only their public gifs: whoever asks, the answer is
  the first page of all of the user's gifs, newest first, whatever their status.
\<close>

theorem gallery_shows_all:
  assumes "no_faults E" "tx w = NoTx" "rq_PathValue rq ''userId'' = j" "j \<notin> {[], ''me''}"
    and "pg_uuid_in E j = Some i" "rq_Query rq = (\<lambda>_. [])"
  shows "\<exists>w' gs. http_GetGifsByUserID E rq r w = (Inr (SendJson (json_gifs E gs) 200 r), w') \<and>
    gres_Data gs = map gif_response_of
      (take 20 (sort_key (\<lambda>g. - g_CreatedAt g) (filter (\<lambda>g. g_UserId g = i) (gifs (db w)))))"
proof -
  have p: "positive_or d [] = d" for d by (simp add: positive_or_def ParseInt_def)
  obtain gs w' where g: "GetGifs E j ''all'' 1 20 w = (Inr gs, w')" "gres_Data gs = take 20 (listing i ''all'' (db w))"
    using GetGifs_page [OF assms(1,2,5), of 1 20 "''all''"] by auto
  have "http_GetGifsByUserID E rq r w = (Inr (SendJson (json_gifs E gs) 200 r), w')"
    using assms(3,4,6) g(1)
    by (simp add: http_GetGifsByUserID_def list_gifs_def p serve_call_def attempt_def ret_def)
  then show ?thesis using g(2) by (auto simp: listing_def take_map)
qed

end
