(* ===== verification/Handler_Runs.thy ===== *)
theory Handler_Runs
  imports Handler_Laws
begin

text \<open>
  Concrete requests, run through the handlers on the sample environment: the properties of the
  handlers apply to them.
\<close>

section \<open>The properties at concrete requests\<close>

lemma serve_call_ok: "m w = (Inr v, w') \<Longrightarrow> serve_call m on_error reply r w = (Inr (reply v r), w')"
  by (simp add: serve_call_def attempt_def ret_def)

lemma serve_call_err:
  "m w = (Inl e, w') \<Longrightarrow> \<not> is_panic e \<Longrightarrow> serve_call m on_error reply r w = (Inr (on_error e r), w')"
  by (simp add: serve_call_def attempt_def ret_def)

definition sample_post :: "json \<Rightarrow> http_request" where
  "sample_post v = (sample_request ''POST'' (\<lambda>_. []))\<lparr>rq_Body := Some v,
     rq_Claims := Some (sample_claims\<lparr>c_Subject := ''u''\<rparr>), rq_PathValue := (\<lambda>_. ''k'')\<rparr>"

lemma sample_validator: "validator_sound sample_env" "validate_Struct sample_env fs = rules_hold fs"
  by (simp_all add: validator_sound_def sample_env_def)

lemma sample_GetUserId [simp]: "GetUserId (sample_post v) = ''u''"
  by (simp add: sample_post_def GetUserId_def GetClaims_def)

lemma sample_post_sel [simp]: "rq_Body (sample_post v) = Some v" "rq_PathValue (sample_post v) n = ''k''"
  "rq_Header (sample_post v) h = []"
  by (simp_all add: sample_post_def sample_request_def)

text \<open>A conversion request as a client may write it.\<close>

definition convert_body :: json where
  "convert_body = JObj [(''upload_key'', JStr ''k''), (''start_time'', JNum 0), (''END_TIME'', JNum 1),
     (''width'', JNum 480), (''fps'', JNum 10), (''loop'', JBool True)]"

lemma convert_body_decodes:
  "decode_struct convert_fields convert_body no_convert = Some \<lparr>rc_Key = ''k'', rc_Start = 0, rc_End = 1,
     rc_Width = 480, rc_FPS = 10, rc_Loop = True\<rparr>"
  by code_simp

lemma accepted_conversion_bounds_witness:
  "\<exists>resp w' msg. http_Convert sample_env (sample_post convert_body) no_response (world_of 0 sample_quota_db) =
     (Inr resp, w') \<and> published w' = [(ProcessQueue, VideoPayload msg)] \<and> vm_Start msg < vm_End msg"
proof -
  have v: "rules_hold (convert_rules \<lparr>rc_Key = ''k'', rc_Start = 0, rc_End = 1, rc_Width = 480, rc_FPS = 10,
      rc_Loop = True\<rparr>)"
    by (simp add: rules_hold_def convert_rules_def)
  obtain w1 where c: "Convert sample_env ''u'' ''k'' 0 1 10 480 True (world_of 0 sample_quota_db) =
      (Inr (sample_uuid 0, ''queued''), w1)" using sample_convert_run by blast
  obtain resp w' where h: "http_Convert sample_env (sample_post convert_body) no_response
      (world_of 0 sample_quota_db) = (Inr resp, w')" "rs_Status resp = Some 202"
    using v
    by (simp add: http_Convert_def decode_body_def convert_body_decodes validated_def sample_validator
        user_required_def serve_call_def attempt_def ret_def c SendJson_status)
  from accepted_conversion_bounds [OF sample_validator(1) no_response_fresh h] h(1) show ?thesis by auto
qed

definition reset_body :: json where
  "reset_body = JObj [(''token'', JStr ''t''), (''password'', JStr ''pa$sw''), (''confirm_password'', JStr ''pa$sw'')]"

lemma reset_over_http_refused_witness:
  "\<exists>resp w'. http_ResetPasswordPost sample_env (sample_post reset_body) no_response (world_of 0 sample_reset_db) =
     (Inr resp, w') \<and> db w' = sample_reset_db"
proof -
  have "\<not> isl (fst (http_ResetPasswordPost sample_env (sample_post reset_body) no_response (world_of 0 sample_reset_db)))"
    by code_simp
  then obtain resp w' where h: "http_ResetPasswordPost sample_env (sample_post reset_body) no_response
      (world_of 0 sample_reset_db) = (Inr resp, w')" using run_Inr by blast
  from reset_over_http_refused [OF sample_validator(1) _ no_response_fresh h] h show ?thesis
    by (auto simp: sample_reset_inv)
qed

definition signup_body :: json where
  "signup_body = JObj [(''username'', JStr ''anna''), (''fullname'', JStr ''Anna''), (''email'', JStr ''ann@x''),
     (''password'', JStr ''pa$sw''), (''confirm_password'', JStr ''pa$sw'')]"

lemma created_account_exists_witness:
  "\<exists>u\<in>set (users (db (snd (http_Signup sample_env (sample_post signup_body) no_response (world_of 0 empty_db))))).
     u_Email u = ''ann@x''"
proof -
  let ?req = "\<lparr>su_Username = ''anna'', su_Fullname = ''Anna'', su_Email = ''ann@x'', su_Password = ''pa$sw'',
    su_ConfirmPassword = ''pa$sw''\<rparr>"
  have d: "decode_struct signup_fields signup_body no_signup = Some ?req"
    by code_simp
  have v: "rules_hold (signup_rules ?req)"
    by (simp add: rules_hold_def signup_rules_def password_rules_def special_chars_def rune_count_def)
  have "fst (Signup sample_env ''ann@x'' ''anna'' ''Anna'' ''pa$sw'' (world_of 0 empty_db)) = Inr (sample_uuid 1)"
    by code_simp
  then obtain w1 where c: "Signup sample_env ''ann@x'' ''anna'' ''Anna'' ''pa$sw'' (world_of 0 empty_db) =
      (Inr (sample_uuid 1), w1)" by (metis prod.collapse)
  obtain resp w' where h: "http_Signup sample_env (sample_post signup_body) no_response (world_of 0 empty_db) =
      (Inr resp, w')" "rs_Status resp = Some 201"
    using v by (simp add: http_Signup_def decode_body_def d validated_def sample_validator
        serve_call_def attempt_def ret_def c SendJson_status)
  from created_account_exists [OF no_response_fresh _ h] obtain hash tok uid where
    "signed_up sample_env ''ann@x'' ''anna'' ''Anna'' hash uid tok 0 empty_db (db w')"
    by (auto simp: no_response_def d)
  then show ?thesis unfolding h(1) by (fastforce simp: signed_up_def new_user_def dest!: account_added_rows)
qed

text \<open>A JWT library that signs the claims of one login and verifies what it signed.\<close>

definition login_claims :: jwt_payload where
  "login_claims = \<lparr>c_Fullname = ''Ann'', c_Email = ''ann@x'', c_Role = ''user'', c_Subject = ''u'',
     c_Issuer = ''ffgif'', c_IssuedAt = Some 0, c_ExpiresAt = Some 86400000\<rparr>"

definition signing_env :: env where
  "signing_env = sample_env
     \<lparr>jwt_SignedString := (\<lambda>c key. if c = login_claims \<and> key = ''k'' then Inr ''jwt'' else Inl (Msg ''unsigned'')),
      jwt_ParseWithClaims := (\<lambda>t s kf. if s = ''jwt'' \<and> kf True = Inr ''k'' \<and> t < 86400000 then Inr login_claims
        else Inl JwtExpired)\<rparr>"

lemma signing_env_ok: "jwt_sign_verify signing_env" "no_faults signing_env"
  by (auto simp: jwt_sign_verify_def signing_env_def no_faults_def sample_env_def login_claims_def split: if_splits)

lemma login_token_authenticates_witness:
  "\<exists>claims. c_Subject claims = ''u'' \<and>
     Auth signing_env hello (sample_request ''GET'' (\<lambda>_. ''Bearer jwt'')) no_response (world_of 5 empty_db) =
     hello (WithAuthContext (sample_request ''GET'' (\<lambda>_. ''Bearer jwt'')) claims ''jwt'') no_response
       (tick (world_of 5 empty_db))"
proof -
  have "fst (Login signing_env ''ann@x'' ''pw'' (world_of 0 sample_verified_db)) = Inr (''jwt'', ''u'')"
    by code_simp
  from login_token_authenticates [OF signing_env_ok run_pair [OF this], of "world_of 5 empty_db"
      "sample_request ''GET'' (\<lambda>_. ''Bearer jwt'')" hello no_response]
  show ?thesis
    by (auto simp: NewNumericDate_def hour_def cache_view_def sample_request_def GetUserId_def GetClaims_def
        WithAuthContext_def)
qed

definition tagged_request :: "string \<Rightarrow> http_request" where
  "tagged_request tag = (sample_post (JObj []))\<lparr>rq_Header := (\<lambda>h. if h = ''If-Match'' then tag else [])\<rparr>"

lemma served_etag_refused_witness:
  "\<exists>resp etag. fst (http_GetByKey sample_env (sample_post JNull) no_response (world_of 0 sample_quota_db)) = Inr resp \<and>
     rs_Header resp ''ETag'' = Some etag \<and>
     db (snd (http_Update sample_env (tagged_request etag) no_response (world_of 0 sample_quota_db))) = sample_quota_db"
proof -
  let ?w = "world_of 0 sample_quota_db"
  have "(case fst (http_GetByKey sample_env (sample_post JNull) no_response ?w) of Inl e \<Rightarrow> False
      | Inr resp \<Rightarrow> rs_Header resp ''ETag'' = Some (quoted ''epoch''))" by code_simp
  then obtain resp w1 where g: "http_GetByKey sample_env (sample_post JNull) no_response ?w = (Inr resp, w1)"
    "rs_Header resp ''ETag'' = Some (quoted ''epoch'')" by (cases "http_GetByKey sample_env (sample_post JNull) no_response ?w")
      (auto split: sum.splits)
  have "\<not> isl (fst (http_Update sample_env (tagged_request (quoted ''epoch'')) no_response ?w))" by code_simp
  then obtain resp' w3 where u: "http_Update sample_env (tagged_request (quoted ''epoch'')) no_response ?w = (Inr resp', w3)"
    using run_Inr by blast
  have "\<not> has_prefix (time_Format sample_env t) [CHR 0x22]" for t
    by (simp add: has_prefix_iff)
  from served_etag_refused [OF this no_response_fresh _ disjI1 [OF g(1)] g(2) no_response_fresh _ disjI1 [OF u]]
  show ?thesis using g u by (simp add: no_response_def tagged_request_def)
qed

lemma gallery_shows_all_witness:
  "\<exists>w' gs. http_GetGifsByUserID sample_env ((sample_post JNull)\<lparr>rq_PathValue := (\<lambda>_. ''u'')\<rparr>) no_response
       (world_of 0 sample_gif_db) = (Inr (SendJson (json_gifs sample_env gs) 200 no_response), w') \<and>
     gres_Data gs = [gif_response_of sample_gif] \<and> g_Status sample_gif = ''private''"
  using gallery_shows_all [of sample_env "world_of 0 sample_gif_db"
      "(sample_post JNull)\<lparr>rq_PathValue := (\<lambda>_. ''u'')\<rparr>" "''u''" "''u''" no_response]
  by (simp add: sample_gif_db_def sample_two_db_def empty_db_def sample_gif_def sample_post_def sample_request_def)

end
