(* ===== verification/Friend_Spec.thy ===== *)
theory Friend_Spec
  imports App_User
begin

text \<open>
  What the friend service promises, without its table: a graph of ties between users. A tie is a
  request waiting for an answer or a friendship, each known by an identifier; the table's rows,
  their order, their times and the text of their status are left out. The service's operations,
  run one after the other from any state that keeps the invariant, do to the graph what the
  specification allows, and a failed call at most what the call was to do.
\<close>

section \<open>The specification\<close>

datatype tie = Asked uuid uuid | Friends "uuid set"

type_synonym graph = "uuid \<Rightarrow> tie option"

primrec parties :: "tie \<Rightarrow> uuid set" where
  "parties (Asked a b) = {a, b}"
| "parties (Friends p) = p"

datatype friend_cmd = Ask string string | Answer string string | Drop string string

definition tied :: "uuid \<Rightarrow> uuid \<Rightarrow> graph \<Rightarrow> bool" where
  "tied a b g \<longleftrightarrow> (\<exists>t\<in>ran g. parties t = {a, b})"

text \<open>
  A request ties two users who are not tied; only the user it is addressed to makes it a
  friendship, and may accept again; either party takes the tie away, and taking away what is not
  there or not theirs does nothing. The flag tells whether the call reported success: a success
  is the whole effect, a failure is the effect (whose report was lost) or nothing.
\<close>

inductive friend_spec :: "env \<Rightarrow> friend_cmd \<Rightarrow> bool \<Rightarrow> graph \<Rightarrow> graph \<Rightarrow> bool" for E where
  ask: "pg_uuid_in E s = Some a \<Longrightarrow> pg_uuid_in E t = Some b \<Longrightarrow> a \<noteq> b \<Longrightarrow> \<not> tied a b g \<Longrightarrow> i \<notin> dom g \<Longrightarrow>
    friend_spec E (Ask s t) ok g (g(i \<mapsto> Asked a b))"
| answer: "pg_uuid_in E s = Some i \<Longrightarrow> pg_uuid_in E t = Some b \<Longrightarrow> g i = Some (Asked a b) \<Longrightarrow>
    friend_spec E (Answer s t) ok g (g(i \<mapsto> Friends {a, b}))"
| again: "pg_uuid_in E s = Some i \<Longrightarrow> pg_uuid_in E t = Some b \<Longrightarrow> g i = Some (Friends p) \<Longrightarrow> b \<in> p \<Longrightarrow>
    friend_spec E (Answer s t) ok g g"
| drop: "pg_uuid_in E s = Some i \<Longrightarrow> pg_uuid_in E t = Some a \<Longrightarrow> g i = Some tie \<Longrightarrow> a \<in> parties tie \<Longrightarrow>
    friend_spec E (Drop s t) ok g (g(i := None))"
| gone: "pg_uuid_in E s = Some i \<Longrightarrow> pg_uuid_in E t = Some a \<Longrightarrow> \<nexists>tie. g i = Some tie \<and> a \<in> parties tie \<Longrightarrow>
    friend_spec E (Drop s t) ok g g"
| failed: "friend_spec E c False g g"

inductive friend_runs :: "env \<Rightarrow> (friend_cmd \<times> bool) list \<Rightarrow> graph \<Rightarrow> graph \<Rightarrow> bool" for E where
  stop: "friend_runs E [] g g"
| step: "friend_spec E c ok g g' \<Longrightarrow> friend_runs E cs g' g'' \<Longrightarrow> friend_runs E ((c, ok) # cs) g g''"

section \<open>The graph in the table\<close>

definition tie_of :: "friendship \<Rightarrow> tie" where
  "tie_of f = (if f_Status f = StatusAccepted then Friends {f_RequesterID f, f_AddresseeID f}
               else Asked (f_RequesterID f) (f_AddresseeID f))"

definition ties :: "database \<Rightarrow> graph" where
  "ties d = map_of (map (\<lambda>f. (f_ID f, tie_of f)) (friendships d))"

definition reported :: "'a result \<times> world \<Rightarrow> bool \<times> world" where
  "reported p = (\<not> isl (fst p), snd p)"

definition friend_do :: "env \<Rightarrow> friend_cmd \<Rightarrow> world \<Rightarrow> bool \<times> world" where
  "friend_do E c w =
     (case c of
        Ask s t \<Rightarrow> reported (SendRequest E s t w)
      | Answer s t \<Rightarrow> reported (Accept E s t w)
      | Drop s t \<Rightarrow> reported (Remove E s t w))"

text \<open>Calls one after the other, each with what it reported.\<close>

fun friend_history :: "env \<Rightarrow> friend_cmd list \<Rightarrow> world \<Rightarrow> (friend_cmd \<times> bool) list \<times> world" where
  "friend_history E [] w = ([], w)"
| "friend_history E (c # cs) w =
     (let (ok, w1) = friend_do E c w; (h, w2) = friend_history E cs w1 in ((c, ok) # h, w2))"

lemma parties_tie_of [simp]: "parties (tie_of f) = {f_RequesterID f, f_AddresseeID f}"
  by (simp add: tie_of_def)

lemma ties_at:
  "distinct (map f_ID (friendships d)) \<Longrightarrow> f \<in> set (friendships d) \<Longrightarrow> ties d (f_ID f) = Some (tie_of f)"
  unfolding ties_def by (rule map_of_is_SomeI) (auto simp: comp_def)

lemma ties_None: "i \<notin> f_ID ` set (friendships d) \<Longrightarrow> ties d i = None"
  by (auto simp: ties_def map_of_eq_None_iff)

lemma dom_ties [simp]: "dom (ties d) = f_ID ` set (friendships d)"
  by (simp add: ties_def dom_map_of_conv_image_fst image_image)

lemma ran_ties:
  assumes "distinct (map f_ID (friendships d))"
  shows "ran (ties d) = tie_of ` set (friendships d)"
  unfolding ties_def using assms by (subst ran_distinct) (auto simp: comp_def image_image)

lemma tied_ties:
  assumes "distinct (map f_ID (friendships d))"
  shows "tied a b (ties d) \<longleftrightarrow> linked a b d"
  by (simp add: tied_def ran_ties [OF assms] linked_def doubleton_eq_iff list_ex_iff)

section \<open>The operations\<close>

lemma inv_friend_ids: "service_inv d \<Longrightarrow> distinct (map f_ID (friendships d))"
  by (simp add: tables_ok_def schema_ok_def keys_ok_def)

lemma db_exec_effect:
  "db_exec E stmt w = (r, w') \<Longrightarrow> \<not> (isl r \<and> db w' = db w) \<Longrightarrow> \<exists>x. stmt w = Inr (x, db w')"
  by (auto simp: db_exec_def tx_abort_def tick_def split: fault.splits sum.splits if_splits)

lemma call_ret_effect:
  "call m (\<lambda>e. fail (h e)) ret w = (r, w') \<Longrightarrow> \<exists>r0. m w = (r0, w') \<and> isl r0 = isl r"
  by (cases "m w") (auto simp: call_def fail_def ret_def split: sum.splits if_splits)

text \<open>The graph after a row is added, changed or taken away: nothing changes but at its identifier.\<close>

lemma ties_elsewhere:
  assumes "distinct (map f_ID (friendships d))" "distinct (map f_ID (friendships d'))"
    and "\<And>f. f_ID f \<noteq> i \<Longrightarrow> f \<in> set (friendships d) \<longleftrightarrow> f \<in> set (friendships d')" "k \<noteq> i"
  shows "ties d k = ties d' k"
proof (cases "\<exists>f\<in>set (friendships d). f_ID f = k")
  case True
  then obtain f where "f \<in> set (friendships d)" "f_ID f = k" by blast
  then show ?thesis using assms ties_at by metis
next
  case False
  then have "k \<notin> f_ID ` set (friendships d')" using assms(3,4) by blast
  with False show ?thesis using ties_None [of k] by fastforce
qed

lemma ties_new:
  assumes "distinct (map f_ID (friendships d))" "f_ID f \<notin> dom (ties d)"
  shows "ties (d\<lparr>friendships := friendships d @ [f]\<rparr>) = (ties d)(f_ID f \<mapsto> tie_of f)"
proof
  let ?d = "d\<lparr>friendships := friendships d @ [f]\<rparr>"
  have dist: "distinct (map f_ID (friendships ?d))" using assms by auto
  show "ties ?d k = ((ties d)(f_ID f \<mapsto> tie_of f)) k" for k
    using ties_at [OF dist, of f] ties_elsewhere [OF dist assms(1), of "f_ID f" k] by auto
qed

lemma ties_update:
  assumes "distinct (map f_ID (friendships d))" "f0 \<in> set (friendships d)" "p f0"
    and "\<And>f. p f \<Longrightarrow> f_ID f = f_ID f0" "\<And>f. f_ID (u f) = f_ID f"
  shows "ties (d\<lparr>friendships := update_where p u (friendships d)\<rparr>) = (ties d)(f_ID f0 \<mapsto> tie_of (u f0))"
proof
  let ?d = "d\<lparr>friendships := update_where p u (friendships d)\<rparr>"
  have "map f_ID (update_where p u (friendships d)) = map f_ID (friendships d)"
    using assms(5) by (simp add: update_where_def)
  then have dist: "distinct (map f_ID (friendships ?d))" using assms(1) by simp
  have "u f0 \<in> set (friendships ?d)" using assms(2,3) by (auto simp: set_update_where image_iff)
  moreover have "f \<in> set (friendships ?d) \<longleftrightarrow> f \<in> set (friendships d)" if "f_ID f \<noteq> f_ID f0" for f
    using that assms(4,5) by (auto simp: set_update_where image_iff split: if_splits)
  ultimately show "ties ?d k = ((ties d)(f_ID f0 \<mapsto> tie_of (u f0))) k" for k
    using ties_at [OF dist] ties_elsewhere [OF dist assms(1), of "f_ID f0" k] assms(5) by fastforce
qed

lemma ties_delete:
  assumes "distinct (map f_ID (friendships d))" "f0 \<in> set (friendships d)" "p f0"
    and "\<And>f. p f \<Longrightarrow> f_ID f = f_ID f0"
  shows "ties (d\<lparr>friendships := delete_where p (friendships d)\<rparr>) = (ties d)(f_ID f0 := None)"
proof
  let ?d = "d\<lparr>friendships := delete_where p (friendships d)\<rparr>"
  have dist: "distinct (map f_ID (friendships ?d))" using assms(1) by (simp add: distinct_delete_where)
  have "f = f0" if "f \<in> set (friendships d)" "f_ID f = f_ID f0" for f
    using assms(1,2) that by (auto simp: distinct_map inj_on_def)
  then have "f_ID f0 \<notin> f_ID ` set (friendships ?d)" using assms(3) by fastforce
  moreover have "f \<in> set (friendships ?d) \<longleftrightarrow> f \<in> set (friendships d)" if "f_ID f \<noteq> f_ID f0" for f
    using that assms(4) by auto
  ultimately show "ties ?d k = ((ties d)(f_ID f0 := None)) k" for k
    using ties_None [of "f_ID f0" ?d] ties_elsewhere [OF dist assms(1), of "f_ID f0" k] by fastforce
qed

lemma ask_refines:
  assumes "service_inv (db w)" "SendRequest E s t w = (r, w2)"
  shows "friend_spec E (Ask s t) (\<not> isl r) (ties (db w)) (ties (db w2))"
proof (cases "isl r \<and> db w2 = db w")
  case changed: False
  note ids = inv_friend_ids [OF assms(1)]
  obtain x w1 where e0: "friend_Exists E s t w = (x, w1)" by fastforce
  have d1: "db w1 = db w"
    using keepsD [OF keeps_uuid_reads(3) [of "\<lambda>d. d = db w" E s t], of w] e0 by simp
  have e: "friend_Exists E s t w = (Inr False, w1)" and st: "s \<noteq> t"
    using assms(2) changed e0 d1 by (auto simp: SendRequest_def call_def fail_def split: sum.splits if_splits)
  have c: "call (friend_Create E s t) (\<lambda>e. fail (Wrapf ''repo.Create'' [e])) ret w1 = (r, w2)"
    using assms(2) st e by (simp add: SendRequest_def call_run [where m="friend_Exists E s t"])
  obtain r0 where c0: "friend_Create E s t w1 = (r0, w2)" "isl r0 = isl r"
    using call_ret_effect [OF c] by blast
  have "\<not> (isl r0 \<and> db w2 = db (w1\<lparr>draws := Suc (draws w1)\<rparr>))" using c0 changed d1 by simp
  from db_exec_effect [OF c0(1) [unfolded friend_Create_def draw_uuid_def Let_def prod.case] this]
  obtain a b y where par: "pg_uuid_in E s = Some a" "pg_uuid_in E t = Some b"
    and ins: "insert_friendship \<lparr>f_ID = uuid_gen E (draws w1), f_RequesterID = a, f_AddresseeID = b,
      f_Status = ''pending'', f_CreatedAt = now w1, f_UpdatedAt = now w1\<rparr> (w1\<lparr>draws := Suc (draws w1)\<rparr>) =
      Inr (y, db w2)" (is "insert_friendship ?f _ = _")
    by (auto simp: with_uuid_Inr)
  define f where "f = ?f"
  have ab: "pg_uuid_in E s = Some a" "pg_uuid_in E t = Some b" "f_RequesterID f = a" "f_AddresseeID f = b"
      "f_Status f = ''pending''" using par by (simp_all add: f_def)
  have f: "friendship_row_ok f" "f_ID f \<notin> dom (ties (db w))"
      "db w2 = (db w)\<lparr>friendships := friendships (db w) @ [f]\<rparr>"
    using ins d1 unfolding f_def [symmetric] by (auto simp: insert_friendship_def list_ex_iff split: if_splits)
  have "a \<noteq> b" "\<not> tied a b (ties (db w))"
    using ab f(1) friend_Exists_Inr [OF e] tied_ties [OF ids] by (auto simp: friendship_row_ok_def)
  then show ?thesis
    using ab f friend_spec.ask [OF ab(1,2)] ties_new [OF ids f(2)]
    by (simp add: tie_of_def StatusAccepted_def)
qed (auto intro: friend_spec.failed)

lemma answer_refines:
  assumes "service_inv (db w)" "Accept E s t w = (r, w2)"
  shows "friend_spec E (Answer s t) (\<not> isl r) (ties (db w)) (ties (db w2))"
proof (cases "isl r \<and> db w2 = db w")
  case changed: False
  note ids = inv_friend_ids [OF assms(1)]
  obtain r0 where u: "friend_UpdateStatus E s StatusAccepted t w = (r0, w2)" "isl r0 = isl r"
    using call_ret_effect [OF assms(2) [unfolded Accept_def]] by blast
  then have "\<not> (isl r0 \<and> db w2 = db w)" using changed by simp
  note eff = db_exec_effect [OF u(1) [unfolded friend_UpdateStatus_def Let_def] this]
  let ?p = "\<lambda>i b f. f_ID f = i \<and> f_AddresseeID f = b"
  let ?u = "\<lambda>f. f\<lparr>f_Status := StatusAccepted, f_UpdatedAt := now w\<rparr>"
  obtain i b f0 where f: "pg_uuid_in E s = Some i" "pg_uuid_in E t = Some b"
      "List.find (?p i b) (friendships (db w)) = Some f0"
      "db w2 = (db w)\<lparr>friendships := update_where (?p i b) ?u (friendships (db w))\<rparr>"
    using eff by (auto simp: with_uuid_Inr split: option.splits if_splits)
  note f0 = find_SomeD [OF f(3)]
  have g: "ties (db w2) = (ties (db w))(i \<mapsto> Friends {f_RequesterID f0, b})"
    using ties_update [OF ids, of f0 "?p i b" ?u] f0 f(4) by (simp add: tie_of_def)
  have t: "ties (db w) i = Some (tie_of f0)" using f0 ties_at [OF ids, of f0] by simp
  show ?thesis
  proof (cases "f_Status f0 = StatusAccepted")
    case True
    then have "ties (db w2) = ties (db w)"
      using g t f0 by (auto simp: tie_of_def fun_upd_idem_iff)
    then show ?thesis
      using friend_spec.again [OF f(1,2), of "ties (db w)"] t True f0 by (simp add: tie_of_def)
  qed (use g t f0 f(1,2) in \<open>simp add: tie_of_def friend_spec.answer\<close>)
qed (auto intro: friend_spec.failed)

lemma drop_refines:
  assumes "service_inv (db w)" "Remove E s t w = (r, w2)"
  shows "friend_spec E (Drop s t) (\<not> isl r) (ties (db w)) (ties (db w2))"
proof (cases "isl r \<and> db w2 = db w")
  case changed: False
  note ids = inv_friend_ids [OF assms(1)]
  let ?p = "\<lambda>i a f. f_ID f = i \<and> (f_RequesterID f = a \<or> f_AddresseeID f = a)"
  obtain i a where f: "pg_uuid_in E s = Some i" "pg_uuid_in E t = Some a"
      "db w2 = (db w)\<lparr>friendships := delete_where (?p i a) (friendships (db w))\<rparr>"
    using db_exec_effect [OF assms(2) [unfolded Remove_def friend_Delete_def] changed]
    by (auto simp: with_uuid_Inr)
  show ?thesis
  proof (cases "\<exists>f0\<in>set (friendships (db w)). ?p i a f0")
    case False
    then have "delete_where (?p i a) (friendships (db w)) = friendships (db w)"
      unfolding delete_where_def by (intro filter_True) auto
    then have "db w2 = db w" using f(3) by simp
    moreover have "\<nexists>tie. ties (db w) i = Some tie \<and> a \<in> parties tie"
    proof (cases "i \<in> f_ID ` set (friendships (db w))")
      case True
      then obtain f where "f \<in> set (friendships (db w))" "f_ID f = i" by blast
      then show ?thesis using ties_at [OF ids, of f] False by auto
    qed (simp add: ties_None)
    ultimately show ?thesis using friend_spec.gone [OF f(1,2), of "ties (db w)"] by simp
  next
    case True
    then obtain f0 where f0: "f0 \<in> set (friendships (db w))" "?p i a f0" by blast
    then have "ties (db w2) = (ties (db w))(i := None)"
      using ties_delete [OF ids, of f0 "?p i a"] f(3) by simp
    moreover have "ties (db w) i = Some (tie_of f0)" using f0 ties_at [OF ids, of f0] by simp
    ultimately show ?thesis
      using friend_spec.drop [OF f(1,2), of "ties (db w)" "tie_of f0"] f0 by auto
  qed
qed (auto intro: friend_spec.failed)

lemma friend_do_refines:
  assumes "service_inv (db w)" "friend_do E c w = (ok, w2)"
  shows "friend_spec E c ok (ties (db w)) (ties (db w2))"
proof (cases c)
  case (Ask s t)
  with ask_refines [OF assms(1), of E s t "fst (SendRequest E s t w)" w2] assms(2) show ?thesis
    by (simp add: friend_do_def reported_def prod_eq_iff)
next
  case (Answer s t)
  with answer_refines [OF assms(1), of E s t "fst (Accept E s t w)" w2] assms(2) show ?thesis
    by (simp add: friend_do_def reported_def prod_eq_iff)
next
  case (Drop s t)
  with drop_refines [OF assms(1), of E s t "fst (Remove E s t w)" w2] assms(2) show ?thesis
    by (simp add: friend_do_def reported_def prod_eq_iff)
qed

lemma friend_do_inv: "service_inv (db w) \<Longrightarrow> friend_do E c w = (ok, w2) \<Longrightarrow> service_inv (db w2)"
  using keepsD [OF keeps_SendRequest] keepsD [OF keeps_friend_services(1)] keepsD [OF keeps_friend_services(3)]
  by (auto simp: friend_do_def reported_def split: friend_cmd.splits)

section \<open>Simulation\<close>

text \<open>
  Property C5. The friend service implements the graph: whatever calls are made, by whomever and
  with whichever faults, each that reports success does to the ties exactly what the
  specification says, and each that fails does that or nothing.
\<close>

theorem friend_service_refines:
  assumes "service_inv (db w)" "friend_history E cs w = (h, w')"
  shows "friend_runs E h (ties (db w)) (ties (db w')) \<and> map fst h = cs"
  using assms
proof (induction cs arbitrary: w h)
  case (Cons c cs)
  obtain ok w1 h1 where 1: "friend_do E c w = (ok, w1)" "friend_history E cs w1 = (h1, w')" "h = (c, ok) # h1"
    using Cons.prems(2) by (auto split: prod.splits)
  with Cons.IH [OF friend_do_inv [OF Cons.prems(1) 1(1)] 1(2)] friend_do_refines [OF Cons.prems(1) 1(1)]
  show ?case by (auto intro: friend_runs.step)
qed (simp add: friend_runs.stop)

lemma friend_service_refines_witness:
  "\<exists>w' :: world. friend_runs sample_env [(Answer ''f'' ''v'', True), (Drop ''f'' ''u'', True)] [''f'' \<mapsto> Asked ''u'' ''v''] (ties (db w'))"
proof -
  let ?w = "world_of 0 (sample_friends_db StatusPending)"
  have "service_inv (db ?w)"
    by (simp add: world_of_def sample_friends_db_def sample_two_db_def tables_ok_def, code_simp)
  moreover have "fst (friend_history sample_env [Answer ''f'' ''v'', Drop ''f'' ''u''] ?w) =
      [(Answer ''f'' ''v'', True), (Drop ''f'' ''u'', True)]" by code_simp
  moreover have "ties (sample_friends_db StatusPending) = [''f'' \<mapsto> Asked ''u'' ''v'']"
    by (simp add: ties_def sample_friends_db_def sample_pending_def tie_of_def StatusPending_def StatusAccepted_def)
  ultimately show ?thesis
    using friend_service_refines [of ?w sample_env "[Answer ''f'' ''v'', Drop ''f'' ''u'']", OF _ prod.collapse [symmetric]]
    by (auto simp del: friend_history.simps)
qed

end
