(* ===== verification/Share_Spec.thy ===== *)
theory Share_Spec
  imports Friend_Spec Gif_Laws
begin

text \<open>
  What the share service and the download of a gif promise, without their tables: who owns a gif, to
  whom it has been opened, by whom and until when, and whose address is whose. The service's
  operations, at any times and with whichever faults, do to these lists what the specification
  allows, and a download is given only to those whom they let in.
\<close>

section \<open>The specification\<close>

record access =
  owner_of :: "string \<Rightarrow> string option"
  grant_of :: "string \<times> uuid \<Rightarrow> (uuid \<times> timestamp option) option"
  address_of :: "string \<Rightarrow> string option"

datatype share_cmd = Grant string string string timestamp | Revoke string string string | Fetch_gif string string

text \<open>A gif opens to its owner, and to those to whom its owner has opened it until later than now.\<close>

definition opens :: "env \<Rightarrow> timestamp \<Rightarrow> access \<Rightarrow> string \<Rightarrow> string \<Rightarrow> bool" where
  "opens E t a u key \<longleftrightarrow> (\<exists>ow. owner_of a key = Some ow \<and>
     (ow = u \<or> (\<exists>v e. pg_uuid_in E u = Some v \<and> grant_of a (key, v) = Some (ow, e) \<and> unexpired t e)))"

text \<open>
  The owner opens a gif to the user of an address, or changes until when; who has opened it may
  close it again while it is open. The flag tells whether the call reported success.
\<close>

definition granted :: "string \<times> uuid \<Rightarrow> uuid \<Rightarrow> timestamp \<Rightarrow> access \<Rightarrow> access" where
  "granted i by until a = a\<lparr>grant_of := (grant_of a)
     (i \<mapsto> (case grant_of a i of Some (g, _) \<Rightarrow> g | None \<Rightarrow> by, Some until))\<rparr>"

definition revoked :: "string \<times> uuid \<Rightarrow> access \<Rightarrow> access" where
  "revoked i a = a\<lparr>grant_of := (grant_of a)(i := None)\<rparr>"

inductive share_spec :: "env \<Rightarrow> timestamp \<Rightarrow> share_cmd \<Rightarrow> bool \<Rightarrow> access \<Rightarrow> access \<Rightarrow> bool" for E t where
  grant: "t < until \<Longrightarrow> address_of a em = Some u \<Longrightarrow> pg_uuid_in E u = Some v \<Longrightarrow> owner_of a key = Some s \<Longrightarrow>
    pg_uuid_in E s = Some by \<Longrightarrow> share_spec E t (Grant s key em until) ok a (granted (key, v) by until a)"
| revoke: "pg_uuid_in E s = Some v \<Longrightarrow> grant_of a (key, v) = Some (u, e) \<Longrightarrow> unexpired t e \<Longrightarrow>
    share_spec E t (Revoke u key s) ok a (revoked (key, v) a)"
| fetch: "opens E t a u key \<Longrightarrow> share_spec E t (Fetch_gif u key) True a a"
| failed: "share_spec E t c False a a"

inductive share_runs :: "env \<Rightarrow> (timestamp \<times> share_cmd \<times> bool) list \<Rightarrow> access \<Rightarrow> access \<Rightarrow> bool" for E where
  stop: "share_runs E [] a a"
| step: "share_spec E t c ok a a' \<Longrightarrow> share_runs E cs a' a'' \<Longrightarrow> share_runs E ((t, c, ok) # cs) a a''"

section \<open>The lists in the tables\<close>

definition access_in :: "database \<Rightarrow> access" where
  "access_in d =
     \<lparr>owner_of = map_of (map (\<lambda>g. (g_Key g, g_UserId g)) (gifs d)),
      grant_of = map_of (map (\<lambda>s. ((s_GifKey s, s_SharedWith s), (s_OwnerID s, s_ExpiresAt s))) (shares d)),
      address_of = map_of (map (\<lambda>u. (u_Email u, u_Id u)) (users d))\<rparr>"

definition share_do :: "env \<Rightarrow> share_cmd \<Rightarrow> world \<Rightarrow> bool \<times> world" where
  "share_do E c w =
     (case c of
        Grant s key em until \<Rightarrow> reported (share_Create E s key em until w)
      | Revoke u key s \<Rightarrow> reported (share_Delete E u key s w)
      | Fetch_gif u key \<Rightarrow> reported (Download E u key w))"

text \<open>Calls one after the other, each at its time, or when the one before it has been answered.\<close>

fun share_history :: "env \<Rightarrow> (timestamp \<times> share_cmd) list \<Rightarrow> world \<Rightarrow> (timestamp \<times> share_cmd \<times> bool) list \<times> world" where
  "share_history E [] w = ([], w)"
| "share_history E ((t, c) # cs) w =
     (let w0 = w\<lparr>now := max t (now w)\<rparr>; (ok, w1) = share_do E c w0; (h, w2) = share_history E cs w1
      in ((now w0, c, ok) # h, w2))"

lemma table_update:
  assumes "distinct (map k xs)" "x \<in> set xs" "k x = i" "\<And>y. k (f y) = k y"
  shows "map_of (map (\<lambda>y. (k y, v y)) (update_where (\<lambda>y. k y = i) f xs)) = (map_of (map (\<lambda>y. (k y, v y)) xs))(i \<mapsto> v (f x))"
  using assms(1,2)
proof (induction xs)
  case (Cons y ys)
  show ?case
  proof (cases "k y = i")
    case True
    then have "k z \<noteq> i" if "z \<in> set ys" for z using that Cons.prems(1) by (auto simp: rev_image_eqI)
    then have "update_where (\<lambda>y. k y = i) f ys = ys" unfolding update_where_def by (intro map_idI) simp
    moreover have "y = x" using Cons.prems assms(3) True by (auto simp: rev_image_eqI)
    ultimately show ?thesis using True assms(4) by (auto simp: update_where_def)
  next
    case False
    then show ?thesis using Cons assms(3) by (auto simp: update_where_def fun_upd_twist)
  qed
qed simp

lemma table_delete:
  "map_of (map (\<lambda>y. (k y, v y)) (delete_where (\<lambda>y. k y = i) xs)) = (map_of (map (\<lambda>y. (k y, v y)) xs))(i := None)"
  by (induction xs) (auto simp: delete_where_def fun_upd_twist)

lemma table_new:
  "k x \<notin> k ` set xs \<Longrightarrow> map_of (map (\<lambda>y. (k y, v y)) (xs @ [x])) = (map_of (map (\<lambda>y. (k y, v y)) xs))(k x \<mapsto> v x)"
  by (induction xs) (auto simp: fun_upd_twist)

lemma table_at:
  "distinct (map k xs) \<Longrightarrow> x \<in> set xs \<Longrightarrow> map_of (map (\<lambda>y. (k y, v y)) xs) (k x) = Some (v x)"
  by (rule map_of_is_SomeI) (auto simp: comp_def)

section \<open>The operations\<close>

lemma access_keys: "service_inv d \<Longrightarrow> distinct (map g_Key (gifs d)) \<and> distinct (map u_Email (users d)) \<and>
    distinct (map (\<lambda>s. (s_GifKey s, s_SharedWith s)) (shares d))"
  by (simp add: tables_ok_def schema_ok_def keys_ok_def)

lemma owner_in: "service_inv d \<Longrightarrow> g \<in> set (gifs d) \<Longrightarrow> owner_of (access_in d) (g_Key g) = Some (g_UserId g)"
  using access_keys table_at [of g_Key "gifs d" g g_UserId] by (simp add: access_in_def)

lemma address_in: "service_inv d \<Longrightarrow> u \<in> set (users d) \<Longrightarrow> address_of (access_in d) (u_Email u) = Some (u_Id u)"
  using access_keys table_at [of u_Email "users d" u u_Id] by (simp add: access_in_def)

lemma grant_in: "service_inv d \<Longrightarrow> s \<in> set (shares d) \<Longrightarrow>
    grant_of (access_in d) (s_GifKey s, s_SharedWith s) = Some (s_OwnerID s, s_ExpiresAt s)"
  using access_keys table_at [of "\<lambda>s. (s_GifKey s, s_SharedWith s)" "shares d" s "\<lambda>s. (s_OwnerID s, s_ExpiresAt s)"]
  by (simp add: access_in_def)

lemma no_grant_in: "\<not> list_ex (\<lambda>x. s_GifKey x = key \<and> s_SharedWith x = v) (shares d) \<Longrightarrow> grant_of (access_in d) (key, v) = None"
  by (auto simp: access_in_def map_of_eq_None_iff list_ex_iff image_iff)

lemma upsert_share_access:
  assumes "service_inv (db w)" "upsert_share s w = Inr (x, d)" "s_ExpiresAt s = Some until"
  shows "access_in d = granted (s_GifKey s, s_SharedWith s) (s_OwnerID s) until (access_in (db w))"
proof -
  let ?k = "\<lambda>s. (s_GifKey s, s_SharedWith s)" and ?v = "\<lambda>s. (s_OwnerID s, s_ExpiresAt s)"
  have same: "(\<lambda>x. s_GifKey x = s_GifKey s \<and> s_SharedWith x = s_SharedWith s) = (\<lambda>x. ?k x = ?k s)" by auto
  show ?thesis
  proof (cases "list_ex (\<lambda>x. ?k x = ?k s) (shares (db w))")
    case True
    then obtain r where r: "r \<in> set (shares (db w))" "?k r = ?k s" by (auto simp: list_ex_iff)
    have "d = (db w)\<lparr>shares := update_where (\<lambda>x. ?k x = ?k s) (\<lambda>x. x\<lparr>s_ExpiresAt := s_ExpiresAt s\<rparr>) (shares (db w))\<rparr>"
      using assms(2) True unfolding upsert_share_def Let_def same by simp
    moreover have "grant_of (access_in (db w)) (?k s) = Some (s_OwnerID r, s_ExpiresAt r)"
      using grant_in [OF assms(1) r(1)] r(2) by simp
    ultimately show ?thesis
      using table_update [of ?k "shares (db w)" r "?k s" "\<lambda>x. x\<lparr>s_ExpiresAt := s_ExpiresAt s\<rparr>" ?v] access_keys [OF assms(1)] r assms(3)
      by (simp add: access_in_def granted_def)
  next
    case False
    then have "d = (db w)\<lparr>shares := shares (db w) @ [s]\<rparr>"
      using assms(2) unfolding upsert_share_def Let_def same by (auto split: if_splits)
    moreover have "grant_of (access_in (db w)) (?k s) = None" using no_grant_in False by simp
    moreover have "?k s \<notin> ?k ` set (shares (db w))" using False by (auto simp: list_ex_iff)
    ultimately show ?thesis
      using table_new [of ?k s "shares (db w)" ?v] assms(3) by (simp add: access_in_def granted_def)
  qed
qed

text \<open>A call that only reads: what comes of the operation comes of what follows it.\<close>

lemma read_then:
  assumes "call m (\<lambda>e. fail (h e)) k w = (r, w2)" "db (snd (m w)) = db w" "\<not> (isl r \<and> db w2 = db w)"
  shows "\<exists>x w1. m w = (Inr x, w1) \<and> db w1 = db w \<and> k x w1 = (r, w2)"
  using assms by (cases "m w"; cases "fst (m w)") (auto simp: call_def fail_def split: if_splits)

lemma grant_refines:
  assumes "service_inv (db w)" "share_Create E s key em until w = (r, w2)"
  shows "share_spec E (now w) (Grant s key em until) (\<not> isl r) (access_in (db w)) (access_in (db w2))"
proof (cases "isl r \<and> db w2 = db w")
  case changed: False
  have t: "now w < until"
    by (rule ccontr) (use assms(2) changed in \<open>auto simp: share_Create_def at_now_def fail_def\<close>)
  have run: "call (GetByEmail E em)
      (\<lambda>e. fail (if errors_Is e (AuthE ErrInvalidCredential) \<or> errors_Is e SqlNoRows \<or> errors_Is e (AuthE ErrUserNotFound)
                 then Wrapf ''authRepo.GetByEmail'' [AuthE ErrUserNotFound, e] else Wrapf ''authRepo.GetByEmail'' [e])) (\<lambda>sharedUser.
      call (gif_owner E key) fail (\<lambda>owner.
      if owner \<noteq> s then fail (GifE ErrGifOwnerMismatch)
      else share_repo_Create E \<lparr>s_ID = [], s_GifKey = key, s_OwnerID = s, s_SharedWith = u_Id sharedUser,
             s_ExpiresAt = Some until, s_CreatedAt = 0\<rparr>)) w = (r, w2)"
    using assms(2) t by (simp add: share_Create_def at_now_def)
  from read_then [OF run GetByEmail_db changed] obtain u w1 where g: "GetByEmail E em w = (Inr u, w1)" and d1: "db w1 = db w"
    and run1: "call (gif_owner E key) (\<lambda>e. fail e) (\<lambda>owner. if owner \<noteq> s then fail (GifE ErrGifOwnerMismatch)
      else share_repo_Create E \<lparr>s_ID = [], s_GifKey = key, s_OwnerID = s, s_SharedWith = u_Id u,
             s_ExpiresAt = Some until, s_CreatedAt = 0\<rparr>) w1 = (r, w2)" by auto
  have "db (snd (gif_owner E key w1)) = db w1"
    using keepsD [OF keeps_gif_owner [of "\<lambda>d. d = db w1" E key], of w1] by simp
  from read_then [OF run1 this] changed d1 obtain ow w2' where o: "gif_owner E key w1 = (Inr ow, w2')" and d2: "db w2' = db w"
    and run2: "(if ow \<noteq> s then fail (GifE ErrGifOwnerMismatch)
      else share_repo_Create E \<lparr>s_ID = [], s_GifKey = key, s_OwnerID = s, s_SharedWith = u_Id u,
             s_ExpiresAt = Some until, s_CreatedAt = 0\<rparr>) w2' = (r, w2)" by auto
  have ow: "ow = s" by (rule ccontr) (use run2 changed d2 in \<open>auto simp: fail_def\<close>)
  with run2 have c: "share_repo_Create E \<lparr>s_ID = [], s_GifKey = key, s_OwnerID = s, s_SharedWith = u_Id u,
      s_ExpiresAt = Some until, s_CreatedAt = 0\<rparr> w2' = (r, w2)" by simp
  have "\<not> (isl r \<and> db w2 = db (w2'\<lparr>draws := Suc (draws w2')\<rparr>))" using changed d2 by simp
  from db_exec_effect [OF c [unfolded share_repo_Create_def draw_uuid_def Let_def prod.case] this]
  obtain b v s' x where bv: "pg_uuid_in E s = Some b" "pg_uuid_in E (u_Id u) = Some v"
    and up: "upsert_share s' (w2'\<lparr>draws := Suc (draws w2')\<rparr>) = Inr (x, db w2)"
    and s': "s_GifKey s' = key" "s_OwnerID s' = b" "s_SharedWith s' = v" "s_ExpiresAt s' = Some until"
    by (auto simp: with_uuid_Inr)
  have "access_in (db w2) = granted (key, v) b until (access_in (db w))"
    using upsert_share_access [OF _ up s'(4)] assms(1) s' d2 by simp
  moreover have "address_of (access_in (db w)) em = Some (u_Id u)"
    using address_in [OF assms(1)] GetByEmail_Inr [OF g] by blast
  moreover have "owner_of (access_in (db w)) key = Some s"
    using owner_in [OF assms(1)] gif_owner_Inr [OF o] ow d1 by fastforce
  ultimately show ?thesis using share_spec.grant [OF t _ bv(2) _ bv(1)] by simp
qed (auto intro: share_spec.failed)

lemma revoke_refines:
  assumes "service_inv (db w)" "share_Delete E u key s w = (r, w2)"
  shows "share_spec E (now w) (Revoke u key s) (\<not> isl r) (access_in (db w)) (access_in (db w2))"
proof (cases "isl r \<and> db w2 = db w")
  case changed: False
  have "db (snd (share_repo_GetOwner E s key w)) = db w"
    using keepsD [OF keeps_uuid_reads(8) [of "\<lambda>d. d = db w" E s key], of w] by simp
  from read_then [OF assms(2) [unfolded share_Delete_def] this changed] obtain ow w1 where
      o: "share_repo_GetOwner E s key w = (Inr ow, w1)" and d1: "db w1 = db w"
    and run: "(if ow \<noteq> u then fail (ShareE ErrShareNotAuthorized) else share_repo_Delete E key s) w1 = (r, w2)" by blast
  have ow: "ow = u" by (rule ccontr) (use run changed d1 in \<open>auto simp: fail_def\<close>)
  with run have d: "share_repo_Delete E key s w1 = (r, w2)" by simp
  obtain v row where v: "pg_uuid_in E s = Some v" and row: "row \<in> set (shares (db w))" "s_GifKey row = key"
      "s_SharedWith row = v" "unexpired (now w) (s_ExpiresAt row)" "s_OwnerID row = u"
    using db_exec_Inr [OF o [unfolded share_repo_GetOwner_def]] ow
    by (auto simp: with_uuid_Inr get_row_Inr dest!: find_SomeD)
  let ?k = "\<lambda>s. (s_GifKey s, s_SharedWith s)"
  have "\<not> (isl r \<and> db w2 = db w1)" using changed d1 by simp
  from db_exec_effect [OF d [unfolded share_repo_Delete_def] this] v d1
  have "db w2 = (db w)\<lparr>shares := delete_where (\<lambda>x. ?k x = (key, v)) (shares (db w))\<rparr>" by (auto simp: with_uuid_Inr)
  then have "access_in (db w2) = revoked (key, v) (access_in (db w))"
    using table_delete [of ?k _ "(key, v)" "shares (db w)"] by (simp add: access_in_def revoked_def)
  then show ?thesis
    using share_spec.revoke [OF v, of "access_in (db w)" key u "s_ExpiresAt row"] grant_in [OF assms(1) row(1)] row by simp
qed (auto intro: share_spec.failed)

text \<open>A download counts and touches nothing that the lists hold.\<close>

lemma table_same: "(\<And>y. k (f y) = k y \<and> v (f y) = v y) \<Longrightarrow>
    map (\<lambda>y. (k y, v y)) (update_where p f xs) = map (\<lambda>y. (k y, v y)) xs"
  by (simp add: update_where_def)

lemma Download_access: "access_in (db (snd (Download E u key w))) = access_in (db w)"
proof -
  have "keeps (\<lambda>w'. access_in (db w') = access_in (db w)) (IncrementDownload E key)"
    by (rule keeps_db_exec [where P = "\<lambda>d. access_in d = access_in (db w)"], rule IncrementDownload_def)
      (auto simp: access_in_def table_same split: if_splits)
  then have "keeps (\<lambda>w'. access_in (db w') = access_in (db w)) (Download E u key)"
    unfolding Download_def Let_def
    by (intro keeps_call keeps_attempt keeps_if keeps_case_option keeps_fail keeps_ret
        keeps_gif_owner [where P = "\<lambda>d. access_in d = access_in (db w)"]
        keeps_uuid_reads(8) [where P = "\<lambda>d. access_in d = access_in (db w)"]
        keeps_storage(2) [where P = "\<lambda>d. access_in d = access_in (db w)"])
  from keepsD [OF this, of w] show ?thesis by simp
qed

lemma fetch_refines:
  assumes "service_inv (db w)" "Download E u key w = (r, w2)" "[] \<notin> ran (owner_of (access_in (db w)))"
  shows "share_spec E (now w) (Fetch_gif u key) (\<not> isl r) (access_in (db w)) (access_in (db w2))"
proof -
  have same: "access_in (db w2) = access_in (db w)" using Download_access [of E u key w] assms(2) by simp
  show ?thesis
  proof (cases r)
    case (Inr url)
    have owner: "owner_of (access_in (db w)) key = Some ow" if "owned_gif ow key (db w)" for ow
      using that owner_in [OF assms(1)] by (auto simp: owned_gif_def)
    then have "\<not> owned_gif [] key (db w)" using assms(3) by (meson ranI)
    from Inr assms(2) have "Download E u key w = (Inr url, w2)" by simp
    from Download_Inr [OF this \<open>\<not> owned_gif [] key (db w)\<close>] have "owned_gif u key (db w) \<or>
        (\<exists>s\<in>set (shares (db w)). s_GifKey s = key \<and> pg_uuid_in E u = Some (s_SharedWith s) \<and>
           unexpired (now w) (s_ExpiresAt s) \<and> owned_gif (s_OwnerID s) key (db w))" ..
    then have "opens E (now w) (access_in (db w)) u key"
      using owner grant_in [OF assms(1)] by (auto simp: opens_def)
    then show ?thesis using Inr same share_spec.fetch by simp
  qed (simp add: same share_spec.failed)
qed

lemma spec_owners: "share_spec E t c ok a a' \<Longrightarrow> owner_of a' = owner_of a"
  by (induction rule: share_spec.induct) (simp_all add: granted_def revoked_def)

lemma share_do_refines:
  assumes "service_inv (db w)" "[] \<notin> ran (owner_of (access_in (db w)))" "share_do E c w = (ok, w2)"
  shows "share_spec E (now w) c ok (access_in (db w)) (access_in (db w2)) \<and> service_inv (db w2)"
proof (cases c)
  case (Grant s key em until)
  then show ?thesis
    using assms(3) grant_refines [OF assms(1), of E s key em until] keepsD [OF keeps_share_services(1) [of False], of w]
    by (fastforce simp: share_do_def reported_def assms(1) prod_eq_iff)
next
  case (Revoke u key s)
  then show ?thesis
    using assms(3) revoke_refines [OF assms(1), of E u key s] keepsD [OF keeps_share_services(3) [of False], of w]
    by (fastforce simp: share_do_def reported_def assms(1) prod_eq_iff)
next
  case (Fetch_gif u key)
  then show ?thesis
    using assms fetch_refines [OF assms(1), of E u key] keepsD [OF keeps_gif_services(2) [of False], of w]
    by (fastforce simp: share_do_def reported_def prod_eq_iff)
qed

section \<open>Simulation\<close>

text \<open>
  Property C6. The share service and the download of a gif implement the lists: whatever calls are
  made, by whomever, at whichever times and with whichever faults, each that reports success does to
  who may open what exactly what the specification says, each that fails does that or nothing, and
  no link is given to one whom the owner has not let in, or whose time is over.
\<close>

theorem share_service_refines:
  assumes "service_inv (db w)" "\<forall>g\<in>set (gifs (db w)). g_UserId g \<noteq> []" "share_history E cs w = (h, w')"
  shows "share_runs E h (access_in (db w)) (access_in (db w')) \<and> map (\<lambda>(t, c, ok). c) h = map snd cs"
proof -
  have "[] \<notin> ran (owner_of (access_in (db w)))"
    using assms(2) by (fastforce simp: access_in_def ran_def dest!: map_of_SomeD)
  with assms(1,3) show ?thesis
  proof (induction cs arbitrary: w h)
    case (Cons x cs)
    obtain t c where x: "x = (t, c)" by fastforce
    let ?w = "w\<lparr>now := max t (now w)\<rparr>"
    obtain ok w1 h1 where 1: "share_do E c ?w = (ok, w1)" "share_history E cs w1 = (h1, w')" "h = (now ?w, c, ok) # h1"
      using Cons.prems(2) x by (auto split: prod.splits simp: Let_def)
    have s: "share_spec E (now ?w) c ok (access_in (db w)) (access_in (db w1)) \<and> service_inv (db w1)"
      using share_do_refines [of ?w E c ok w1] Cons.prems(1,3) 1(1) by simp
    then have "[] \<notin> ran (owner_of (access_in (db w1)))" using spec_owners Cons.prems(3) by metis
    from Cons.IH [OF _ 1(2) this] s have "share_runs E h1 (access_in (db w1)) (access_in (db w')) \<and> map (\<lambda>(t, c, ok). c) h1 = map snd cs" by blast
    with s show ?case using x 1(3) by (auto intro: share_runs.step)
  qed (simp add: share_runs.stop)
qed

lemma share_service_refines_witness:
  "\<exists>w' :: world. share_runs sample_env
     [(0, Grant ''u'' ''k'' ''bob@x'' 10, True), (5, Fetch_gif ''v'' ''k'', True), (11, Fetch_gif ''v'' ''k'', False)]
     (access_in sample_gif_db) (access_in (db w'))"
proof -
  let ?w = "world_of 0 sample_gif_db"
  let ?cs = "[(0, Grant ''u'' ''k'' ''bob@x'' 10), (5, Fetch_gif ''v'' ''k''), (11, Fetch_gif ''v'' ''k'')]"
  have "fst (share_history sample_env ?cs ?w) =
      [(0, Grant ''u'' ''k'' ''bob@x'' 10, True), (5, Fetch_gif ''v'' ''k'', True), (11, Fetch_gif ''v'' ''k'', False)]"
    by code_simp
  moreover have "service_inv (db ?w)" using sample_gif_inv by (simp add: world_of_def)
  moreover have "\<forall>g\<in>set (gifs (db ?w)). g_UserId g \<noteq> []" by code_simp
  ultimately show ?thesis
    using share_service_refines [of ?w sample_env ?cs, OF _ _ prod.collapse [symmetric]]
    by (auto simp: world_of_def simp del: share_history.simps)
qed

end
