(* ===== verification/Quota_Laws.thy ===== *)
theory Quota_Laws
  imports Conversion_Laws
begin

text \<open>
  The gif limit over several conversions of one user. \<open>Convert\<close> counts the new conversion in its own
  copy of the quota only, under the user's mutex, and \<open>Process\<close> drops the answer of \<open>IncrementUsage\<close>;
  so the limit is compared with what has been processed and holds nothing back that is queued.
\<close>

section \<open>Conversions one after the other\<close>

primrec queue_all ::
  "env \<Rightarrow> string \<Rightarrow> string \<Rightarrow> rat \<Rightarrow> rat \<Rightarrow> int \<Rightarrow> int \<Rightarrow> bool \<Rightarrow> nat \<Rightarrow> string list io" where
  "queue_all E userId key start stop fps width lp 0 = ret []"
| "queue_all E userId key start stop fps width lp (Suc n) =
     call (Convert E userId key start stop fps width lp) fail (\<lambda>(i, _).
     call (queue_all E userId key start stop fps width lp n) fail (\<lambda>is. ret (i # is)))"

primrec process_all :: "env \<Rightarrow> video_message list \<Rightarrow> unit io" where
  "process_all E [] = ret ()"
| "process_all E (m # ms) = call (Process E m) fail (\<lambda>_. process_all E ms)"

text \<open>The generator never repeats itself, and nothing in the tables is named after a draw to come.\<close>

definition keys_fresh :: "env \<Rightarrow> world \<Rightarrow> bool" where
  "keys_fresh E w \<longleftrightarrow> inj (uuid_gen E) \<and>
     (\<forall>k\<ge>draws w. \<forall>g\<in>set (gifs (db w)). g_Key g \<noteq> uuid_gen E k @ ''_output.gif'')"

definition ids_fresh :: "env \<Rightarrow> world \<Rightarrow> bool" where
  "ids_fresh E w \<longleftrightarrow> keys_fresh E w \<and> (\<forall>k. pg_uuid_in E (uuid_gen E k) = Some (uuid_gen E k)) \<and>
     (\<forall>k\<ge>draws w. uuid_gen E k \<notin> j_ID ` set (jobs (db w)))"

lemma ids_freshD:
  assumes "ids_fresh E w"
  shows "pg_uuid_in E (uuid_gen E (draws w)) = Some (uuid_gen E (draws w))"
    "\<forall>j\<in>set (jobs (db w)). j_ID j \<noteq> uuid_gen E (draws w)"
  using assms by (force simp: ids_fresh_def)+

lemma ids_fresh_queued:
  assumes "ids_fresh E w" "draws w' = Suc (draws w)" "gifs (db w') = gifs (db w)"
    and "j_ID ` set (jobs (db w')) = insert (uuid_gen E (draws w)) (j_ID ` set (jobs (db w)))"
  shows "ids_fresh E w'"
  using assms by (auto simp: ids_fresh_def keys_fresh_def dest: injD)

lemma keys_fresh_processed:
  assumes "keys_fresh E w" "draws w' = draws w + 2" "gifs (db w') = gifs (db w) @ [g]"
    and "g_Key g = uuid_gen E (draws w) @ ''_output.gif''"
  shows "keys_fresh E w'"
  using assms by (auto simp: keys_fresh_def dest: injD)

lemma queue_all_ok:
  assumes "no_faults E" "tx w = NoTx" "\<not> foreign_key userId key" "pg_uuid_in E userId = Some u"
    and "user_exists u (db w)" "ids_fresh E w"
    and "\<forall>q\<in>set (quota (db w)). q_GifCount q < q_GitLimit q"
  shows "\<exists>is w'. queue_all E userId key start stop fps width lp n w = (Inr is, w') \<and> length is = n \<and>
    published w' = published w @
      map (\<lambda>i. (ProcessQueue, VideoPayload (conversion_queued i userId key start stop fps width lp))) is \<and>
    db w' = (db w)\<lparr>jobs := jobs (db w')\<rparr> \<and> tx w' = NoTx \<and> ids_fresh E w'"
  using assms(2,5-7)
proof (induction n arbitrary: w)
  case 0
  then show ?case by (simp add: ret_def)
next
  case (Suc n)
  obtain w1 where c: "Convert E userId key start stop fps width lp w = (Inr (uuid_gen E (draws w), ''queued''), w1)"
    and w1: "draws w1 = Suc (draws w)" "tx w1 = NoTx"
      "j_ID ` set (jobs (db w1)) = insert (uuid_gen E (draws w)) (j_ID ` set (jobs (db w)))"
    using Convert_ok [OF assms(1) Suc.prems(1) assms(3,4) Suc.prems(2) ids_freshD(1,2) [OF Suc.prems(3)]]
      Suc.prems(4) by blast
  from Convert_Inr [OF c] have d: "db w1 = (db w)\<lparr>jobs := jobs (db w1)\<rparr>"
    and p: "published w1 = published w @ [(ProcessQueue, VideoPayload
      (conversion_queued (uuid_gen E (draws w)) userId key start stop fps width lp))]" by blast+
  then have same: "users (db w1) = users (db w)" "gifs (db w1) = gifs (db w)" "quota (db w1) = quota (db w)"
    by (metis database.select_convs database.update_convs database.surjective)+
  then have "user_exists u (db w1)" "\<forall>q\<in>set (quota (db w1)). q_GifCount q < q_GitLimit q" "ids_fresh E w1"
    using Suc.prems w1 by (auto simp: user_exists_def intro: ids_fresh_queued)
  from Suc.IH [OF w1(2) this(1,3,2)] obtain "is" w' where
    "queue_all E userId key start stop fps width lp n w1 = (Inr is, w')" "length is = n"
    "published w' = published w1 @
      map (\<lambda>i. (ProcessQueue, VideoPayload (conversion_queued i userId key start stop fps width lp))) is"
    "db w' = (db w1)\<lparr>jobs := jobs (db w')\<rparr>" "tx w' = NoTx" "ids_fresh E w'" by blast
  moreover from this(4) d have "db w' = (db w)\<lparr>jobs := jobs (db w')\<rparr>"
    by (metis database.update_convs(11) database.surjective)
  ultimately show ?case using c p
    by (auto simp: call_def ret_def intro!: exI [of _ "uuid_gen E (draws w) # is"])
qed

section \<open>Processing them\<close>

definition within_limit :: "database \<Rightarrow> bool" where
  "within_limit d \<longleftrightarrow> (\<forall>q\<in>set (quota d). int4 (q_UsedBytes q) \<and> 0 \<le> q_GifCount q \<and>
     q_GifCount q \<le> q_GitLimit q \<and> q_GitLimit q < 2 ^ 31 - 1)"

lemma within_limit_counted:
  assumes "within_limit d" "quota d' = update_where (\<lambda>q. q_UserID q = u \<and> quota_fits 0 1 q)
      (\<lambda>q. q\<lparr>q_GifCount := q_GifCount q + 1\<rparr>) (quota d)"
  shows "within_limit d'"
  using assms by (auto simp: within_limit_def set_update_where quota_fits_def)

lemma process_all_ok:
  assumes "tools_work E" "tx w = NoTx" "pg_uuid_in E userId = Some u" "user_exists u (db w)"
    and "keys_fresh E w" "within_limit (db w)" "\<forall>m\<in>set ms. vm_UserID m = userId"
  shows "\<exists>w'. process_all E ms w = (Inr (), w') \<and> within_limit (db w') \<and>
    length (filter (\<lambda>g. g_UserId g = u) (gifs (db w'))) =
      length (filter (\<lambda>g. g_UserId g = u) (gifs (db w))) + length ms"
  using assms(2,4-7)
proof (induction ms arbitrary: w)
  case Nil
  then show ?case by (simp add: ret_def)
next
  case (Cons m ms)
  have m: "pg_uuid_in E (vm_UserID m) = Some u" using assms(3) Cons.prems(5) by simp
  have "\<forall>g\<in>set (gifs (db w)). g_Key g \<noteq> uuid_gen E (draws w) @ ''_output.gif''"
    using Cons.prems(3) by (simp add: keys_fresh_def)
  moreover have "\<forall>q\<in>set (quota (db w)). int4 (q_UsedBytes q) \<and> int4 (q_GifCount q + 1)"
    using Cons.prems(4) by (auto simp: within_limit_def int4_def)
  ultimately obtain w1 g where p: "Process E m w = (Inr (), w1)" and w1: "draws w1 = draws w + 2" "tx w1 = NoTx"
      "users (db w1) = users (db w)" "gifs (db w1) = gifs (db w) @ [g]"
      "g_Key g = uuid_gen E (draws w) @ ''_output.gif''"
    using Process_ok [OF assms(1) Cons.prems(1) m Cons.prems(2)] by blast
  from Process_adds_one [OF p] m w1(4) have "g_UserId g = u"
    and q: "quota (db w1) = update_where (\<lambda>q. q_UserID q = u \<and> quota_fits 0 1 q)
      (\<lambda>q. q\<lparr>q_GifCount := q_GifCount q + 1\<rparr>) (quota (db w))"
    by auto
  have "user_exists u (db w1)" "keys_fresh E w1" "within_limit (db w1)" "\<forall>m\<in>set ms. vm_UserID m = userId"
    using Cons.prems w1 q by (auto simp: user_exists_def intro: keys_fresh_processed within_limit_counted)
  from Cons.IH [OF w1(2) this] p w1(4) \<open>g_UserId g = u\<close> show ?case by (auto simp: call_def)
qed

text \<open>
  Property C20. The gif limit of a user does not limit conversions that are queued before the first
  of them is processed: as long as one gif is left, any number of them is accepted, each with its
  message; and when nothing fails, all of them are processed and the user has that many gifs more,
  while the quota counts up to the limit and stays there.
\<close>

theorem queued_past_limit:
  assumes "tools_work E" "tx w = NoTx" "\<not> foreign_key userId key" "pg_uuid_in E userId = Some u"
    and "user_exists u (db w)" "ids_fresh E w" "within_limit (db w)"
    and "\<forall>q\<in>set (quota (db w)). q_GifCount q < q_GitLimit q"
  shows "\<exists>is w1 w2. queue_all E userId key start stop fps width lp n w = (Inr is, w1) \<and>
    published w1 = published w @
      map (\<lambda>i. (ProcessQueue, VideoPayload (conversion_queued i userId key start stop fps width lp))) is \<and>
    process_all E (map (\<lambda>i. conversion_queued i userId key start stop fps width lp) is) w1 = (Inr (), w2) \<and>
    length (filter (\<lambda>g. g_UserId g = u) (gifs (db w2))) = length (filter (\<lambda>g. g_UserId g = u) (gifs (db w))) + n \<and>
    within_limit (db w2)"
proof -
  have nf: "no_faults E" using assms(1) by (simp add: tools_work_def)
  obtain "is" w1 where q: "queue_all E userId key start stop fps width lp n w = (Inr is, w1)" "length is = n"
      "published w1 = published w @
        map (\<lambda>i. (ProcessQueue, VideoPayload (conversion_queued i userId key start stop fps width lp))) is"
    and d: "db w1 = (db w)\<lparr>jobs := jobs (db w1)\<rparr>" and w1: "tx w1 = NoTx" "ids_fresh E w1"
    using queue_all_ok [OF nf assms(2-6,8)] by blast
  from d have "users (db w1) = users (db w)" "gifs (db w1) = gifs (db w)" "quota (db w1) = quota (db w)"
    by (metis database.select_convs database.update_convs database.surjective)+
  then show ?thesis
    using q w1 assms(4,5,7) process_all_ok [OF assms(1) w1(1) assms(4), of
        "map (\<lambda>i. conversion_queued i userId key start stop fps width lp) is"]
    by (auto simp: user_exists_def within_limit_def ids_fresh_def conversion_queued_def)
qed

text \<open>A generator that does not repeat itself, unlike the sample's.\<close>

definition counting_env :: env where
  "counting_env = sample_env\<lparr>uuid_gen := \<lambda>n. replicate n CHR ''0''\<rparr>"

lemma counting_env_ids: "ids_fresh counting_env (world_of 0 sample_quota_db)"
proof -
  have "inj (\<lambda>n. replicate n CHR ''0'')" by (auto intro: injI dest: arg_cong [where f = length])
  moreover have "\<nexists>k. ''k'' = replicate k CHR ''0'' @ ''_output.gif''"
    by (auto dest: arg_cong [where f = length])
  ultimately show ?thesis
    by (auto simp: ids_fresh_def keys_fresh_def counting_env_def sample_quota_db_def sample_gif_db_def
        sample_two_db_def sample_gif_def empty_db_def)
qed

lemma queued_past_limit_witness:
  "\<exists>is w1 w2. queue_all counting_env ''u'' ''k'' 0 1 10 480 True 7 (world_of 0 sample_quota_db) = (Inr is, w1) \<and>
     process_all counting_env (map (\<lambda>i. conversion_queued i ''u'' ''k'' 0 1 10 480 True) is) w1 = (Inr (), w2) \<and>
     length (filter (\<lambda>g. g_UserId g = ''u'') (gifs (db w2))) = 8 \<and> within_limit (db w2)"
proof -
  have "tools_work counting_env"
    by (simp add: tools_work_def counting_env_def sample_env_def no_faults_def)
  moreover have "tx (world_of 0 sample_quota_db) = NoTx" "\<not> foreign_key ''u'' ''k''"
    "pg_uuid_in counting_env ''u'' = Some ''u''" "user_exists ''u'' (db (world_of 0 sample_quota_db))"
    "within_limit (db (world_of 0 sample_quota_db))"
    "\<forall>q\<in>set (quota (db (world_of 0 sample_quota_db))). q_GifCount q < q_GitLimit q"
    "length (filter (\<lambda>g. g_UserId g = ''u'') (gifs (db (world_of 0 sample_quota_db)))) = 1"
    by (simp_all add: foreign_key_def strings_Contains_char_def counting_env_def within_limit_def int4_def
        sample_quota_db_def sample_gif_db_def sample_two_db_def sample_ann_def new_user_def user_exists_def
        sample_gif_def empty_db_def)
  ultimately show ?thesis
    using queued_past_limit [of counting_env "world_of 0 sample_quota_db" "''u''" "''k''" "''u''" 0 1 10 480 True 7]
      counting_env_ids by auto
qed

end
