(* ===== verification/Config.thy ===== *)
theory Config
  imports Gateway_Laws
begin

text \<open>
  \<open>config/config.go\<close>: the environment variables (or the \<open>.env\<close> file) a process is configured by,
  read once. Viper, which merges the two and casts texts to numbers, is a parameter; the defaults
  the code sets are handed to it. Where the code calls \<open>log.Panic\<close> the result is \<open>Inl\<close> the message.
\<close>

section \<open>Viper\<close>

datatype read_error = NotExist | ConfigFileNotFound | PathError | ParseError string

datatype default = DStr string | DInt int | DBool bool

record viper =
  vp_ReadInConfig :: "read_error option"
  vp_GetString :: "(string \<times> default) list \<Rightarrow> string \<Rightarrow> string"
  vp_GetInt :: "(string \<times> default) list \<Rightarrow> string \<Rightarrow> int"
  vp_GetInt64 :: "(string \<times> default) list \<Rightarrow> string \<Rightarrow> int"
  vp_GetBool :: "(string \<times> default) list \<Rightarrow> string \<Rightarrow> bool"

definition config_defaults :: "(string \<times> default) list" where
  "config_defaults =
     [(''BCRYPT_COST'', DInt 12), (''PG_SSLMODE'', DStr ''disable''),
      (''MINIO_TEMP_BUCKET_TTL_DAYS'', DInt 1), (''ADDR'', DStr ''0.0.0.0''),
      (''MINIO_MAX_UPLOAD_BYTES'', DInt 104857600), (''MINIO_USE_TLS'', DBool False)]"

definition GetString :: "viper \<Rightarrow> string \<Rightarrow> string" where
  "GetString V = vp_GetString V config_defaults"

definition GetInt :: "viper \<Rightarrow> string \<Rightarrow> int" where
  "GetInt V = vp_GetInt V config_defaults"

definition GetInt64 :: "viper \<Rightarrow> string \<Rightarrow> int" where
  "GetInt64 V = vp_GetInt64 V config_defaults"

definition GetBool :: "viper \<Rightarrow> string \<Rightarrow> bool" where
  "GetBool V = vp_GetBool V config_defaults"

section \<open>The configuration\<close>

record pg_config =
  pg_User :: string
  pg_Pass :: string
  pg_Port :: string
  pg_Addr :: string
  pg_DatabaseName :: string
  pg_SslMode :: string
  pg_SuperUser :: string
  pg_SuperDatabase :: string

record redis_config =
  rd_Addr :: string
  rd_Pass :: string
  rd_User :: string

record minio_config =
  mn_Endpoint :: string
  mn_PublicEndpoint :: string
  mn_RootUser :: string
  mn_RootPass :: string
  mn_PresignedUser :: string
  mn_PresignedPass :: string
  mn_TempBucket :: string
  mn_StorageBucket :: string
  mn_TTL :: int
  mn_MaxUploadBytes :: int
  mn_Secure :: bool
  mn_ExchangeQueue :: string
  mn_Allowed :: "string list"

record rabbit_config =
  rb_Addr :: string
  rb_User :: string
  rb_Pass :: string

record mailtrap_config =
  mt_User :: string
  mt_Pass :: string

record smtp_config =
  sm_Host :: string
  sm_Port :: int
  sm_User :: string
  sm_Pass :: string

record config =
  cf_Version :: string
  cf_Addr :: string
  cf_Port :: int
  cf_Service :: string
  cf_JwtSecret :: string
  cf_BcryptCost :: int
  cf_HashPepper :: string
  cf_PostgreSQL :: pg_config
  cf_Redis :: redis_config
  cf_Email :: string
  cf_Mailtrap :: mailtrap_config
  cf_SMTP :: smtp_config
  cf_Minio :: minio_config
  cf_RabbitMq :: rabbit_config

section \<open>Loading it\<close>

definition required :: "viper \<Rightarrow> string \<Rightarrow> (string \<Rightarrow> string + 'a) \<Rightarrow> string + 'a" where
  "required V key k = (let v = GetString V key in if v = [] then Inl key else k v)"

fun strings_Split :: "char \<Rightarrow> string \<Rightarrow> string list" where
  "strings_Split c [] = [[]]"
| "strings_Split c (x # s) =
     (case strings_Split c s of
        [] \<Rightarrow> [[x]]
      | p # ps \<Rightarrow> if x = c then [] # p # ps else (x # p) # ps)"

text \<open>ASCII white space.\<close>

definition white :: "char \<Rightarrow> bool" where
  "white c \<longleftrightarrow> c \<in> {CHR '' '', CHR 0x09, CHR 0x0A, CHR 0x0B, CHR 0x0C, CHR 0x0D}"

definition strings_TrimSpace :: "string \<Rightarrow> string" where
  "strings_TrimSpace s = rev (dropWhile white (rev (dropWhile white s)))"

text \<open>A fallback to the root's credentials for presigning when there are none of its own.\<close>

definition or_required :: "viper \<Rightarrow> string \<Rightarrow> string \<Rightarrow> (string \<Rightarrow> string + 'a) \<Rightarrow> string + 'a" where
  "or_required V key fallback k =
     (let v = GetString V key in if v = [] then required V fallback k else k v)"

definition load_minio ::
  "viper \<Rightarrow> string list \<Rightarrow> string \<Rightarrow> string \<Rightarrow> (minio_config \<Rightarrow> string + 'a) \<Rightarrow> string + 'a" where
  "load_minio V origins presignedUser presignedPass k =
     required V ''MINIO_ADDR'' (\<lambda>ep. required V ''MINIO_PUBLIC_ENDPOINT'' (\<lambda>pep.
     required V ''MINIO_ROOT_USER'' (\<lambda>ru. required V ''MINIO_ROOT_PASSWORD'' (\<lambda>rp.
     required V ''MINIO_PERSIST_BUCKET'' (\<lambda>sb. required V ''MINIO_TEMP_BUCKET'' (\<lambda>tb.
     required V ''MINIO_NOTIFY_EXCHANGE'' (\<lambda>ex.
     k \<lparr>mn_Endpoint = ep, mn_PublicEndpoint = pep, mn_RootUser = ru, mn_RootPass = rp,
        mn_PresignedUser = presignedUser, mn_PresignedPass = presignedPass, mn_TempBucket = tb,
        mn_StorageBucket = sb, mn_TTL = GetInt V ''MINIO_TEMP_BUCKET_TTL_DAYS'',
        mn_MaxUploadBytes = GetInt64 V ''MINIO_MAX_UPLOAD_BYTES'', mn_Secure = GetBool V ''MINIO_USE_TLS'',
        mn_ExchangeQueue = ex, mn_Allowed = origins\<rparr>)))))))"

definition load_pg :: "viper \<Rightarrow> (pg_config \<Rightarrow> string + 'a) \<Rightarrow> string + 'a" where
  "load_pg V k =
     required V ''PG_USER'' (\<lambda>u. required V ''PG_PASSWORD'' (\<lambda>p. required V ''PG_PORT'' (\<lambda>port.
     required V ''PG_ADDRESS'' (\<lambda>a. required V ''PG_NAME'' (\<lambda>d. required V ''PG_SUPERUSER'' (\<lambda>su.
     required V ''PG_SUPERDB'' (\<lambda>sd.
     k \<lparr>pg_User = u, pg_Pass = p, pg_Port = port, pg_Addr = a, pg_DatabaseName = d,
        pg_SslMode = GetString V ''PG_SSLMODE'', pg_SuperUser = su, pg_SuperDatabase = sd\<rparr>)))))))"

definition load_values :: "viper \<Rightarrow> string + config" where
  "load_values V =
     required V ''MINIO_API_CORS_ALLOW_ORIGIN'' (\<lambda>cors.
     let origins = map strings_TrimSpace (strings_Split (CHR '','') cors) in
     or_required V ''MINIO_PRESIGNED_USER'' ''MINIO_ROOT_USER'' (\<lambda>presignedUser.
     or_required V ''MINIO_PRESIGNED_PASSWORD'' ''MINIO_ROOT_PASSWORD'' (\<lambda>presignedPass.
     required V ''VERSION'' (\<lambda>version. required V ''SERVICE_NAME'' (\<lambda>service.
     required V ''JWT_SECRET'' (\<lambda>secret. required V ''HASH_PEPPER'' (\<lambda>pepper.
     load_pg V (\<lambda>pg.
     required V ''REDIS_ADDR'' (\<lambda>redis. required V ''EMAIL'' (\<lambda>email.
     required V ''MAILTRAP_USERNAME'' (\<lambda>mu. required V ''MAILTRAP_PASSWORD'' (\<lambda>mp.
     load_minio V origins presignedUser presignedPass (\<lambda>minio.
     required V ''RMQ_ADDR'' (\<lambda>ra. required V ''RMQ_USER'' (\<lambda>ru. required V ''RMQ_PASS'' (\<lambda>rp.
     required V ''SMTP_HOST'' (\<lambda>sh. required V ''SMTP_USER'' (\<lambda>su. required V ''SMTP_PASS'' (\<lambda>sp.
     Inr \<lparr>cf_Version = version, cf_Addr = GetString V ''ADDR'', cf_Port = GetInt V ''PORT'',
          cf_Service = service, cf_JwtSecret = secret, cf_BcryptCost = GetInt V ''BCRYPT_COST'',
          cf_HashPepper = pepper, cf_PostgreSQL = pg,
          cf_Redis = \<lparr>rd_Addr = redis, rd_Pass = GetString V ''REDIS_PASSWORD'',
            rd_User = GetString V ''REDIS_USER''\<rparr>,
          cf_Email = email, cf_Mailtrap = \<lparr>mt_User = mu, mt_Pass = mp\<rparr>,
          cf_SMTP = \<lparr>sm_Host = sh, sm_Port = GetInt V ''SMTP_PORT'', sm_User = su, sm_Pass = sp\<rparr>,
          cf_Minio = minio, cf_RabbitMq = \<lparr>rb_Addr = ra, rb_User = ru, rb_Pass = rp\<rparr>\<rparr>)))))))))))))))))))"

text \<open>Only a file that is there and cannot be parsed stops the process.\<close>

definition loadConfig :: "viper \<Rightarrow> string + config" where
  "loadConfig V =
     (case vp_ReadInConfig V of
        Some (ParseError e) \<Rightarrow> Inl e
      | _ \<Rightarrow> load_values V)"

text \<open>
  \<open>sync.Once\<close>: the first call loads, also when it panics; later calls return what is there, which
  is \<open>nil\<close> after a panic. The state is whether the first call was made, and \<open>configuration\<close>.
\<close>

definition GetConfig :: "viper \<Rightarrow> bool \<times> config option \<Rightarrow> (string + config option) \<times> (bool \<times> config option)" where
  "GetConfig V s =
     (case s of (done, c) \<Rightarrow>
        if done then (Inr c, s)
        else (case loadConfig V of
                Inl e \<Rightarrow> (Inl e, (True, c))
              | Inr c' \<Rightarrow> (Inr (Some c'), (True, Some c'))))"

text \<open>\<open>newConnectionString\<close> of \<open>internal/infra/postgres/connection.go\<close>, and the superuser's.\<close>

definition newConnectionString :: "pg_config \<Rightarrow> string" where
  "newConnectionString c =
     ''postgres://'' @ pg_User c @ '':'' @ pg_Pass c @ ''@'' @ pg_Addr c @ '':'' @ pg_Port c @ ''/'' @
     pg_DatabaseName c @ ''?sslmode='' @ pg_SslMode c"

definition newSuperConnectionString :: "pg_config \<Rightarrow> string" where
  "newSuperConnectionString c =
     ''postgres://'' @ pg_SuperUser c @ ''@'' @ pg_Addr c @ '':'' @ pg_Port c @ ''/'' @
     pg_SuperDatabase c @ ''?sslmode='' @ pg_SslMode c"

text \<open>The values of a configuration in the environment of the model.\<close>

definition configured :: "config \<Rightarrow> env \<Rightarrow> env" where
  "configured c E =
     E\<lparr>cnf_JwtSecretKey := cf_JwtSecret c, cnf_Pepper := cf_HashPepper c, cnf_Cost := cf_BcryptCost c,
       cnf_MaxUploadBytes := mn_MaxUploadBytes (cf_Minio c), cnf_TempBucket := mn_TempBucket (cf_Minio c),
       cnf_StorageBucket := mn_StorageBucket (cf_Minio c), cnf_ExchangeQueue := mn_ExchangeQueue (cf_Minio c),
       cnf_AllowedOrigins := mn_Allowed (cf_Minio c)\<rparr>"

section \<open>What is required\<close>

definition required_keys :: "viper \<Rightarrow> string list" where
  "required_keys V =
     [''MINIO_API_CORS_ALLOW_ORIGIN''] @
     (if GetString V ''MINIO_PRESIGNED_USER'' = [] then [''MINIO_ROOT_USER''] else []) @
     (if GetString V ''MINIO_PRESIGNED_PASSWORD'' = [] then [''MINIO_ROOT_PASSWORD''] else []) @
     [''VERSION'', ''SERVICE_NAME'', ''JWT_SECRET'', ''HASH_PEPPER'', ''PG_USER'', ''PG_PASSWORD'', ''PG_PORT'',
      ''PG_ADDRESS'', ''PG_NAME'', ''PG_SUPERUSER'', ''PG_SUPERDB'', ''REDIS_ADDR'', ''EMAIL'',
      ''MAILTRAP_USERNAME'', ''MAILTRAP_PASSWORD'', ''MINIO_ADDR'', ''MINIO_PUBLIC_ENDPOINT'',
      ''MINIO_ROOT_USER'', ''MINIO_ROOT_PASSWORD'', ''MINIO_PERSIST_BUCKET'', ''MINIO_TEMP_BUCKET'',
      ''MINIO_NOTIFY_EXCHANGE'', ''RMQ_ADDR'', ''RMQ_USER'', ''RMQ_PASS'', ''SMTP_HOST'', ''SMTP_USER'', ''SMTP_PASS'']"

text \<open>The value of a chain of requirements, by the first that is not met.\<close>

definition missing :: "viper \<Rightarrow> string list \<Rightarrow> string option" where
  "missing V ks = List.find (\<lambda>k. GetString V k = []) ks"

lemma missing_simps [simp]:
  "missing V [] = None" "missing V (k # ks) = (if GetString V k = [] then Some k else missing V ks)"
  by (simp_all add: missing_def)

definition panicked :: "'a + 'b \<Rightarrow> 'a option" where
  "panicked r = (case r of Inl e \<Rightarrow> Some e | Inr _ \<Rightarrow> None)"

lemma panicked_simps [simp]:
  "panicked (Inl e) = Some e" "panicked (Inr v) = None"
  "panicked (required V k f) = (if GetString V k = [] then Some k else panicked (f (GetString V k)))"
  by (simp_all add: panicked_def required_def Let_def)

lemma panicked_load_values: "panicked (load_values V) = missing V (required_keys V)"
  by (cases "GetString V ''MINIO_PRESIGNED_USER'' = []"; cases "GetString V ''MINIO_PRESIGNED_PASSWORD'' = []")
    (simp_all add: load_values_def required_keys_def load_pg_def load_minio_def or_required_def Let_def)

lemma required_Inr: "required V k f = Inr v \<longleftrightarrow> GetString V k \<noteq> [] \<and> f (GetString V k) = Inr v"
  by (simp add: required_def Let_def)

lemma loadConfig_Inl:
  "loadConfig V = Inl e \<longleftrightarrow>
     vp_ReadInConfig V = Some (ParseError e) \<or>
     (\<nexists>e'. vp_ReadInConfig V = Some (ParseError e')) \<and> missing V (required_keys V) = Some e"
proof -
  have "load_values V = Inl e \<longleftrightarrow> missing V (required_keys V) = Some e"
    unfolding panicked_load_values [symmetric] by (auto simp: panicked_def split: sum.split)
  then show ?thesis
    by (auto simp: loadConfig_def split: option.splits read_error.splits)
qed


section \<open>Origins\<close>

lemma Split_no_sep: "c \<notin> set s \<Longrightarrow> strings_Split c s = [s]"
  by (induction s) auto

lemma Split_nonempty [simp]: "strings_Split c s \<noteq> []"
  by (cases s) (auto split: list.split)

lemma Split_append: "c \<notin> set s \<Longrightarrow> strings_Split c (s @ c # t) = s # strings_Split c t"
  by (induction s) (auto split: list.split)

text \<open>A list of texts with commas between them, each with white space around it.\<close>

fun join_commas :: "(string \<times> string \<times> string) list \<Rightarrow> string" where
  "join_commas [] = []"
| "join_commas [(a, x, b)] = a @ x @ b"
| "join_commas ((a, x, b) # xs) = a @ x @ b @ CHR '','' # join_commas xs"

definition bare :: "string \<Rightarrow> bool" where
  "bare x \<longleftrightarrow> x \<noteq> [] \<and> CHR '','' \<notin> set x \<and> \<not> white (hd x) \<and> \<not> white (last x)"

lemma TrimSpace_bare:
  assumes "bare x" "\<forall>c\<in>set a \<union> set b. white c"
  shows "strings_TrimSpace (a @ x @ b) = x"
proof -
  obtain c s where x: "x = c # s" "\<not> white c" using assms(1) by (cases x) (auto simp: bare_def)
  have "dropWhile white (a @ x @ b) = x @ b" using assms(2) x by (simp add: dropWhile_append)
  moreover have "dropWhile white (rev b @ rev x) = rev x"
  proof -
    obtain d t where "rev x = d # t" "\<not> white d"
      using assms(1) by (cases "rev x") (auto simp: bare_def dest: arg_cong [of _ _ rev])
    then show ?thesis using assms(2) by (simp add: dropWhile_append)
  qed
  ultimately show ?thesis by (simp add: strings_TrimSpace_def)
qed

lemma no_comma:
  assumes "bare x" "\<forall>c\<in>set a \<union> set b. white c"
  shows "CHR '','' \<notin> set (a @ x @ b)"
proof -
  have "\<not> white (CHR '','')" by (simp add: white_def)
  then have "CHR '','' \<notin> set a \<union> set b" using assms(2) by blast
  then show ?thesis using assms(1) by (simp add: bare_def)
qed

lemma origins_read_back:
  assumes "xs \<noteq> []" "\<forall>(a, x, b)\<in>set xs. bare x \<and> (\<forall>c\<in>set a \<union> set b. white c)"
  shows "map strings_TrimSpace (strings_Split (CHR '','') (join_commas xs)) = map (\<lambda>(a, x, b). x) xs"
  using assms
proof (induction xs rule: join_commas.induct)
  case (2 a x b)
  then have "CHR '','' \<notin> set (a @ x @ b)" by (intro no_comma) simp_all
  then show ?case using 2 TrimSpace_bare by (simp add: Split_no_sep)
next
  case (3 a x b v va)
  then have "CHR '','' \<notin> set (a @ x @ b)" by (intro no_comma) simp_all
  from Split_append [OF this, of "join_commas (v # va)"] show ?case
    using 3 TrimSpace_bare by simp
qed simp

text \<open>What holds of every configuration that loads, whatever the values.\<close>

definition yields :: "('b \<Rightarrow> bool) \<Rightarrow> 'a + 'b \<Rightarrow> bool" where
  "yields Q r \<longleftrightarrow> (\<forall>c. r = Inr c \<longrightarrow> Q c)"

named_theorems yields_intros \<open>rules for the steps of loading\<close>

lemma yields_required [yields_intros]: "yields Q (k (GetString V key)) \<Longrightarrow> yields Q (required V key k)"
  by (simp add: yields_def required_def Let_def)

lemma yields_or_required [yields_intros]: "(\<And>v. yields Q (k v)) \<Longrightarrow> yields Q (or_required V key fallback k)"
  by (auto simp: or_required_def Let_def intro!: yields_intros)

lemma yields_load_pg [yields_intros]: "(\<And>p. yields Q (k p)) \<Longrightarrow> yields Q (load_pg V k)"
  unfolding load_pg_def by (intro yields_intros)

lemma yields_load_minio [yields_intros]:
  "(\<And>m. mn_Allowed m = orig \<Longrightarrow> yields Q (k m)) \<Longrightarrow> yields Q (load_minio V orig u p k)"
  unfolding load_minio_def by (intro yields_intros) simp

lemma yields_Inr [yields_intros]: "Q c \<Longrightarrow> yields Q (Inr c)"
  by (simp add: yields_def)

lemma loaded_origins:
  assumes "loadConfig V = Inr c"
  shows "mn_Allowed (cf_Minio c) =
     map strings_TrimSpace (strings_Split (CHR '','') (GetString V ''MINIO_API_CORS_ALLOW_ORIGIN''))"
proof -
  let ?Q = "\<lambda>c. mn_Allowed (cf_Minio c) =
     map strings_TrimSpace (strings_Split (CHR '','') (GetString V ''MINIO_API_CORS_ALLOW_ORIGIN''))"
  have "load_values V = Inr c" using assms by (auto simp: loadConfig_def split: option.splits read_error.splits)
  moreover have "yields ?Q (load_values V)"
    unfolding load_values_def Let_def by (intro yields_intros) simp
  ultimately show ?thesis by (simp add: yields_def)
qed

text \<open>
  What the operator writes is what the server allows: with the origins listed in
  the variable, commas between them and white space anywhere around them, a request's origin
  passes exactly when it is one of them.
\<close>

theorem listed_origins_allowed:
  assumes "loadConfig V = Inr c" "GetString V ''MINIO_API_CORS_ALLOW_ORIGIN'' = join_commas xs" "xs \<noteq> []"
    and "\<forall>(a, x, b)\<in>set xs. bare x \<and> (\<forall>c\<in>set a \<union> set b. white c)"
  shows "CheckOrigin (configured c E) rq \<longleftrightarrow> rq_Header rq ''Origin'' \<in> (\<lambda>(a, x, b). x) ` set xs"
proof -
  have "[] \<notin> (\<lambda>(a, x, b). x) ` set xs" using assms(4) by (auto simp: bare_def)
  then show ?thesis
    using loaded_origins [OF assms(1)] origins_read_back [OF assms(3,4)] assms(2)
    by (auto simp: CheckOrigin_def InitAllowedOrigins_def configured_def Let_def)
qed

section \<open>The properties at a concrete environment\<close>

text \<open>Every variable set to one value, but for the origins.\<close>

definition sample_viper :: "string \<Rightarrow> viper" where
  "sample_viper origins =
     \<lparr>vp_ReadInConfig = Some NotExist,
      vp_GetString = (\<lambda>_ k. if k = ''MINIO_API_CORS_ALLOW_ORIGIN'' then origins else ''x''),
      vp_GetInt = (\<lambda>_ _. 1), vp_GetInt64 = (\<lambda>_ _. 1), vp_GetBool = (\<lambda>_ _. False)\<rparr>"

lemma sample_loads: "orig \<noteq> [] \<Longrightarrow> \<exists>c. loadConfig (sample_viper orig) = Inr c"
proof -
  assume "orig \<noteq> []"
  then have "loadConfig (sample_viper orig) \<noteq> Inl e" for e
    by (simp add: loadConfig_Inl) (simp add: sample_viper_def required_keys_def GetString_def)
  then show ?thesis by (cases "loadConfig (sample_viper orig)") auto
qed

lemma listed_origins_allowed_witness:
  "\<exists>c. loadConfig (sample_viper ''http://a, http://b'') = Inr c \<and>
     CheckOrigin (configured c sample_env) (sample_request ''GET'' (\<lambda>_. ''http://b''))"
proof -
  let ?xs = "[([], ''http://a'', []), ('' '', ''http://b'', [])]"
  obtain c where c: "loadConfig (sample_viper ''http://a, http://b'') = Inr c"
    using sample_loads [of "''http://a, http://b''"] by auto
  have g: "GetString (sample_viper ''http://a, http://b'') ''MINIO_API_CORS_ALLOW_ORIGIN'' = join_commas ?xs"
    by (simp add: GetString_def sample_viper_def)
  have "\<forall>(a, x, b)\<in>set ?xs. bare x \<and> (\<forall>c\<in>set a \<union> set b. white c)"
    by (simp add: bare_def white_def)
  from listed_origins_allowed [OF c g _ this] c show ?thesis
    by (auto simp: sample_request_def)
qed

end
