(* ===== verification/Minio_Setup.thy ===== *)
theory Minio_Setup
  imports Config "HOL-Library.AList"
begin

text \<open>
  \<open>internal/infra/minio/minio.go\<close>: the two clients and the setup of the buckets, on the part of the
  object store that the setup reads and writes. \<open>refuse\<close> says which request the store fails, counted
  from the state's first, and with what error; what is sent is the arguments the code passes.
\<close>

section \<open>The clients\<close>

record minio_options =
  mo_Endpoint :: string
  mo_User :: string
  mo_Pass :: string
  mo_Secure :: bool
  mo_Region :: string

text \<open>\<open>minio.New\<close> of the library is an argument; its error is a panic here.\<close>

definition panic_on :: "'a result \<Rightarrow> 'a result" where
  "panic_on r = (case r of Inl e \<Rightarrow> Inl (Panic (error_text e)) | Inr c \<Rightarrow> Inr c)"

definition NewMinio :: "(minio_options \<Rightarrow> 'c result) \<Rightarrow> minio_config \<Rightarrow> 'c result" where
  "NewMinio minio_New cnf = panic_on (minio_New \<lparr>mo_Endpoint = mn_Endpoint cnf, mo_User = mn_RootUser cnf,
     mo_Pass = mn_RootPass cnf, mo_Secure = mn_Secure cnf, mo_Region = ''us-east-1''\<rparr>)"

definition NewPublicMinio :: "(minio_options \<Rightarrow> 'c result) \<Rightarrow> minio_config \<Rightarrow> 'c result" where
  "NewPublicMinio minio_New cnf = panic_on (minio_New \<lparr>mo_Endpoint = mn_PublicEndpoint cnf,
     mo_User = mn_PresignedUser cnf, mo_Pass = mn_PresignedPass cnf, mo_Secure = mn_Secure cnf,
     mo_Region = ''us-east-1''\<rparr>)"

section \<open>The store\<close>

record queue_config =
  qc_Arn :: "string list"
  qc_Events :: "string list"

record lifecycle_rule =
  rule_ID :: string
  rule_Status :: string
  rule_Days :: int

record minio_server =
  ms_requests :: nat
  ms_buckets :: "string list"
  ms_notification :: "(string \<times> queue_config list) list"
  ms_lifecycle :: "(string \<times> lifecycle_rule list) list"
  ms_objects :: "((string \<times> string) \<times> string) list"

type_synonym 'a minio_io = "minio_server \<Rightarrow> 'a result \<times> minio_server"

definition and_then :: "('s \<Rightarrow> 'a result \<times> 's) \<Rightarrow> ('a \<Rightarrow> 's \<Rightarrow> 'b result \<times> 's) \<Rightarrow> 's \<Rightarrow> 'b result \<times> 's" where
  "and_then m k s = (case m s of (Inl e, s') \<Rightarrow> (Inl e, s') | (Inr x, s') \<Rightarrow> k x s')"

definition minio_request :: "(nat \<Rightarrow> string option) \<Rightarrow> 'a minio_io \<Rightarrow> 'a minio_io" where
  "minio_request refuse f s =
     (let s' = s\<lparr>ms_requests := Suc (ms_requests s)\<rparr>
      in case refuse (ms_requests s) of Some e \<Rightarrow> (Inl (Driver e), s') | None \<Rightarrow> f s')"

definition in_bucket :: "string \<Rightarrow> (minio_server \<Rightarrow> minio_server) \<Rightarrow> unit minio_io" where
  "in_bucket name f s =
     (if name \<in> set (ms_buckets s) then (Inr (), f s) else (Inl (Driver ''NoSuchBucket''), s))"

definition BucketExists :: "(nat \<Rightarrow> string option) \<Rightarrow> string \<Rightarrow> bool minio_io" where
  "BucketExists refuse name = minio_request refuse (\<lambda>s. (Inr (name \<in> set (ms_buckets s)), s))"

definition MakeBucket :: "(nat \<Rightarrow> string option) \<Rightarrow> string \<Rightarrow> unit minio_io" where
  "MakeBucket refuse name = minio_request refuse (\<lambda>s.
     if name \<in> set (ms_buckets s) then (Inl (Driver ''BucketAlreadyOwnedByYou''), s)
     else (Inr (), s\<lparr>ms_buckets := ms_buckets s @ [name]\<rparr>))"

definition SetBucketNotification :: "(nat \<Rightarrow> string option) \<Rightarrow> string \<Rightarrow> queue_config list \<Rightarrow> unit minio_io" where
  "SetBucketNotification refuse name cfg = minio_request refuse (in_bucket name
     (\<lambda>s. s\<lparr>ms_notification := AList.update name cfg (ms_notification s)\<rparr>))"

definition SetBucketLifecycle :: "(nat \<Rightarrow> string option) \<Rightarrow> string \<Rightarrow> lifecycle_rule list \<Rightarrow> unit minio_io" where
  "SetBucketLifecycle refuse name rules = minio_request refuse (in_bucket name
     (\<lambda>s. s\<lparr>ms_lifecycle := AList.update name rules (ms_lifecycle s)\<rparr>))"

definition minio_FPutObject :: "(nat \<Rightarrow> string option) \<Rightarrow> string \<Rightarrow> string \<Rightarrow> string \<Rightarrow> unit minio_io" where
  "minio_FPutObject refuse name key contentType = minio_request refuse (in_bucket name
     (\<lambda>s. s\<lparr>ms_objects := AList.update (name, key) contentType (ms_objects s)\<rparr>))"

section \<open>Setting it up\<close>

definition bucketSetup :: "(nat \<Rightarrow> string option) \<Rightarrow> string \<Rightarrow> unit minio_io" where
  "bucketSetup refuse name = and_then (BucketExists refuse name)
     (\<lambda>exist. if exist then Pair (Inr ()) else MakeBucket refuse name)"

definition bindBucket :: "(nat \<Rightarrow> string option) \<Rightarrow> string \<Rightarrow> unit minio_io" where
  "bindBucket refuse name = SetBucketNotification refuse name
     [\<lparr>qc_Arn = [''minio'', ''sqs'', '''', ''1'', ''amqp''], qc_Events = [''s3:ObjectCreated:*'']\<rparr>]"

definition setTTLonTempBucket :: "(nat \<Rightarrow> string option) \<Rightarrow> string \<Rightarrow> int \<Rightarrow> unit minio_io" where
  "setTTLonTempBucket refuse name TTL = SetBucketLifecycle refuse name
     [\<lparr>rule_ID = ''expire-temp-objects'', rule_Status = ''Enabled'', rule_Days = TTL\<rparr>]"

text \<open>The four reads at the end are only logged, whether they succeed or not.\<close>

definition minio_Setup :: "(nat \<Rightarrow> string option) \<Rightarrow> minio_config \<Rightarrow> unit minio_io" where
  "minio_Setup refuse cnf =
     and_then (bucketSetup refuse (mn_TempBucket cnf)) (\<lambda>_.
     and_then (bucketSetup refuse (mn_StorageBucket cnf)) (\<lambda>_.
     and_then (bindBucket refuse (mn_TempBucket cnf)) (\<lambda>_.
     and_then (setTTLonTempBucket refuse (mn_TempBucket cnf) (mn_TTL cnf)) (\<lambda>_ s.
       (Inr (), s\<lparr>ms_requests := ms_requests s + 4\<rparr>)))))"

lemmas minio_requests = BucketExists_def MakeBucket_def SetBucketNotification_def SetBucketLifecycle_def
  minio_FPutObject_def minio_request_def in_bucket_def

lemmas minio_steps = bucketSetup_def bindBucket_def setTTLonTempBucket_def and_then_def minio_requests

section \<open>What the setup establishes\<close>

text \<open>
  The store as the servers need it: both buckets, every object put to the temporary one announced,
  and only it emptied by the lifecycle rule.
\<close>

definition minio_ready :: "minio_config \<Rightarrow> minio_server \<Rightarrow> bool" where
  "minio_ready cnf s \<longleftrightarrow> {mn_TempBucket cnf, mn_StorageBucket cnf} \<subseteq> set (ms_buckets s) \<and>
     map_of (ms_notification s) (mn_TempBucket cnf) =
       Some [\<lparr>qc_Arn = [''minio'', ''sqs'', '''', ''1'', ''amqp''], qc_Events = [''s3:ObjectCreated:*'']\<rparr>] \<and>
     map_of (ms_lifecycle s) (mn_TempBucket cnf) =
       Some [\<lparr>rule_ID = ''expire-temp-objects'', rule_Status = ''Enabled'', rule_Days = mn_TTL cnf\<rparr>]"

lemma bucketSetup_ok:
  assumes "bucketSetup refuse name s = (Inr (), s')"
  shows "set (ms_buckets s') = insert name (set (ms_buckets s))"
    "ms_notification s' = ms_notification s" "ms_lifecycle s' = ms_lifecycle s" "ms_objects s' = ms_objects s"
  using assms by (auto simp: minio_steps Let_def split: option.splits if_splits)

lemma minio_Setup_ready: "minio_Setup refuse cnf s = (Inr (), s') \<Longrightarrow> minio_ready cnf s'"
proof -
  assume "minio_Setup refuse cnf s = (Inr (), s')"
  then obtain s1 s2 s3 s4 where
    b: "bucketSetup refuse (mn_TempBucket cnf) s = (Inr (), s1)"
      "bucketSetup refuse (mn_StorageBucket cnf) s1 = (Inr (), s2)"
    and n: "bindBucket refuse (mn_TempBucket cnf) s2 = (Inr (), s3)"
    and l: "setTTLonTempBucket refuse (mn_TempBucket cnf) (mn_TTL cnf) s3 = (Inr (), s4)"
    and s': "s' = s4\<lparr>ms_requests := ms_requests s4 + 4\<rparr>"
    by (auto simp: minio_Setup_def and_then_def split: prod.splits sum.splits)
  from n l bucketSetup_ok(1) [OF b(1)] bucketSetup_ok(1) [OF b(2)] show ?thesis
    unfolding s' minio_ready_def
    by (auto simp: bindBucket_def setTTLonTempBucket_def minio_requests Let_def update_conv
        split: option.splits if_splits)
qed

text \<open>Whatever a run leaves behind, a later run that is not refused makes the store ready.\<close>

lemma minio_Setup_succeeds: "\<exists>s'. minio_Setup (\<lambda>_. None) cnf s = (Inr (), s')"
  by (simp add: minio_Setup_def minio_steps Let_def)

lemma minio_Setup_keeps:
  "set (ms_buckets s) \<subseteq> set (ms_buckets (snd (minio_Setup refuse cnf s)))"
  "ms_objects (snd (minio_Setup refuse cnf s)) = ms_objects s"
  by (auto simp: minio_Setup_def minio_steps Let_def split: option.splits)

text \<open>
  Setting the object store up can be run again at any time: after a run that failed
  anywhere, and after one that did not, a run that the store does not refuse succeeds and leaves both
  buckets in place, every upload to the temporary bucket announced to the queue and its objects
  expiring after the configured days; no bucket and no object is lost, and a run on a store that is
  set up changes nothing of it.
\<close>

theorem minio_Setup_again:
  fixes refuse :: "nat \<Rightarrow> string option" and s :: minio_server and cnf :: minio_config
  shows "\<exists>s2. minio_Setup (\<lambda>_. None) cnf (snd (minio_Setup refuse cnf s)) = (Inr (), s2) \<and> minio_ready cnf s2 \<and>
    set (ms_buckets s) \<subseteq> set (ms_buckets s2) \<and> ms_objects s2 = ms_objects s \<and>
    (\<exists>s3. minio_Setup (\<lambda>_. None) cnf s2 = (Inr (), s3) \<and> ms_buckets s3 = ms_buckets s2 \<and>
       map_of (ms_notification s3) = map_of (ms_notification s2) \<and>
       map_of (ms_lifecycle s3) = map_of (ms_lifecycle s2))"
proof -
  let ?s1 = "snd (minio_Setup refuse cnf s)"
  obtain s2 where s2: "minio_Setup (\<lambda>_. None) cnf ?s1 = (Inr (), s2)"
    using minio_Setup_succeeds by blast
  have r: "minio_ready cnf s2"
    by (rule minio_Setup_ready [OF s2])
  have "set (ms_buckets s) \<subseteq> set (ms_buckets s2)" "ms_objects s2 = ms_objects s"
    using minio_Setup_keeps [where s = s and refuse = refuse and cnf = cnf]
      minio_Setup_keeps [where s = ?s1 and refuse = "\<lambda>_. None" and cnf = cnf] s2
    by auto
  moreover have "\<exists>s3. minio_Setup (\<lambda>_. None) cnf s2 = (Inr (), s3) \<and> ms_buckets s3 = ms_buckets s2 \<and>
      map_of (ms_notification s3) = map_of (ms_notification s2) \<and>
      map_of (ms_lifecycle s3) = map_of (ms_lifecycle s2)"
    using r by (auto simp: minio_ready_def minio_Setup_def minio_steps Let_def update_conv fun_eq_iff)
  ultimately show ?thesis
    using s2 r by blast
qed

end
