(* ===== verification/Seed.thy ===== *)
theory Seed
  imports Minio_Setup
begin

text \<open>
  \<open>cmd/bootstrap/cmd/seed.go\<close>: the demonstration data that \<open>bootstrap seed\<close> writes. The generators
  draw from the random sources, which are an argument: \<open>src_IntN\<close>, \<open>src_Float64\<close> and \<open>src_Read\<close> give
  the value of the n-th draw of a run, counted by \<open>draws\<close> with the UUIDs. The statements are single
  INSERTs of up to 250 or 500 rows each, in no transaction.
\<close>

section \<open>The random sources\<close>

record source =
  src_IntN :: "nat \<Rightarrow> int \<Rightarrow> int"
  src_Float64 :: "nat \<Rightarrow> rat"
  src_Read :: "nat \<Rightarrow> nat \<Rightarrow> 8 word list"

text \<open>What their documentation says of them.\<close>

definition source_ok :: "source \<Rightarrow> bool" where
  "source_ok S \<longleftrightarrow> (\<forall>k n. 0 < n \<longrightarrow> 0 \<le> src_IntN S k n \<and> src_IntN S k n < n) \<and>
     (\<forall>k. 0 \<le> src_Float64 S k \<and> src_Float64 S k < 1) \<and> (\<forall>k n. length (src_Read S k n) = n)"

definition drawing :: "(nat \<Rightarrow> 'a) \<Rightarrow> 'a io" where
  "drawing f w = (Inr (f (draws w)), w\<lparr>draws := Suc (draws w)\<rparr>)"

definition IntN :: "source \<Rightarrow> int \<Rightarrow> int io" where
  "IntN S n = (if n \<le> 0 then fail (Panic ''invalid argument to IntN'') else drawing (\<lambda>k. src_IntN S k n))"

definition Float64 :: "source \<Rightarrow> rat io" where
  "Float64 S = drawing (src_Float64 S)"

definition uuid_New :: "env \<Rightarrow> uuid io" where
  "uuid_New E = drawing (uuid_gen E)"

definition pick :: "source \<Rightarrow> 'a list \<Rightarrow> 'a io" where
  "pick S xs = call (IntN S (int (length xs))) fail (\<lambda>i. ret (xs ! nat i))"

definition hex_bytes :: "8 word list \<Rightarrow> string" where
  "hex_bytes bs = concat (map (\<lambda>b. [hex_digit (unat (drop_bit 4 b)), hex_digit (unat (take_bit 4 b))]) bs)"

section \<open>Loops\<close>

text \<open>A loop over a list that carries variables, and stops at the first error.\<close>

primrec for_each :: "('a \<Rightarrow> 'b \<Rightarrow> 'b io) \<Rightarrow> 'a list \<Rightarrow> 'b \<Rightarrow> 'b io" where
  "for_each f [] s = ret s"
| "for_each f (x # xs) s = call (f x s) fail (for_each f xs)"

text \<open>The loop \<open>for i := 0; i < len(xs); i += batchSize\<close> over the slices \<open>xs[i:end]\<close>.\<close>

function in_batches :: "nat \<Rightarrow> ('a list \<Rightarrow> unit io) \<Rightarrow> 'a list \<Rightarrow> nat \<Rightarrow> unit io" where
  "in_batches batchSize f xs i =
     (if i < length xs \<and> 0 < batchSize
      then (let end = min (i + batchSize) (length xs)
            in call (f (take (end - i) (drop i xs))) fail (\<lambda>_. in_batches batchSize f xs (i + batchSize)))
      else ret ())"
  by auto
termination
  by (relation "measure (\<lambda>(batchSize, f, xs, i). length xs - i)") auto

declare in_batches.simps [simp del]

section \<open>Bulk inserts\<close>

text \<open>
  One INSERT of several rows: \<open>put\<close> inserts a row, skips it (ON CONFLICT DO NOTHING) or fails, and a
  failure undoes the statement; the foreign keys of what was inserted are checked at its end.
\<close>

primrec bulk :: "('r \<Rightarrow> database \<Rightarrow> database result) \<Rightarrow> 'r list \<Rightarrow> database \<Rightarrow> database result" where
  "bulk put [] d = Inr d"
| "bulk put (r # rs) d = (case put r d of Inl e \<Rightarrow> Inl e | Inr d' \<Rightarrow> bulk put rs d')"

definition bulk_insert ::
  "('r \<Rightarrow> database \<Rightarrow> database result) \<Rightarrow> (database \<Rightarrow> 'r list) \<Rightarrow> (database \<Rightarrow> 'r \<Rightarrow> bool) \<Rightarrow> 'r list \<Rightarrow>
    world \<Rightarrow> (unit \<times> database) result" where
  "bulk_insert put rows refs rs w =
     (case bulk put rs (db w) of
        Inl e \<Rightarrow> Inl e
      | Inr d \<Rightarrow> if list_all (refs d) (drop (length (rows (db w))) (rows d)) then Inr ((), d)
                 else Inl (Driver ''23503''))"

definition put_user :: "auth_user \<Rightarrow> database \<Rightarrow> database result" where
  "put_user u d =
     (if \<not> users_row_ok u then Inl (Driver ''22001'')
      else if list_ex (\<lambda>x. u_Email x = u_Email u) (users d) then Inr d
      else if user_exists (u_Id u) d then Inl (Driver ''23505'')
      else Inr (d\<lparr>users := users d @ [u]\<rparr>))"

definition put_profile :: "user_profile \<Rightarrow> database \<Rightarrow> database result" where
  "put_profile p d =
     (if list_ex (\<lambda>x. p_UserId x = p_UserId p) (profiles d) then Inr d
      else Inr (d\<lparr>profiles := profiles d @ [p]\<rparr>))"

definition put_gif :: "media_gif \<Rightarrow> database \<Rightarrow> database result" where
  "put_gif g d =
     (if \<not> int4 (g_Download g) \<or> \<not> int4 (g_Width g) \<or> \<not> int4 (g_Height g) \<or> \<bar>g_DurationSeconds g\<bar> \<ge> 10000
      then Inl (Driver ''22003'')
      else if gif_exists (g_Key g) d then Inr d
      else Inr (d\<lparr>gifs := gifs d @ [g]\<rparr>))"

definition put_quota :: "user_quota \<Rightarrow> database \<Rightarrow> database result" where
  "put_quota q d =
     (if \<not> int4 (q_UsedBytes q) \<or> \<not> int4 (q_GifCount q) then Inl (Driver ''22003'')
      else if list_ex (\<lambda>x. q_UserID x = q_UserID q) (quota d)
      then Inr (d\<lparr>quota := update_where (\<lambda>x. q_UserID x = q_UserID q)
             (\<lambda>x. x\<lparr>q_UsedBytes := q_UsedBytes q, q_GifCount := q_GifCount q\<rparr>) (quota d)\<rparr>)
      else Inr (d\<lparr>quota := quota d @ [q]\<rparr>))"

definition put_friendship :: "friendship \<Rightarrow> database \<Rightarrow> database result" where
  "put_friendship f d =
     (if \<not> friendship_row_ok f then Inl (Driver ''23514'')
      else if list_ex (\<lambda>x. f_RequesterID x = f_RequesterID f \<and> f_AddresseeID x = f_AddresseeID f) (friendships d)
      then Inr d
      else if list_ex (\<lambda>x. f_ID x = f_ID f) (friendships d) then Inl (Driver ''23505'')
      else Inr (d\<lparr>friendships := friendships d @ [f]\<rparr>))"

definition put_share :: "share_row \<Rightarrow> database \<Rightarrow> database result" where
  "put_share s d =
     (if list_ex (\<lambda>x. s_GifKey x = s_GifKey s \<and> s_SharedWith x = s_SharedWith s) (shares d) then Inr d
      else if list_ex (\<lambda>x. s_ID x = s_ID s) (shares d) then Inl (Driver ''23505'')
      else Inr (d\<lparr>shares := shares d @ [s]\<rparr>))"

definition put_share_token :: "share_by_token \<Rightarrow> database \<Rightarrow> database result" where
  "put_share_token s d =
     (if list_ex (\<lambda>x. t_GifKey x = t_GifKey s \<and> t_Email x = t_Email s) (share_tokens d) then Inr d
      else if list_ex (\<lambda>x. t_Token x = t_Token s) (share_tokens d) then Inl (Driver ''23505'')
      else Inr (d\<lparr>share_tokens := share_tokens d @ [s]\<rparr>))"

section \<open>Users and profiles\<close>

definition firstNames :: "string list" where
  "firstNames =
     [''James'', ''Mary'', ''John'', ''Patricia'', ''Robert'', ''Jennifer'', ''Michael'',
      ''Linda'', ''William'', ''Elizabeth'', ''David'', ''Barbara'', ''Richard'', ''Susan'',
      ''Joseph'', ''Jessica'', ''Thomas'', ''Sarah'', ''Charles'', ''Karen'', ''Christopher'',
      ''Nancy'', ''Daniel'', ''Lisa'', ''Matthew'', ''Betty'', ''Anthony'', ''Margaret'',
      ''Mark'', ''Sandra'', ''Donald'', ''Ashley'', ''Steven'', ''Kimberly'', ''Paul'',
      ''Emily'', ''Andrew'', ''Donna'', ''Joshua'', ''Michelle'', ''Kenneth'', ''Dorothy'',
      ''Kevin'', ''Carol'', ''Brian'', ''Amanda'', ''George'', ''Melissa'', ''Edward'',
      ''Deborah'', ''Alex'', ''Sam'', ''Jordan'', ''Taylor'', ''Morgan'', ''Casey'']"

definition lastNames :: "string list" where
  "lastNames =
     [''Smith'', ''Johnson'', ''Williams'', ''Brown'', ''Jones'', ''Garcia'', ''Miller'',
      ''Davis'', ''Rodriguez'', ''Martinez'', ''Hernandez'', ''Lopez'', ''Gonzalez'',
      ''Wilson'', ''Anderson'', ''Thomas'', ''Taylor'', ''Moore'', ''Jackson'', ''Martin'',
      ''Lee'', ''Perez'', ''Thompson'', ''White'', ''Harris'', ''Sanchez'', ''Clark'',
      ''Ramirez'', ''Lewis'', ''Robinson'', ''Walker'', ''Young'', ''Allen'', ''King'',
      ''Wright'', ''Scott'', ''Torres'', ''Nguyen'', ''Hill'', ''Flores'']"

definition gifAdjectives :: "string list" where
  "gifAdjectives =
     [''Funny'', ''Epic'', ''Cute'', ''Crazy'', ''Cool'', ''Awesome'', ''Super'', ''Happy'',
      ''Dancing'', ''Gaming'', ''Retro'', ''Neon'', ''Cyber'', ''Speed'', ''Pixel'',
      ''Vintage'', ''Space'', ''Ocean'', ''Fire'', ''Spark'', ''Magic'', ''Hyper'', ''Vibrant'',
      ''Smooth'']"

definition gifNouns :: "string list" where
  "gifNouns =
     [''Moment'', ''Clip'', ''Dance'', ''Jump'', ''Vibe'', ''Roll'', ''Spin'', ''Flip'',
      ''Scene'', ''Explosion'', ''Victory'', ''Fail'', ''Celebration'', ''Wave'', ''Glow'',
      ''Drift'', ''Sunset'', ''Flight'', ''Combo'', ''Dodge'', ''Party'', ''Chill'', ''Burst'']"

record seededUser =
  su_id :: uuid
  su_username :: string
  su_fullname :: string
  su_email :: string
  su_createdAt :: timestamp

definition day :: int where "day = 24 * hour"

text \<open>\<open>AddDate\<close> counts days of 24 hours, as in UTC. Names are ASCII, so bytes are characters.\<close>

definition seed_user :: "env \<Rightarrow> source \<Rightarrow> timestamp \<Rightarrow> int \<Rightarrow> seededUser io" where
  "seed_user E S t i =
     call (pick S firstNames) fail (\<lambda>fn. call (pick S lastNames) fail (\<lambda>ln.
     let lfn = map to_lower fn; lln = map to_lower ln;
         name = lfn @ ''_'' @ lln @ show_int i;
         email = lfn @ ''.'' @ lln @ show_int i @ ''@ffgif.local''
     in call (IntN S 90) fail (\<lambda>d. call (IntN S 86400) fail (\<lambda>s. call (uuid_New E) fail (\<lambda>u. ret
          \<lparr>su_id = u, su_username = (if length name > 20 then take 20 name else name),
           su_fullname = fn @ '' '' @ ln,
           su_email = (if length email > 50 then ''u'' @ show_int i @ ''_'' @ lln @ ''@ffgif.local'' else email),
           su_createdAt = t - (d + 1) * day + s * 1000\<rparr>)))))"

definition user_row :: "string \<Rightarrow> timestamp \<Rightarrow> seededUser \<Rightarrow> auth_user" where
  "user_row passHash t u = \<lparr>u_Id = su_id u, u_Username = su_username u, u_Fullname = su_fullname u,
     u_Email = su_email u, u_PasswordHash = passHash, u_IsVerified = True, u_Role = ''user'',
     u_CreatedAt = su_createdAt u, u_UpdatedAt = t, u_DeletedAt = None\<rparr>"

definition profile_row :: "timestamp \<Rightarrow> int \<Rightarrow> seededUser \<Rightarrow> user_profile" where
  "profile_row t i u = \<lparr>p_Id = i, p_UserId = su_id u,
     p_ProfilePic = ''https://api.dicebear.com/7.x/bottts/svg?seed='' @ su_username u,
     p_CreatedAt = su_createdAt u, p_UpdatedAt = t\<rparr>"

text \<open>The column defaults of a statement's rows: numbers from the sequence, and UUIDs.\<close>

definition with_serials :: "nat \<Rightarrow> (int list \<Rightarrow> 'a io) \<Rightarrow> 'a io" where
  "with_serials n k w = k (map (\<lambda>j. serial w + int j) [0..<n]) (w\<lparr>serial := serial w + int n\<rparr>)"

definition with_uuids :: "env \<Rightarrow> nat \<Rightarrow> (uuid list \<Rightarrow> 'a io) \<Rightarrow> 'a io" where
  "with_uuids E n k w = k (map (\<lambda>j. uuid_gen E (draws w + j)) [0..<n]) (w\<lparr>draws := draws w + n\<rparr>)"

definition insert_users :: "env \<Rightarrow> string \<Rightarrow> seededUser list \<Rightarrow> unit io" where
  "insert_users E passHash batch w = db_exec E (\<lambda>w. bulk_insert put_user users (\<lambda>_ _. True)
     (map (user_row passHash (now w)) batch) w) w"

definition insert_profiles :: "env \<Rightarrow> seededUser list \<Rightarrow> unit io" where
  "insert_profiles E batch = with_serials (length batch) (\<lambda>ids. db_exec E (\<lambda>w.
     bulk_insert put_profile profiles (\<lambda>d p. user_exists (p_UserId p) d)
       (map2 (profile_row (now w)) ids batch) w))"

definition seed_users_batch :: "env \<Rightarrow> string \<Rightarrow> seededUser list \<Rightarrow> unit io" where
  "seed_users_batch E passHash batch =
     call (insert_users E passHash batch) (\<lambda>e. fail (Wrapf ''insert users batch error'' [e]))
       (\<lambda>_. call (insert_profiles E batch) (\<lambda>e. fail (Wrapf ''insert profiles batch error'' [e])) ret)"

definition seed_users :: "env \<Rightarrow> source \<Rightarrow> timestamp \<Rightarrow> int \<Rightarrow> seededUser list io" where
  "seed_users E S t count =
     for_each (\<lambda>i us. call (seed_user E S t i) fail (\<lambda>u. ret (us @ [u]))) [1..count] []"

definition seedUsersAndProfiles :: "env \<Rightarrow> source \<Rightarrow> int \<Rightarrow> string \<Rightarrow> seededUser list io" where
  "seedUsersAndProfiles E S count passHash = at_now (\<lambda>t.
     call (seed_users E S t count) fail
       (\<lambda>us. call (in_batches 250 (seed_users_batch E passHash) us 0) fail (\<lambda>_. ret us)))"

section \<open>GIFs\<close>

record seededGif =
  sd_key :: string
  sd_userID :: uuid
  sd_name :: string
  sd_status :: string
  sd_persist :: bool
  sd_download :: int
  sd_fileSizeBytes :: int
  sd_width :: int
  sd_height :: int
  sd_durationSeconds :: rat
  sd_isPublic :: bool
  sd_url :: string
  sd_thumbnailKey :: string
  sd_createdAt :: timestamp

record userStats =
  us_gifCount :: int
  us_usedBytes :: int

definition sharedGifObjectKey :: string where "sharedGifObjectKey = ''seed.gif''"

definition seedGifSizeBytes :: int where "seedGifSizeBytes = 3120532"

text \<open>Status, persist and is_public, by the roll of the die.\<close>

definition seed_status :: "rat \<Rightarrow> string \<times> bool \<times> bool" where
  "seed_status roll =
     (if roll < 70 / 100 then (''private'', True, False)
      else if roll < 90 / 100 then (''public'', True, True)
      else (''recent'', False, False))"

definition seed_gif :: "env \<Rightarrow> source \<Rightarrow> seededUser \<Rightarrow> int \<Rightarrow> seededGif io" where
  "seed_gif E S u g =
     call (pick S gifAdjectives) fail (\<lambda>adj. call (pick S gifNouns) fail (\<lambda>noun.
     call (uuid_New E) fail (\<lambda>gifID.
     let key = su_id u @ ''_'' @ take 8 gifID @ ''_output.gif''
     in call (Float64 S) fail (\<lambda>roll.
        let (status, persist, isPublic) = seed_status roll
        in call (IntN S 85) fail (\<lambda>download.
           at_now (\<lambda>t. call (IntN S ((t - su_createdAt u) div 1000)) fail (\<lambda>after. ret
             \<lparr>sd_key = key, sd_userID = su_id u, sd_name = adj @ '' '' @ noun @ '' #'' @ show_int (g + 1),
              sd_status = status, sd_persist = persist, sd_download = download,
              sd_fileSizeBytes = seedGifSizeBytes, sd_width = 480, sd_height = 270,
              sd_durationSeconds = 320 / 100, sd_isPublic = isPublic, sd_url = key,
              sd_thumbnailKey = sharedGifObjectKey, sd_createdAt = su_createdAt u + after * 1000\<rparr>)))))))"

definition gif_row :: "timestamp \<Rightarrow> seededGif \<Rightarrow> media_gif" where
  "gif_row t g = \<lparr>g_Key = sd_key g, g_Name = sd_name g, g_UserId = sd_userID g, g_Status = sd_status g,
     g_Persist = sd_persist g, g_Download = sd_download g, g_Url = sd_url g, g_ThumbnailKey = sd_thumbnailKey g,
     g_FileSizeBytes = sd_fileSizeBytes g, g_Width = sd_width g, g_Height = sd_height g,
     g_DurationSeconds = numeric_6_2 (sd_durationSeconds g), g_IsPublic = sd_isPublic g,
     g_CreatedAt = sd_createdAt g, g_UpdatedAt = t\<rparr>"

definition seed_gifs_batch :: "env \<Rightarrow> seededGif list \<Rightarrow> unit io" where
  "seed_gifs_batch E batch =
     call (\<lambda>w. db_exec E (\<lambda>w. bulk_insert put_gif gifs (\<lambda>d g. user_exists (g_UserId g) d)
         (map (gif_row (now w)) batch) w) w)
       (\<lambda>e. fail (Wrapf ''insert gifs batch error'' [e])) ret"

definition seed_gifs_of ::
  "env \<Rightarrow> source \<Rightarrow> seededUser \<Rightarrow> seededGif list \<times> (uuid \<Rightarrow> userStats option) \<Rightarrow>
     (seededGif list \<times> (uuid \<Rightarrow> userStats option)) io" where
  "seed_gifs_of E S u acc =
     call (IntN S 21) fail (\<lambda>k.
       let numGifs = k + 40;
           stats = (snd acc)(su_id u \<mapsto> \<lparr>us_gifCount = numGifs, us_usedBytes = numGifs * seedGifSizeBytes\<rparr>)
       in call (for_each (\<lambda>g gs. call (seed_gif E S u g) fail (\<lambda>x. ret (gs @ [x]))) [0..numGifs - 1] (fst acc)) fail
            (\<lambda>gs. ret (gs, stats)))"

definition seedGifs ::
  "env \<Rightarrow> source \<Rightarrow> seededUser list \<Rightarrow> (seededGif list \<times> (uuid \<Rightarrow> userStats option)) io" where
  "seedGifs E S us =
     call (for_each (seed_gifs_of E S) us ([], \<lambda>_. None)) fail
       (\<lambda>(gs, stats). call (in_batches 500 (seed_gifs_batch E) gs 0) fail (\<lambda>_. ret (gs, stats)))"

section \<open>Quotas\<close>

definition quota_row :: "(uuid \<Rightarrow> userStats option) \<Rightarrow> int \<Rightarrow> seededUser \<Rightarrow> user_quota" where
  "quota_row stats i u =
     (let (usedBytes, gifCount) =
        (case stats (su_id u) of None \<Rightarrow> (0, 0) | Some st \<Rightarrow> (us_usedBytes st, us_gifCount st))
      in \<lparr>q_ID = i, q_UserID = su_id u, q_UsedBytes = usedBytes, q_TotalBytes = 1073741824,
          q_GifCount = gifCount, q_GitLimit = 100\<rparr>)"

text \<open>ON CONFLICT DO UPDATE does not take two rows for one key in one statement (SQLSTATE 21000).\<close>

definition upsert_quotas :: "user_quota list \<Rightarrow> world \<Rightarrow> (unit \<times> database) result" where
  "upsert_quotas rows w =
     (if distinct (map q_UserID rows)
      then bulk_insert put_quota quota (\<lambda>d q. user_exists (q_UserID q) d) rows w
      else Inl (Driver ''21000''))"

definition seed_quotas_batch :: "env \<Rightarrow> (uuid \<Rightarrow> userStats option) \<Rightarrow> seededUser list \<Rightarrow> unit io" where
  "seed_quotas_batch E stats batch =
     call (with_serials (length batch) (\<lambda>ids. db_exec E (upsert_quotas (map2 (quota_row stats) ids batch))))
       (\<lambda>e. fail (Wrapf ''insert quota batch error'' [e])) ret"

definition seedQuotas :: "env \<Rightarrow> seededUser list \<Rightarrow> (uuid \<Rightarrow> userStats option) \<Rightarrow> unit io" where
  "seedQuotas E us stats = in_batches 250 (seed_quotas_batch E stats) us 0"

section \<open>Friendships\<close>

type_synonym friendPair = "uuid \<times> uuid"

record friendshipRecord =
  fs_requesterID :: uuid
  fs_addresseeID :: uuid
  fs_status :: string
  fs_createdAt :: timestamp

record friend_loop =
  fl_pairSet :: "string list"
  fl_records :: "friendshipRecord list"
  fl_acceptedPairs :: "friendPair list"

definition pair_key :: "string \<Rightarrow> string \<Rightarrow> string" where
  "pair_key a b = a @ '':'' @ b"

definition seed_friend :: "source \<Rightarrow> seededUser list \<Rightarrow> nat \<Rightarrow> seededUser \<Rightarrow> friend_loop \<Rightarrow> friend_loop io" where
  "seed_friend S us idx u st =
     call (IntN S (int (length us))) fail (\<lambda>targetIdx.
       if targetIdx = int idx then ret st
       else (let target = us ! nat targetIdx;
                 key = pair_key (su_id u) (su_id target);
                 revKey = pair_key (su_id target) (su_id u)
             in if key \<in> set (fl_pairSet st) \<or> revKey \<in> set (fl_pairSet st) then ret st
                else call (Float64 S) fail (\<lambda>p.
                  let status = (if p < 15 / 100 then ''pending'' else ''accepted'');
                      accepted = (if p < 15 / 100 then fl_acceptedPairs st
                                  else fl_acceptedPairs st @ [(su_id u, su_id target)])
                  in call (IntN S (60 * 24)) fail (\<lambda>h. at_now (\<lambda>t. ret
                       \<lparr>fl_pairSet = key # fl_pairSet st,
                        fl_records = fl_records st @ [\<lparr>fs_requesterID = su_id u, fs_addresseeID = su_id target,
                          fs_status = status, fs_createdAt = t - h * hour\<rparr>],
                        fl_acceptedPairs = accepted\<rparr>)))))"

definition seed_friends_of :: "source \<Rightarrow> seededUser list \<Rightarrow> nat \<times> seededUser \<Rightarrow> friend_loop \<Rightarrow> friend_loop io" where
  "seed_friends_of S us iu st =
     call (IntN S 4) fail (\<lambda>k. for_each (\<lambda>_. seed_friend S us (fst iu) (snd iu)) [0..k + 2 - 1] st)"

definition friendship_row :: "timestamp \<Rightarrow> uuid \<Rightarrow> friendshipRecord \<Rightarrow> friendship" where
  "friendship_row t i r = \<lparr>f_ID = i, f_RequesterID = fs_requesterID r, f_AddresseeID = fs_addresseeID r,
     f_Status = fs_status r, f_CreatedAt = fs_createdAt r, f_UpdatedAt = t\<rparr>"

definition seed_friendships_batch :: "env \<Rightarrow> friendshipRecord list \<Rightarrow> unit io" where
  "seed_friendships_batch E batch =
     call (with_uuids E (length batch) (\<lambda>ids. db_exec E (\<lambda>w.
         bulk_insert put_friendship friendships
           (\<lambda>d f. user_exists (f_RequesterID f) d \<and> user_exists (f_AddresseeID f) d)
           (map2 (friendship_row (now w)) ids batch) w)))
       (\<lambda>e. fail (Wrapf ''insert friendships batch error'' [e])) ret"

definition seed_friends :: "source \<Rightarrow> seededUser list \<Rightarrow> friend_loop io" where
  "seed_friends S us = for_each (seed_friends_of S us) (enumerate 0 us)
     \<lparr>fl_pairSet = [], fl_records = [], fl_acceptedPairs = []\<rparr>"

definition seedFriendships :: "env \<Rightarrow> source \<Rightarrow> seededUser list \<Rightarrow> friendPair list io" where
  "seedFriendships E S us =
     call (seed_friends S us) fail
       (\<lambda>st. call (in_batches 250 (seed_friendships_batch E) (fl_records st) 0) fail (\<lambda>_. ret (fl_acceptedPairs st)))"

section \<open>Shares and share links\<close>

record shareRecord =
  sr_gifKey :: string
  sr_ownerID :: uuid
  sr_sharedWith :: uuid
  sr_expiresAt :: "timestamp option"
  sr_createdAt :: timestamp

definition seed_share :: "source \<Rightarrow> seededGif list \<Rightarrow> friendPair \<Rightarrow> string list \<times> shareRecord list \<Rightarrow>
    (string list \<times> shareRecord list) io" where
  "seed_share S gs p acc =
     (let ownerGifs = filter (\<lambda>g. sd_userID g = fst p) gs
      in if ownerGifs = [] then ret acc
         else call (pick S ownerGifs) fail (\<lambda>sampleGif.
           let key = pair_key (sd_key sampleGif) (snd p)
           in if key \<in> set (fst acc) then ret acc
              else call (Float64 S) fail (\<lambda>x. at_now (\<lambda>t.
                call (IntN S (14 * 24)) fail (\<lambda>h. ret (key # fst acc, snd acc @
                  [\<lparr>sr_gifKey = sd_key sampleGif, sr_ownerID = fst p, sr_sharedWith = snd p,
                    sr_expiresAt = (if x < 60 / 100 then Some (t + 7 * 24 * hour) else None),
                    sr_createdAt = t - h * hour\<rparr>]))))))"

definition share_row_of :: "uuid \<Rightarrow> shareRecord \<Rightarrow> share_row" where
  "share_row_of i s = \<lparr>s_ID = i, s_GifKey = sr_gifKey s, s_OwnerID = sr_ownerID s, s_SharedWith = sr_sharedWith s,
     s_ExpiresAt = sr_expiresAt s, s_CreatedAt = sr_createdAt s\<rparr>"

definition seed_shares_batch :: "env \<Rightarrow> shareRecord list \<Rightarrow> unit io" where
  "seed_shares_batch E batch =
     call (with_uuids E (length batch) (\<lambda>ids. db_exec E (\<lambda>w.
         bulk_insert put_share shares
           (\<lambda>d s. gif_exists (s_GifKey s) d \<and> user_exists (s_OwnerID s) d \<and> user_exists (s_SharedWith s) d)
           (map2 share_row_of ids batch) w)))
       (\<lambda>e. fail (Wrapf ''insert shares batch error'' [e])) ret"

definition seedShares :: "env \<Rightarrow> source \<Rightarrow> friendPair list \<Rightarrow> seededGif list \<Rightarrow> unit io" where
  "seedShares E S pairs gs =
     call (for_each (seed_share S gs) pairs ([], [])) fail
       (\<lambda>acc. in_batches 250 (seed_shares_batch E) (snd acc) 0)"

record tokenRecord =
  tr_gifKey :: string
  tr_token :: string
  tr_email :: string
  tr_expiresAt :: timestamp
  tr_createdAt :: timestamp

definition seed_token :: "source \<Rightarrow> seededGif \<Rightarrow> string list \<times> tokenRecord list \<Rightarrow>
    (string list \<times> tokenRecord list) io" where
  "seed_token S g acc =
     (if sd_status g \<noteq> ''public'' \<or> 500 \<le> length (snd acc) then ret acc
      else call (Float64 S) fail (\<lambda>x. if x > 8 / 100 then ret acc
        else call (drawing (\<lambda>k. src_Read S k 16)) fail (\<lambda>bytes.
          let tokenStr = hex_bytes bytes;
              recipientEmail = ''recipient_'' @ take 8 tokenStr @ ''@external.org'';
              key = pair_key (sd_key g) recipientEmail
          in if key \<in> set (fst acc) then ret acc
             else at_now (\<lambda>t. call (IntN S 48) fail (\<lambda>h. ret (key # fst acc, snd acc @
               [\<lparr>tr_gifKey = sd_key g, tr_token = tokenStr, tr_email = recipientEmail,
                 tr_expiresAt = t + 3 * 24 * hour, tr_createdAt = t - h * hour\<rparr>]))))))"

definition share_token_row :: "tokenRecord \<Rightarrow> share_by_token" where
  "share_token_row r = \<lparr>t_GifKey = tr_gifKey r, t_Token = tr_token r, t_Email = tr_email r,
     t_ExpiresAt = Some (tr_expiresAt r), t_CreatedAt = tr_createdAt r\<rparr>"

definition seed_tokens_batch :: "env \<Rightarrow> tokenRecord list \<Rightarrow> unit io" where
  "seed_tokens_batch E batch =
     call (db_exec E (bulk_insert put_share_token share_tokens (\<lambda>d t. gif_exists (t_GifKey t) d)
         (map share_token_row batch)))
       (\<lambda>e. fail (Wrapf ''insert share tokens batch error'' [e])) ret"

definition seedShareTokens :: "env \<Rightarrow> source \<Rightarrow> seededGif list \<Rightarrow> unit io" where
  "seedShareTokens E S gs =
     call (for_each (seed_token S) gs ([], [])) fail
       (\<lambda>acc. in_batches 250 (seed_tokens_batch E) (snd acc) 0)"

section \<open>The command\<close>

datatype stat_result = StatOk | StatNotExist | StatFailed

definition seed_gif_path :: "(string \<Rightarrow> stat_result) \<Rightarrow> string option" where
  "seed_gif_path stat =
     (if stat ''seed.gif'' = StatNotExist
      then List.find (\<lambda>c. stat c = StatOk) [''/app/seed.gif'', ''../seed.gif'', ''../../seed.gif'']
      else Some ''seed.gif'')"

text \<open>Failures, a panic of \<open>NewMinio\<close> included, are logged and end the upload.\<close>

definition seedMinioStorage :: "(string \<Rightarrow> stat_result) \<Rightarrow> (minio_options \<Rightarrow> 'c result) \<Rightarrow>
    (nat \<Rightarrow> string option) \<Rightarrow> minio_config \<Rightarrow> minio_server \<Rightarrow> minio_server" where
  "seedMinioStorage stat minio_New refuse cnf s =
     (case seed_gif_path stat of
        None \<Rightarrow> s
      | Some gifPath \<Rightarrow>
          (case NewMinio minio_New cnf of
             Inl _ \<Rightarrow> s
           | Inr _ \<Rightarrow>
               (let (r, s1) = BucketExists refuse (mn_StorageBucket cnf) s;
                    (ok, s2) = (if r = Inr True then (Inr (), s1) else MakeBucket refuse (mn_StorageBucket cnf) s1)
                in case ok of
                     Inl _ \<Rightarrow> s2
                   | Inr _ \<Rightarrow> snd (minio_FPutObject refuse (mn_StorageBucket cnf) sharedGifObjectKey ''image/gif'' s2))))"

definition wrapping :: "string \<Rightarrow> 'a io \<Rightarrow> ('a \<Rightarrow> 'b io) \<Rightarrow> 'b io" where
  "wrapping p m k = call m (\<lambda>e. fail (Wrapf p [e])) k"

definition seed_tables :: "env \<Rightarrow> source \<Rightarrow> config \<Rightarrow> unit io" where
  "seed_tables E S cnf =
     wrapping ''failed to generate password hash''
       (GenerateHash (configured cnf E) ''Password123!'') (\<lambda>passHash.
     wrapping ''failed to seed users'' (seedUsersAndProfiles E S 1000 passHash) (\<lambda>us.
     wrapping ''failed to seed gifs'' (seedGifs E S us) (\<lambda>(gs, userGifStats).
     wrapping ''failed to seed quotas'' (seedQuotas E us userGifStats) (\<lambda>_.
     wrapping ''failed to seed friendships'' (seedFriendships E S us) (\<lambda>acceptedFriendPairs.
     wrapping ''failed to seed shares'' (seedShares E S acceptedFriendPairs gs) (\<lambda>_.
     wrapping ''failed to seed share tokens'' (seedShareTokens E S gs) (\<lambda>_. ret ())))))))"

text \<open>
  \<open>sql_Open\<close> is the error of \<open>sql.Open\<close>, if the connection string does not parse; the ping is the
  first call of the database.
\<close>

definition setupSeed :: "env \<Rightarrow> source \<Rightarrow> (string \<Rightarrow> goerr option) \<Rightarrow> (string \<Rightarrow> stat_result) \<Rightarrow>
    (minio_options \<Rightarrow> 'c result) \<Rightarrow> (nat \<Rightarrow> string option) \<Rightarrow> config \<Rightarrow> world \<times> minio_server \<Rightarrow>
    unit result \<times> world \<times> minio_server" where
  "setupSeed E S sql_Open stat minio_New refuse cnf ws =
     (case sql_Open (newConnectionString (cf_PostgreSQL cnf)) of
        Some e \<Rightarrow> (Inl (Wrapf ''failed to open db connection'' [e]), ws)
      | None \<Rightarrow>
          (case ext_call E (ret ()) (fst ws) of
             (Inl e, w1) \<Rightarrow> (Inl (Wrapf ''failed to ping db'' [e]), w1, snd ws)
           | (Inr _, w1) \<Rightarrow>
               (let s1 = seedMinioStorage stat minio_New refuse (cf_Minio cnf) (snd ws);
                    (r, w2) = seed_tables E S cnf w1
                in (r, w2, s1))))"

end
