(* ===== verification/Consumers.thy ===== *)
theory Consumers
  imports Workers "HOL-Library.AList"
begin

text \<open>
  \<open>internal/infra/rabbitmq/consumer.go\<close> and the rest of \<open>setup.go\<close> (the connection with its
  channels), the \<open>Run\<close> loops of \<open>internal/worker\<close> and \<open>cmd/worker/main.go\<close>. A loop, the goroutines
  it starts and the broker's side of its channel are a state machine: they take their steps in any
  order.
\<close>

section \<open>The connection\<close>

text \<open>
  Channels are numbered as they are opened; \<open>cn_consumers\<close> is the \<open>sync.Map\<close> of the consumers'
  channels. \<open>refuse\<close> says which call of the broker fails, and how.
\<close>

record connection =
  cn_alive :: bool
  cn_next :: nat
  cn_open :: "nat list"
  cn_consumers :: "(string \<times> nat) list"
  cn_prefetch :: "(nat \<times> int) list"
  cn_consuming :: "(nat \<times> string \<times> string) list"

definition NewRabbitMQ_url :: "string \<Rightarrow> string \<Rightarrow> string \<Rightarrow> string" where
  "NewRabbitMQ_url user pass addr = ''amqp://'' @ user @ '':'' @ pass @ ''@'' @ addr @ ''/''"

definition NewRabbitMQ :: "string option \<Rightarrow> string \<Rightarrow> string \<Rightarrow> string \<Rightarrow> connection result" where
  "NewRabbitMQ refuse user pass addr =
     (case refuse of
        Some e \<Rightarrow> Inl (Panic (''rabbitmq dial: '' @ e @ '', url='' @ NewRabbitMQ_url user pass addr))
      | None \<Rightarrow> Inr \<lparr>cn_alive = True, cn_next = 0, cn_open = [], cn_consumers = [], cn_prefetch = [],
          cn_consuming = []\<rparr>)"

definition consume ::
  "(nat \<Rightarrow> string option) \<Rightarrow> string \<Rightarrow> string \<Rightarrow> int \<Rightarrow> connection \<Rightarrow> nat result \<times> connection" where
  "consume refuse queue name concurrency c =
     (case refuse 0 of
        Some e \<Rightarrow> (Inl (Wrapf [] [QueueE ErrOpeningChannel, Driver e]), c)
      | None \<Rightarrow>
          (let ch = cn_next c;
               c1 = c\<lparr>cn_next := Suc ch, cn_open := ch # cn_open c,
                      cn_consumers := AList.update name ch (cn_consumers c)\<rparr>
           in case refuse 1 of
                Some e \<Rightarrow> (Inl (Wrapf (queue_text ErrQoSFailed) [Driver e]), c1)
              | None \<Rightarrow>
                  (let c2 = c1\<lparr>cn_prefetch := AList.update ch concurrency (cn_prefetch c1)\<rparr>
                   in case refuse 2 of
                        Some e \<Rightarrow> (Inl (Driver e), c2)
                      | None \<Rightarrow> (Inr ch, c2\<lparr>cn_consuming := (ch, queue, name) # cn_consuming c2\<rparr>))))"

definition ConsumeEmail where "ConsumeEmail refuse = consume refuse EmailQueue"

definition ConsumeSave where "ConsumeSave refuse = consume refuse SaveQueue"

definition ConsumeVideo where "ConsumeVideo refuse = consume refuse ProcessQueue"

definition ConsumeRawVideo where "ConsumeRawVideo refuse = consume refuse UploadProcessQueue"

text \<open>A closed channel takes its consumer with it.\<close>

definition close_channels :: "nat list \<Rightarrow> connection \<Rightarrow> connection" where
  "close_channels chs c =
     c\<lparr>cn_open := filter (\<lambda>ch. ch \<notin> set chs) (cn_open c),
       cn_consuming := filter (\<lambda>(ch, _). ch \<notin> set chs) (cn_consuming c)\<rparr>"

definition CloseConsumerChannel :: "string option \<Rightarrow> string \<Rightarrow> connection \<Rightarrow> unit result \<times> connection" where
  "CloseConsumerChannel refuse name c =
     (case map_of (cn_consumers c) name of
        None \<Rightarrow> (Inl (Msg ''error on fetching consumer''), c)
      | Some ch \<Rightarrow>
          (case refuse of
             Some e \<Rightarrow> (Inl (Driver e), c)
           | None \<Rightarrow>
               (Inr (), (close_channels [ch] c)\<lparr>cn_consumers := AList.delete name (cn_consumers c)\<rparr>)))"

text \<open>Closing the connection closes every channel that is left.\<close>

definition rabbit_Close :: "string option \<Rightarrow> connection \<Rightarrow> unit result \<times> connection" where
  "rabbit_Close refuse c =
     (let c1 = close_channels (map snd (cn_consumers c)) c
      in if cn_alive c1
         then (case refuse of
                 Some e \<Rightarrow> (Inl (Driver e), c1)
               | None \<Rightarrow> (Inr (), c1\<lparr>cn_alive := False, cn_open := [], cn_consuming := []\<rparr>))
         else (Inr (), c1))"

section \<open>The Run loops\<close>

text \<open>
  The state of a loop: the broker's queue (\<open>rn_ready\<close>), the deliveries it has pushed and the loop
  has not received, the one the loop holds while it waits for a slot of the semaphore, those in
  handlers, the number of handlers that have settled and not yet given their slot back, and the
  deliveries whose acknowledgement was lost. \<open>rn_published\<close> and \<open>rn_settled\<close> record what ever was
  published and what left the queue, for good.
\<close>

datatype run_end = Stopped | ConsumeFailed goerr | ChannelClosed | Crashed goerr

record 'd run =
  rn_ready :: "'d list"
  rn_buffer :: "'d list"
  rn_held :: "'d option"
  rn_handling :: "'d list"
  rn_leaving :: nat
  rn_unsettled :: "'d list"
  rn_settled :: "('d \<times> disposition) list"
  rn_published :: "'d list"
  rn_cancelled :: bool
  rn_consuming :: bool
  rn_returned :: "run_end option"
  rn_world :: world

definition outstanding :: "'d run \<Rightarrow> 'd list" where
  "outstanding s =
     rn_buffer s @ (case rn_held s of None \<Rightarrow> [] | Some d \<Rightarrow> [d]) @ rn_handling s @ rn_unsettled s"

text \<open>
  When the loop returns its channel is closed, and the broker puts every delivery that is not
  settled back into the queue, those included that handlers are still at work on.
\<close>

definition returns :: "run_end \<Rightarrow> 'd run \<Rightarrow> 'd run" where
  "returns e s = s\<lparr>rn_returned := Some e, rn_ready := outstanding s @ rn_ready s, rn_buffer := [],
     rn_held := None, rn_unsettled := [], rn_consuming := False\<rparr>"

text \<open>
  What a handler's disposition does: after the channel is closed nothing, as the delivery is back
  in the queue already.
\<close>

definition settles :: "'d \<Rightarrow> disposition \<Rightarrow> 'd run \<Rightarrow> 'd run" where
  "settles d disp s =
     (if rn_returned s \<noteq> None then s
      else case disp of
        Nacked True \<Rightarrow> s\<lparr>rn_ready := d # rn_ready s\<rparr>
      | AckLost \<Rightarrow> s\<lparr>rn_unsettled := d # rn_unsettled s\<rparr>
      | _ \<Rightarrow> s\<lparr>rn_settled := (d, disp) # rn_settled s\<rparr>)"

text \<open>
  The steps of the program: the two branches of the \<open>select\<close>, taking a slot of the semaphore and
  starting the goroutine, and the goroutine's handler, whose panic ends the process, and its
  deferred release. \<open>n\<close> is the capacity of the semaphore.
\<close>

inductive own_step :: "('d \<Rightarrow> disposition io) \<Rightarrow> nat \<Rightarrow> 'd run \<Rightarrow> 'd run \<Rightarrow> bool" for handle n where
  Done: "rn_returned s = None \<Longrightarrow> rn_held s = None \<Longrightarrow> rn_cancelled s \<Longrightarrow>
    own_step handle n s (returns Stopped s)"
| Closed: "rn_returned s = None \<Longrightarrow> rn_held s = None \<Longrightarrow> \<not> rn_consuming s \<Longrightarrow> rn_buffer s = [] \<Longrightarrow>
    own_step handle n s (returns ChannelClosed s)"
| Receive: "rn_returned s = None \<Longrightarrow> rn_held s = None \<Longrightarrow> rn_buffer s = d # ds \<Longrightarrow>
    own_step handle n s (s\<lparr>rn_held := Some d, rn_buffer := ds\<rparr>)"
| Go: "rn_returned s = None \<Longrightarrow> rn_held s = Some d \<Longrightarrow> length (rn_handling s) + rn_leaving s < n \<Longrightarrow>
    own_step handle n s (s\<lparr>rn_held := None, rn_handling := d # rn_handling s\<rparr>)"
| Handle: "rn_handling s = ds @ d # ds' \<Longrightarrow> handle d (rn_world s) = (Inr disp, w) \<Longrightarrow>
    own_step handle n s
      (settles d disp (s\<lparr>rn_handling := ds @ ds', rn_leaving := Suc (rn_leaving s), rn_world := w\<rparr>))"
| Panic: "rn_handling s = ds @ d # ds' \<Longrightarrow> handle d (rn_world s) = (Inl e, w) \<Longrightarrow>
    own_step handle n s
      ((if rn_returned s = None then returns (Crashed e) s else s\<lparr>rn_returned := Some (Crashed e)\<rparr>)
         \<lparr>rn_handling := [], rn_leaving := 0, rn_world := w\<rparr>)"
| Release: "rn_leaving s = Suc k \<Longrightarrow> own_step handle n s (s\<lparr>rn_leaving := k\<rparr>)"

text \<open>
  The steps of the others: publishers, the broker, which pushes to a consumer at most \<open>n\<close>
  deliveries it has not settled (\<open>Qos\<close>), the signal that cancels the context, the library, which
  ends the consumer when the context or the connection does, \<open>main\<close>, which ends the process and the
  goroutines in it when the loops have returned, and whatever else happens to the world meanwhile.
\<close>

inductive run_step :: "('d \<Rightarrow> disposition io) \<Rightarrow> (world \<Rightarrow> world \<Rightarrow> bool) \<Rightarrow> nat \<Rightarrow> 'd run \<Rightarrow> 'd run \<Rightarrow> bool"
  for handle others n where
  Own: "own_step handle n s s' \<Longrightarrow> run_step handle others n s s'"
| Publish: "run_step handle others n s (s\<lparr>rn_ready := rn_ready s @ [d], rn_published := d # rn_published s\<rparr>)"
| Push: "rn_returned s = None \<Longrightarrow> rn_consuming s \<Longrightarrow> rn_ready s = d # ds \<Longrightarrow> length (outstanding s) < n \<Longrightarrow>
    run_step handle others n s (s\<lparr>rn_ready := ds, rn_buffer := rn_buffer s @ [d]\<rparr>)"
| Cancel: "run_step handle others n s (s\<lparr>rn_cancelled := True\<rparr>)"
| Unconsume: "run_step handle others n s (s\<lparr>rn_consuming := False\<rparr>)"
| Exit: "rn_returned s \<noteq> None \<Longrightarrow> run_step handle others n s (s\<lparr>rn_handling := [], rn_leaving := 0\<rparr>)"
| Others: "others (rn_world s) w \<Longrightarrow> run_step handle others n s (s\<lparr>rn_world := w\<rparr>)"

inductive runs :: "('d \<Rightarrow> disposition io) \<Rightarrow> (world \<Rightarrow> world \<Rightarrow> bool) \<Rightarrow> nat \<Rightarrow> 'd run \<Rightarrow> 'd run \<Rightarrow> bool"
  for handle others n s0 where
  Start: "runs handle others n s0 s0"
| Step: "runs handle others n s0 s \<Longrightarrow> run_step handle others n s s' \<Longrightarrow> runs handle others n s0 s'"

definition started :: "'d list \<Rightarrow> world \<Rightarrow> 'd run" where
  "started ready w = \<lparr>rn_ready = ready, rn_buffer = [], rn_held = None, rn_handling = [], rn_leaving = 0,
     rn_unsettled = [], rn_settled = [], rn_published = ready, rn_cancelled = False, rn_consuming = True,
     rn_returned = None, rn_world = w\<rparr>"

text \<open>
  \<open>Run\<close> consumes and loops, or returns the error of consuming. The relation holds of every state
  the loop comes to.
\<close>

definition Run :: "('d \<Rightarrow> disposition io) \<Rightarrow> (world \<Rightarrow> world \<Rightarrow> bool) \<Rightarrow> nat \<Rightarrow> nat result \<times> connection \<Rightarrow>
    'd list \<Rightarrow> world \<Rightarrow> 'd run \<Rightarrow> bool" where
  "Run handle others n consumed ready w s \<longleftrightarrow>
     (case fst consumed of
        Inl e \<Rightarrow> s = (started ready w)\<lparr>rn_returned := Some (ConsumeFailed e), rn_consuming := False\<rparr>
      | Inr ch \<Rightarrow> runs handle others n (started ready w) s)"

definition EmailWorker_Run where
  "EmailWorker_Run E others refuse name n c =
     Run (EmailWorker_handle E) others n (ConsumeEmail refuse name (int n) c)"

definition VideoWorker_Run where
  "VideoWorker_Run E others refuse name n c =
     Run (VideoWorker_handle E) others n (ConsumeVideo refuse name (int n) c)"

definition SaveVideoWorker_Run where
  "SaveVideoWorker_Run E others refuse name n c =
     Run (SaveVideoWorker_handle E) others n (ConsumeSave refuse name (int n) c)"

definition ProcessingWorker_Run where
  "ProcessingWorker_Run E others refuse name n c =
     Run (ProcessingWorker_handle E) others n (ConsumeRawVideo refuse name (int n) c)"

text \<open>
  \<open>main\<close> starts the four loops over one connection, under names of their own, and waits for the
  signal and then for the loops. The errors that they return are dropped. The consumers are
  declared in the order of the program text, one of the orders the goroutines may come in.
\<close>

record worker_process =
  wp_email :: "email_message option run"
  wp_convert :: "video_message option run"
  wp_save :: "save_video_message option run"
  wp_processing :: "notification option run"

definition worker_main :: "env \<Rightarrow> (world \<Rightarrow> world \<Rightarrow> bool) \<Rightarrow> (nat \<Rightarrow> nat \<Rightarrow> string option) \<Rightarrow>
    email_message option list \<Rightarrow> video_message option list \<Rightarrow> save_video_message option list \<Rightarrow>
    notification option list \<Rightarrow> connection \<Rightarrow> world \<Rightarrow> worker_process \<Rightarrow> bool" where
  "worker_main E others refuse es vs ss ns c w p \<longleftrightarrow>
     (let c1 = snd (ConsumeEmail (refuse 0) ''email-worker'' 10 c);
          c2 = snd (ConsumeVideo (refuse 1) ''convert-worker'' 2 c1);
          c3 = snd (ConsumeSave (refuse 2) ''save-worker'' 5 c2)
      in EmailWorker_Run E others (refuse 0) ''email-worker'' 10 c es w (wp_email p) \<and>
         VideoWorker_Run E others (refuse 1) ''convert-worker'' 2 c1 vs w (wp_convert p) \<and>
         SaveVideoWorker_Run E others (refuse 2) ''save-worker'' 5 c2 ss w (wp_save p) \<and>
         ProcessingWorker_Run E others (refuse 3) ''processing-worker'' 3 c3 ns w (wp_processing p))"

text \<open>When \<open>main\<close> logs that all workers exited cleanly.\<close>

definition exited :: "worker_process \<Rightarrow> bool" where
  "exited p \<longleftrightarrow> rn_cancelled (wp_email p) \<and> rn_returned (wp_email p) \<noteq> None \<and>
     rn_returned (wp_convert p) \<noteq> None \<and> rn_returned (wp_save p) \<noteq> None \<and>
     rn_returned (wp_processing p) \<noteq> None"

end
