(* ===== verification/Consumer_Laws.thy ===== *)
theory Consumer_Laws
  imports System Consumers "HOL-Library.Multiset"
begin

text \<open>
  What holds of the consuming loops in every interleaving of their steps with the broker's, and of
  the worker process they make up.
\<close>

inductive_cases own_stepE: "own_step work n s s'"

inductive_cases run_stepE: "run_step work others n s s'"

lemmas run_state = returns_def settles_def outstanding_def started_def

section \<open>Concurrency\<close>

text \<open>No more handlers than the semaphore has slots, and no more deliveries in hand than \<open>Qos\<close> allows.\<close>

definition bounded :: "nat \<Rightarrow> 'd run \<Rightarrow> bool" where
  "bounded n s \<longleftrightarrow> length (rn_handling s) + rn_leaving s \<le> n \<and>
     (rn_returned s = None \<longrightarrow> length (outstanding s) \<le> n)"

lemma bounded_own: "own_step work n s s' \<Longrightarrow> bounded n s \<Longrightarrow> bounded n s'"
  by (erule own_stepE)
    (auto simp: bounded_def run_state split: if_splits option.splits disposition.splits bool.splits)

lemma bounded_step: "run_step work others n s s' \<Longrightarrow> bounded n s \<Longrightarrow> bounded n s'"
  by (erule run_stepE) (auto simp: bounded_own, auto simp: bounded_def outstanding_def split: option.splits)

lemma bounded_runs: "runs work others n s0 s \<Longrightarrow> bounded n s0 \<Longrightarrow> bounded n s"
  by (induction rule: runs.induct) (auto intro: bounded_step)

lemma bounded_started: "bounded n (started ready w)"
  by (simp add: bounded_def run_state)

section \<open>Deliveries\<close>

text \<open>
  What was published is in the queue, in the loop's hands, or settled; and what is settled is what
  a handler said of it.
\<close>

definition accounted :: "('d \<Rightarrow> disposition io) \<Rightarrow> 'd run \<Rightarrow> bool" where
  "accounted work s \<longleftrightarrow>
     mset (rn_published s) = mset (rn_ready s) + mset (if rn_returned s = None then outstanding s else []) +
       mset (map fst (rn_settled s)) \<and>
     list_all (\<lambda>(d, disp). disp \<in> {Acked, Nacked False} \<and> (\<exists>w. fst (work d w) = Inr disp)) (rn_settled s)"

lemma accounted_own: "own_step work n s s' \<Longrightarrow> accounted work s \<Longrightarrow> accounted work s'"
proof (erule own_stepE)
  fix ds d ds' disp w
  assume h: "rn_handling s = ds @ d # ds'" "work d (rn_world s) = (Inr disp, w)"
    and a: "accounted work s"
    and s': "s' = settles d disp (s\<lparr>rn_handling := ds @ ds', rn_leaving := Suc (rn_leaving s), rn_world := w\<rparr>)"
  have "\<exists>w. fst (work d w) = Inr disp"
    using h(2) by (metis fst_conv)
  then show ?thesis
    using h(1) a unfolding s'
    by (cases disp) (auto simp: accounted_def run_state split: option.splits bool.splits)
qed (auto simp: accounted_def run_state split: option.splits)

lemma accounted_step: "run_step work others n s s' \<Longrightarrow> accounted work s \<Longrightarrow> accounted work s'"
  by (erule run_stepE) (auto simp: accounted_own, auto simp: accounted_def outstanding_def split: option.splits)

lemma accounted_runs: "runs work others n s0 s \<Longrightarrow> accounted work s0 \<Longrightarrow> accounted work s"
  by (induction rule: runs.induct) (auto intro: accounted_step)

lemma accounted_started: "accounted work (started ready w)"
  by (simp add: accounted_def run_state)

section \<open>Winding down\<close>

definition own_measure :: "'d run \<Rightarrow> nat" where
  "own_measure s =
     (if rn_returned s = None then 4 * length (rn_buffer s) + (if rn_held s = None then 0 else 3) + 1 else 0) +
     2 * length (rn_handling s) + rn_leaving s"

lemma own_measure_decreases: "own_step work n s s' \<Longrightarrow> own_measure s' < own_measure s"
  by (erule own_stepE)
    (auto simp: own_measure_def run_state split: disposition.splits bool.splits)

lemma own_steps_bounded: "(own_step work n ^^ k) s s' \<Longrightarrow> own_measure s' + k \<le> own_measure s"
proof (induction k arbitrary: s')
  case (Suc k)
  then obtain s1 where "(own_step work n ^^ k) s s1" "own_step work n s1 s'"
    by auto
  with Suc.IH [of s1] own_measure_decreases [of work n s1 s'] show ?case
    by simp
qed simp

lemma own_step_cancelled: "own_step work n s s' \<Longrightarrow> rn_cancelled s' = rn_cancelled s"
  by (erule own_stepE) (auto simp: run_state split: disposition.splits bool.splits)

text \<open>A loop whose context is cancelled and that can take no step has returned and left nothing running.\<close>

definition wound_down :: "'d run \<Rightarrow> bool" where
  "wound_down s \<longleftrightarrow> rn_returned s \<noteq> None \<and> rn_handling s = [] \<and> rn_leaving s = 0"

lemma own_step_possible:
  assumes "rn_cancelled s" "0 < n" "\<not> wound_down s"
  shows "\<exists>s'. own_step work n s s'"
proof -
  consider d ds where "rn_handling s = d # ds" | k where "rn_leaving s = Suc k"
    | "rn_handling s = []" "rn_leaving s = 0"
    by (metis list.exhaust not0_implies_Suc)
  then show ?thesis
  proof cases
    case 1
    then have h: "rn_handling s = [] @ d # ds"
      by simp
    show ?thesis
    proof (cases "work d (rn_world s)")
      case (Pair r w)
      then show ?thesis
        using own_step.Handle [OF h, of work] own_step.Panic [OF h, of work] by (cases r) blast+
    qed
  next
    case 2
    then show ?thesis
      by (blast intro: own_step.Release)
  next
    case 3
    then have r: "rn_returned s = None"
      using assms(3) by (simp add: wound_down_def)
    show ?thesis
    proof (cases "rn_held s")
      case None
      then show ?thesis
        using own_step.Done [OF r] assms(1) by blast
    next
      case (Some d)
      then show ?thesis
        using own_step.Go [OF r, of d n] 3 assms(2) by auto
    qed
  qed
qed

lemma own_steps_wind_down:
  assumes "rn_cancelled s" "0 < n"
  shows "\<exists>s'. (own_step work n)\<^sup>*\<^sup>* s s' \<and> wound_down s'"
  using assms(1)
proof (induction "own_measure s" arbitrary: s rule: less_induct)
  case less
  show ?case
  proof (cases "wound_down s")
    case False
    then obtain s' where s': "own_step work n s s'"
      using own_step_possible less.prems assms(2) by metis
    with less.hyps [OF own_measure_decreases] less.prems own_step_cancelled
    obtain s'' where "(own_step work n)\<^sup>*\<^sup>* s' s''" "wound_down s''"
      by metis
    with s' show ?thesis
      by (meson converse_rtranclp_into_rtranclp)
  qed auto
qed

section \<open>The worker process\<close>

text \<open>Work on a delivery is a step of the system, whatever the delivery is.\<close>

locale delivery_work =
  fixes E :: env and work :: "'d \<Rightarrow> disposition io"
  assumes work_step: "step E w (snd (work d w))"
begin

lemma own_reachable: "own_step work n s s' \<Longrightarrow> reachable E w0 (rn_world s) \<Longrightarrow> reachable E w0 (rn_world s')"
proof (erule own_stepE)
  fix ds d ds' disp w
  assume r: "reachable E w0 (rn_world s)" "work d (rn_world s) = (Inr disp, w)"
    and s': "s' = settles d disp (s\<lparr>rn_handling := ds @ ds', rn_leaving := Suc (rn_leaving s), rn_world := w\<rparr>)"
  have "rn_world s' = snd (work d (rn_world s))"
    using r(2) unfolding s' by (simp add: settles_def split: disposition.split bool.split)
  then show ?thesis
    using reachable.step [OF r(1) work_step] by simp
next
  fix ds d ds' e w
  assume r: "reachable E w0 (rn_world s)" "work d (rn_world s) = (Inl e, w)"
    and s': "s' = (if rn_returned s = None then returns (Crashed e) s else s\<lparr>rn_returned := Some (Crashed e)\<rparr>)
      \<lparr>rn_handling := [], rn_leaving := 0, rn_world := w\<rparr>"
  then have "rn_world s' = snd (work d (rn_world s))"
    by simp
  then show ?thesis
    using reachable.step [OF r(1) work_step] by simp
qed (simp_all add: returns_def)

lemma runs_reachable:
  "runs work (step E) n s0 s \<Longrightarrow> reachable E w0 (rn_world s0) \<Longrightarrow> reachable E w0 (rn_world s)"
proof (induction rule: runs.induct)
  case (Step s s')
  then show ?case
    by - (erule run_stepE, auto intro: own_reachable reachable.step)
qed

lemma Run_invariant:
  assumes "Run work (step E) n consumed ready w s" "reachable E w0 w"
  shows "bounded n s" "accounted work s" "reachable E w0 (rn_world s)"
proof -
  have "bounded n s \<and> accounted work s \<and> reachable E w0 (rn_world s)"
  proof (cases "fst consumed")
    case (Inl e)
    with assms show ?thesis
      by (simp add: Run_def bounded_def accounted_def run_state)
  next
    case (Inr ch)
    with assms(1) have r: "runs work (step E) n (started ready w) s"
      by (simp add: Run_def)
    show ?thesis
      using bounded_runs [OF r bounded_started] accounted_runs [OF r accounted_started]
        runs_reachable [OF r, of w0] assms(2) by (simp add: started_def)
  qed
  then show "bounded n s" "accounted work s" "reachable E w0 (rn_world s)"
    by simp_all
qed

end

interpretation email: delivery_work E "EmailWorker_handle E" for E
  by unfold_locales (rule step.EmailWorker)

interpretation convert: delivery_work E "VideoWorker_handle E" for E
  by unfold_locales (rule step.VideoWorker)

interpretation save: delivery_work E "SaveVideoWorker_handle E" for E
  by unfold_locales (rule step.SaveVideoWorker)

interpretation processing: delivery_work E "ProcessingWorker_handle E" for E
  by unfold_locales (rule step.ProcessingWorker)

lemmas Run_defs = EmailWorker_Run_def VideoWorker_Run_def SaveVideoWorker_Run_def ProcessingWorker_Run_def

lemma worker_main_invariants:
  assumes "worker_main E (step E) refuse es vs ss ns c w p" "reachable E w0 w"
  shows "bounded 10 (wp_email p) \<and> bounded 2 (wp_convert p) \<and> bounded 5 (wp_save p) \<and> bounded 3 (wp_processing p)"
    "accounted (EmailWorker_handle E) (wp_email p) \<and> accounted (VideoWorker_handle E) (wp_convert p) \<and>
     accounted (SaveVideoWorker_handle E) (wp_save p) \<and> accounted (ProcessingWorker_handle E) (wp_processing p)"
    "reachable E w0 (rn_world (wp_email p)) \<and> reachable E w0 (rn_world (wp_convert p)) \<and>
     reachable E w0 (rn_world (wp_save p)) \<and> reachable E w0 (rn_world (wp_processing p))"
proof -
  from assms(1) obtain c1 c2 c3 c4 where runs:
    "Run (EmailWorker_handle E) (step E) 10 c1 es w (wp_email p)"
    "Run (VideoWorker_handle E) (step E) 2 c2 vs w (wp_convert p)"
    "Run (SaveVideoWorker_handle E) (step E) 5 c3 ss w (wp_save p)"
    "Run (ProcessingWorker_handle E) (step E) 3 c4 ns w (wp_processing p)"
    unfolding worker_main_def Let_def Run_defs by blast
  note all = email.Run_invariant [OF runs(1) assms(2)] convert.Run_invariant [OF runs(2) assms(2)]
    save.Run_invariant [OF runs(3) assms(2)] processing.Run_invariant [OF runs(4) assms(2)]
  show "bounded 10 (wp_email p) \<and> bounded 2 (wp_convert p) \<and> bounded 5 (wp_save p) \<and> bounded 3 (wp_processing p)"
    "accounted (EmailWorker_handle E) (wp_email p) \<and> accounted (VideoWorker_handle E) (wp_convert p) \<and>
     accounted (SaveVideoWorker_handle E) (wp_save p) \<and> accounted (ProcessingWorker_handle E) (wp_processing p)"
    "reachable E w0 (rn_world (wp_email p)) \<and> reachable E w0 (rn_world (wp_convert p)) \<and>
     reachable E w0 (rn_world (wp_save p)) \<and> reachable E w0 (rn_world (wp_processing p))"
    by (intro conjI all)+
qed

lemma reachable_inv: "reachable E w0 w \<Longrightarrow> service_inv (db w0) \<Longrightarrow> service_inv (db w)"
  by (induction rule: reachable.induct) (auto intro: step_inv)


text \<open>
  Property C13. No delivery is lost and none is invented: whatever order the steps come in, what was
  published to a queue is still in it, is held by the loop, or has been settled, and it is settled
  only by a handler that ran to its end on it and acknowledged or rejected it for good.
\<close>

theorem no_delivery_lost:
  assumes "worker_main E (step E) refuse es vs ss ns c w p"
  shows "accounted (EmailWorker_handle E) (wp_email p) \<and> accounted (VideoWorker_handle E) (wp_convert p) \<and>
    accounted (SaveVideoWorker_handle E) (wp_save p) \<and> accounted (ProcessingWorker_handle E) (wp_processing p)"
  using worker_main_invariants [OF assms reachable.start] by simp


lemma shutdown_run:
  assumes "fst (ConsumeEmail refuse name (int n) c) = Inr ch" "0 < n"
    "fst (EmailWorker_handle E d w) = Inr disp"
  shows "\<exists>s. EmailWorker_Run E others refuse name n c [d] w s \<and> rn_returned s = Some Stopped \<and>
    rn_handling s = [] \<and> rn_leaving s = 0 \<and> rn_ready s = [d] \<and> rn_settled s = [] \<and>
    rn_world s = snd (EmailWorker_handle E d w)"
proof -
  let ?R = "runs (EmailWorker_handle E) others n (started [d] w)"
  let ?s = "started [d] w"
  let ?s1 = "?s\<lparr>rn_ready := [], rn_buffer := [d]\<rparr>"
  let ?s2 = "?s1\<lparr>rn_held := Some d, rn_buffer := []\<rparr>"
  let ?s3 = "?s2\<lparr>rn_held := None, rn_handling := [d]\<rparr>"
  let ?s4 = "?s3\<lparr>rn_cancelled := True\<rparr>"
  let ?s5 = "returns Stopped ?s4"
  let ?w = "snd (EmailWorker_handle E d w)"
  let ?s6 = "settles d disp (?s5\<lparr>rn_handling := [], rn_leaving := 1, rn_world := ?w\<rparr>)"
  let ?s7 = "?s6\<lparr>rn_leaving := 0\<rparr>"
  have "?R ?s"
    by (rule runs.Start)
  then have "?R ?s1"
    by (rule runs.Step) (use run_step.Push [of ?s d "[]" n] assms(2) in \<open>simp add: run_state\<close>)
  then have "?R ?s2"
    by (rule runs.Step) (use own_step.Receive [of ?s1 d "[]"] in \<open>simp add: run_state run_step.Own\<close>)
  then have "?R ?s3"
    by (rule runs.Step) (use own_step.Go [of ?s2 d n] assms(2) in \<open>simp add: run_state run_step.Own\<close>)
  then have "?R ?s4"
    by (rule runs.Step) (rule run_step.Cancel)
  then have "?R ?s5"
    by (rule runs.Step) (use own_step.Done [of ?s4] in \<open>simp add: run_state run_step.Own\<close>)
  then have "?R ?s6"
    by (rule runs.Step)
      (use own_step.Handle [of ?s5 "[]" d "[]" "EmailWorker_handle E" disp ?w n] assms(3)
       in \<open>simp add: run_state run_step.Own prod_eq_iff\<close>)
  then have "?R ?s7"
    by (rule runs.Step) (use own_step.Release [of ?s6 0] in \<open>simp add: run_state run_step.Own\<close>)
  then have "EmailWorker_Run E others refuse name n c [d] w ?s7"
    using assms(1) by (simp add: EmailWorker_Run_def Run_def)
  then show ?thesis
    by (intro exI [of _ ?s7]) (simp add: run_state)
qed

text \<open>
  Property C25. \<open>Run\<close> does not wait for its handlers: a state can be reached in which it has returned
  without an error, a handler has since finished its work on a message, and the message is still
  in the queue for the next worker to do the work again.
\<close>

theorem shutdown_redelivers:
  assumes "fst (ConsumeEmail refuse name (int n) c) = Inr ch" "0 < n"
    "fst (EmailWorker_handle E d w) = Inr disp"
  shows "\<exists>s. EmailWorker_Run E others refuse name n c [d] w s \<and> rn_returned s = Some Stopped \<and>
    rn_handling s = [] \<and> rn_leaving s = 0 \<and> rn_ready s = [d] \<and> rn_settled s = [] \<and>
    rn_world s = snd (EmailWorker_handle E d w)"
  using assms by (rule shutdown_run)

section \<open>The hypotheses can hold\<close>

definition sample_mail :: email_message where
  "sample_mail = \<lparr>em_To = ''ann@x'', em_Name = ''signup'', em_Token = ''t''\<rparr>"

definition sample_connection :: connection where
  "sample_connection = \<lparr>cn_alive = True, cn_next = 0, cn_open = [], cn_consumers = [], cn_prefetch = [],
     cn_consuming = []\<rparr>"

lemma sample_mail_sent: "\<exists>disp. fst (EmailWorker_handle sample_env (Some sample_mail) (world_of 0 empty_db)) = Inr disp"
proof -
  have "\<not> isl (fst (EmailWorker_handle sample_env (Some sample_mail) (world_of 0 empty_db)))"
    by code_simp
  then show ?thesis
    by (cases "fst (EmailWorker_handle sample_env (Some sample_mail) (world_of 0 empty_db))") auto
qed

lemma sample_consumed:
  "\<exists>ch. fst (ConsumeEmail (\<lambda>_. None) name i c) = Inr ch" "\<exists>ch. fst (ConsumeVideo (\<lambda>_. None) name i c) = Inr ch"
  "\<exists>ch. fst (ConsumeSave (\<lambda>_. None) name i c) = Inr ch" "\<exists>ch. fst (ConsumeRawVideo (\<lambda>_. None) name i c) = Inr ch"
  by (simp_all add: ConsumeEmail_def ConsumeVideo_def ConsumeSave_def ConsumeRawVideo_def consume_def Let_def)

lemma Run_started: "\<exists>ch. fst consumed = Inr ch \<Longrightarrow> Run work others n consumed ready w (started ready w)"
  by (auto simp: Run_def intro: runs.Start)

lemma sample_process:
  "\<exists>p. worker_main sample_env (step sample_env) (\<lambda>_ _. None) [Some sample_mail] [] [] [] sample_connection
       (world_of 0 empty_db) p \<and> rn_returned (wp_email p) = Some Stopped"
proof -
  obtain disp where "fst (EmailWorker_handle sample_env (Some sample_mail) (world_of 0 empty_db)) = Inr disp"
    using sample_mail_sent by blast
  moreover obtain ch where "fst (ConsumeEmail (\<lambda>_. None) ''email-worker'' (int 10) sample_connection) = Inr ch"
    using sample_consumed by blast
  ultimately obtain s where s: "EmailWorker_Run sample_env (step sample_env) (\<lambda>_. None) ''email-worker'' 10
      sample_connection [Some sample_mail] (world_of 0 empty_db) s" "rn_returned s = Some Stopped"
    using shutdown_run [of "\<lambda>_. None" "''email-worker''" 10] by fastforce
  let ?p = "\<lparr>wp_email = s, wp_convert = started [] (world_of 0 empty_db), wp_save = started [] (world_of 0 empty_db),
    wp_processing = started [] (world_of 0 empty_db)\<rparr>"
  have "worker_main sample_env (step sample_env) (\<lambda>_ _. None) [Some sample_mail] [] [] [] sample_connection
      (world_of 0 empty_db) ?p"
    using s by (simp add: worker_main_def Let_def VideoWorker_Run_def SaveVideoWorker_Run_def
        ProcessingWorker_Run_def Run_started sample_consumed)
  with s(2) show ?thesis
    by (intro exI [of _ ?p]) simp
qed


lemma no_delivery_lost_witness:
  "\<exists>p. worker_main sample_env (step sample_env) (\<lambda>_ _. None) [Some sample_mail] [] [] [] sample_connection
       (world_of 0 empty_db) p \<and> rn_returned (wp_email p) = Some Stopped \<and>
     accounted (EmailWorker_handle sample_env) (wp_email p)"
  using sample_process no_delivery_lost by blast


lemma shutdown_redelivers_witness:
  "\<exists>s. EmailWorker_Run sample_env (step sample_env) (\<lambda>_. None) ''email-worker'' 10 sample_connection
      [Some sample_mail] (world_of 0 empty_db) s \<and> rn_returned s = Some Stopped \<and> rn_ready s = [Some sample_mail]"
proof -
  obtain disp where d: "fst (EmailWorker_handle sample_env (Some sample_mail) (world_of 0 empty_db)) = Inr disp"
    using sample_mail_sent by blast
  obtain ch where ch: "fst (ConsumeEmail (\<lambda>_. None) ''email-worker'' (int 10) sample_connection) = Inr ch"
    using sample_consumed by blast
  show ?thesis
    using shutdown_redelivers [OF ch _ d, of "step sample_env"] by fastforce
qed

end
