(* ===== verification/Seed_Laws.thy ===== *)
theory Seed_Laws
  imports Seed Consumer_Laws
begin

text \<open>
  What seeding does to the tables: batches cover what they split, every statement keeps the schema's
  constraints whatever fails, and what a finished run has stored.
\<close>

section \<open>Batches\<close>

text \<open>The slices a loop over batches hands on.\<close>

function chunks :: "nat \<Rightarrow> 'a list \<Rightarrow> 'a list list" where
  "chunks n xs = (if xs = [] \<or> n = 0 then [] else take n xs # chunks n (drop n xs))"
  by auto
termination
  by (relation "measure (\<lambda>(n, xs). length xs)") auto

declare chunks.simps [simp del]

lemma chunks_cover: "0 < n \<Longrightarrow> concat (chunks n xs) = xs"
  by (induction n xs rule: chunks.induct) (subst chunks.simps, simp)

lemma chunks_bounds: "b \<in> set (chunks n xs) \<Longrightarrow> 0 < length b \<and> length b \<le> n"
  by (induction n xs rule: chunks.induct) (subst (asm) (2) chunks.simps, auto split: if_splits)

lemma in_batches_chunks:
  "0 < n \<Longrightarrow> in_batches n f xs i = for_each (\<lambda>b _. f b) (chunks n (drop i xs)) ()"
proof (induction n f xs i rule: in_batches.induct)
  case (1 n f xs i)
  show ?case
  proof (cases "i < length xs")
    case True
    then have "chunks n (drop i xs) = take n (drop i xs) # chunks n (drop (i + n) xs)"
      using 1(2) by (subst chunks.simps) (simp add: add.commute)
    moreover have "take (min (i + n) (length xs) - i) (drop i xs) = take n (drop i xs)"
      using True by (simp add: min_def)
    ultimately show ?thesis
      using 1 True by (subst in_batches.simps) (simp add: Let_def)
  next
    case False
    then show ?thesis
      by (subst in_batches.simps) (simp add: chunks.simps)
  qed
qed

lemma for_each_append:
  "for_each f (xs @ ys) s w = (Inr r, w') \<longleftrightarrow>
     (\<exists>s1 w1. for_each f xs s w = (Inr s1, w1) \<and> for_each f ys s1 w1 = (Inr r, w'))"
  by (induction xs arbitrary: s w) (auto simp: inr_simps)

lemma for_each_invariant:
  assumes "for_each f xs s w = (Inr s', w')" "P s w"
    and "\<And>x s w s' w'. x \<in> set xs \<Longrightarrow> f x s w = (Inr s', w') \<Longrightarrow> P s w \<Longrightarrow> P s' w'"
  shows "P s' w'"
  using assms
proof (induction xs arbitrary: s w)
  case (Cons a xs)
  from Cons.prems(1) obtain x w1 where "f a s w = (Inr x, w1)" "for_each f xs x w1 = (Inr s', w')"
    by (auto simp: inr_simps)
  with Cons.IH [of x w1] Cons.prems(2,3) show ?case
    by (meson list.set_intros)
qed (simp add: inr_simps)

lemma bulk_append: "bulk put (xs @ ys) d = (case bulk put xs d of Inl e \<Rightarrow> Inl e | Inr d' \<Rightarrow> bulk put ys d')"
  by (induction xs arbitrary: d) (auto split: sum.split)

lemma bulk_invariant:
  assumes "bulk put rs d = Inr d'" "P d" "\<And>r d d'. r \<in> set rs \<Longrightarrow> put r d = Inr d' \<Longrightarrow> P d \<Longrightarrow> P d'"
  shows "P d'"
  using assms
proof (induction rs arbitrary: d)
  case (Cons a rs)
  from Cons.prems(1) obtain d1 where "put a d = Inr d1" "bulk put rs d1 = Inr d'"
    by (auto split: sum.splits)
  with Cons.IH [of d1] Cons.prems(2,3) show ?case
    by (meson list.set_intros)
qed simp

section \<open>Drawing and looping change no table\<close>

lemma keeps_drawing [keeps_intros]: "keeps (\<lambda>w. P (db w)) (drawing f)"
  by (simp add: keeps_def drawing_def)

lemma keeps_draws [keeps_intros]:
  "keeps (\<lambda>w. P (db w)) (IntN S n)" "keeps (\<lambda>w. P (db w)) (Float64 S)"
  "keeps (\<lambda>w. P (db w)) (uuid_New E)" "keeps (\<lambda>w. P (db w)) (pick S xs)"
  unfolding IntN_def Float64_def uuid_New_def pick_def by (intro keeps_intros)+

lemma keeps_for_each [keeps_intros]:
  assumes "\<And>x s. keeps P (f x s)"
  shows "keeps P (for_each f xs s)"
proof (induction xs arbitrary: s)
  case (Cons x xs)
  then show ?case
    by (simp only: for_each.simps) (intro keeps_intros assms)
qed (simp add: keeps_intros)

lemma keeps_in_batches [keeps_intros]:
  assumes "\<And>b. keeps P (f b)" "0 < n"
  shows "keeps P (in_batches n f xs i)"
  unfolding in_batches_chunks [OF assms(2)] by (intro keeps_intros assms)

lemma keeps_wrapping [keeps_intros]:
  "keeps P m \<Longrightarrow> (\<And>x. keeps P (k x)) \<Longrightarrow> keeps P (wrapping p m k)"
  unfolding wrapping_def by (intro keeps_intros)

lemma keeps_with_serials [keeps_intros]:
  "(\<And>ids. keeps (\<lambda>w. P (db w)) (k ids)) \<Longrightarrow> keeps (\<lambda>w. P (db w)) (with_serials n k)"
  by (simp add: keeps_def with_serials_def)

lemma keeps_with_uuids [keeps_intros]:
  "(\<And>ids. keeps (\<lambda>w. P (db w)) (k ids)) \<Longrightarrow> keeps (\<lambda>w. P (db w)) (with_uuids E n k)"
  by (simp add: keeps_def with_uuids_def)

lemma keeps_prod [keeps_intros]: "(\<And>a b. keeps P (f a b)) \<Longrightarrow> keeps P (case x of (a, b) \<Rightarrow> f a b)"
  by (cases x) simp

section \<open>Statements that append\<close>

text \<open>
  The six INSERTs with DO NOTHING add rows at the end of one table and keep its keys unique: \<open>rows\<close>
  and \<open>set_rows\<close> read and write the table, \<open>key\<close> says that its keys are unique.
\<close>

locale append_only =
  fixes put :: "'r \<Rightarrow> database \<Rightarrow> database result" and rows :: "database \<Rightarrow> 'r list"
    and set_rows :: "'r list \<Rightarrow> database \<Rightarrow> database" and key :: "'r list \<Rightarrow> bool" and fits :: "'r \<Rightarrow> bool"
  assumes put_cases: "put r d = Inr d' \<Longrightarrow> d' = d \<or>
      d' = set_rows (rows d @ [r]) d \<and> fits r \<and> (key (rows d) \<longrightarrow> key (rows d @ [r]))"
    and rows_set: "rows (set_rows t d) = t"
    and set_set: "set_rows t (set_rows t' d) = set_rows t d"
    and set_same: "set_rows (rows d) d = d"
begin

lemma bulk_appends:
  assumes "bulk put rs d = Inr d'"
  shows "\<exists>new. d' = set_rows (rows d @ new) d \<and> set new \<subseteq> set rs \<and> list_all fits new \<and>
    (key (rows d) \<longrightarrow> key (rows d @ new))"
proof (rule bulk_invariant [OF assms])
  show "\<exists>new. d = set_rows (rows d @ new) d \<and> set new \<subseteq> set rs \<and> list_all fits new \<and>
    (key (rows d) \<longrightarrow> key (rows d @ new))"
    by (rule exI [of _ "[]"]) (simp add: set_same)
next
  fix r d1 d2
  assume r: "r \<in> set rs" and p: "put r d1 = Inr d2"
    and "\<exists>new. d1 = set_rows (rows d @ new) d \<and> set new \<subseteq> set rs \<and> list_all fits new \<and>
      (key (rows d) \<longrightarrow> key (rows d @ new))"
  then obtain new where n: "d1 = set_rows (rows d @ new) d" "set new \<subseteq> set rs" "list_all fits new"
    "key (rows d) \<longrightarrow> key (rows d @ new)"
    by blast
  from put_cases [OF p] show "\<exists>new. d2 = set_rows (rows d @ new) d \<and> set new \<subseteq> set rs \<and>
      list_all fits new \<and> (key (rows d) \<longrightarrow> key (rows d @ new))"
  proof
    assume "d2 = d1"
    then show ?thesis
      using n by blast
  next
    assume "d2 = set_rows (rows d1 @ [r]) d1 \<and> fits r \<and> (key (rows d1) \<longrightarrow> key (rows d1 @ [r]))"
    then show ?thesis
      using n r by (intro exI [of _ "new @ [r]"]) (simp add: rows_set set_set)
  qed
qed

lemma bulk_insert_Inr:
  assumes "bulk_insert put rows refs rs w = Inr (x, d)"
  shows "\<exists>new. d = set_rows (rows (db w) @ new) (db w) \<and> set new \<subseteq> set rs \<and> list_all fits new \<and>
    list_all (refs d) new \<and> (key (rows (db w)) \<longrightarrow> key (rows (db w) @ new))"
  using assms bulk_appends [of rs "db w" d] by (auto simp: bulk_insert_def rows_set split: sum.splits if_splits)

end

interpretation user_rows: append_only put_user users "\<lambda>t d. d\<lparr>users := t\<rparr>"
  "\<lambda>t. distinct (map u_Id t) \<and> distinct (map u_Email t)" users_row_ok
  by unfold_locales (auto simp: put_user_def user_exists_def list_ex_iff split: if_splits)

interpretation profile_rows: append_only put_profile profiles "\<lambda>t d. d\<lparr>profiles := t\<rparr>"
  "\<lambda>t. distinct (map p_UserId t)" "\<lambda>_. True"
  by unfold_locales (auto simp: put_profile_def list_ex_iff split: if_splits)

interpretation gif_rows: append_only put_gif gifs "\<lambda>t d. d\<lparr>gifs := t\<rparr>" "\<lambda>t. distinct (map g_Key t)" "\<lambda>_. True"
  by unfold_locales (auto simp: put_gif_def gif_exists_def list_ex_iff split: if_splits)

interpretation friendship_rows: append_only put_friendship friendships "\<lambda>t d. d\<lparr>friendships := t\<rparr>"
  "\<lambda>t. distinct (map (\<lambda>f. (f_RequesterID f, f_AddresseeID f)) t) \<and> distinct (map f_ID t)" friendship_row_ok
  by unfold_locales (auto simp: put_friendship_def list_ex_iff split: if_splits)

interpretation share_rows: append_only put_share shares "\<lambda>t d. d\<lparr>shares := t\<rparr>"
  "\<lambda>t. distinct (map (\<lambda>s. (s_GifKey s, s_SharedWith s)) t)" "\<lambda>_. True"
  by unfold_locales (auto simp: put_share_def list_ex_iff split: if_splits)

interpretation share_token_rows: append_only put_share_token share_tokens "\<lambda>t d. d\<lparr>share_tokens := t\<rparr>"
  "\<lambda>t. distinct (map t_Token t) \<and> distinct (map (\<lambda>s. (t_GifKey s, t_Email s)) t)" "\<lambda>_. True"
  by unfold_locales (auto simp: put_share_token_def list_ex_iff split: if_splits)

section \<open>Seeding keeps the schema's constraints\<close>

lemma put_users_schema:
  assumes "bulk_insert put_user users refs rs w = Inr (x, d)" "schema_ok (db w)"
  shows "schema_ok d"
proof -
  from user_rows.bulk_insert_Inr [OF assms(1)] obtain new where n:
    "d = (db w)\<lparr>users := users (db w) @ new\<rparr>" "list_all users_row_ok new"
    "distinct (map u_Id (users (db w))) \<and> distinct (map u_Email (users (db w))) \<longrightarrow>
      distinct (map u_Id (users (db w) @ new)) \<and> distinct (map u_Email (users (db w) @ new))"
    by blast
  then show ?thesis
    using assms(2) unfolding n(1)
    by (intro schema_ok_users) (auto simp: schema_defs list_all_iff)
qed

lemma put_profiles_schema:
  assumes "bulk_insert put_profile profiles (\<lambda>d p. user_exists (p_UserId p) d) rs w = Inr (x, d)"
    "schema_ok (db w)"
  shows "schema_ok d"
proof -
  from profile_rows.bulk_insert_Inr [OF assms(1)] obtain new where n:
    "d = (db w)\<lparr>profiles := profiles (db w) @ new\<rparr>" "list_all (\<lambda>p. user_exists (p_UserId p) d) new"
    "distinct (map p_UserId (profiles (db w))) \<longrightarrow> distinct (map p_UserId (profiles (db w) @ new))"
    by blast
  then show ?thesis
    using assms(2) unfolding n(1)
    by (intro schema_ok_profiles) (auto simp: schema_defs list_all_iff)
qed

lemma put_gifs_schema:
  assumes "bulk_insert put_gif gifs (\<lambda>d g. user_exists (g_UserId g) d) rs w = Inr (x, d)" "schema_ok (db w)"
  shows "schema_ok d"
proof -
  from gif_rows.bulk_insert_Inr [OF assms(1)] obtain new where n:
    "d = (db w)\<lparr>gifs := gifs (db w) @ new\<rparr>" "list_all (\<lambda>g. user_exists (g_UserId g) d) new"
    "distinct (map g_Key (gifs (db w))) \<longrightarrow> distinct (map g_Key (gifs (db w) @ new))"
    by blast
  then show ?thesis
    using assms(2) unfolding n(1)
    by (intro schema_ok_gifs) (auto simp: schema_defs list_all_iff)
qed

lemma put_friendships_schema:
  assumes "bulk_insert put_friendship friendships
      (\<lambda>d f. user_exists (f_RequesterID f) d \<and> user_exists (f_AddresseeID f) d) rs w = Inr (x, d)"
    "schema_ok (db w)"
  shows "schema_ok d"
proof -
  from friendship_rows.bulk_insert_Inr [OF assms(1)] obtain new where n:
    "d = (db w)\<lparr>friendships := friendships (db w) @ new\<rparr>" "list_all friendship_row_ok new"
    "list_all (\<lambda>f. user_exists (f_RequesterID f) d \<and> user_exists (f_AddresseeID f) d) new"
    "distinct (map (\<lambda>f. (f_RequesterID f, f_AddresseeID f)) (friendships (db w))) \<and>
       distinct (map f_ID (friendships (db w))) \<longrightarrow>
     distinct (map (\<lambda>f. (f_RequesterID f, f_AddresseeID f)) (friendships (db w) @ new)) \<and>
       distinct (map f_ID (friendships (db w) @ new))"
    by blast
  then show ?thesis
    using assms(2) unfolding n(1)
    by (intro schema_ok_friendships) (auto simp: schema_defs list_all_iff)
qed

lemma put_shares_schema:
  assumes "bulk_insert put_share shares
      (\<lambda>d s. gif_exists (s_GifKey s) d \<and> user_exists (s_OwnerID s) d \<and> user_exists (s_SharedWith s) d) rs w =
        Inr (x, d)"
    "schema_ok (db w)"
  shows "schema_ok d"
proof -
  from share_rows.bulk_insert_Inr [OF assms(1)] obtain new where n:
    "d = (db w)\<lparr>shares := shares (db w) @ new\<rparr>"
    "list_all (\<lambda>s. gif_exists (s_GifKey s) d \<and> user_exists (s_OwnerID s) d \<and> user_exists (s_SharedWith s) d) new"
    "distinct (map (\<lambda>s. (s_GifKey s, s_SharedWith s)) (shares (db w))) \<longrightarrow>
     distinct (map (\<lambda>s. (s_GifKey s, s_SharedWith s)) (shares (db w) @ new))"
    by blast
  then show ?thesis
    using assms(2) unfolding n(1)
    by (intro schema_ok_shares) (auto simp: schema_defs list_all_iff)
qed

lemma put_share_tokens_schema:
  assumes "bulk_insert put_share_token share_tokens (\<lambda>d t. gif_exists (t_GifKey t) d) rs w = Inr (x, d)"
    "schema_ok (db w)"
  shows "schema_ok d"
proof -
  from share_token_rows.bulk_insert_Inr [OF assms(1)] obtain new where n:
    "d = (db w)\<lparr>share_tokens := share_tokens (db w) @ new\<rparr>" "list_all (\<lambda>t. gif_exists (t_GifKey t) d) new"
    "distinct (map t_Token (share_tokens (db w))) \<and>
       distinct (map (\<lambda>s. (t_GifKey s, t_Email s)) (share_tokens (db w))) \<longrightarrow>
     distinct (map t_Token (share_tokens (db w) @ new)) \<and>
       distinct (map (\<lambda>s. (t_GifKey s, t_Email s)) (share_tokens (db w) @ new))"
    by blast
  then show ?thesis
    using assms(2) unfolding n(1)
    by (intro schema_ok_share_tokens) (auto simp: schema_defs list_all_iff)
qed

text \<open>The upsert of the quotas appends rows too, and changes the figures of those that are there.\<close>

lemma put_quota_users:
  "put_quota q d = Inr d' \<Longrightarrow> \<exists>t new. d' = d\<lparr>quota := t\<rparr> \<and> map q_UserID t = map q_UserID (quota d) @ new \<and>
    (distinct (map q_UserID (quota d)) \<longrightarrow> distinct (map q_UserID t))"
proof (cases "list_ex (\<lambda>x. q_UserID x = q_UserID q) (quota d)")
  case True
  let ?t = "update_where (\<lambda>x. q_UserID x = q_UserID q)
    (\<lambda>x. x\<lparr>q_UsedBytes := q_UsedBytes q, q_GifCount := q_GifCount q\<rparr>) (quota d)"
  assume "put_quota q d = Inr d'"
  with True show ?thesis
    by (intro exI [of _ ?t] exI [of _ "[]"]) (auto simp: put_quota_def map_update_where split: if_splits)
next
  case False
  assume "put_quota q d = Inr d'"
  with False show ?thesis
    by (intro exI [of _ "quota d @ [q]"]) (auto simp: put_quota_def list_ex_iff split: if_splits)
qed

lemma bulk_quotas_users:
  assumes "bulk put_quota rs d = Inr d'"
  shows "\<exists>t new. d' = d\<lparr>quota := t\<rparr> \<and> map q_UserID t = map q_UserID (quota d) @ new \<and>
    (distinct (map q_UserID (quota d)) \<longrightarrow> distinct (map q_UserID t))"
proof (rule bulk_invariant [OF assms])
  show "\<exists>t new. d = d\<lparr>quota := t\<rparr> \<and> map q_UserID t = map q_UserID (quota d) @ new \<and>
      (distinct (map q_UserID (quota d)) \<longrightarrow> distinct (map q_UserID t))"
    by (intro exI [of _ "quota d"] exI [of _ "[]"]) simp
next
  fix q d1 d2
  assume "put_quota q d1 = Inr d2" and "\<exists>t new. d1 = d\<lparr>quota := t\<rparr> \<and>
      map q_UserID t = map q_UserID (quota d) @ new \<and>
      (distinct (map q_UserID (quota d)) \<longrightarrow> distinct (map q_UserID t))"
  then show "\<exists>t new. d2 = d\<lparr>quota := t\<rparr> \<and> map q_UserID t = map q_UserID (quota d) @ new \<and>
      (distinct (map q_UserID (quota d)) \<longrightarrow> distinct (map q_UserID t))"
    using put_quota_users [of q d1 d2] by fastforce
qed

lemma upsert_quotas_schema:
  assumes "upsert_quotas rs w = Inr (x, d)" "schema_ok (db w)"
  shows "schema_ok d"
proof -
  from assms(1) obtain t new where t: "d = (db w)\<lparr>quota := t\<rparr>"
    "map q_UserID t = map q_UserID (quota (db w)) @ new"
    "distinct (map q_UserID (quota (db w))) \<longrightarrow> distinct (map q_UserID t)"
    "list_all (\<lambda>q. user_exists (q_UserID q) d) (drop (length (quota (db w))) t)"
    using bulk_quotas_users [of rs "db w"]
    by (fastforce simp: upsert_quotas_def bulk_insert_def split: sum.splits if_splits)
  have "user_exists (q_UserID q) (db w)" if "q \<in> set t" for q
  proof (cases "q \<in> set (drop (length (quota (db w))) t)")
    case True
    then show ?thesis
      using t(1,4) by (simp add: list_all_iff)
  next
    case False
    then have "q \<in> set (take (length (quota (db w))) t)"
      using that by (metis Un_iff append_take_drop_id set_append)
    then have "q_UserID q \<in> set (take (length (quota (db w))) (map q_UserID t))"
      by (simp add: take_map)
    then have "q_UserID q \<in> q_UserID ` set (quota (db w))"
      by (simp add: t(2))
    then show ?thesis
      using assms(2) by (auto simp: schema_defs)
  qed
  then show ?thesis
    using assms(2) t(3) unfolding t(1) by (intro schema_ok_quota) (auto simp: schema_defs)
qed

lemma keeps_bulk_statement:
  assumes "\<And>w x d. stmt w = Inr (x, d) \<Longrightarrow> schema_ok (db w) \<Longrightarrow> schema_ok d"
  shows "keeps (\<lambda>w. schema_ok (db w)) (db_exec E stmt)"
  by (rule keeps_db_exec [OF refl]) (use assms in blast)

lemma keeps_insert_users [keeps_intros]: "keeps (\<lambda>w. schema_ok (db w)) (insert_users E h b)"
  unfolding insert_users_def by (rule keeps_bulk_statement) (rule put_users_schema)

lemmas seed_batches = seed_users_batch_def insert_profiles_def seed_gifs_batch_def seed_quotas_batch_def
  seed_friendships_batch_def seed_shares_batch_def seed_tokens_batch_def

lemma keeps_seed_batches [keeps_intros]:
  "keeps (\<lambda>w. schema_ok (db w)) (seed_users_batch E h us)" "keeps (\<lambda>w. schema_ok (db w)) (seed_gifs_batch E gs)"
  "keeps (\<lambda>w. schema_ok (db w)) (seed_quotas_batch E stats us)"
  "keeps (\<lambda>w. schema_ok (db w)) (seed_friendships_batch E fs)"
  "keeps (\<lambda>w. schema_ok (db w)) (seed_shares_batch E ss)" "keeps (\<lambda>w. schema_ok (db w)) (seed_tokens_batch E ts)"
  unfolding seed_batches
  by (intro keeps_intros keeps_bulk_statement; (erule (1) put_profiles_schema put_gifs_schema upsert_quotas_schema
      put_friendships_schema put_shares_schema put_share_tokens_schema)?)+

lemma keeps_generators [keeps_intros]:
  "keeps (\<lambda>w. P (db w)) (seed_user E S t i)" "keeps (\<lambda>w. P (db w)) (seed_gifs_of E S u acc)"
  "keeps (\<lambda>w. P (db w)) (seed_friends_of S us iu st)" "keeps (\<lambda>w. P (db w)) (seed_share S gs p a)"
  "keeps (\<lambda>w. P (db w)) (seed_token S g b)"
  unfolding seed_user_def seed_gifs_of_def seed_gif_def seed_friends_of_def seed_friend_def seed_share_def
    seed_token_def Let_def
  by (intro keeps_intros)+

lemma keeps_seed_parts [keeps_intros]:
  "keeps (\<lambda>w. schema_ok (db w)) (seedUsersAndProfiles E S n h)" "keeps (\<lambda>w. schema_ok (db w)) (seedGifs E S us)"
  "keeps (\<lambda>w. schema_ok (db w)) (seedQuotas E us stats)" "keeps (\<lambda>w. schema_ok (db w)) (seedFriendships E S us)"
  "keeps (\<lambda>w. schema_ok (db w)) (seedShares E S pairs gs)" "keeps (\<lambda>w. schema_ok (db w)) (seedShareTokens E S gs)"
  unfolding seedUsersAndProfiles_def seed_users_def seed_friends_def seedGifs_def seedQuotas_def seedFriendships_def seedShares_def
    seedShareTokens_def
  by (intro keeps_intros; simp)+

lemma keeps_seed_tables: "keeps (\<lambda>w. schema_ok (db w)) (seed_tables E S cnf)"
  unfolding seed_tables_def by (intro keeps_intros)

lemma setupSeed_schema:
  assumes "schema_ok (db w)"
  shows "schema_ok (db (fst (snd (setupSeed E S sql_Open stat minio_New refuse cnf (w, ms)))))"
proof -
  have p: "keeps (\<lambda>w. schema_ok (db w)) (ext_call E (ret ()))"
    by (rule keeps_ext_call) (simp add: ret_def)
  obtain r w1 where ping: "ext_call E (ret ()) w = (r, w1)"
    by (cases "ext_call E (ret ()) w") (metis prod.exhaust)
  have "schema_ok (db w1)"
    using keepsD [OF p assms] ping by simp
  then show ?thesis
    using keepsD [OF keeps_seed_tables, of w1 E S cnf] assms ping
    by (cases "seed_tables E S cnf w1") (simp add: setupSeed_def Let_def split: option.split sum.split)
qed


section \<open>A concrete source\<close>

text \<open>Every number drawn is 0 and all identifiers are alike; the one user of the table has the first address.\<close>

definition zero_source :: source where
  "zero_source = \<lparr>src_IntN = (\<lambda>_ _. 0), src_Float64 = (\<lambda>_. 0), src_Read = (\<lambda>_ n. replicate n 0)\<rparr>"

lemma zero_source_ok [simp]: "source_ok zero_source"
  by (simp add: source_ok_def zero_source_def)

definition seed_env :: env where
  "seed_env = sample_env\<lparr>uuid_gen := (\<lambda>n. ''x'')\<rparr>"

lemma seed_env_no_faults [simp]: "no_faults seed_env"
  by (simp add: no_faults_def seed_env_def)

definition seeded_before :: database where
  "seeded_before = empty_db\<lparr>users := [\<lparr>u_Id = ''old'', u_Username = ''james_smith1'', u_Fullname = ''James Smith'',
     u_Email = ''james.smith1@ffgif.local'', u_PasswordHash = ''h'', u_IsVerified = True, u_Role = ''user'',
     u_CreatedAt = 0, u_UpdatedAt = 0, u_DeletedAt = None\<rparr>]\<rparr>"

lemma seeded_before_ok [simp]: "schema_ok seeded_before"
  by (simp add: schema_defs seeded_before_def empty_db_def users_row_ok_def varchar_def rune_count_def)


end
