(* ===== verification/Seed_Runs.thy ===== *)
theory Seed_Runs
  imports Seed_Laws
begin

text \<open>What a run of the seeding commands has stored, and when it fails.\<close>

lemma for_each_establishes:
  assumes "for_each f xs s w = (Inr s', w')"
    and "\<And>x s w s' w'. x \<in> set xs \<Longrightarrow> f x s w = (Inr s', w') \<Longrightarrow> Q x w'"
    and "\<And>x y s w s' w'. x \<in> set xs \<Longrightarrow> f x s w = (Inr s', w') \<Longrightarrow> Q y w \<Longrightarrow> Q y w'"
  shows "\<forall>x\<in>set xs. Q x w'"
  using assms
proof (induction xs arbitrary: s w)
  case (Cons a xs)
  from Cons.prems(1) obtain s1 w1 where a: "f a s w = (Inr s1, w1)" "for_each f xs s1 w1 = (Inr s', w')"
    by (auto simp: inr_simps)
  have "\<forall>x\<in>set xs. Q x w'"
    by (rule Cons.IH [OF a(2)]) (blast intro: Cons.prems(2,3) list.set_intros)+
  moreover have "Q a w'"
    by (rule for_each_invariant [OF a(2), where P = "\<lambda>_. Q a"])
      (blast intro: Cons.prems(2) [OF _ a(1)] Cons.prems(3) list.set_intros)+
  ultimately show ?case
    by simp
qed simp

lemma chunks_sub: "0 < n \<Longrightarrow> b \<in> set (chunks n xs) \<Longrightarrow> set b \<subseteq> set xs"
  using chunks_cover [of n xs] by (metis UN_upper set_concat)

lemma in_batches_establishes:
  assumes "in_batches n f xs 0 w = (Inr u, w')" "0 < n"
    and "\<And>b w w'. set b \<subseteq> set xs \<Longrightarrow> f b w = (Inr (), w') \<Longrightarrow> \<forall>x\<in>set b. Q x w'"
    and "\<And>b y w w'. set b \<subseteq> set xs \<Longrightarrow> f b w = (Inr (), w') \<Longrightarrow> Q y w \<Longrightarrow> Q y w'"
  shows "\<forall>x\<in>set xs. Q x w'"
proof -
  have run: "for_each (\<lambda>b _. f b) (chunks n xs) () w = (Inr (), w')"
    using assms(1) by (simp add: in_batches_chunks [OF assms(2)])
  have "\<forall>b\<in>set (chunks n xs). \<forall>x\<in>set b. Q x w'"
  proof (rule for_each_establishes [OF run])
    fix b :: "'a list" and u u' :: unit and v v'
    assume "b \<in> set (chunks n xs)" and r: "f b v = (Inr u', v')"
    then have sub: "set b \<subseteq> set xs"
      using chunks_sub assms(2) by blast
    show "\<forall>x\<in>set b. Q x v'"
      using assms(3) [OF sub] r by simp
    fix c :: "'a list"
    assume "\<forall>x\<in>set c. Q x v"
    then show "\<forall>x\<in>set c. Q x v'"
      using assms(4) [OF sub] r by simp
  qed
  then show ?thesis
    using chunks_cover [OF assms(2), of xs] by (metis UN_E set_concat)
qed

lemma in_batches_invariant:
  assumes "in_batches n f xs 0 w = (Inr u, w')" "0 < n" "P w"
    and "\<And>b w w'. set b \<subseteq> set xs \<Longrightarrow> f b w = (Inr (), w') \<Longrightarrow> P w \<Longrightarrow> P w'"
  shows "P w'"
proof (rule for_each_invariant [where f = "\<lambda>b _. f b" and s = "()" and P = "\<lambda>_. P"])
  show "for_each (\<lambda>b _. f b) (chunks n xs) () w = (Inr u, w')"
    using assms(1) by (simp add: in_batches_chunks [OF assms(2)])
  show "P w"
    by (rule assms(3))
  fix b :: "'a list" and v v' and u' :: unit
  assume "b \<in> set (chunks n xs)" "f b v = (Inr u', v')" "P v"
  then show "P v'"
    using assms(4) [of b v v'] chunks_sub [OF assms(2), of b xs] by simp
qed

section \<open>Users\<close>

lemma with_serials_Inr: "with_serials n k w = (Inr x, w') \<longleftrightarrow>
    k (map (\<lambda>j. serial w + int j) [0..<n]) (w\<lparr>serial := serial w + int n\<rparr>) = (Inr x, w')"
  by (simp add: with_serials_def)

lemma with_uuids_Inr: "with_uuids E n k w = (Inr x, w') \<longleftrightarrow>
    k (map (\<lambda>j. uuid_gen E (draws w + j)) [0..<n]) (w\<lparr>draws := draws w + n\<rparr>) = (Inr x, w')"
  by (simp add: with_uuids_def)

lemma map_cong_rows:
  "length ids = length b \<Longrightarrow> (\<And>i x. k (f i x) = g x) \<Longrightarrow> map k (map2 f ids b) = map g b"
  by (rule nth_equalityI) simp_all

lemma put_profile_present:
  assumes "bulk put_profile rs d = Inr d'"
  shows "p_UserId ` set rs \<union> p_UserId ` set (profiles d) \<subseteq> p_UserId ` set (profiles d')"
  using assms
proof (induction rs arbitrary: d)
  case (Cons r rs)
  from Cons.prems obtain d1 where d1: "put_profile r d = Inr d1" "bulk put_profile rs d1 = Inr d'"
    by (auto split: sum.splits)
  have "insert (p_UserId r) (p_UserId ` set (profiles d)) \<subseteq> p_UserId ` set (profiles d1)"
  proof (cases "list_ex (\<lambda>x. p_UserId x = p_UserId r) (profiles d)")
    case True
    then have "d1 = d" "p_UserId r \<in> p_UserId ` set (profiles d)"
      using d1(1) by (auto simp: put_profile_def list_ex_iff intro: rev_image_eqI)
    then show ?thesis
      by simp
  next
    case False
    then show ?thesis
      using d1(1) by (auto simp: put_profile_def)
  qed
  also have "p_UserId ` set (profiles d1) \<subseteq> p_UserId ` set (profiles d')"
    using Cons.IH [OF d1(2)] by (rule le_supE)
  finally have "insert (p_UserId r) (p_UserId ` set (profiles d)) \<subseteq> p_UserId ` set (profiles d')" .
  moreover have "p_UserId ` set rs \<subseteq> p_UserId ` set (profiles d')"
    using Cons.IH [OF d1(2)] by (rule le_supE)
  ultimately show ?case
    by simp
qed simp

lemma seed_users_batch_Inr:
  assumes "seed_users_batch E h b w = (Inr (), w')"
  shows "\<exists>new. users (db w') = users (db w) @ new \<and> set new \<subseteq> user_row h (now w) ` set b"
    "su_id ` set b \<union> p_UserId ` set (profiles (db w)) \<subseteq> p_UserId ` set (profiles (db w'))" "now w' = now w"
proof -
  from assms obtain w1 where u: "insert_users E h b w = (Inr (), w1)" and p: "insert_profiles E b w1 = (Inr (), w')"
    by (auto simp: seed_users_batch_def inr_simps)
  from db_exec_Inr [OF u [unfolded insert_users_def]] obtain d where
    d: "bulk_insert put_user users (\<lambda>_ _. True) (map (user_row h (now w)) b) w = Inr ((), d)" "w1 = (tick w)\<lparr>db := d\<rparr>"
    by blast
  let ?ids = "map (\<lambda>j. serial w1 + int j) [0..<length b]" and ?w2 = "w1\<lparr>serial := serial w1 + int (length b)\<rparr>"
  obtain ids w2 where i: "ids = ?ids" "w2 = ?w2"
    by blast
  from db_exec_Inr [OF p [unfolded insert_profiles_def with_serials_Inr]] obtain d' where p':
    "bulk_insert put_profile profiles (\<lambda>d p. user_exists (p_UserId p) d) (map2 (profile_row (now w)) ids b) w2 = Inr ((), d')"
    "w' = (tick w2)\<lparr>db := d'\<rparr>" "db w2 = d" "now w2 = now w" "length ids = length b"
    unfolding i by (auto simp: d(2))
  obtain new where n: "d = (db w)\<lparr>users := users (db w) @ new\<rparr>" "set new \<subseteq> user_row h (now w) ` set b"
    using user_rows.bulk_insert_Inr [OF d(1)] by auto
  obtain new' where n': "d' = d\<lparr>profiles := profiles d @ new'\<rparr>"
    using profile_rows.bulk_insert_Inr [OF p'(1)] p'(3) by auto
  show "\<exists>new. users (db w') = users (db w) @ new \<and> set new \<subseteq> user_row h (now w) ` set b" "now w' = now w"
    using n n' p'(2,4) by auto
  have ids: "p_UserId ` set (map2 (profile_row (now w)) ids b) = su_id ` set b"
    using map_cong_rows [of ids b p_UserId "profile_row (now w)" su_id, OF p'(5)]
    by (simp add: profile_row_def flip: set_map)
  have "bulk put_profile (map2 (profile_row (now w)) ids b) d = Inr d'"
    using p'(1) by (simp add: bulk_insert_def p'(3) split: sum.splits if_splits)
  from put_profile_present [OF this] show
    "su_id ` set b \<union> p_UserId ` set (profiles (db w)) \<subseteq> p_UserId ` set (profiles (db w'))"
    using ids n(1) p'(2) by simp
qed

lemma seeded_batches:
  assumes "in_batches 250 (seed_users_batch E h) us 0 w = (Inr x, w')" "schema_ok (db w)"
  shows "\<forall>u\<in>set us. user_exists (su_id u) (db w') \<and> su_id u \<in> p_UserId ` set (profiles (db w'))"
proof -
  have "schema_ok (db w')"
    by (rule in_batches_invariant [where f = "seed_users_batch E h" and P = "\<lambda>v. schema_ok (db v)", OF assms(1)])
      (use assms(2) keepsD [OF keeps_seed_batches(1)] in \<open>auto, metis snd_conv\<close>)
  moreover have "\<forall>u\<in>set us. su_id u \<in> p_UserId ` set (profiles (db w'))"
    by (rule in_batches_establishes [where f = "seed_users_batch E h" and
        Q = "\<lambda>u v. su_id u \<in> p_UserId ` set (profiles (db v))", OF assms(1)])
      (simp, (use seed_users_batch_Inr(2) in blast)+)
  ultimately show ?thesis
    by (fastforce simp: schema_defs)
qed

lemma seed_users_db: "seed_users E S t n w = (Inr us, w') \<Longrightarrow> db w' = db w"
proof -
  have "keeps (\<lambda>v. db v = db w) (seed_users E S t n)"
    unfolding seed_users_def by (intro keeps_intros)
  then show "seed_users E S t n w = (Inr us, w') \<Longrightarrow> db w' = db w"
    using keepsD [of "\<lambda>v. db v = db w" "seed_users E S t n" w] by simp
qed

lemma seeded_users:
  assumes "seedUsersAndProfiles E S n h w = (Inr us, w')" "schema_ok (db w)"
  shows "\<forall>u\<in>set us. user_exists (su_id u) (db w') \<and> su_id u \<in> p_UserId ` set (profiles (db w'))"
proof -
  from assms(1) obtain w1 x where g: "seed_users E S (now w) n w = (Inr us, w1)"
    and b: "in_batches 250 (seed_users_batch E h) us 0 w1 = (Inr x, w')"
    by (auto simp: seedUsersAndProfiles_def at_now_def inr_simps)
  show ?thesis
    using seeded_batches [OF b] seed_users_db [OF g] assms(2) by simp
qed

text \<open>
  A seeding of users that finishes has stored every user it drew: each has its row
  and its profile.
\<close>

theorem seeded_users_stored:
  assumes "seedUsersAndProfiles E S n h w = (Inr us, w')" "schema_ok (db w)" "u \<in> set us"
  shows "user_exists (su_id u) (db w') \<and> su_id u \<in> p_UserId ` set (profiles (db w'))"
  using seeded_users assms by blast

lemma reseed_collision:
  assumes "in_batches 250 (seed_users_batch E h) us 0 w = (Inr x, w')" "schema_ok (db w)"
    and "u \<in> set us" "distinct (map su_id us)" "\<not> user_exists (su_id u) (db w)"
  shows "su_email u \<notin> u_Email ` set (users (db w))"
proof
  assume "su_email u \<in> u_Email ` set (users (db w))"
  then obtain y where y: "y \<in> set (users (db w))" "u_Email y = su_email u"
    by force
  let ?P = "\<lambda>v. schema_ok (db v) \<and> (\<exists>new. users (db v) = users (db w) @ new \<and>
      (\<forall>z\<in>set new. \<exists>s\<in>set us. u_Id z = su_id s \<and> u_Email z = su_email s))"
  have "?P w'"
  proof (rule in_batches_invariant [where f = "seed_users_batch E h" and P = ?P, OF assms(1)])
    fix b v v'
    assume b: "set b \<subseteq> set us" "seed_users_batch E h b v = (Inr (), v')" and "?P v"
    then obtain new where new: "users (db v) = users (db w) @ new"
      "\<forall>z\<in>set new. \<exists>s\<in>set us. u_Id z = su_id s \<and> u_Email z = su_email s" and ok: "schema_ok (db v)"
      by blast
    obtain more where more: "users (db v') = users (db v) @ more" "set more \<subseteq> user_row h (now v) ` set b"
      using seed_users_batch_Inr(1) [OF b(2)] by blast
    have "schema_ok (db v')"
      using keepsD [OF keeps_seed_batches(1), of v E h b] ok b(2) by simp
    moreover have "\<forall>z\<in>set (new @ more). \<exists>s\<in>set us. u_Id z = su_id s \<and> u_Email z = su_email s"
    proof
      fix z
      assume "z \<in> set (new @ more)"
      then consider "z \<in> set new" | s where "s \<in> set b" "z = user_row h (now v) s"
        using more(2) by auto
      then show "\<exists>s\<in>set us. u_Id z = su_id s \<and> u_Email z = su_email s"
        by cases (use new(2) b(1) in \<open>auto simp: user_row_def\<close>)
    qed
    ultimately show "?P v'"
      using new(1) more(1) by (metis append_assoc)
  qed (use assms(2) in auto)
  then obtain new where ok: "schema_ok (db w')" and new: "users (db w') = users (db w) @ new"
    "\<forall>z\<in>set new. \<exists>s\<in>set us. u_Id z = su_id s \<and> u_Email z = su_email s"
    by blast
  have "user_exists (su_id u) (db w')"
    using seeded_batches [OF assms(1,2)] assms(3) by blast
  then obtain z where z: "z \<in> set (users (db w'))" "u_Id z = su_id u"
    by (auto simp: user_exists_iff)
  moreover have "z \<notin> set (users (db w))"
    using z(2) assms(5) by (metis imageI user_exists_iff)
  ultimately have "z \<in> set new"
    using new(1) by simp
  then obtain s where "s \<in> set us" "u_Id z = su_id s" "u_Email z = su_email s"
    using new(2) by blast
  then have "u_Email z = su_email u"
    using z(2) assms(3,4) by (metis distinct_key_eq)
  moreover have "y \<in> set (users (db w'))" "distinct (map u_Email (users (db w')))"
    using y(1) new(1) ok by (auto simp: schema_defs)
  ultimately have "y = z"
    using y(2) z(1) by (metis distinct_key_eq)
  then show False
    using y(1) z(2) assms(5) by (metis imageI user_exists_iff)
qed

text \<open>
  Seeding again fails as soon as one of the users it draws has the address of a user
  who is already there: ON CONFLICT (email) leaves the user out, and the profile that refers to the
  fresh identifier then violates its foreign key. What was inserted until then stays.
\<close>

theorem reseed_fails:
  assumes "seed_users E S (now w) n w = (Inr us, w1)" "schema_ok (db w)" "distinct (map su_id us)"
    and "u \<in> set us" "su_email u \<in> u_Email ` set (users (db w))" "\<not> user_exists (su_id u) (db w)"
  shows "\<exists>e. fst (seedUsersAndProfiles E S n h w) = Inl e"
proof -
  have same: "db w1 = db w"
    by (rule seed_users_db [OF assms(1)])
  show ?thesis
  proof (cases "in_batches 250 (seed_users_batch E h) us 0 w1")
    case (Pair r w2)
    have "r \<noteq> Inr x" for x
      using reseed_collision [of E h us w1 x w2 u] Pair assms(2-6) same by auto
    then obtain e where "r = Inl e"
      by (cases r) auto
    then show ?thesis
      using Pair assms(1) by (simp add: seedUsersAndProfiles_def at_now_def call_def fail_def)
  qed
qed

section \<open>Quotas\<close>

lemma draw_Inr [inr_simps]: "drawing f w = (r, w') \<longleftrightarrow> r = Inr (f (draws w)) \<and> w' = w\<lparr>draws := Suc (draws w)\<rparr>"
  by (auto simp: drawing_def)

lemma IntN_Inr [inr_simps]:
  "IntN S n w = (Inr k, w') \<longleftrightarrow> 0 < n \<and> k = src_IntN S (draws w) n \<and> w' = w\<lparr>draws := Suc (draws w)\<rparr>"
  by (auto simp: IntN_def fail_def drawing_def)

lemma IntN_range: "source_ok S \<Longrightarrow> IntN S n w = (Inr k, w') \<Longrightarrow> 0 \<le> k \<and> k < n"
  by (simp add: IntN_Inr source_ok_def)

lemma seed_gif_Inr:
  assumes "seed_gif E S u g w = (Inr x, w')"
  shows "sd_userID x = su_id u \<and> sd_fileSizeBytes x = seedGifSizeBytes"
  using assms by (auto simp: seed_gif_def Let_def at_now_def inr_simps split_def)

lemma seed_gifs_of_user:
  assumes "for_each (\<lambda>g gs. call (seed_gif E S u g) fail (\<lambda>x. ret (gs @ [x]))) ks gs w = (Inr gs', w')"
  shows "\<exists>new. gs' = gs @ new \<and> length new = length ks \<and>
    (\<forall>x\<in>set new. sd_userID x = su_id u \<and> sd_fileSizeBytes x = seedGifSizeBytes)"
  using assms
proof (induction ks arbitrary: gs w)
  case (Cons k ks)
  from Cons.prems obtain x w1 where x: "seed_gif E S u k w = (Inr x, w1)"
    and r: "for_each (\<lambda>g gs. call (seed_gif E S u g) fail (\<lambda>x. ret (gs @ [x]))) ks (gs @ [x]) w1 = (Inr gs', w')"
    by (auto simp: inr_simps)
  from Cons.IH [OF r] obtain new where "gs' = (gs @ [x]) @ new" "length new = length ks"
    "\<forall>x\<in>set new. sd_userID x = su_id u \<and> sd_fileSizeBytes x = seedGifSizeBytes"
    by blast
  then show ?case
    using seed_gif_Inr [OF x] by (intro exI [of _ "x # new"]) auto
qed (simp add: inr_simps)

definition gifs_of :: "uuid \<Rightarrow> seededGif list \<Rightarrow> seededGif list" where
  "gifs_of i gs = filter (\<lambda>g. sd_userID g = i) gs"

definition stats_match :: "seededGif list \<Rightarrow> (uuid \<Rightarrow> userStats option) \<Rightarrow> seededUser \<Rightarrow> bool" where
  "stats_match gs stats u \<longleftrightarrow> (\<exists>c. stats (su_id u) = Some \<lparr>us_gifCount = c, us_usedBytes = c * seedGifSizeBytes\<rparr> \<and>
     40 \<le> c \<and> c \<le> 60 \<and> c = int (length (gifs_of (su_id u) gs)))"

lemma seed_gifs_stats:
  assumes "for_each (seed_gifs_of E S) us (gs, stats) w = (Inr (gs', stats'), w')" "source_ok S"
    "distinct (map su_id us)"
  shows "\<exists>new. gs' = gs @ new \<and> (\<forall>x\<in>set new. sd_userID x \<in> su_id ` set us \<and> sd_fileSizeBytes x = seedGifSizeBytes) \<and>
    (\<forall>u\<in>set us. stats_match new stats' u) \<and> (\<forall>i. i \<notin> su_id ` set us \<longrightarrow> stats' i = stats i)"
  using assms
proof (induction us arbitrary: gs stats w)
  case (Cons u us)
  from Cons.prems(1) obtain gs1 stats1 w1 where u: "seed_gifs_of E S u (gs, stats) w = (Inr (gs1, stats1), w1)"
    and r: "for_each (seed_gifs_of E S) us (gs1, stats1) w1 = (Inr (gs', stats'), w')"
    by (auto simp: inr_simps)
  from u obtain k w2 w3 where k: "IntN S 21 w = (Inr k, w2)"
    and g: "for_each (\<lambda>g gs. call (seed_gif E S u g) fail (\<lambda>x. ret (gs @ [x]))) [0..k + 40 - 1] gs w2 = (Inr gs1, w3)"
    and st: "stats1 = stats(su_id u \<mapsto> \<lparr>us_gifCount = k + 40, us_usedBytes = (k + 40) * seedGifSizeBytes\<rparr>)"
    unfolding seed_gifs_of_def Let_def call_fail_Inr' ret_Inr by auto
  from seed_gifs_of_user [OF g] obtain mine where m: "gs1 = gs @ mine" "length mine = nat (k + 40)"
    "\<forall>x\<in>set mine. sd_userID x = su_id u \<and> sd_fileSizeBytes x = seedGifSizeBytes"
    by auto
  from Cons.IH [OF r Cons.prems(2)] Cons.prems(3) obtain new where n: "gs' = gs1 @ new"
    "\<forall>x\<in>set new. sd_userID x \<in> su_id ` set us \<and> sd_fileSizeBytes x = seedGifSizeBytes"
    "\<forall>v\<in>set us. stats_match new stats' v" "\<forall>i. i \<notin> su_id ` set us \<longrightarrow> stats' i = stats1 i"
    by auto
  have k': "0 \<le> k" "k \<le> 20"
    using IntN_range [OF Cons.prems(2) k] by auto
  have not_mine: "\<forall>x\<in>set new. sd_userID x \<noteq> su_id u"
    using n(2) Cons.prems(3) by (metis distinct.simps(2) list.set_map list.simps(9))
  have "gifs_of (su_id u) (mine @ new) = mine"
    using m(3) not_mine by (simp add: gifs_of_def filter_id_conv filter_empty_conv)
  then have "stats_match (mine @ new) stats' u"
    using n(4) Cons.prems(3) k' m(2) by (simp add: stats_match_def st)
  moreover have "stats_match (mine @ new) stats' v" if "v \<in> set us" for v
  proof -
    have "gifs_of (su_id v) mine = []"
      using m(3) that Cons.prems(3) by (auto simp: gifs_of_def filter_empty_conv)
    then show ?thesis
      using n(3) that by (simp add: stats_match_def gifs_of_def)
  qed
  ultimately show ?case
    using m n by (intro exI [of _ "mine @ new"]) (auto simp: st)
qed (simp add: inr_simps)

text \<open>A row of the user \<open>i\<close> with the figures \<open>b\<close> and \<open>c\<close>.\<close>

definition quota_reads :: "uuid \<Rightarrow> int \<Rightarrow> int \<Rightarrow> database \<Rightarrow> bool" where
  "quota_reads i b c d \<longleftrightarrow> (\<exists>q\<in>set (quota d). q_UserID q = i \<and> q_UsedBytes q = b \<and> q_GifCount q = c)"

lemma put_quota_set:
  assumes "put_quota q d = Inr d'" "x \<in> set (quota d)"
  shows "(if q_UserID x = q_UserID q then x\<lparr>q_UsedBytes := q_UsedBytes q, q_GifCount := q_GifCount q\<rparr> else x)
    \<in> set (quota d')"
  using assms
  by (auto simp: put_quota_def list_ex_iff update_where_def split: if_splits intro!: image_eqI [where x = x])

lemma put_quota_reads:
  assumes "put_quota q d = Inr d'"
  shows "quota_reads (q_UserID q) (q_UsedBytes q) (q_GifCount q) d'"
proof (cases "list_ex (\<lambda>x. q_UserID x = q_UserID q) (quota d)")
  case True
  then obtain x where x: "x \<in> set (quota d)" "q_UserID x = q_UserID q"
    by (auto simp: list_ex_iff)
  show ?thesis
    unfolding quota_reads_def by (rule bexI [OF _ put_quota_set [OF assms x(1)]]) (simp add: x(2))
next
  case False
  then show ?thesis
    using assms by (auto simp: put_quota_def quota_reads_def split: if_splits)
qed

lemma put_quota_keeps_reads:
  assumes "put_quota q d = Inr d'" "quota_reads i b c d" "q_UserID q = i \<longrightarrow> q_UsedBytes q = b \<and> q_GifCount q = c"
  shows "quota_reads i b c d'"
proof -
  from assms(2) obtain x where x: "x \<in> set (quota d)" "q_UserID x = i" "q_UsedBytes x = b" "q_GifCount x = c"
    by (auto simp: quota_reads_def)
  show ?thesis
    unfolding quota_reads_def by (rule bexI [OF _ put_quota_set [OF assms(1) x(1)]]) (use x assms(3) in simp)
qed

lemma bulk_quotas_keep:
  assumes "bulk put_quota rs d = Inr d'" "quota_reads i b c d"
    "\<And>q. q \<in> set rs \<Longrightarrow> q_UserID q = i \<Longrightarrow> q_UsedBytes q = b \<and> q_GifCount q = c"
  shows "quota_reads i b c d'"
  by (rule bulk_invariant [OF assms(1), where P = "quota_reads i b c"]) (use assms(2,3) put_quota_keeps_reads in blast)+

lemma bulk_quotas_read:
  assumes "bulk put_quota rs d = Inr d'" "distinct (map q_UserID rs)" "q \<in> set rs"
  shows "quota_reads (q_UserID q) (q_UsedBytes q) (q_GifCount q) d'"
  using assms
proof (induction rs arbitrary: d)
  case (Cons r rs)
  from Cons.prems(1) obtain d1 where d1: "put_quota r d = Inr d1" "bulk put_quota rs d1 = Inr d'"
    by (auto split: sum.splits)
  show ?case
  proof (cases "q = r")
    case True
    have "q_UserID p \<noteq> q_UserID r" if "p \<in> set rs" for p
      using that Cons.prems(2) by (metis distinct.simps(2) image_eqI list.set_map list.simps(9))
    then have "quota_reads (q_UserID r) (q_UsedBytes r) (q_GifCount r) d'"
      by (intro bulk_quotas_keep [OF d1(2) put_quota_reads [OF d1(1)]]) blast+
    then show ?thesis
      using True by simp
  next
    case False
    then show ?thesis
      using Cons.IH [OF d1(2)] Cons.prems(2,3) by simp
  qed
qed simp

definition stats_figures :: "(uuid \<Rightarrow> userStats option) \<Rightarrow> uuid \<Rightarrow> int \<times> int" where
  "stats_figures stats i = (case stats i of None \<Rightarrow> (0, 0) | Some st \<Rightarrow> (us_usedBytes st, us_gifCount st))"

lemma quota_row_sel [simp]:
  "q_UserID (quota_row stats i u) = su_id u"
  "q_UsedBytes (quota_row stats i u) = fst (stats_figures stats (su_id u))"
  "q_GifCount (quota_row stats i u) = snd (stats_figures stats (su_id u))"
  by (simp_all add: quota_row_def stats_figures_def split: option.split)

lemma seed_quotas_batch_Inr:
  assumes "seed_quotas_batch E stats b w = (Inr (), w')"
  shows "\<exists>ids. length ids = length b \<and> distinct (map su_id b) \<and>
    bulk put_quota (map2 (quota_row stats) ids b) (db w) = Inr (db w')"
proof -
  let ?ids = "map (\<lambda>j. serial w + int j) [0..<length b]"
  have l: "length ?ids = length b"
    by simp
  from assms have "db_exec E (upsert_quotas (map2 (quota_row stats) ?ids b)) (w\<lparr>serial := serial w + int (length b)\<rparr>) =
      (Inr (), w')"
    by (simp add: seed_quotas_batch_def inr_simps with_serials_Inr)
  from db_exec_Inr [OF this] show ?thesis
    using map_cong_rows [of ?ids b q_UserID "quota_row stats" su_id, OF l]
    by (intro exI [of _ ?ids]) (auto simp: upsert_quotas_def bulk_insert_def split: sum.splits if_splits)
qed

text \<open>
  When the GIFs and then the quotas have been seeded, every seeded user's quota counts
  exactly the GIFs that were drawn for that user, 40 to 60 of them, and their sizes.
\<close>

theorem seeded_quotas_match:
  assumes "seedGifs E S us w = (Inr (gs, stats), w1)" "seedQuotas E us stats w2 = (Inr x, w3)"
    and "source_ok S" "distinct (map su_id us)" "u \<in> set us"
  shows "quota_reads (su_id u) (sum_list (map sd_fileSizeBytes (gifs_of (su_id u) gs)))
      (int (length (gifs_of (su_id u) gs))) (db w3) \<and>
    40 \<le> length (gifs_of (su_id u) gs) \<and> length (gifs_of (su_id u) gs) \<le> 60"
proof -
  from assms(1) obtain w' where "for_each (seed_gifs_of E S) us ([], \<lambda>_. None) w = (Inr (gs, stats), w')"
    by (auto simp: seedGifs_def inr_simps split: prod.splits)
  from seed_gifs_stats [OF this assms(3,4)] have g: "\<forall>x\<in>set gs. sd_fileSizeBytes x = seedGifSizeBytes"
    "\<forall>u\<in>set us. stats_match gs stats u"
    by auto
  have q: "\<forall>u\<in>set us. quota_reads (su_id u) (fst (stats_figures stats (su_id u)))
      (snd (stats_figures stats (su_id u))) (db w3)"
  proof (rule in_batches_establishes [OF assms(2) [unfolded seedQuotas_def]])
    fix b v v'
    assume "seed_quotas_batch E stats b v = (Inr (), v')"
    then obtain ids where i: "length ids = length b" "distinct (map su_id b)"
      "bulk put_quota (map2 (quota_row stats) ids b) (db v) = Inr (db v')"
      using seed_quotas_batch_Inr by blast
    have rows: "map q_UserID (map2 (quota_row stats) ids b) = map su_id b"
      by (rule map_cong_rows [OF i(1)]) simp
    show "\<forall>u\<in>set b. quota_reads (su_id u) (fst (stats_figures stats (su_id u)))
        (snd (stats_figures stats (su_id u))) (db v')"
    proof
      fix u
      assume "u \<in> set b"
      then obtain n where "n < length b" "u = b ! n"
        by (metis in_set_conv_nth)
      then have "quota_row stats (ids ! n) u \<in> set (map2 (quota_row stats) ids b)"
        using i(1) by (auto simp: set_zip intro!: image_eqI [where x = "(ids ! n, u)"])
      from bulk_quotas_read [OF i(3) _ this] show "quota_reads (su_id u) (fst (stats_figures stats (su_id u)))
          (snd (stats_figures stats (su_id u))) (db v')"
        using i(2) rows by simp
    qed
    fix y
    assume "quota_reads (su_id y) (fst (stats_figures stats (su_id y))) (snd (stats_figures stats (su_id y))) (db v)"
    then show "quota_reads (su_id y) (fst (stats_figures stats (su_id y)))
        (snd (stats_figures stats (su_id y))) (db v')"
      by (rule bulk_quotas_keep [OF i(3)]) auto
  qed simp
  have "sum_list (map sd_fileSizeBytes (gifs_of (su_id u) gs)) = int (length (gifs_of (su_id u) gs)) * seedGifSizeBytes"
    using g(1) unfolding gifs_of_def by (induction gs) (auto simp: algebra_simps)
  then show ?thesis
    using q g(2) assms(5) by (auto simp: stats_match_def stats_figures_def)
qed

section \<open>The hypotheses can hold\<close>

definition drawn_user :: seededUser where
  "drawn_user = \<lparr>su_id = ''x'', su_username = ''james_smith1'', su_fullname = ''James Smith'',
     su_email = ''james.smith1@ffgif.local'', su_createdAt = - day\<rparr>"

lemma sample_users: "\<exists>w'. seed_users seed_env zero_source 0 1 (world_of 0 seeded_before) = (Inr [drawn_user], w')"
proof -
  have "fst (seed_users seed_env zero_source 0 1 (world_of 0 seeded_before)) = Inr [drawn_user]"
    by code_simp
  then show ?thesis
    by (metis prod.collapse)
qed

lemma reseed_fails_witness:
  "\<exists>e. fst (seedUsersAndProfiles seed_env zero_source 1 ''h'' (world_of 0 seeded_before)) = Inl e"
proof -
  obtain w' where "seed_users seed_env zero_source (now (world_of 0 seeded_before)) 1 (world_of 0 seeded_before) =
      (Inr [drawn_user], w')"
    using sample_users by auto
  moreover have "su_email drawn_user \<in> u_Email ` set (users (db (world_of 0 seeded_before)))"
    by (simp add: drawn_user_def seeded_before_def)
  moreover have "\<not> user_exists (su_id drawn_user) (db (world_of 0 seeded_before))"
    by (simp add: drawn_user_def seeded_before_def user_exists_def)
  ultimately show ?thesis
    by (intro reseed_fails [where us = "[drawn_user]" and u = drawn_user]) simp_all
qed

text \<open>One user, with a row in the table, drawn 40 GIFs.\<close>

definition drawn_db :: database where
  "drawn_db = empty_db\<lparr>users := [user_row ''h'' 0 drawn_user]\<rparr>"

definition gifs_then_quotas :: "seededGif list io" where
  "gifs_then_quotas = call (seedGifs seed_env zero_source [drawn_user]) fail
     (\<lambda>x. call (seedQuotas seed_env [drawn_user] (snd x)) fail (\<lambda>_. ret (fst x)))"

lemma sample_gifs_run: "\<not> isl (fst (gifs_then_quotas (world_of 0 drawn_db)))"
  by code_simp

lemma seeded_quotas_match_witness:
  "\<exists>gs stats w1 w2. seedGifs seed_env zero_source [drawn_user] (world_of 0 drawn_db) = (Inr (gs, stats), w1) \<and>
     seedQuotas seed_env [drawn_user] stats w1 = (Inr (), w2) \<and>
     quota_reads ''x'' (sum_list (map sd_fileSizeBytes (gifs_of ''x'' gs))) (int (length (gifs_of ''x'' gs))) (db w2) \<and>
     40 \<le> length (gifs_of ''x'' gs)"
proof -
  obtain r w2 where "gifs_then_quotas (world_of 0 drawn_db) = (Inr r, w2)"
    using run_Inr [OF sample_gifs_run] by blast
  then obtain gs stats w1 where g: "seedGifs seed_env zero_source [drawn_user] (world_of 0 drawn_db) = (Inr (gs, stats), w1)"
    and q: "seedQuotas seed_env [drawn_user] stats w1 = (Inr (), w2)"
    by (auto simp: gifs_then_quotas_def inr_simps)
  have "su_id drawn_user = ''x''"
    by (simp add: drawn_user_def)
  with seeded_quotas_match [OF g q, of drawn_user] g q show ?thesis
    by fastforce
qed

end
