(* ===== verification/Seed_Social.thy ===== *)
theory Seed_Social
  imports Seed_Runs
begin

text \<open>The friendships, share links and column widths of the demonstration data.\<close>

section \<open>Friendships\<close>

text \<open>
  What the loop keeps of its records: seeded users who differ, an accepted or pending status, the key
  of the pair in \<open>pairSet\<close>, and no two records in both directions.
\<close>

definition pairs_ok :: "uuid set \<Rightarrow> friend_loop \<Rightarrow> bool" where
  "pairs_ok ids st \<longleftrightarrow>
     (\<forall>r\<in>set (fl_records st). fs_requesterID r \<in> ids \<and> fs_addresseeID r \<in> ids \<and>
        fs_requesterID r \<noteq> fs_addresseeID r \<and> pair_key (fs_requesterID r) (fs_addresseeID r) \<in> set (fl_pairSet st)) \<and>
     (\<forall>r\<in>set (fl_records st). \<forall>s\<in>set (fl_records st).
        \<not> (fs_requesterID r = fs_addresseeID s \<and> fs_addresseeID r = fs_requesterID s))"

lemma pairs_ok_add:
  assumes "pairs_ok ids st" "u \<in> ids" "v \<in> ids" "u \<noteq> v" "pair_key v u \<notin> set (fl_pairSet st)"
  shows "pairs_ok ids \<lparr>fl_pairSet = pair_key u v # fl_pairSet st,
    fl_records = fl_records st @ [\<lparr>fs_requesterID = u, fs_addresseeID = v, fs_status = s, fs_createdAt = t\<rparr>],
    fl_acceptedPairs = acc\<rparr>"
proof -
  have "\<not> (fs_requesterID r = v \<and> fs_addresseeID r = u)" if "r \<in> set (fl_records st)" for r
    using assms(1,5) that by (auto simp: pairs_ok_def)
  then show ?thesis
    using assms(1-4) by (auto simp: pairs_ok_def)
qed

lemma seed_friend_pairs:
  assumes "seed_friend S us idx (us ! idx) st w = (Inr st', w')" "pairs_ok (su_id ` set us) st"
    and "source_ok S" "distinct (map su_id us)" "idx < length us"
  shows "pairs_ok (su_id ` set us) st'"
proof -
  let ?t = "src_IntN S (draws w) (int (length us))"
  have "us \<noteq> []"
    using assms(5) by auto
  then have t: "0 \<le> ?t" "?t < int (length us)"
    using IntN_range [OF assms(3), of "int (length us)" w] by (simp_all add: IntN_Inr)
  show ?thesis
  proof (cases "st' = st")
    case False
    have "us ! nat ?t \<in> set us" "us ! idx \<in> set us"
      using t assms(5) by (simp_all add: nat_less_iff)
    moreover have "?t \<noteq> int idx \<Longrightarrow> su_id (us ! idx) \<noteq> su_id (us ! nat ?t)"
      using t assms(4,5) nth_eq_iff_index_eq [OF assms(4), of idx "nat ?t"] by (simp add: nat_less_iff)
    ultimately show ?thesis
      using assms(1,2) False
      by (auto simp: seed_friend_def Let_def inr_simps at_now_def Float64_def intro!: pairs_ok_add split: if_splits)
  qed (use assms(2) in simp)
qed

lemma seed_friends_db: "seed_friends S us w = (Inr st, w') \<Longrightarrow> db w' = db w"
proof -
  have "keeps (\<lambda>v. db v = db w) (seed_friends S us)"
    unfolding seed_friends_def by (intro keeps_intros)
  then show "seed_friends S us w = (Inr st, w') \<Longrightarrow> db w' = db w"
    using keepsD [of "\<lambda>v. db v = db w" "seed_friends S us" w] by simp
qed

lemma seed_friends_pairs:
  assumes "seed_friends S us w = (Inr st, w')" "source_ok S" "distinct (map su_id us)"
  shows "pairs_ok (su_id ` set us) st"
proof (rule for_each_invariant [OF assms(1) [unfolded seed_friends_def], where P = "\<lambda>st _. pairs_ok (su_id ` set us) st"])
  show "pairs_ok (su_id ` set us) \<lparr>fl_pairSet = [], fl_records = [], fl_acceptedPairs = []\<rparr>"
    by (simp add: pairs_ok_def)
next
  fix iu st st' v v'
  assume iu: "iu \<in> set (enumerate 0 us)" and r: "seed_friends_of S us iu st v = (Inr st', v')"
    and ok: "pairs_ok (su_id ` set us) st"
  from iu obtain idx where idx: "iu = (idx, us ! idx)" "idx < length us"
    by (auto simp: in_set_conv_nth nth_enumerate_eq)
  from r obtain k v1 where "for_each (\<lambda>_. seed_friend S us idx (us ! idx)) [0..k + 2 - 1] st v1 = (Inr st', v')"
    by (auto simp: seed_friends_of_def idx(1) inr_simps)
  then show "pairs_ok (su_id ` set us) st'"
    by (rule for_each_invariant [where P = "\<lambda>st _. pairs_ok (su_id ` set us) st"])
      (use ok seed_friend_pairs assms(2,3) idx(2) in blast)+
qed

lemma seed_friendships_batch_Inr:
  assumes "seed_friendships_batch E b w = (Inr (), w')"
  shows "\<exists>new. friendships (db w') = friendships (db w) @ new \<and>
    (\<forall>f\<in>set new. \<exists>r\<in>set b. f_RequesterID f = fs_requesterID r \<and> f_AddresseeID f = fs_addresseeID r)"
proof -
  let ?ids = "map (\<lambda>j. uuid_gen E (draws w + j)) [0..<length b]" and ?w = "w\<lparr>draws := draws w + length b\<rparr>"
  from assms have "db_exec E (\<lambda>w. bulk_insert put_friendship friendships
      (\<lambda>d f. user_exists (f_RequesterID f) d \<and> user_exists (f_AddresseeID f) d)
      (map2 (friendship_row (now w)) ?ids b) w) ?w = (Inr (), w')"
    by (simp add: seed_friendships_batch_def inr_simps with_uuids_Inr)
  from db_exec_Inr [OF this] obtain d where d: "bulk_insert put_friendship friendships
      (\<lambda>d f. user_exists (f_RequesterID f) d \<and> user_exists (f_AddresseeID f) d)
      (map2 (friendship_row (now ?w)) ?ids b) ?w = Inr ((), d)" "w' = (tick ?w)\<lparr>db := d\<rparr>"
    by blast
  from friendship_rows.bulk_insert_Inr [OF d(1)] obtain new where
    "d = (db w)\<lparr>friendships := friendships (db w) @ new\<rparr>" "set new \<subseteq> set (map2 (friendship_row (now ?w)) ?ids b)"
    by auto
  then show ?thesis
    using d(2) by (fastforce simp: friendship_row_def dest: set_zip_rightD)
qed

text \<open>
  The seeded friendships keep the pairs of the table one-directional: as long as no row
  refers to the new users yet, no two users end with requests in both directions, and no seeded user
  is their own friend.
\<close>

theorem seeded_friend_pairs:
  assumes "seedFriendships E S us w = (Inr pairs, w')" "source_ok S" "distinct (map su_id us)"
    and "friend_pairs_ok (db w)"
    and "\<forall>f\<in>set (friendships (db w)). f_RequesterID f \<notin> su_id ` set us \<and> f_AddresseeID f \<notin> su_id ` set us"
  shows "friend_pairs_ok (db w') \<and>
    (\<forall>f\<in>set (friendships (db w')). f \<in> set (friendships (db w)) \<or>
       f_RequesterID f \<in> su_id ` set us \<and> f_AddresseeID f \<in> su_id ` set us \<and> f_RequesterID f \<noteq> f_AddresseeID f)"
proof -
  from assms(1) obtain st w1 x where st: "seed_friends S us w = (Inr st, w1)"
    and b: "in_batches 250 (seed_friendships_batch E) (fl_records st) 0 w1 = (Inr x, w')"
    by (auto simp: seedFriendships_def inr_simps)
  have same: "db w1 = db w"
    by (rule seed_friends_db [OF st])
  have ok: "pairs_ok (su_id ` set us) st"
    by (rule seed_friends_pairs [OF st assms(2,3)])
  let ?P = "\<lambda>v. \<exists>new. friendships (db v) = friendships (db w) @ new \<and>
    (\<forall>f\<in>set new. \<exists>r\<in>set (fl_records st). f_RequesterID f = fs_requesterID r \<and> f_AddresseeID f = fs_addresseeID r)"
  have "?P w'"
  proof (rule in_batches_invariant [where P = ?P, OF b])
    fix bt v v'
    assume sub: "set bt \<subseteq> set (fl_records st)" and r: "seed_friendships_batch E bt v = (Inr (), v')" and "?P v"
    then obtain new where new: "friendships (db v) = friendships (db w) @ new"
      "\<forall>f\<in>set new. \<exists>r\<in>set (fl_records st). f_RequesterID f = fs_requesterID r \<and> f_AddresseeID f = fs_addresseeID r"
      by blast
    obtain more where "friendships (db v') = friendships (db v) @ more"
      "\<forall>f\<in>set more. \<exists>r\<in>set bt. f_RequesterID f = fs_requesterID r \<and> f_AddresseeID f = fs_addresseeID r"
      using seed_friendships_batch_Inr [OF r] by blast
    then show "?P v'"
      using new sub by (intro exI [of _ "new @ more"]) (auto, blast+)
  qed (auto simp: same)
  then obtain new where new: "friendships (db w') = friendships (db w) @ new"
    "\<forall>f\<in>set new. \<exists>r\<in>set (fl_records st). f_RequesterID f = fs_requesterID r \<and> f_AddresseeID f = fs_addresseeID r"
    by blast
  have ids: "f_RequesterID f \<in> su_id ` set us \<and> f_AddresseeID f \<in> su_id ` set us \<and> f_RequesterID f \<noteq> f_AddresseeID f"
    if "f \<in> set new" for f
    using that new(2) ok by (force simp: pairs_ok_def)
  have "\<not> (f_RequesterID f = f_AddresseeID g \<and> f_AddresseeID f = f_RequesterID g)"
    if f: "f \<in> set (friendships (db w'))" and g: "g \<in> set (friendships (db w'))" for f g
  proof -
    consider "f \<in> set (friendships (db w))" "g \<in> set (friendships (db w))" | "f \<in> set new" "g \<in> set new"
      | "f \<in> set new" "g \<in> set (friendships (db w))" | "f \<in> set (friendships (db w))" "g \<in> set new"
      using f g new(1) by auto
    then show ?thesis
    proof cases
      case 2
      then obtain r s where "r \<in> set (fl_records st)" "f_RequesterID f = fs_requesterID r" "f_AddresseeID f = fs_addresseeID r"
        "s \<in> set (fl_records st)" "f_RequesterID g = fs_requesterID s" "f_AddresseeID g = fs_addresseeID s"
        using new(2) by meson
      then show ?thesis
        using ok by (auto simp: pairs_ok_def)
    qed (use assms(4,5) ids in \<open>force simp: friend_pairs_ok_def\<close>)+
  qed
  then show ?thesis
    using new(1) ids by (auto simp: friend_pairs_ok_def)
qed

section \<open>Share links\<close>

lemma length_hex_bytes: "length (hex_bytes bs) = 2 * length bs"
  by (induction bs) (simp_all add: hex_bytes_def)

text \<open>The links drawn: 32 digits, valid for three days.\<close>

definition links_ok :: "timestamp \<Rightarrow> tokenRecord list \<Rightarrow> bool" where
  "links_ok t rs \<longleftrightarrow> length rs \<le> 500 \<and> (\<forall>r\<in>set rs. length (tr_token r) = 32 \<and> tr_expiresAt r = t + 3 * 24 * hour)"

lemma seed_token_links:
  assumes "seed_token S g acc w = (Inr acc', w')" "links_ok (now w) (snd acc)" "source_ok S"
  shows "links_ok (now w') (snd acc') \<and> now w' = now w"
proof -
  have "length (hex_bytes (src_Read S k 16)) = 32" for k
    using assms(3) by (simp add: length_hex_bytes source_ok_def)
  then show ?thesis
    using assms(1,2)
    by (auto simp: seed_token_def Let_def inr_simps at_now_def Float64_def links_ok_def split: if_splits)
qed

lemma seed_tokens_batch_Inr:
  assumes "seed_tokens_batch E b w = (Inr (), w')"
  shows "\<exists>new. share_tokens (db w') = share_tokens (db w) @ new \<and> set new \<subseteq> share_token_row ` set b \<and>
    gifs (db w') = gifs (db w)"
proof -
  from assms have "db_exec E (bulk_insert put_share_token share_tokens (\<lambda>d t. gif_exists (t_GifKey t) d)
      (map share_token_row b)) w = (Inr (), w')"
    by (simp add: seed_tokens_batch_def inr_simps)
  from db_exec_Inr [OF this] obtain d where d: "bulk_insert put_share_token share_tokens
      (\<lambda>d t. gif_exists (t_GifKey t) d) (map share_token_row b) w = Inr ((), d)" "w' = (tick w)\<lparr>db := d\<rparr>"
    by blast
  from share_token_rows.bulk_insert_Inr [OF d(1)] show ?thesis
    using d(2) by auto
qed

lemma seeded_links:
  assumes "seedShareTokens E S gs w = (Inr x, w')" "source_ok S"
  shows "\<exists>new. share_tokens (db w') = share_tokens (db w) @ new \<and>
    (\<forall>t\<in>set new. length (t_Token t) = 32 \<and> t_ExpiresAt t = Some (now w + 3 * 24 * hour))"
proof -
  from assms(1) obtain acc w1 where l: "for_each (seed_token S) gs ([], []) w = (Inr acc, w1)"
    and b: "in_batches 250 (seed_tokens_batch E) (snd acc) 0 w1 = (Inr x, w')"
    by (auto simp: seedShareTokens_def inr_simps)
  have links: "links_ok (now w) (snd acc)"
  proof -
    have "links_ok (now w1) (snd acc) \<and> now w1 = now w"
    proof (rule for_each_invariant [OF l, where P = "\<lambda>acc v. links_ok (now v) (snd acc) \<and> now v = now w"])
      fix g acc v acc' v'
      assume "seed_token S g acc v = (Inr acc', v')" "links_ok (now v) (snd acc) \<and> now v = now w"
      then show "links_ok (now v') (snd acc') \<and> now v' = now w"
        using seed_token_links assms(2) by metis
    qed (simp add: links_ok_def)
    then show ?thesis
      by (elim conjE) (erule subst, assumption)
  qed
  have "keeps (\<lambda>v. db v = db w) (for_each (seed_token S) gs ([], []))"
    by (intro keeps_intros)
  from keepsD [OF this, of w] have same: "db w1 = db w"
    by (simp add: l)
  let ?P = "\<lambda>v. \<exists>new. share_tokens (db v) = share_tokens (db w) @ new \<and> set new \<subseteq> share_token_row ` set (snd acc)"
  have "?P w'"
  proof (rule in_batches_invariant [where P = ?P, OF b])
    fix bt v v'
    assume "set bt \<subseteq> set (snd acc)" "seed_tokens_batch E bt v = (Inr (), v')" "?P v"
    then show "?P v'"
      using seed_tokens_batch_Inr [of E bt v v'] by (fastforce intro: exI [of _ "_ @ _"])
  qed (auto simp: same)
  then obtain new where "share_tokens (db w') = share_tokens (db w) @ new" "set new \<subseteq> share_token_row ` set (snd acc)"
    by blast
  then show ?thesis
    using links by (intro exI [of _ new]) (auto simp: links_ok_def share_token_row_def)
qed

lemma token_row_found:
  assumes "schema_ok d" "t \<in> set (share_tokens d)" "unexpired now0 (t_ExpiresAt t)"
  shows "\<exists>r. List.find (\<lambda>_. True) (token_rows now0 (t_Token t) d) = Some r \<and> gt_GifKey r = t_GifKey t"
proof -
  obtain g where "g \<in> set (gifs d)" "g_Key g = t_GifKey t"
    using assms(1,2) by (auto simp: schema_defs gif_exists_iff)
  then have "token_rows now0 (t_Token t) d \<noteq> []"
    using assms(2,3) token_rows_iff [of _ now0 "t_Token t" d] by (metis empty_iff list.set(1))
  then obtain r rs where r: "token_rows now0 (t_Token t) d = r # rs"
    by (meson neq_Nil_conv)
  then obtain st where "st \<in> set (share_tokens d)" "t_Token st = t_Token t" "gt_GifKey r = t_GifKey st"
    using token_rows_iff [of r now0 "t_Token t" d] by (auto simp: gif_token_response_of_def)
  moreover have "distinct (map t_Token (share_tokens d))"
    using assms(1) by (simp add: schema_defs)
  ultimately have "gt_GifKey r = t_GifKey t"
    using assms(2) by (metis distinct_key_eq)
  then show ?thesis
    by (simp add: r)
qed

text \<open>
  Seeded share links work, unlike those the service sends: the table holds the token of a
  seeded link itself and not its hash, so whoever presents it within three days gets the GIF.
\<close>

theorem seeded_link_opens:
  assumes "seedShareTokens E S gs w = (Inr x, w')" "source_ok S" "schema_ok (db w)"
    and "t \<in> set (share_tokens (db w'))" "t \<notin> set (share_tokens (db w))"
    and "no_faults E'" "db v = db w'" "now v < now w + 3 * 24 * hour" "tx v = NoTx"
  shows "\<not> token_hash (t_Token t) \<and>
    (\<exists>r. fst (share_GetByToken E' (t_Token t) v) = Inr r \<and> gt_GifKey r = t_GifKey t)"
proof -
  from seeded_links [OF assms(1,2)] assms(4,5) have t: "length (t_Token t) = 32"
    "t_ExpiresAt t = Some (now w + 3 * 24 * hour)"
    by auto
  have ok: "schema_ok (db v)"
    using keepsD [OF keeps_seed_parts(6), of w E S gs] assms(1,3,7) by simp
  obtain r where r: "List.find (\<lambda>_. True) (token_rows (now v) (t_Token t) (db v)) = Some r" "gt_GifKey r = t_GifKey t"
    using token_row_found [OF ok, of t "now v"] assms(4,7,8) t(2) by (auto simp: unexpired_def)
  have "fst (share_GetByToken E' (t_Token t) v) = Inr r"
    using assms(6,9) r(1)
    by (simp add: share_GetByToken_def share_repo_GetByToken_def db_exec_def no_faults_def get_row_def)
  then show ?thesis
    using r(2) t(1) token_hash_length by fastforce
qed

section \<open>Column widths\<close>

lemma pick_Inr:
  assumes "pick S xs w = (Inr x, w')" "source_ok S"
  shows "x \<in> set xs"
proof -
  from assms(1) have "0 < int (length xs)" "x = xs ! nat (src_IntN S (draws w) (int (length xs)))"
    by (auto simp: pick_def inr_simps)
  then show ?thesis
    using assms(2) by (auto simp: source_ok_def nat_less_iff intro!: nth_mem)
qed

lemma length_show_nat: "n < 10 ^ Suc k \<Longrightarrow> length (show_nat n) \<le> Suc k"
proof (induction k arbitrary: n)
  case (Suc k)
  then show ?case
    using Suc.IH [of "n div 10"] by (subst show_nat.simps) (auto simp: less_mult_imp_div_less)
qed (simp add: show_nat.simps)

lemma name_lengths:
  "fn \<in> set firstNames \<Longrightarrow> length fn \<le> 11" "surname \<in> set lastNames \<Longrightarrow> length surname \<le> 9"
proof -
  have "list_all (\<lambda>x. length x \<le> 11) firstNames" "list_all (\<lambda>x. length x \<le> 9) lastNames"
    by code_simp+
  then show "fn \<in> set firstNames \<Longrightarrow> length fn \<le> 11" "surname \<in> set lastNames \<Longrightarrow> length surname \<le> 9"
    by (auto simp: list_all_iff)
qed

text \<open>
  Every user that is drawn fits the columns of the table, whatever is drawn, and the
  shortened address for long names is never needed: an address has at most 37 characters of the 50.
\<close>

theorem seeded_users_fit:
  assumes "seed_user E S t i w = (Inr u, w')" "source_ok S" "1 \<le> i" "i \<le> 1000" "length passHash \<le> 70"
  shows "users_row_ok (user_row passHash t' u) \<and> length (su_email u) \<le> 37 \<and> length (su_username u) \<le> 20 \<and>
    t - 90 * day \<le> su_createdAt u \<and> su_createdAt u < t"
proof -
  from assms(1) obtain fn surname w1 w2 v where n: "pick S firstNames w = (Inr fn, w1)"
    "pick S lastNames w1 = (Inr surname, w2)" and u: "u = (let name = map to_lower fn @ ''_'' @ map to_lower surname @ show_int i;
         email = map to_lower fn @ ''.'' @ map to_lower surname @ show_int i @ ''@ffgif.local''
       in \<lparr>su_id = v, su_username = (if length name > 20 then take 20 name else name),
           su_fullname = fn @ '' '' @ surname,
           su_email = (if length email > 50 then ''u'' @ show_int i @ ''_'' @ map to_lower surname @ ''@ffgif.local'' else email),
           su_createdAt = t - (src_IntN S (draws w2) 90 + 1) * day + src_IntN S (Suc (draws w2)) 86400 * 1000\<rparr>)"
    by (auto simp: seed_user_def Let_def inr_simps)
  define d s where d: "d = src_IntN S (draws w2) 90" "s = src_IntN S (Suc (draws w2)) 86400"
  have l: "length fn \<le> 11" "length surname \<le> 9"
    using name_lengths pick_Inr [OF n(1) assms(2)] pick_Inr [OF n(2) assms(2)] by auto
  have i: "length (show_int i) \<le> 4"
    using length_show_nat [of "nat i" 3] assms(3,4) by (simp add: show_int_def)
  have "length (su_email u) \<le> 37" "length (su_username u) \<le> 20" "length (su_fullname u) \<le> 100"
    using l i by (simp_all add: u Let_def)
  moreover have "0 \<le> d" "d < 90" "0 \<le> s" "s < 86400"
    using assms(2) by (auto simp: d source_ok_def)
  then have "t - 90 * day \<le> su_createdAt u \<and> su_createdAt u < t"
    by (simp add: u Let_def day_def hour_def algebra_simps flip: d)
  moreover have "users_row_ok (user_row passHash t' u)"
    using calculation(1-3) assms(5) by (simp add: users_row_ok_def user_row_def varchar_short)
  ultimately show ?thesis
    by simp
qed

section \<open>The hypotheses can hold\<close>

definition drawn_pair :: "seededUser list" where
  "drawn_pair = [drawn_user, drawn_user\<lparr>su_id := ''y''\<rparr>]"

definition drawn_pair_db :: database where
  "drawn_pair_db = empty_db\<lparr>users := map (user_row ''h'' 0) drawn_pair\<rparr>"

lemma seeded_friend_pairs_witness:
  "\<exists>pairs w'. seedFriendships seed_env zero_source drawn_pair (world_of 0 drawn_pair_db) = (Inr pairs, w') \<and>
     friend_pairs_ok (db w')"
proof -
  have "\<not> isl (fst (seedFriendships seed_env zero_source drawn_pair (world_of 0 drawn_pair_db)))"
    by code_simp
  then obtain pairs w' where r: "seedFriendships seed_env zero_source drawn_pair (world_of 0 drawn_pair_db) = (Inr pairs, w')"
    using run_Inr by blast
  have "distinct (map su_id drawn_pair)" "friend_pairs_ok (db (world_of 0 drawn_pair_db))"
    "friendships (db (world_of 0 drawn_pair_db)) = []"
    by (simp_all add: drawn_pair_def drawn_user_def drawn_pair_db_def empty_db_def friend_pairs_ok_def)
  with seeded_friend_pairs [OF r] r show ?thesis
    by auto
qed

definition drawn_gif :: seededGif where
  "drawn_gif = \<lparr>sd_key = ''k'', sd_userID = ''x'', sd_name = ''n'', sd_status = ''public'', sd_persist = True,
     sd_download = 0, sd_fileSizeBytes = seedGifSizeBytes, sd_width = 480, sd_height = 270,
     sd_durationSeconds = 320 / 100, sd_isPublic = True, sd_url = ''k'', sd_thumbnailKey = sharedGifObjectKey,
     sd_createdAt = 0\<rparr>"

definition drawn_gif_db :: database where
  "drawn_gif_db = empty_db\<lparr>users := [user_row ''h'' 0 drawn_user], gifs := [gif_row 0 drawn_gif]\<rparr>"

lemma drawn_gif_db_ok: "schema_ok drawn_gif_db" "share_tokens drawn_gif_db = []"
  by (simp_all add: schema_defs drawn_gif_db_def empty_db_def users_row_ok_def varchar_def
      rune_count_def user_row_def drawn_user_def gif_row_def drawn_gif_def user_exists_def)

lemma seeded_link_opens_witness:
  "\<exists>(t :: share_by_token) w'. seedShareTokens seed_env zero_source [drawn_gif] (world_of 0 drawn_gif_db) = (Inr (), w') \<and>
    \<not> token_hash (t_Token t) \<and> (\<exists>r. fst (share_GetByToken sample_env (t_Token t) (world_of 0 (db w'))) = Inr r)"
proof -
  let ?run = "seedShareTokens seed_env zero_source [drawn_gif] (world_of 0 drawn_gif_db)"
  have "\<not> isl (fst ?run)" "share_tokens (db (snd ?run)) \<noteq> []"
    by code_simp+
  then obtain w' t where r: "?run = (Inr (), w')" and t: "t \<in> set (share_tokens (db w'))"
    using run_Inr [of ?run] by (metis hd_in_set old.unit.exhaust snd_conv)
  have "\<not> token_hash (t_Token t) \<and>
      (\<exists>r. fst (share_GetByToken sample_env (t_Token t) (world_of 0 (db w'))) = Inr r \<and> gt_GifKey r = t_GifKey t)"
    by (rule seeded_link_opens [OF r zero_source_ok])
      (use t drawn_gif_db_ok in \<open>simp_all add: hour_def\<close>)
  with r show ?thesis
    by blast
qed

lemma seeded_users_fit_witness:
  "\<exists>u w'. seed_user seed_env zero_source 0 1 (world_of 0 empty_db) = (Inr u, w') \<and>
     users_row_ok (user_row ''h'' 0 u)"
proof -
  have "\<not> isl (fst (seed_user seed_env zero_source 0 1 (world_of 0 empty_db)))"
    by code_simp
  then obtain u w' where r: "seed_user seed_env zero_source 0 1 (world_of 0 empty_db) = (Inr u, w')"
    using run_Inr by blast
  then show ?thesis
    using seeded_users_fit [OF r zero_source_ok, of "''h''" 0] by auto
qed

end
