(* ===== verification/Bootstrap.thy ===== *)
theory Bootstrap
  imports Seed_Laws
begin

text \<open>
  The \<open>bootstrap\<close> command: \<open>internal/infra/postgres/migration.go\<close>, the connections of
  \<open>connection.go\<close> and the subcommands of \<open>cmd/bootstrap/cmd\<close>. The PostgreSQL server and the
  migration library are an argument: what a statement or a migration does to the state of the server,
  of any type. The texts sent to the server are built as the code builds them.
\<close>

section \<open>PostgreSQL and the migration library\<close>

text \<open>
  \<open>pl_Connect\<close> is \<open>sqlx.Connect\<close> and \<open>pl_Open\<close> is \<open>sql.Open\<close>, by connection string; \<open>pl_Exec\<close> and
  \<open>pl_Query\<close> run a text on a connection, \<open>pl_WithInstance\<close> to \<open>pl_Steps\<close> are golang-migrate's,
  \<open>pl_QuoteIdentifier\<close> is the driver's.
\<close>

record 's pg_library =
  pl_Connect :: "string \<Rightarrow> goerr option"
  pl_Open :: "string \<Rightarrow> goerr option"
  pl_Exec :: "string \<Rightarrow> string \<Rightarrow> 's \<Rightarrow> unit result \<times> 's"
  pl_Query :: "string \<Rightarrow> string \<Rightarrow> string \<Rightarrow> 's \<Rightarrow> bool result \<times> 's"
  pl_QuoteIdentifier :: "string \<Rightarrow> string"
  pl_WithInstance :: "string \<Rightarrow> 's \<Rightarrow> unit result \<times> 's"
  pl_NewWithDatabaseInstance :: "string \<Rightarrow> 's \<Rightarrow> unit result \<times> 's"
  pl_Up :: "string \<Rightarrow> 's \<Rightarrow> unit result \<times> 's"
  pl_Down :: "string \<Rightarrow> 's \<Rightarrow> unit result \<times> 's"
  pl_Steps :: "string \<Rightarrow> int \<Rightarrow> 's \<Rightarrow> unit result \<times> 's"

definition ErrNoChange :: goerr where "ErrNoChange = Driver ''no change''"

definition connect :: "'s pg_library \<Rightarrow> string \<Rightarrow> 's \<Rightarrow> unit result \<times> 's" where
  "connect L dbSource s = (panic_on (case pl_Connect L dbSource of Some e \<Rightarrow> Inl e | None \<Rightarrow> Inr ()), s)"

definition NewPostgresConn :: "'s pg_library \<Rightarrow> pg_config \<Rightarrow> 's \<Rightarrow> unit result \<times> 's" where
  "NewPostgresConn L cnf = connect L (newConnectionString cnf)"

definition NewPostgresSuperConn :: "'s pg_library \<Rightarrow> pg_config \<Rightarrow> 's \<Rightarrow> unit result \<times> 's" where
  "NewPostgresSuperConn L cnf = connect L (newSuperConnectionString cnf)"

section \<open>SetupDatabase\<close>

definition quote_char :: char where "quote_char = CHR 0x27"

text \<open>\<open>strings.ReplaceAll\<close> of a quote by two.\<close>

definition escape_literal :: "string \<Rightarrow> string" where
  "escape_literal s = concat (map (\<lambda>c. if c = quote_char then [c, c] else [c]) s)"

definition literal :: "string \<Rightarrow> string" where
  "literal s = quote_char # escape_literal s @ [quote_char]"

definition indented :: "nat \<Rightarrow> string \<Rightarrow> string" where
  "indented n s = CHR 0x0A # replicate n (CHR 0x09) @ s"

definition role_body :: "string \<Rightarrow> string \<Rightarrow> string \<Rightarrow> string" where
  "role_body user userIdent pass =
     indented 2 ''BEGIN'' @
     indented 3 (''IF NOT EXISTS (SELECT FROM pg_roles WHERE rolname = '' @ literal user @ '') THEN'') @
     indented 4 (''CREATE ROLE '' @ userIdent @ '' WITH LOGIN PASSWORD '' @ literal pass @ '';'') @
     indented 3 ''END IF;'' @
     indented 2 ''END'' @ indented 2 []"

definition role_block :: "string \<Rightarrow> string \<Rightarrow> string \<Rightarrow> string" where
  "role_block user userIdent pass =
     indented 2 ''DO $$'' @ role_body user userIdent pass @ ''$$;'' @ indented 1 []"

definition owner_grants :: "string \<Rightarrow> string \<Rightarrow> string" where
  "owner_grants userIdent dbIdent = concat (map (indented 3)
     [''ALTER DATABASE '' @ dbIdent @ '' OWNER TO '' @ userIdent @ '';'',
      ''ALTER SCHEMA public OWNER TO '' @ userIdent @ '';'',
      ''GRANT ALL ON SCHEMA public TO '' @ userIdent @ '';'',
      ''GRANT ALL PRIVILEGES ON ALL TABLES IN SCHEMA public TO '' @ userIdent @ '';'',
      ''GRANT ALL PRIVILEGES ON ALL SEQUENCES IN SCHEMA public TO '' @ userIdent @ '';'',
      ''GRANT ALL PRIVILEGES ON ALL ROUTINES IN SCHEMA public TO '' @ userIdent @ '';'',
      ''CREATE EXTENSION IF NOT EXISTS pg_cron;'',
      ''GRANT USAGE ON SCHEMA cron TO '' @ userIdent @ '';'',
      ''GRANT ALL PRIVILEGES ON ALL TABLES IN SCHEMA cron TO '' @ userIdent @ '';'',
      ''GRANT ALL PRIVILEGES ON ALL SEQUENCES IN SCHEMA cron TO '' @ userIdent @ '';'',
      ''GRANT ALL PRIVILEGES ON ALL ROUTINES IN SCHEMA cron TO '' @ userIdent @ '';'']) @ indented 2 []"

definition targetSuperDSN :: "pg_config \<Rightarrow> string" where
  "targetSuperDSN cnf = newSuperConnectionString (cnf\<lparr>pg_SuperDatabase := pg_DatabaseName cnf\<rparr>)"

text \<open>The result of the grants on the new database is dropped.\<close>

definition SetupDatabase :: "'s pg_library \<Rightarrow> pg_config \<Rightarrow> 's \<Rightarrow> unit result \<times> 's" where
  "SetupDatabase L cnf =
     (let super = newSuperConnectionString cnf;
          userIdent = pl_QuoteIdentifier L (pg_User cnf);
          dbIdent = pl_QuoteIdentifier L (pg_DatabaseName cnf)
      in and_then (NewPostgresSuperConn L cnf) (\<lambda>_.
         and_then (pl_Exec L super (role_block (pg_User cnf) userIdent (pg_Pass cnf))) (\<lambda>_.
         and_then (pl_Query L super ''SELECT EXISTS(SELECT FROM pg_database WHERE datname = $1)'' (pg_DatabaseName cnf))
           (\<lambda>found. and_then (if found then Pair (Inr ())
                     else pl_Exec L super (''CREATE DATABASE '' @ dbIdent @ '' OWNER '' @ userIdent)) (\<lambda>_.
         and_then (pl_Exec L super (''GRANT ALL PRIVILEGES ON DATABASE '' @ dbIdent @ '' TO '' @ userIdent)) (\<lambda>_ s.
           (Inr (), if pl_Open L (targetSuperDSN cnf) = None
                    then snd (pl_Exec L (targetSuperDSN cnf) (owner_grants userIdent dbIdent) s) else s)))))))"

section \<open>Migrations\<close>

definition open_migrate :: "'s pg_library \<Rightarrow> string \<Rightarrow> (unit \<Rightarrow> 's \<Rightarrow> unit result \<times> 's) \<Rightarrow> 's \<Rightarrow> unit result \<times> 's" where
  "open_migrate L dbSource k s =
     (case pl_Open L dbSource of
        Some e \<Rightarrow> (Inl e, s)
      | None \<Rightarrow> and_then (pl_WithInstance L dbSource) (\<lambda>_. and_then (pl_NewWithDatabaseInstance L dbSource) k) s)"

definition migration_Run :: "'s pg_library \<Rightarrow> pg_config \<Rightarrow> 's \<Rightarrow> unit result \<times> 's" where
  "migration_Run L cnf = open_migrate L (newConnectionString cnf) (\<lambda>_ s.
     case pl_Up L (newConnectionString cnf) s of
       (Inl e, s') \<Rightarrow> (if e = ErrNoChange then Inr () else Inl e, s')
     | (Inr _, s') \<Rightarrow> (Inr (), s'))"

definition Rollback :: "'s pg_library \<Rightarrow> pg_config \<Rightarrow> int \<Rightarrow> 's \<Rightarrow> unit result \<times> 's" where
  "Rollback L cnf steps = open_migrate L (newConnectionString cnf) (\<lambda>_.
     if steps = 0 then pl_Down L (newConnectionString cnf) else pl_Steps L (newConnectionString cnf) (- steps))"

section \<open>The subcommands\<close>

text \<open>The flags of \<open>migration\<close>; the first case that holds is taken, and \<open>all\<close> falls through to \<open>up\<close>.\<close>

definition setupDatabase :: "'s pg_library \<Rightarrow> pg_config \<Rightarrow> bool \<Rightarrow> bool \<Rightarrow> bool \<Rightarrow> 's \<Rightarrow> unit result \<times> 's" where
  "setupDatabase L cnf all up down =
     (if all then and_then (SetupDatabase L cnf) (\<lambda>_. migration_Run L cnf)
      else if up then migration_Run L cnf
      else if down then Rollback L cnf 0
      else Pair (Inl (Msg ''No valid flag provided.'')))"

definition setupStorage :: "(minio_options \<Rightarrow> 'c result) \<Rightarrow> (nat \<Rightarrow> string option) \<Rightarrow> minio_config \<Rightarrow> unit minio_io" where
  "setupStorage minio_New refuse cnf s =
     (case NewMinio minio_New cnf of Inl e \<Rightarrow> (Inl e, s) | Inr _ \<Rightarrow> minio_Setup refuse cnf s)"

definition setupMessageQueue :: "env \<Rightarrow> string option \<Rightarrow> (nat \<Rightarrow> string option) \<Rightarrow> rabbit_config \<Rightarrow> topology \<Rightarrow>
    unit result \<times> topology" where
  "setupMessageQueue E dial refuse cnf t =
     (case NewRabbitMQ dial (rb_User cnf) (rb_Pass cnf) (rb_Addr cnf) of
        Inl e \<Rightarrow> (Inl e, t)
      | Inr _ \<Rightarrow> (case rabbit_Setup E refuse t of
           (Some e, t') \<Rightarrow> (Inl (Driver e), t')
         | (None, t') \<Rightarrow> (Inr (), t')))"

text \<open>\<open>bootstrap all\<close>: what the four servers hold, and what the libraries and the chance give.\<close>

record 's deployment =
  dp_pg :: 's
  dp_minio :: minio_server
  dp_rabbit :: topology
  dp_world :: world

record ('s, 'c) libraries =
  lb_pg :: "'s pg_library"
  lb_minio_New :: "minio_options \<Rightarrow> 'c result"
  lb_minio_refuse :: "nat \<Rightarrow> string option"
  lb_dial :: "string option"
  lb_rabbit_refuse :: "nat \<Rightarrow> string option"
  lb_stat :: "string \<Rightarrow> stat_result"
  lb_source :: source

definition allSetup :: "env \<Rightarrow> ('s, 'c) libraries \<Rightarrow> config \<Rightarrow> bool \<Rightarrow> 's deployment \<Rightarrow> unit result \<times> 's deployment" where
  "allSetup E B cnf seed =
     and_then (\<lambda>d. let (r, s) = setupDatabase (lb_pg B) (cf_PostgreSQL cnf) True False False (dp_pg d)
                    in (r, d\<lparr>dp_pg := s\<rparr>)) (\<lambda>_.
     and_then (\<lambda>d. let (r, s) = setupStorage (lb_minio_New B) (lb_minio_refuse B) (cf_Minio cnf) (dp_minio d)
                    in (r, d\<lparr>dp_minio := s\<rparr>)) (\<lambda>_.
     and_then (\<lambda>d. let (r, t) = setupMessageQueue (configured cnf E) (lb_dial B) (lb_rabbit_refuse B) (cf_RabbitMq cnf)
                        (dp_rabbit d) in (r, d\<lparr>dp_rabbit := t\<rparr>)) (\<lambda>_ d.
     if seed
     then (let (r, w, ms) = setupSeed E (lb_source B) (pl_Open (lb_pg B)) (lb_stat B) (lb_minio_New B) (lb_minio_refuse B)
                 cnf (dp_world d, dp_minio d)
           in (r, d\<lparr>dp_world := w, dp_minio := ms\<rparr>))
     else (Inr (), d))))"

section \<open>The texts read back\<close>

text \<open>
  How the server reads a string literal, after its opening quote, and the body of a DO block, up to
  the next two dollars.
\<close>

fun read_literal :: "string \<Rightarrow> (string \<times> string) option" where
  "read_literal [] = None"
| "read_literal (c # s) =
     (if c \<noteq> quote_char then map_option (\<lambda>(v, r). (c # v, r)) (read_literal s)
      else case s of
        [] \<Rightarrow> Some ([], [])
      | c' # s' \<Rightarrow> if c' = quote_char then map_option (\<lambda>(v, r). (quote_char # v, r)) (read_literal s')
                   else Some ([], s))"

fun until_dollars :: "string \<Rightarrow> string option" where
  "until_dollars (c # d # s) =
     (if c = CHR ''$'' \<and> d = CHR ''$'' then Some [] else map_option (Cons c) (until_dollars (d # s)))"
| "until_dollars s = None"

definition dollar_body :: "string \<Rightarrow> string option" where
  "dollar_body s = (case until_dollars s of None \<Rightarrow> None | Some p \<Rightarrow> until_dollars (drop (length p + 2) s))"

fun no_dollars :: "string \<Rightarrow> bool" where
  "no_dollars (c # d # s) \<longleftrightarrow> \<not> (c = CHR ''$'' \<and> d = CHR ''$'') \<and> no_dollars (d # s)"
| "no_dollars s \<longleftrightarrow> True"

lemma read_literal_escaped:
  "r = [] \<or> hd r \<noteq> quote_char \<Longrightarrow> read_literal (escape_literal s @ quote_char # r) = Some (s, r)"
  by (induction s) (auto simp: escape_literal_def split: list.split)

lemma until_dollars_plain:
  "CHR ''$'' \<notin> set a \<Longrightarrow> until_dollars (a @ s) = map_option ((@) a) (until_dollars s)"
proof (induction a)
  case Nil
  then show ?case
    by (cases "until_dollars s") simp_all
next
  case (Cons c a)
  then show ?case
    by (cases "a @ s"; cases "until_dollars s") auto
qed

lemma until_dollars_text:
  "no_dollars a \<Longrightarrow> c \<noteq> CHR ''$'' \<Longrightarrow> until_dollars (a @ c # s) = map_option (\<lambda>x. a @ c # x) (until_dollars s)"
proof (induction a rule: no_dollars.induct)
  case (1 c' d a)
  then show ?case
    by (cases "until_dollars s") auto
qed (use until_dollars_plain [of "[c]" s] in \<open>cases "until_dollars s", simp_all\<close>)+

lemma until_dollars_stops:
  "\<not> no_dollars a \<Longrightarrow> \<exists>p q. until_dollars (a @ s) = Some p \<and> a = p @ q \<and> q \<noteq> []"
proof (induction a rule: no_dollars.induct)
  case (1 c d a)
  show ?case
  proof (cases "c = CHR ''$'' \<and> d = CHR ''$''")
    case False
    with 1 obtain p q where "until_dollars ((d # a) @ s) = Some p" "d # a = p @ q" "q \<noteq> []"
      by (metis no_dollars.simps(1))
    moreover have "until_dollars ((c # d # a) @ s) = map_option ((#) c) (until_dollars ((d # a) @ s))"
      using False by auto
    ultimately have "until_dollars ((c # d # a) @ s) = Some (c # p)" "c # d # a = (c # p) @ q"
      by simp_all
    then show ?thesis
      using \<open>q \<noteq> []\<close> by blast
  qed auto
qed auto

lemma no_dollars_escape: "no_dollars (escape_literal s) \<longleftrightarrow> no_dollars s"
proof (induction s rule: no_dollars.induct)
  case (1 c d s)
  then show ?case
    by (cases s) (auto simp: escape_literal_def quote_char_def)
qed (auto simp: escape_literal_def quote_char_def)

text \<open>A text that the reader for the two dollars passes over, whatever comes after it.\<close>

definition passed_over :: "string \<Rightarrow> bool" where
  "passed_over a \<longleftrightarrow> (\<forall>s. until_dollars (a @ s) = map_option ((@) a) (until_dollars s))"

lemma passed_over_plain: "CHR ''$'' \<notin> set a \<Longrightarrow> passed_over a"
  by (simp add: passed_over_def until_dollars_plain)

lemma passed_over_append: "passed_over a \<Longrightarrow> passed_over b \<Longrightarrow> passed_over (a @ b)"
  by (auto simp: passed_over_def option.map_comp comp_def intro!: option.map_cong)

lemma passed_over_text: "no_dollars a \<Longrightarrow> c \<noteq> CHR ''$'' \<Longrightarrow> passed_over (a @ [c])"
  by (auto simp: passed_over_def until_dollars_text intro!: option.map_cong)

lemma passed_over_literal: "no_dollars s \<Longrightarrow> passed_over (literal s)"
  using passed_over_append [OF passed_over_plain [of "[quote_char]"] passed_over_text [of "escape_literal s" quote_char]]
  by (simp add: literal_def no_dollars_escape quote_char_def)

definition before_password :: "string \<Rightarrow> string \<Rightarrow> string" where
  "before_password user userIdent =
     indented 2 ''BEGIN'' @
     indented 3 (''IF NOT EXISTS (SELECT FROM pg_roles WHERE rolname = '' @ literal user @ '') THEN'') @
     indented 4 (''CREATE ROLE '' @ userIdent @ '' WITH LOGIN PASSWORD '')"

definition after_password :: string where
  "after_password = '';'' @ indented 3 ''END IF;'' @ indented 2 ''END'' @ indented 2 []"

lemma role_body_split: "role_body user userIdent pass = before_password user userIdent @ literal pass @ after_password"
  by (simp add: role_body_def before_password_def after_password_def indented_def)

lemma passed_over_before:
  assumes "no_dollars user" "no_dollars i"
  shows "passed_over (before_password user (CHR 0x22 # i @ [CHR 0x22]))"
proof -
  have "passed_over ((indented 2 ''BEGIN'' @ indented 3 ''IF NOT EXISTS (SELECT FROM pg_roles WHERE rolname = '') @
      literal user @ ('') THEN'' @ indented 4 (''CREATE ROLE '' @ [CHR 0x22])) @ (i @ [CHR 0x22]) @
      '' WITH LOGIN PASSWORD '')"
    by (intro passed_over_append passed_over_literal passed_over_text assms) (simp_all add: passed_over_plain indented_def)
  then show ?thesis
    by (simp add: before_password_def indented_def)
qed

lemma dollar_body_role: "dollar_body (role_block user userIdent pass) =
    until_dollars (role_body user userIdent pass @ ''$$;'' @ indented 1 [])"
proof -
  have "until_dollars (role_block user userIdent pass) = Some (indented 2 ''DO '')"
    using until_dollars_plain [of "indented 2 ''DO ''"] by (simp add: role_block_def indented_def)
  then show ?thesis
    by (simp add: dollar_body_def) (simp add: role_block_def indented_def)
qed

text \<open>
  Property C39. The block that creates the role is read back as it was meant, and the password in it
  as the configured one, quotes and all, as long as the password does not hold two dollars in a row:
  then, and only then, the body of the block ends early.
\<close>

theorem role_block_reads_back:
  assumes "no_dollars user" "no_dollars i" "userIdent = CHR 0x22 # i @ [CHR 0x22]"
  shows "(dollar_body (role_block user userIdent pass) = Some (role_body user userIdent pass)) = no_dollars pass \<and>
    read_literal (tl (literal pass @ after_password)) = Some (pass, after_password)"
proof
  have pre: "passed_over (before_password user userIdent)"
    using passed_over_before [OF assms(1,2)] assms(3) by simp
  show "(dollar_body (role_block user userIdent pass) = Some (role_body user userIdent pass)) = no_dollars pass"
  proof (cases "no_dollars pass")
    case True
    have "passed_over (role_body user userIdent pass)"
      unfolding role_body_split
      by (intro passed_over_append pre passed_over_literal True)
        (simp add: passed_over_plain after_password_def indented_def)
    with True show ?thesis
      by (simp add: dollar_body_role passed_over_def)
  next
    case False
    let ?rest = "[quote_char] @ after_password @ ''$$;'' @ indented 1 []"
    have "\<not> no_dollars (escape_literal pass)"
      using False by (simp add: no_dollars_escape)
    from until_dollars_stops [OF this, of ?rest] obtain p q where
      p: "until_dollars (escape_literal pass @ ?rest) = Some p" "escape_literal pass = p @ q" "q \<noteq> []"
      by blast
    have one: "passed_over [quote_char]"
      by (rule passed_over_plain) (simp add: quote_char_def)
    have "dollar_body (role_block user userIdent pass) = Some (before_password user userIdent @ quote_char # p)"
      unfolding dollar_body_role role_body_split using pre one p(1)
      by (simp add: passed_over_def literal_def)
    moreover have "length (before_password user userIdent @ quote_char # p) < length (role_body user userIdent pass)"
      unfolding role_body_split literal_def p(2) by simp
    then have "before_password user userIdent @ quote_char # p \<noteq> role_body user userIdent pass"
      by (metis less_irrefl)
    ultimately show ?thesis
      using False by simp
  qed
  show "read_literal (tl (literal pass @ after_password)) = Some (pass, after_password)"
    using read_literal_escaped [of after_password pass] by (simp add: literal_def after_password_def quote_char_def)
qed

section \<open>What bootstrapping establishes\<close>

lemma seedMinioStorage_ready:
  assumes "minio_ready cnf s"
  shows "minio_ready cnf (seedMinioStorage stat minio_New refuse cnf s)"
  using assms
  by (auto simp: seedMinioStorage_def minio_requests minio_ready_def Let_def split: option.split sum.split)

lemma setupSeed_minio:
  assumes "minio_ready (cf_Minio cnf) ms"
  shows "minio_ready (cf_Minio cnf) (snd (snd (setupSeed E S sql_Open stat minio_New refuse cnf (w, ms))))"
  using seedMinioStorage_ready [OF assms, of stat minio_New refuse] assms
  by (auto simp: setupSeed_def Let_def split: option.split sum.split prod.split)

lemma declare_all_None: "declare_all refuse k qs t = (None, t') \<Longrightarrow> t' = t\<lparr>tp_queues := tp_queues t @ qs\<rparr>"
proof (induction qs arbitrary: k t)
  case (Cons q qs)
  then show ?case
    using Cons.IH [of "Suc k" "t\<lparr>tp_queues := tp_queues t @ [q]\<rparr>"] by (auto split: option.splits)
qed simp

lemma rabbit_Setup_None:
  assumes "rabbit_Setup E refuse t = (None, t')"
  shows "set (setup_order @ [declareUploadProcessQueue]) \<subseteq> set (tp_queues t') \<and>
    (cnf_ExchangeQueue E, UploadProcessQueue) \<in> set (tp_bindings t')"
  using assms by (auto simp: rabbit_Setup_def Let_def split: option.splits prod.splits dest!: declare_all_None)


section \<open>The hypotheses can hold\<close>

lemma role_block_reads_back_witness:
  "(dollar_body (role_block ''ffgif'' (CHR 0x22 # ''ffgif'' @ [CHR 0x22]) ''a$$b'') =
     Some (role_body ''ffgif'' (CHR 0x22 # ''ffgif'' @ [CHR 0x22]) ''a$$b'')) = no_dollars ''a$$b'' \<and>
   \<not> no_dollars ''a$$b''"
  using role_block_reads_back [of "''ffgif''" "''ffgif''" "CHR 0x22 # ''ffgif'' @ [CHR 0x22]" "''a$$b''"] by simp

definition willing_pg :: "unit pg_library" where
  "willing_pg = \<lparr>pl_Connect = (\<lambda>_. None), pl_Open = (\<lambda>_. None), pl_Exec = (\<lambda>_ _ s. (Inr (), s)),
     pl_Query = (\<lambda>_ _ _ s. (Inr False, s)), pl_QuoteIdentifier = (\<lambda>s. CHR 0x22 # s @ [CHR 0x22]),
     pl_WithInstance = (\<lambda>_ s. (Inr (), s)), pl_NewWithDatabaseInstance = (\<lambda>_ s. (Inr (), s)),
     pl_Up = (\<lambda>_ s. (Inl ErrNoChange, s)), pl_Down = (\<lambda>_ s. (Inr (), s)), pl_Steps = (\<lambda>_ _ s. (Inr (), s))\<rparr>"

definition willing :: "(unit, unit) libraries" where
  "willing = \<lparr>lb_pg = willing_pg, lb_minio_New = (\<lambda>_. Inr ()), lb_minio_refuse = (\<lambda>_. None), lb_dial = None,
     lb_rabbit_refuse = (\<lambda>_. None), lb_stat = (\<lambda>_. StatNotExist), lb_source = zero_source\<rparr>"

definition fresh_deployment :: "unit deployment" where
  "fresh_deployment = \<lparr>dp_pg = (), dp_minio = \<lparr>ms_requests = 0, ms_buckets = [], ms_notification = [],
     ms_lifecycle = [], ms_objects = []\<rparr>, dp_rabbit = \<lparr>tp_queues = [], tp_exchanges = [], tp_bindings = []\<rparr>,
     dp_world = world_of 0 seeded_before\<rparr>"

lemma willing_sel [simp]:
  "lb_pg willing = willing_pg" "lb_minio_New willing = (\<lambda>_. Inr ())" "lb_minio_refuse willing = (\<lambda>_. None)"
  "lb_dial willing = None" "lb_rabbit_refuse willing = (\<lambda>_. None)"
  by (simp_all add: willing_def)

lemma willing_setup: "\<exists>d'. allSetup E willing cnf False d = (Inr (), d')"
proof -
  obtain ms where ms: "minio_Setup (\<lambda>_. None) (cf_Minio cnf) (dp_minio d) = (Inr (), ms)"
    using minio_Setup_succeeds by blast
  have pg: "setupDatabase willing_pg c True False False s = (Inr (), s)" for c s
    by (simp add: setupDatabase_def SetupDatabase_def NewPostgresSuperConn_def connect_def panic_on_def and_then_def
        willing_pg_def Let_def migration_Run_def open_migrate_def)
  obtain t where "setupMessageQueue (configured cnf E) None (\<lambda>_. None) (cf_RabbitMq cnf) (dp_rabbit d) = (Inr (), t)"
    by (simp add: setupMessageQueue_def NewRabbitMQ_def rabbit_Setup_def declare_all_ok Let_def)
  with ms show ?thesis
    by (simp add: allSetup_def and_then_def pg setupStorage_def NewMinio_def panic_on_def)
qed


end
