(* ===== verification/Processes.thy ===== *)
theory Processes
  imports Bootstrap
begin

text \<open>
  \<open>cmd/ffgif/main.go\<close> with \<open>Server.Start\<close> and \<open>Shutdown\<close> of \<open>transport/http/server.go\<close>, the first half of
  \<open>cmd/worker/main.go\<close>, and \<open>internal/infra/redis/redis.go\<close>: how the two processes come up, how the
  server serves, and how it goes down. What is made of what they open is in \<open>Wiring\<close>.
\<close>

section \<open>Coming up\<close>

text \<open>\<open>ping\<close> is what the server answers a client of these options; an error is a panic.\<close>

definition redis_Client :: "(string \<times> string \<times> string \<Rightarrow> goerr option) \<Rightarrow> redis_config \<Rightarrow> unit result" where
  "redis_Client ping cnf =
     panic_on (case ping (rd_Addr cnf, rd_User cnf, rd_Pass cnf) of Some e \<Rightarrow> Inl e | None \<Rightarrow> Inr ())"

text \<open>What \<open>main\<close> closes when it ends: the pool, the Redis client, the broker's connection.\<close>

datatype resource = PgPool | RedisClient | RabbitConn

text \<open>
  A main opens one thing after the other and defers the closing of each; a panic runs the deferred
  calls, the last one first, and ends the process. The result is the panic or \<open>()\<close>, with the
  deferred closings in the order they run.
\<close>

primrec open_all :: "(resource option \<times> unit result) list \<Rightarrow> resource list \<Rightarrow> unit result \<times> resource list" where
  "open_all [] ds = (Inr (), ds)"
| "open_all (x # xs) ds =
     (case snd x of
        Inl e \<Rightarrow> (Inl e, ds)
      | Inr _ \<Rightarrow> open_all xs (case fst x of None \<Rightarrow> ds | Some r \<Rightarrow> r # ds))"

definition opened :: "'a result \<Rightarrow> unit result" where
  "opened r = (case r of Inl e \<Rightarrow> Inl e | Inr _ \<Rightarrow> Inr ())"

record ('s, 'c) dials =
  dl_pg :: "'s pg_library"
  dl_ping :: "string \<times> string \<times> string \<Rightarrow> goerr option"
  dl_minio_New :: "minio_options \<Rightarrow> 'c result"
  dl_rabbit :: "string option"

text \<open>The constructors in the order of each \<open>main\<close>; the two clients of MinIO have nothing to close.\<close>

definition ffgif_opens :: "('s, 'c) dials \<Rightarrow> config \<Rightarrow> 's \<Rightarrow> (resource option \<times> unit result) list" where
  "ffgif_opens D cnf s =
     [(Some PgPool, fst (NewPostgresConn (dl_pg D) (cf_PostgreSQL cnf) s)),
      (Some RedisClient, redis_Client (dl_ping D) (cf_Redis cnf)),
      (None, opened (NewMinio (dl_minio_New D) (cf_Minio cnf))),
      (None, opened (NewPublicMinio (dl_minio_New D) (cf_Minio cnf))),
      (Some RabbitConn, opened (NewRabbitMQ (dl_rabbit D) (rb_User (cf_RabbitMq cnf)) (rb_Pass (cf_RabbitMq cnf))
         (rb_Addr (cf_RabbitMq cnf))))]"

definition worker_opens :: "('s, 'c) dials \<Rightarrow> config \<Rightarrow> 's \<Rightarrow> (resource option \<times> unit result) list" where
  "worker_opens D cnf s =
     [(Some RabbitConn, opened (NewRabbitMQ (dl_rabbit D) (rb_User (cf_RabbitMq cnf)) (rb_Pass (cf_RabbitMq cnf))
         (rb_Addr (cf_RabbitMq cnf)))),
      (Some RedisClient, redis_Client (dl_ping D) (cf_Redis cnf)),
      (Some PgPool, fst (NewPostgresConn (dl_pg D) (cf_PostgreSQL cnf) s)),
      (None, opened (NewMinio (dl_minio_New D) (cf_Minio cnf))),
      (None, opened (NewPublicMinio (dl_minio_New D) (cf_Minio cnf)))]"

text \<open>A panic while the configuration is loaded has nothing to close.\<close>

definition starts :: "(config \<Rightarrow> (resource option \<times> unit result) list) \<Rightarrow> viper \<Rightarrow> unit result \<times> resource list" where
  "starts opens V =
     (case fst (GetConfig V (False, None)) of
        Inl k \<Rightarrow> (Inl (Panic k), [])
      | Inr None \<Rightarrow> (Inl (Panic ''nil pointer dereference''), [])
      | Inr (Some cnf) \<Rightarrow> open_all (opens cnf) [])"

definition ffgif_starts :: "('s, 'c) dials \<Rightarrow> viper \<Rightarrow> 's \<Rightarrow> unit result \<times> resource list" where
  "ffgif_starts D V s = starts (\<lambda>cnf. ffgif_opens D cnf s) V"

definition worker_starts :: "('s, 'c) dials \<Rightarrow> viper \<Rightarrow> 's \<Rightarrow> unit result \<times> resource list" where
  "worker_starts D V s = starts (\<lambda>cnf. worker_opens D cnf s) V"

section \<open>Serving and going down\<close>

text \<open>
  The server process: the goroutine that listens, the requests that are being served, and \<open>main\<close>,
  which waits for the signal, shuts the server down with a deadline, and closes what it opened.
  \<open>sp_waits\<close> is whether \<open>Shutdown\<close> found the server that listens, so that it waits for its requests;
  \<open>sp_open\<close> holds the deferred closings that have not run.
\<close>

record server_process =
  sp_world :: world
  sp_started :: bool
  sp_listening :: bool
  sp_accepted :: "http_request list"
  sp_inflight :: "http_request list"
  sp_answered :: "(http_request \<times> http_response result) list"
  sp_cut :: "http_request list"
  sp_signalled :: bool
  sp_stopping :: bool
  sp_waits :: bool
  sp_expired :: bool
  sp_open :: "resource list"
  sp_exited :: bool

definition server_up :: "resource list \<Rightarrow> world \<Rightarrow> server_process" where
  "server_up ds w = \<lparr>sp_world = w, sp_started = False, sp_listening = False, sp_accepted = [], sp_inflight = [],
     sp_answered = [], sp_cut = [], sp_signalled = False, sp_stopping = False, sp_waits = False,
     sp_expired = False, sp_open = ds, sp_exited = False\<rparr>"

text \<open>
  A failure to listen is logged and ends the goroutine only. \<open>Start\<close> sets the server up before it
  listens, so that a shutdown that comes first stops nothing. A handler that panics is answered by
  the library, which closes the connection.
\<close>

inductive server_step :: "env \<Rightarrow> server_process \<Rightarrow> server_process \<Rightarrow> bool" for E where
  Listen: "\<not> sp_exited s \<Longrightarrow> \<not> sp_started s \<Longrightarrow>
    server_step E s (s\<lparr>sp_started := True, sp_listening := True\<rparr>)"
| ListenFails: "\<not> sp_exited s \<Longrightarrow> \<not> sp_started s \<Longrightarrow> server_step E s (s\<lparr>sp_started := True\<rparr>)"
| AcceptRequest: "sp_listening s \<Longrightarrow>
    server_step E s (s\<lparr>sp_inflight := sp_inflight s @ [rq], sp_accepted := sp_accepted s @ [rq]\<rparr>)"
| Answer: "sp_inflight s = a @ rq # b \<Longrightarrow> serve E rq no_response (sp_world s) = (r, w) \<Longrightarrow>
    server_step E s (s\<lparr>sp_inflight := a @ b, sp_answered := (rq, r) # sp_answered s, sp_world := w\<rparr>)"
| Signal: "server_step E s (s\<lparr>sp_signalled := True\<rparr>)"
| Shutdown: "\<not> sp_exited s \<Longrightarrow> sp_signalled s \<Longrightarrow> \<not> sp_stopping s \<Longrightarrow>
    server_step E s (s\<lparr>sp_stopping := True, sp_waits := sp_started s, sp_listening := False\<rparr>)"
| Deadline: "sp_stopping s \<Longrightarrow> server_step E s (s\<lparr>sp_expired := True\<rparr>)"
| ExitMain: "\<not> sp_exited s \<Longrightarrow> sp_stopping s \<Longrightarrow> \<not> sp_waits s \<or> sp_inflight s = [] \<or> sp_expired s \<Longrightarrow>
    server_step E s (s\<lparr>sp_exited := True, sp_listening := False, sp_cut := sp_inflight s, sp_inflight := [],
      sp_open := []\<rparr>)"
| Elsewhere: "step E (sp_world s) w \<Longrightarrow> server_step E s (s\<lparr>sp_world := w\<rparr>)"

inductive server_runs :: "env \<Rightarrow> server_process \<Rightarrow> server_process \<Rightarrow> bool" for E s0 where
  Begin: "server_runs E s0 s0"
| Next: "server_runs E s0 s \<Longrightarrow> server_step E s s' \<Longrightarrow> server_runs E s0 s'"

inductive_cases server_stepE: "server_step E s s'"

section \<open>What a start opens\<close>

lemma open_all_result:
  "open_all xs ds =
     (case List.find (\<lambda>x. snd x \<noteq> Inr ()) xs of None \<Rightarrow> Inr () | Some x \<Rightarrow> snd x,
      rev (List.map_filter fst (takeWhile (\<lambda>x. snd x = Inr ()) xs)) @ ds)"
  by (induction xs arbitrary: ds)
    (auto simp: List.map_filter_simps split: sum.split option.split)

text \<open>
  The two processes need the same servers, so that one starts when the other does; a start that
  fails is a panic and closes what it had opened, the last one first.
\<close>

lemma opened_Inr [simp]: "opened r = Inr () \<longleftrightarrow> isl r = False" "opened r = Inl e \<longleftrightarrow> r = Inl e"
  by (auto simp: opened_def split: sum.split)

lemma open_all_Inr: "fst (open_all xs ds) = Inr () \<longleftrightarrow> list_all (\<lambda>x. snd x = Inr ()) xs"
  by (induction xs arbitrary: ds) (auto split: sum.split option.split)

lemma start_Inr: "fst (starts opens V) = Inr () \<longleftrightarrow>
    (\<exists>cnf. loadConfig V = Inr cnf \<and> list_all (\<lambda>x. snd x = Inr ()) (opens cnf))"
  by (cases "loadConfig V") (simp_all add: starts_def GetConfig_def open_all_Inr)

theorem processes_start_alike:
  "fst (ffgif_starts D V s) = Inr () \<longleftrightarrow> fst (worker_starts D V s) = Inr ()"
  unfolding ffgif_starts_def worker_starts_def start_Inr
  by (simp add: ffgif_opens_def worker_opens_def conj_ac)

theorem start_opens:
  "ffgif_starts D V s = (Inr (), ds) \<Longrightarrow> ds = [RabbitConn, RedisClient, PgPool]"
  "worker_starts D V s = (Inr (), ds) \<Longrightarrow> ds = [PgPool, RedisClient, RabbitConn]"
  by (auto simp: ffgif_starts_def worker_starts_def starts_def ffgif_opens_def worker_opens_def
      split: sum.splits option.splits)

section \<open>Serving\<close>

text \<open>The invariant of the process, by what each part of its state says of the others.\<close>

definition server_ok :: "env \<Rightarrow> resource list \<Rightarrow> world \<Rightarrow> server_process \<Rightarrow> bool" where
  "server_ok E ds w s \<longleftrightarrow>
     mset (sp_accepted s) = mset (map fst (sp_answered s)) + mset (sp_inflight s) + mset (sp_cut s) \<and>
     reachable E w (sp_world s) \<and>
     (\<forall>(rq, r)\<in>set (sp_answered s). \<exists>v. reachable E w v \<and> r = fst (serve E rq no_response v)) \<and>
     (if sp_exited s then sp_inflight s = [] \<and> \<not> sp_listening s \<and> sp_stopping s
      else sp_open s = ds \<and> sp_cut s = []) \<and>
     (sp_stopping s \<longrightarrow> sp_signalled s) \<and>
     (sp_cut s \<noteq> [] \<longrightarrow> sp_expired s \<or> \<not> sp_waits s) \<and>
     (sp_listening s \<longrightarrow> sp_started s)"

lemma server_ok_up: "server_ok E ds w (server_up ds w)"
  by (simp add: server_ok_def server_up_def reachable.start)

lemma server_ok_step: "server_step E s s' \<Longrightarrow> server_ok E ds w s \<Longrightarrow> server_ok E ds w s'"
proof (induction rule: server_step.induct)
  case (Answer s a rq b r w')
  from Answer(2) have r: "r = fst (serve E rq no_response (sp_world s))"
    and w': "w' = snd (serve E rq no_response (sp_world s))" by simp_all
  have ok: "reachable E w (sp_world s)" using Answer(3) by (simp add: server_ok_def)
  have "reachable E w w'" unfolding w' by (rule reachable.step [OF ok step.Request])
  then show ?case using Answer r ok by (auto simp: server_ok_def)
next
  case (Elsewhere s w')
  then show ?case by (auto simp: server_ok_def intro: reachable.step)
qed (auto simp: server_ok_def)

lemma server_ok_runs: "server_runs E s0 s \<Longrightarrow> server_ok E ds w s0 \<Longrightarrow> server_ok E ds w s"
  by (induction rule: server_runs.induct) (auto intro: server_ok_step)


text \<open>A server that could not listen accepts nothing from then on.\<close>

definition deaf :: "server_process \<Rightarrow> bool" where
  "deaf s \<longleftrightarrow> sp_started s \<and> \<not> sp_listening s \<and> sp_accepted s = [] \<and>
     (sp_stopping s \<or> sp_exited s \<longrightarrow> sp_signalled s)"

lemma deaf_step: "server_step E s s' \<Longrightarrow> deaf s \<Longrightarrow> deaf s'"
  by (erule server_stepE) (auto simp: deaf_def)

lemma deaf_runs: "server_runs E s s' \<Longrightarrow> deaf s \<Longrightarrow> deaf s'"
  by (induction rule: server_runs.induct) (auto intro: deaf_step)

lemma quiet_runs:
  "server_runs E (server_up ds w) s \<Longrightarrow> sp_listening s \<or> sp_stopping s \<or> sp_accepted s = []"
proof (induction rule: server_runs.induct)
  case (Next s s')
  have "\<not> sp_listening s \<or> sp_started s"
    using server_ok_runs [OF Next(1) server_ok_up] by (simp add: server_ok_def)
  with Next(2,3) show ?case by (auto elim!: server_stepE)
qed (simp add: server_up_def)

text \<open>
  A server whose port is taken does not end: the failure to listen is only logged, and
  from then on the process accepts no request and stays until it is signalled, so that nothing that
  watches the process can tell it from one that serves.
\<close>

theorem deaf_server_stays:
  assumes "server_runs E (server_up ds w) s" "sp_started s" "\<not> sp_listening s" "\<not> sp_stopping s"
    and "server_runs E s s'"
  shows "sp_accepted s' = [] \<and> (sp_signalled s' \<or> \<not> sp_exited s')"
proof -
  have "deaf s" using quiet_runs [OF assms(1)] assms(2-4) server_ok_runs [OF assms(1) server_ok_up]
    by (auto simp: deaf_def server_ok_def split: if_splits)
  from deaf_runs [OF assms(5) this] show ?thesis by (auto simp: deaf_def)
qed

section \<open>Runs\<close>

text \<open>A request that is served before a clean end.\<close>

lemma served_and_gone:
  "\<exists>s. server_runs E (server_up ds w) s \<and> sp_answered s = [(rq, fst (serve E rq no_response w))] \<and>
     sp_accepted s = [rq] \<and> sp_exited s"
proof -
  let ?up = "server_up ds w"
  let ?s1 = "?up\<lparr>sp_started := True, sp_listening := True\<rparr>"
  let ?s2 = "?s1\<lparr>sp_inflight := [rq], sp_accepted := [rq]\<rparr>"
  let ?s3 = "?s2\<lparr>sp_inflight := [], sp_answered := [(rq, fst (serve E rq no_response w))],
      sp_world := snd (serve E rq no_response w)\<rparr>"
  let ?s4 = "?s3\<lparr>sp_signalled := True\<rparr>"
  let ?s5 = "?s4\<lparr>sp_stopping := True, sp_waits := True, sp_listening := False\<rparr>"
  let ?s6 = "?s5\<lparr>sp_exited := True, sp_open := []\<rparr>"
  have a1: "server_step E ?up ?s1" by (rule server_step.Listen) (simp_all add: server_up_def)
  have a2: "server_step E ?s1 ?s2"
    using server_step.AcceptRequest [of ?s1 E rq] by (simp add: server_up_def)
  have a3: "server_step E ?s2 ?s3"
    using server_step.Answer [of ?s2 "[]" rq "[]" E] by (simp add: server_up_def)
  have a4: "server_step E ?s3 ?s4" by (rule server_step.Signal)
  have a5: "server_step E ?s4 ?s5" using server_step.Shutdown [of ?s4 E] by (simp add: server_up_def)
  have a6: "server_step E ?s5 ?s6" using server_step.ExitMain [of ?s5 E] by (simp add: server_up_def)
  note runs = server_runs.Begin [of E ?up]
  note runs = server_runs.Next [OF runs a1]
  note runs = server_runs.Next [OF runs a2]
  note runs = server_runs.Next [OF runs a3]
  note runs = server_runs.Next [OF runs a4]
  note runs = server_runs.Next [OF runs a5]
  note runs = server_runs.Next [OF runs a6]
  have "server_runs E ?up ?s6" by (rule runs)
  then show ?thesis by (intro exI [of _ ?s6]) (simp add: server_up_def)
qed

text \<open>A signal that comes before the server is set up: it listens all the same, and is cut off.\<close>

lemma early_signal_cuts:
  "\<exists>s. server_runs E (server_up ds w) s \<and> sp_exited s \<and> sp_cut s = [rq] \<and> \<not> sp_expired s"
proof -
  let ?up = "server_up ds w"
  let ?s1 = "?up\<lparr>sp_signalled := True\<rparr>"
  let ?s2 = "?s1\<lparr>sp_stopping := True\<rparr>"
  let ?s3 = "?s2\<lparr>sp_started := True, sp_listening := True\<rparr>"
  let ?s4 = "?s3\<lparr>sp_inflight := [rq], sp_accepted := [rq]\<rparr>"
  let ?s5 = "?s4\<lparr>sp_exited := True, sp_listening := False, sp_cut := [rq], sp_inflight := [], sp_open := []\<rparr>"
  have a1: "server_step E ?up ?s1" by (rule server_step.Signal)
  have a2: "server_step E ?s1 ?s2" using server_step.Shutdown [of ?s1 E] by (simp add: server_up_def)
  have a3: "server_step E ?s2 ?s3" by (rule server_step.Listen) (simp_all add: server_up_def)
  have a4: "server_step E ?s3 ?s4"
    using server_step.AcceptRequest [of ?s3 E rq] by (simp add: server_up_def)
  have a5: "server_step E ?s4 ?s5" using server_step.ExitMain [of ?s4 E] by (simp add: server_up_def)
  note runs = server_runs.Begin [of E ?up]
  note runs = server_runs.Next [OF runs a1]
  note runs = server_runs.Next [OF runs a2]
  note runs = server_runs.Next [OF runs a3]
  note runs = server_runs.Next [OF runs a4]
  note runs = server_runs.Next [OF runs a5]
  have "server_runs E ?up ?s5" by (rule runs)
  then show ?thesis by (intro exI [of _ ?s5]) (simp add: server_up_def)
qed


lemma deaf_server_stays_witness:
  "\<exists>s. server_runs sample_env ((server_up [] (world_of 0 empty_db))\<lparr>sp_started := True\<rparr>) s \<and> sp_accepted s = [] \<and>
     \<not> sp_exited s"
proof -
  let ?s0 = "server_up [] (world_of 0 empty_db)"
  have r: "server_runs sample_env ?s0 (?s0\<lparr>sp_started := True\<rparr>)"
    by (rule server_runs.Next [OF server_runs.Begin server_step.ListenFails]) (simp_all add: server_up_def)
  from deaf_server_stays [OF r _ _ _ server_runs.Begin] show ?thesis
    by (auto simp: server_up_def intro: server_runs.Begin)
qed

end
