(* ===== verification/Mailtrap.thy ===== *)
theory Mailtrap
  imports Worker_Laws
begin

text \<open>
  \<open>internal/infra/mailer/mailtrap.go\<close>, the other sender behind the port \<open>EmailSender\<close>. It writes the
  message itself, headers and all; what the recipient gets of it is read from the bytes sent. A
  locale states what the email worker relies on, of either sender.
\<close>

record mailtrap =
  mp_email :: string
  mp_mailtrapUser :: string
  mp_mailtrapPass :: string

definition NewMailtrap :: "string \<Rightarrow> string \<Rightarrow> string \<Rightarrow> mailtrap" where
  "NewMailtrap email user pass = \<lparr>mp_email = email, mp_mailtrapUser = user, mp_mailtrapPass = pass\<rparr>"

definition crlf :: string where "crlf = [CHR 0x0D, CHR 0x0A]"

definition mail_message :: "string \<Rightarrow> string \<Rightarrow> string \<Rightarrow> string \<Rightarrow> string" where
  "mail_message from email subject body =
     ''From: '' @ from @ crlf @ ''To: '' @ email @ crlf @ ''Subject: '' @ subject @ crlf @ crlf @ body @ crlf"

section \<open>net/smtp\<close>

text \<open>
  The lines of a message end with CR LF, its headers with the first empty line. \<open>smtp.SendMail\<close>
  refuses an address with a line break in it, and otherwise is one external call.
\<close>

fun crlf_lines :: "string \<Rightarrow> string list" where
  "crlf_lines [] = [[]]"
| "crlf_lines [c] = [[c]]"
| "crlf_lines (c # d # s) =
     (if c = CHR 0x0D \<and> d = CHR 0x0A then [] # crlf_lines s
      else (case crlf_lines (d # s) of [] \<Rightarrow> [[c]] | l # ls \<Rightarrow> (c # l) # ls))"

fun join_lines :: "string list \<Rightarrow> string" where
  "join_lines [] = []"
| "join_lines [l] = l"
| "join_lines (l # ls) = l @ crlf @ join_lines ls"

definition header :: "string \<Rightarrow> string \<Rightarrow> string option" where
  "header name msg =
     map_option (\<lambda>l. trim_prefix l (name @ '': ''))
       (List.find (\<lambda>l. has_prefix l (name @ '': '')) (takeWhile (\<lambda>l. l \<noteq> []) (crlf_lines msg)))"

definition message_text :: "string \<Rightarrow> string" where
  "message_text msg = join_lines (tl (dropWhile (\<lambda>l. l \<noteq> []) (crlf_lines msg)))"

definition no_break :: "string \<Rightarrow> bool" where
  "no_break s \<longleftrightarrow> CHR 0x0D \<notin> set s \<and> CHR 0x0A \<notin> set s"

definition SendMail :: "env \<Rightarrow> string \<Rightarrow> string \<Rightarrow> string \<Rightarrow> unit io" where
  "SendMail E from email msg =
     (if no_break from \<and> no_break email
      then ext_call E (\<lambda>w. (Inr (), w\<lparr>mails := mails w @
        [(email, (case header ''Subject'' msg of None \<Rightarrow> [] | Some x \<Rightarrow> x), message_text msg)]\<rparr>))
      else fail (Driver ''smtp: A line must not contain CR or LF''))"

section \<open>The four messages\<close>

definition mailtrap_send :: "env \<Rightarrow> mailtrap \<Rightarrow> string \<Rightarrow> string \<Rightarrow> string \<Rightarrow> unit io" where
  "mailtrap_send E m email subject body = SendMail E (mp_email m) email (mail_message (mp_email m) email subject body)"

definition mailtrap_SendVerificationToken :: "env \<Rightarrow> mailtrap \<Rightarrow> string \<Rightarrow> string \<Rightarrow> unit io" where
  "mailtrap_SendVerificationToken E m email token = mailtrap_send E m email ''Verify your email'' (verifyAccountBody token)"

definition mailtrap_SendResetPassword :: "env \<Rightarrow> mailtrap \<Rightarrow> string \<Rightarrow> string \<Rightarrow> unit io" where
  "mailtrap_SendResetPassword E m email token = mailtrap_send E m email ''Reset Password'' (sendPasswordResetBody token)"

definition mailtrap_SendResetNotification :: "env \<Rightarrow> mailtrap \<Rightarrow> string \<Rightarrow> unit io" where
  "mailtrap_SendResetNotification E m email =
     mailtrap_send E m email ''Reset Password'' ''<h1>Alert, your password has been reset</h1>''"

definition mailtrap_SendShareNotification :: "env \<Rightarrow> mailtrap \<Rightarrow> string \<Rightarrow> string \<Rightarrow> unit io" where
  "mailtrap_SendShareNotification E m email token = mailtrap_send E m email ''Share gif'' (sendShareBody token)"

section \<open>What is read of a message\<close>

lemma crlf_lines_ne [simp]: "crlf_lines s \<noteq> []"
  by (induction s rule: crlf_lines.induct) (auto split: list.split)

lemma crlf_lines_line: "CHR 0x0D \<notin> set a \<Longrightarrow> crlf_lines (a @ crlf @ s) = a # crlf_lines s"
proof (induction a)
  case (Cons c a)
  then show ?case
    by (cases "a @ crlf @ s") (auto simp: crlf_def)
qed (simp add: crlf_def)

lemma join_crlf_lines: "join_lines (crlf_lines s) = s"
proof (induction s rule: crlf_lines.induct)
  case (3 c d s)
  show ?case
  proof (cases "c = CHR 0x0D \<and> d = CHR 0x0A")
    case True
    then show ?thesis
      using 3(1) by (cases "crlf_lines s") (auto simp: crlf_def)
  next
    case False
    then show ?thesis
      using 3(2) by (cases "crlf_lines (d # s)" rule: join_lines.cases) auto
  qed
qed simp_all

lemma message_read:
  assumes "no_break from" "no_break email" "no_break subject"
  shows "header ''Subject'' (mail_message from email subject body) = Some subject"
    "header ''To'' (mail_message from email subject body) = Some email"
    "message_text (mail_message from email subject body) = body @ crlf"
proof -
  have l: "crlf_lines (mail_message from email subject body) =
      [''From: '' @ from, ''To: '' @ email, ''Subject: '' @ subject, []] @ crlf_lines (body @ crlf)"
    using crlf_lines_line [of "''From: '' @ from"] crlf_lines_line [of "''To: '' @ email"]
      crlf_lines_line [of "''Subject: '' @ subject"] crlf_lines_line [of "[]"] assms
    by (simp add: mail_message_def no_break_def)
  show "header ''Subject'' (mail_message from email subject body) = Some subject"
    "header ''To'' (mail_message from email subject body) = Some email"
    by (simp_all add: header_def l has_prefix_def trim_prefix_def)
  show "message_text (mail_message from email subject body) = body @ crlf"
    by (simp add: message_text_def l join_crlf_lines)
qed

section \<open>The port\<close>

text \<open>
  What the email worker relies on: when nothing fails, a message to an address that the sender takes
  is one mail to that address, with the token in its text.
\<close>

definition one_mail :: "env \<Rightarrow> (string \<Rightarrow> bool) \<Rightarrow> (string \<Rightarrow> string \<Rightarrow> unit io) \<Rightarrow> bool" where
  "one_mail E takes send \<longleftrightarrow> (\<forall>email token w. no_faults E \<longrightarrow> takes email \<longrightarrow>
     (\<exists>subject body w'. send email token w = (Inr (), w') \<and> mails w' = mails w @ [(email, subject, body)] \<and>
        carries body token))"

locale email_sender =
  fixes E :: env and takes :: "string \<Rightarrow> bool"
    and verification :: "string \<Rightarrow> string \<Rightarrow> unit io" and reset :: "string \<Rightarrow> string \<Rightarrow> unit io"
    and share :: "string \<Rightarrow> string \<Rightarrow> unit io"
  assumes verification: "one_mail E takes verification" and reset: "one_mail E takes reset"
    and share: "one_mail E takes share"
begin

lemma all_sent:
  assumes "no_faults E" "takes email" "f \<in> {verification, reset, share}"
  shows "\<exists>subject body w'. f email token w = (Inr (), w') \<and> mails w' = mails w @ [(email, subject, body)] \<and>
    carries body token"
  using verification reset share assms unfolding one_mail_def by blast

end

interpretation smtp: email_sender E "\<lambda>_. True" "SendVerificationToken E" "SendResetPassword E" "SendShareNotification E" for E
  by unfold_locales (auto simp: one_mail_def SendVerificationToken_def SendResetPassword_def
      SendShareNotification_def DialAndSend_def ext_call_ok bodies_carry)

lemma mailtrap_one_mail:
  assumes "no_break subject" "\<And>token. carries (body token) token"
  shows "one_mail E (\<lambda>email. no_break email \<and> no_break (mp_email m))
    (\<lambda>email token. mailtrap_send E m email subject (body token))"
  using assms by (auto simp: one_mail_def mailtrap_send_def SendMail_def ext_call_ok message_read carries_left)

interpretation trap: email_sender E "\<lambda>email. no_break email \<and> no_break (mp_email m)"
  "mailtrap_SendVerificationToken E m" "mailtrap_SendResetPassword E m" "mailtrap_SendShareNotification E m" for E m
  unfolding mailtrap_SendVerificationToken_def mailtrap_SendResetPassword_def mailtrap_SendShareNotification_def
  by unfold_locales (rule mailtrap_one_mail; simp add: bodies_carry no_break_def)+

text \<open>
  Property C40. Either sender of the port delivers what the worker asks it to: when nothing fails, each
  of the messages that carry a token is one mail to the address, with the token in the text that the
  recipient reads, for Mailtrap as long as no address has a line break in it.
\<close>

theorem senders_deliver:
  assumes "no_faults E" "no_break email" "no_break (mp_email m)"
    and "f \<in> {SendVerificationToken E, SendResetPassword E, SendShareNotification E,
      mailtrap_SendVerificationToken E m, mailtrap_SendResetPassword E m, mailtrap_SendShareNotification E m}"
  shows "\<exists>subject body w'. f email token w = (Inr (), w') \<and> mails w' = mails w @ [(email, subject, body)] \<and>
    carries body token"
proof -
  have "f \<in> {SendVerificationToken E, SendResetPassword E, SendShareNotification E} \<or>
      f \<in> {mailtrap_SendVerificationToken E m, mailtrap_SendResetPassword E m, mailtrap_SendShareNotification E m}"
    using assms(4) by blast
  then show ?thesis
    using smtp.all_sent [OF assms(1) TrueI] trap.all_sent [OF assms(1), of email m] assms(2,3) by blast
qed

lemma senders_deliver_witness:
  "\<exists>subject body w'. mailtrap_SendShareNotification sample_env (NewMailtrap ''a@x'' ''u'' ''p'') ''b@x'' ''t'' (world_of 0 empty_db) =
     (Inr (), w') \<and> mails w' = mails (world_of 0 empty_db) @ [(''b@x'', subject, body)] \<and> carries body ''t''"
  by (rule senders_deliver [where E = sample_env and m = "NewMailtrap ''a@x'' ''u'' ''p''"]) (simp_all add: NewMailtrap_def no_break_def)

end
