(* ===== verification/Wiring.thy ===== *)
theory Wiring
  imports Processes Mailtrap
begin

text \<open>
  How the programs are put together: the structs of the repositories, services, handlers and workers
  with their constructors, and the composition of them in \<open>cmd/ffgif/main.go\<close>, \<open>Server\<close> of
  \<open>transport/http/server.go\<close> and \<open>cmd/worker/main.go\<close>. The pool (\<open>'p\<close>), the Redis client (\<open>'r\<close>), the
  two MinIO clients (\<open>'m\<close>), the connection to the broker (\<open>'b\<close>) and the validator (\<open>'v\<close>) are what
  \<open>Processes\<close> has opened. The services' theories run on one world and one environment; here that is
  shown of the two programs.
\<close>

section \<open>internal/infra\<close>

datatype 'p authRepo = AuthRepo (ar_db: 'p)
datatype 'p verifierRepo = VerifierRepo (vr_db: 'p)
datatype 'p reseterRepo = ReseterRepo (rr_db: 'p)
datatype 'p userRepo = UserRepo (usr_db: 'p)
datatype 'p anonUserRepo = AnonUserRepo (aur_db: 'p)
datatype 'p quotaRepo = QuotaRepo (qr_db: 'p)
datatype 'p anonQuotaRepo = AnonQuotaRepo (aqr_db: 'p)
datatype 'p gifRepo = GifRepo (gfr_db: 'p)
datatype 'p lastVideoRepo = LastVideoRepo (lvr_db: 'p)
datatype 'p jobRepo = JobRepo (jbr_db: 'p)
datatype 'p shareRepo = ShareRepo (shr_db: 'p)
datatype 'p friendRepo = FriendRepo (frr_db: 'p)
datatype 'p txManager = TxManager (txm_db: 'p)

definition NewAuthRepository :: "'p \<Rightarrow> 'p authRepo" where
  "NewAuthRepository pool = AuthRepo pool"

definition NewVerifierRepo :: "'p \<Rightarrow> 'p verifierRepo" where
  "NewVerifierRepo pool = VerifierRepo pool"

definition NewReseterRepo :: "'p \<Rightarrow> 'p reseterRepo" where
  "NewReseterRepo pool = ReseterRepo pool"

definition NewUserRepository :: "'p \<Rightarrow> 'p userRepo" where
  "NewUserRepository pool = UserRepo pool"

definition NewAnonUserRepository :: "'p \<Rightarrow> 'p anonUserRepo" where
  "NewAnonUserRepository pool = AnonUserRepo pool"

definition NewQuotaRepository :: "'p \<Rightarrow> 'p quotaRepo" where
  "NewQuotaRepository pool = QuotaRepo pool"

definition NewAnonQuotaRepository :: "'p \<Rightarrow> 'p anonQuotaRepo" where
  "NewAnonQuotaRepository pool = AnonQuotaRepo pool"

definition NewGifRepository :: "'p \<Rightarrow> 'p gifRepo" where
  "NewGifRepository pool = GifRepo pool"

definition NewLastVideoRepository :: "'p \<Rightarrow> 'p lastVideoRepo" where
  "NewLastVideoRepository pool = LastVideoRepo pool"

definition NewJobRepository :: "'p \<Rightarrow> 'p jobRepo" where
  "NewJobRepository pool = JobRepo pool"

definition NewShareRepository :: "'p \<Rightarrow> 'p shareRepo" where
  "NewShareRepository pool = ShareRepo pool"

definition NewFriendRepository :: "'p \<Rightarrow> 'p friendRepo" where
  "NewFriendRepository pool = FriendRepo pool"

definition NewTxManager :: "'p \<Rightarrow> 'p txManager" where
  "NewTxManager pool = TxManager pool"

text \<open>
  What a repository runs a statement on: the transaction its context carries, whatever pool that was
  begun on, or else its own pool.
\<close>

datatype ('t, 'p) executor = OnTx 't | OnPool 'p

definition getDBFromCtx :: "'t option \<Rightarrow> 'p \<Rightarrow> ('t, 'p) executor" where
  "getDBFromCtx ctx pool = (case ctx of Some t \<Rightarrow> OnTx t | None \<Rightarrow> OnPool pool)"

datatype 'r redis_cache = RedisCache (rc_client: 'r)
datatype 'r redis_limiter = RedisLimiter (rlm_client: 'r)

definition NewCache :: "'r \<Rightarrow> 'r redis_cache" where
  "NewCache client = RedisCache client"

definition redis_NewRateLimiter :: "'r \<Rightarrow> 'r redis_limiter" where
  "redis_NewRateLimiter client = RedisLimiter client"

record 'm storageRepo =
  stg_client :: 'm
  stg_presignedClient :: 'm
  stg_cnf :: minio_config

definition NewStorageRepository :: "'m \<Rightarrow> 'm \<Rightarrow> minio_config \<Rightarrow> 'm storageRepo" where
  "NewStorageRepository client presignedClient cnf =
     \<lparr>stg_client = client, stg_presignedClient = presignedClient, stg_cnf = cnf\<rparr>"

datatype 'm fmeg = Fmeg (fm_minio: "'m storageRepo")

definition NewFmeg :: "'m storageRepo \<Rightarrow> 'm fmeg" where
  "NewFmeg minioRepo = Fmeg minioRepo"

text \<open>The dialer of gomail by its host, port, user and password.\<close>

record smtp_mailer =
  sml_dialer :: "string \<times> int \<times> string \<times> string"
  sml_from :: string

definition NewSmtpMailer :: "config \<Rightarrow> smtp_mailer" where
  "NewSmtpMailer cnf =
     \<lparr>sml_dialer = (sm_Host (cf_SMTP cnf), sm_Port (cf_SMTP cnf), sm_User (cf_SMTP cnf), sm_Pass (cf_SMTP cnf)),
      sml_from = sm_User (cf_SMTP cnf)\<rparr>"

section \<open>pkg and middleware\<close>

datatype jwt_provider = Jwt (jwt_JwtSecretKey: string)

definition NewJwt :: "string \<Rightarrow> jwt_provider" where
  "NewJwt key = Jwt key"

record hasher =
  hs_Pepper :: string
  hs_Cost :: int

definition NewHasher :: "string \<Rightarrow> int \<Rightarrow> hasher" where
  "NewHasher pepper cost = \<lparr>hs_Pepper = pepper, hs_Cost = cost\<rparr>"

record 'r middlewares =
  mws_Cnf :: config
  mws_cache :: "'r redis_cache"
  mws_jwt :: jwt_provider

definition NewMiddlewares :: "config \<Rightarrow> 'r redis_cache \<Rightarrow> jwt_provider \<Rightarrow> 'r middlewares" where
  "NewMiddlewares cnf cache jwt = \<lparr>mws_Cnf = cnf, mws_cache = cache, mws_jwt = jwt\<rparr>"

record 'r rate_limiter =
  rlt_Client :: "'r redis_limiter"
  rlt_Rate :: int
  rlt_Capacity :: int

definition NewRateLimiter :: "'r redis_limiter \<Rightarrow> int \<Rightarrow> int \<Rightarrow> 'r rate_limiter" where
  "NewRateLimiter client rate capacity = \<lparr>rlt_Client = client, rlt_Rate = rate, rlt_Capacity = capacity\<rparr>"

section \<open>internal/app\<close>

record ('p, 'r, 'b) auth_service =
  as_authRepo :: "'p authRepo"
  as_verifierRepo :: "'p verifierRepo"
  as_profileRepo :: "'p userRepo"
  as_reseterRepo :: "'p reseterRepo"
  as_quotaRepo :: "'p quotaRepo"
  as_cache :: "'r redis_cache"
  as_queue :: 'b
  as_jwt :: jwt_provider
  as_hasher :: hasher
  as_tnx :: "'p txManager"

definition auth_NewService :: "'p authRepo \<Rightarrow> 'p verifierRepo \<Rightarrow> 'p userRepo \<Rightarrow> 'p reseterRepo \<Rightarrow>
    'p quotaRepo \<Rightarrow> 'r redis_cache \<Rightarrow> 'b \<Rightarrow> jwt_provider \<Rightarrow> hasher \<Rightarrow> 'p txManager \<Rightarrow> ('p, 'r, 'b) auth_service" where
  "auth_NewService authRepo verifierRepo profileRepo reseterRepo quotaRepo cache queue jwt hasher tnx =
     \<lparr>as_authRepo = authRepo, as_verifierRepo = verifierRepo, as_profileRepo = profileRepo,
      as_reseterRepo = reseterRepo, as_quotaRepo = quotaRepo, as_cache = cache, as_queue = queue,
      as_jwt = jwt, as_hasher = hasher, as_tnx = tnx\<rparr>"

text \<open>The map of the users' locks starts empty.\<close>

record ('p, 'r, 'm, 'b) media_service =
  ms_quotaRepo :: "'p quotaRepo"
  ms_gifRepo :: "'p gifRepo"
  ms_shareRepo :: "'p shareRepo"
  ms_lastVideoRepo :: "'p lastVideoRepo"
  ms_jobRepo :: "'p jobRepo"
  ms_storage :: "'m storageRepo"
  ms_tnx :: "'p txManager"
  ms_queue :: 'b
  ms_cache :: "'r redis_cache"
  ms_processor :: "'m fmeg"
  ms_cnf :: config
  ms_userConvertMu :: "string set"

definition media_NewService :: "'p quotaRepo \<Rightarrow> 'p gifRepo \<Rightarrow> 'p shareRepo \<Rightarrow> 'p lastVideoRepo \<Rightarrow>
    'p jobRepo \<Rightarrow> 'm storageRepo \<Rightarrow> 'p txManager \<Rightarrow> 'b \<Rightarrow> 'r redis_cache \<Rightarrow> 'm fmeg \<Rightarrow> config \<Rightarrow>
    ('p, 'r, 'm, 'b) media_service" where
  "media_NewService quotaRepo gifRepo shareRepo lastVideoRepo jobRepo storage tnx queue cache processor cnf =
     \<lparr>ms_quotaRepo = quotaRepo, ms_gifRepo = gifRepo, ms_shareRepo = shareRepo,
      ms_lastVideoRepo = lastVideoRepo, ms_jobRepo = jobRepo, ms_storage = storage, ms_tnx = tnx,
      ms_queue = queue, ms_cache = cache, ms_processor = processor, ms_cnf = cnf, ms_userConvertMu = {}\<rparr>"

record ('p, 'm, 'b) share_service =
  ss_authRepo :: "'p authRepo"
  ss_gifRepo :: "'p gifRepo"
  ss_shareRepo :: "'p shareRepo"
  ss_storage :: "'m storageRepo"
  ss_queue :: 'b

definition share_NewService :: "'p authRepo \<Rightarrow> 'p gifRepo \<Rightarrow> 'p shareRepo \<Rightarrow> 'm storageRepo \<Rightarrow> 'b \<Rightarrow>
    ('p, 'm, 'b) share_service" where
  "share_NewService authRepo gifRepo shareRepo storage queue =
     \<lparr>ss_authRepo = authRepo, ss_gifRepo = gifRepo, ss_shareRepo = shareRepo, ss_storage = storage,
      ss_queue = queue\<rparr>"

datatype 'p friend_service = FriendService (fs_repo: "'p friendRepo")

definition friend_NewService :: "'p friendRepo \<Rightarrow> 'p friend_service" where
  "friend_NewService repo = FriendService repo"

record 'p user_service =
  us_userRepo :: "'p userRepo"
  us_quotaRepo :: "'p quotaRepo"
  us_authRepo :: "'p authRepo"
  us_tnx :: "'p txManager"
  us_hasher :: hasher

definition user_NewService :: "'p userRepo \<Rightarrow> 'p quotaRepo \<Rightarrow> 'p authRepo \<Rightarrow> 'p txManager \<Rightarrow> hasher \<Rightarrow>
    'p user_service" where
  "user_NewService userRepo quotaRepo authRepo tnx hasher =
     \<lparr>us_userRepo = userRepo, us_quotaRepo = quotaRepo, us_authRepo = authRepo, us_tnx = tnx,
      us_hasher = hasher\<rparr>"

section \<open>internal/transport/http\<close>

text \<open>The handlers over each service have the same three fields.\<close>

record ('s, 'r, 'v) http_handler =
  hd_srv :: 's
  hd_middlewares :: "'r middlewares"
  hd_validate :: 'v

definition auth_NewHandler :: "('p, 'r, 'b) auth_service \<Rightarrow> 'r middlewares \<Rightarrow> 'v \<Rightarrow>
    (('p, 'r, 'b) auth_service, 'r, 'v) http_handler" where
  "auth_NewHandler srv middlewares validate =
     \<lparr>hd_srv = srv, hd_middlewares = middlewares, hd_validate = validate\<rparr>"

definition media_NewHandler :: "('p, 'r, 'm, 'b) media_service \<Rightarrow> 'r middlewares \<Rightarrow> 'v \<Rightarrow>
    (('p, 'r, 'm, 'b) media_service, 'r, 'v) http_handler" where
  "media_NewHandler srv middlewares validate =
     \<lparr>hd_srv = srv, hd_middlewares = middlewares, hd_validate = validate\<rparr>"

definition share_NewHandler :: "('p, 'm, 'b) share_service \<Rightarrow> 'r middlewares \<Rightarrow> 'v \<Rightarrow>
    (('p, 'm, 'b) share_service, 'r, 'v) http_handler" where
  "share_NewHandler srv middlewares validate =
     \<lparr>hd_srv = srv, hd_middlewares = middlewares, hd_validate = validate\<rparr>"

definition friend_NewHandler :: "'p friend_service \<Rightarrow> 'r middlewares \<Rightarrow> 'v \<Rightarrow>
    ('p friend_service, 'r, 'v) http_handler" where
  "friend_NewHandler srv middlewares validate =
     \<lparr>hd_srv = srv, hd_middlewares = middlewares, hd_validate = validate\<rparr>"

definition user_NewHandler :: "'p user_service \<Rightarrow> 'r middlewares \<Rightarrow> 'v \<Rightarrow>
    ('p user_service, 'r, 'v) http_handler" where
  "user_NewHandler srv middlewares validate =
     \<lparr>hd_srv = srv, hd_middlewares = middlewares, hd_validate = validate\<rparr>"

record ('p, 'r, 'm, 'b) static_handler =
  sh_storage :: "'m storageRepo"
  sh_db :: 'p
  sh_queue :: 'b
  sh_cache :: "'r redis_cache"

definition static_NewHandler :: "'m storageRepo \<Rightarrow> 'p \<Rightarrow> 'b \<Rightarrow> 'r redis_cache \<Rightarrow> ('p, 'r, 'm, 'b) static_handler" where
  "static_NewHandler storage pool queue cache =
     \<lparr>sh_storage = storage, sh_db = pool, sh_queue = queue, sh_cache = cache\<rparr>"

record ('p, 'r, 'm, 'b, 'v) http_server =
  sv_AuthHandler :: "(('p, 'r, 'b) auth_service, 'r, 'v) http_handler"
  sv_MediaHandler :: "(('p, 'r, 'm, 'b) media_service, 'r, 'v) http_handler"
  sv_ShareHandler :: "(('p, 'm, 'b) share_service, 'r, 'v) http_handler"
  sv_FriendHandler :: "('p friend_service, 'r, 'v) http_handler"
  sv_UserHandler :: "('p user_service, 'r, 'v) http_handler"
  sv_staticHandler :: "('p, 'r, 'm, 'b) static_handler"

definition NewServer ::
  "(('p, 'r, 'b) auth_service, 'r, 'v) http_handler \<Rightarrow> (('p, 'r, 'm, 'b) media_service, 'r, 'v) http_handler \<Rightarrow>
   (('p, 'm, 'b) share_service, 'r, 'v) http_handler \<Rightarrow> ('p friend_service, 'r, 'v) http_handler \<Rightarrow>
   ('p user_service, 'r, 'v) http_handler \<Rightarrow> ('p, 'r, 'm, 'b) static_handler \<Rightarrow> ('p, 'r, 'm, 'b, 'v) http_server" where
  "NewServer AuthHandler MediaHandler ShareHandler FriendHandler UserHandler staticHandler =
     \<lparr>sv_AuthHandler = AuthHandler, sv_MediaHandler = MediaHandler, sv_ShareHandler = ShareHandler,
      sv_FriendHandler = FriendHandler, sv_UserHandler = UserHandler, sv_staticHandler = staticHandler\<rparr>"

section \<open>internal/worker\<close>

text \<open>The retries of a worker are never read.\<close>

record ('b, 's) worker =
  wk_client :: 'b
  wk_srv :: 's
  wk_maxRetries :: int

definition NewEmailWorker :: "'b \<Rightarrow> smtp_mailer \<Rightarrow> ('b, smtp_mailer) worker" where
  "NewEmailWorker client mailer = \<lparr>wk_client = client, wk_srv = mailer, wk_maxRetries = 3\<rparr>"

definition NewVideoWorker :: "('p, 'r, 'm, 'b) media_service \<Rightarrow> 'b \<Rightarrow> ('b, ('p, 'r, 'm, 'b) media_service) worker" where
  "NewVideoWorker srv client = \<lparr>wk_client = client, wk_srv = srv, wk_maxRetries = 2\<rparr>"

definition NewSaveVideoWorker :: "'b \<Rightarrow> ('p, 'r, 'm, 'b) media_service \<Rightarrow> ('b, ('p, 'r, 'm, 'b) media_service) worker" where
  "NewSaveVideoWorker client srv = \<lparr>wk_client = client, wk_srv = srv, wk_maxRetries = 3\<rparr>"

definition NewProcessingWorker :: "('p, 'r, 'm, 'b) media_service \<Rightarrow> 'b \<Rightarrow> ('b, ('p, 'r, 'm, 'b) media_service) worker" where
  "NewProcessingWorker srv client = \<lparr>wk_client = client, wk_srv = srv, wk_maxRetries = 2\<rparr>"

section \<open>cmd/ffgif and cmd/worker\<close>

text \<open>What a main has opened.\<close>

record ('p, 'r, 'm, 'b) clients =
  cl_dbConn :: 'p
  cl_redis :: 'r
  cl_minio :: 'm
  cl_presigned :: 'm
  cl_rabbitMq :: 'b

text \<open>The server, and the store its rate limiter runs on.\<close>

definition ffgif_wired :: "config \<Rightarrow> ('p, 'r, 'm, 'b) clients \<Rightarrow> 'v \<Rightarrow> ('p, 'r, 'm, 'b, 'v) http_server \<times> 'r redis_limiter" where
  "ffgif_wired cnf c validate =
     (let dbConn = cl_dbConn c; rabbitMq = cl_rabbitMq c;
          cacheRepo = NewCache (cl_redis c);
          limiterRepo = redis_NewRateLimiter (cl_redis c);
          storageRepo = NewStorageRepository (cl_minio c) (cl_presigned c) (cf_Minio cnf);
          authRepo = NewAuthRepository dbConn;
          userRepo = NewUserRepository dbConn;
          verifierRepo = NewVerifierRepo dbConn;
          reseterRepo = NewReseterRepo dbConn;
          quotaRepo = NewQuotaRepository dbConn;
          lastUploadRepo = NewLastVideoRepository dbConn;
          gifRepo = NewGifRepository dbConn;
          shareRepo = NewShareRepository dbConn;
          friendRepo = NewFriendRepository dbConn;
          jobRepo = NewJobRepository dbConn;
          jwtProvider = NewJwt (cf_JwtSecret cnf);
          hasher = NewHasher (cf_HashPepper cnf) (cf_BcryptCost cnf);
          middlewares = NewMiddlewares cnf cacheRepo jwtProvider;
          ffmpeg = NewFmeg storageRepo;
          tnx = NewTxManager dbConn;
          authService = auth_NewService authRepo verifierRepo userRepo reseterRepo quotaRepo cacheRepo
            rabbitMq jwtProvider hasher tnx;
          mediaService = media_NewService quotaRepo gifRepo shareRepo lastUploadRepo jobRepo storageRepo
            tnx rabbitMq cacheRepo ffmpeg cnf;
          shareService = share_NewService authRepo gifRepo shareRepo storageRepo rabbitMq;
          friendService = friend_NewService friendRepo;
          userService = user_NewService userRepo quotaRepo authRepo tnx hasher
      in (NewServer (auth_NewHandler authService middlewares validate)
            (media_NewHandler mediaService middlewares validate)
            (share_NewHandler shareService middlewares validate)
            (friend_NewHandler friendService middlewares validate)
            (user_NewHandler userService middlewares validate)
            (static_NewHandler storageRepo dbConn rabbitMq cacheRepo), limiterRepo))"

text \<open>The limiter and the origins that \<open>Start\<close> sets up before it registers the routes.\<close>

definition server_limiter :: "'r redis_limiter \<Rightarrow> 'r rate_limiter" where
  "server_limiter rate = NewRateLimiter rate 20 35"

text \<open>The four workers, each with the name it consumes by and how many handlers it may run.\<close>

record ('p, 'r, 'm, 'b) workers =
  ws_email :: "('b, smtp_mailer) worker \<times> string \<times> nat"
  ws_convert :: "('b, ('p, 'r, 'm, 'b) media_service) worker \<times> string \<times> nat"
  ws_save :: "('b, ('p, 'r, 'm, 'b) media_service) worker \<times> string \<times> nat"
  ws_processing :: "('b, ('p, 'r, 'm, 'b) media_service) worker \<times> string \<times> nat"

definition worker_wired :: "config \<Rightarrow> ('p, 'r, 'm, 'b) clients \<Rightarrow> ('p, 'r, 'm, 'b) workers" where
  "worker_wired cnf c =
     (let mailer = NewSmtpMailer cnf;
          dbConn = cl_dbConn c; rabbitMq = cl_rabbitMq c;
          cacheRepo = NewCache (cl_redis c);
          storageRepo = NewStorageRepository (cl_minio c) (cl_presigned c) (cf_Minio cnf);
          quotaRepo = NewQuotaRepository dbConn;
          shareRepo = NewShareRepository dbConn;
          lastUploadRepo = NewLastVideoRepository dbConn;
          gifRepo = NewGifRepository dbConn;
          jobRepo = NewJobRepository dbConn;
          ffmpeg = NewFmeg storageRepo;
          tnx = NewTxManager dbConn;
          mediaService = media_NewService quotaRepo gifRepo shareRepo lastUploadRepo jobRepo storageRepo
            tnx rabbitMq cacheRepo ffmpeg cnf
      in \<lparr>ws_email = (NewEmailWorker rabbitMq mailer, ''email-worker'', 10),
          ws_convert = (NewVideoWorker mediaService rabbitMq, ''convert-worker'', 2),
          ws_save = (NewSaveVideoWorker rabbitMq mediaService, ''save-worker'', 5),
          ws_processing = (NewProcessingWorker mediaService rabbitMq, ''processing-worker'', 3)\<rparr>)"

section \<open>One world, one environment\<close>

text \<open>The pools that a service's statements and its transactions run on.\<close>

definition auth_pools :: "('p, 'r, 'b) auth_service \<Rightarrow> 'p set" where
  "auth_pools s = {ar_db (as_authRepo s), vr_db (as_verifierRepo s), usr_db (as_profileRepo s),
     rr_db (as_reseterRepo s), qr_db (as_quotaRepo s), txm_db (as_tnx s)}"

definition media_pools :: "('p, 'r, 'm, 'b) media_service \<Rightarrow> 'p set" where
  "media_pools s = {qr_db (ms_quotaRepo s), gfr_db (ms_gifRepo s), shr_db (ms_shareRepo s),
     lvr_db (ms_lastVideoRepo s), jbr_db (ms_jobRepo s), txm_db (ms_tnx s)}"

definition share_pools :: "('p, 'm, 'b) share_service \<Rightarrow> 'p set" where
  "share_pools s = {ar_db (ss_authRepo s), gfr_db (ss_gifRepo s), shr_db (ss_shareRepo s)}"

definition user_pools :: "'p user_service \<Rightarrow> 'p set" where
  "user_pools s = {usr_db (us_userRepo s), qr_db (us_quotaRepo s), ar_db (us_authRepo s), txm_db (us_tnx s)}"

definition server_pools :: "('p, 'r, 'm, 'b, 'v) http_server \<Rightarrow> 'p set" where
  "server_pools S = auth_pools (hd_srv (sv_AuthHandler S)) \<union> media_pools (hd_srv (sv_MediaHandler S)) \<union>
     share_pools (hd_srv (sv_ShareHandler S)) \<union> {frr_db (fs_repo (hd_srv (sv_FriendHandler S)))} \<union>
     user_pools (hd_srv (sv_UserHandler S)) \<union> {sh_db (sv_staticHandler S)}"

definition server_middlewares :: "('p, 'r, 'm, 'b, 'v) http_server \<Rightarrow> 'r middlewares set" where
  "server_middlewares S = {hd_middlewares (sv_AuthHandler S), hd_middlewares (sv_MediaHandler S),
     hd_middlewares (sv_ShareHandler S), hd_middlewares (sv_FriendHandler S), hd_middlewares (sv_UserHandler S)}"

lemmas infra_defs = NewAuthRepository_def NewUserRepository_def NewVerifierRepo_def NewReseterRepo_def
  NewQuotaRepository_def NewLastVideoRepository_def NewGifRepository_def NewShareRepository_def
  NewFriendRepository_def NewJobRepository_def NewTxManager_def NewCache_def redis_NewRateLimiter_def
  NewStorageRepository_def NewFmeg_def NewSmtpMailer_def NewJwt_def NewHasher_def NewMiddlewares_def

lemmas service_defs = auth_NewService_def media_NewService_def share_NewService_def friend_NewService_def
  user_NewService_def

lemmas handler_defs = auth_NewHandler_def media_NewHandler_def share_NewHandler_def friend_NewHandler_def
  user_NewHandler_def static_NewHandler_def NewServer_def

lemmas worker_defs = NewEmailWorker_def NewVideoWorker_def NewSaveVideoWorker_def NewProcessingWorker_def

lemmas wired_defs = ffgif_wired_def worker_wired_def Let_def prod.case infra_defs service_defs
  handler_defs worker_defs

lemma server_pools_wired: "server_pools (fst (ffgif_wired cnf c v)) = {cl_dbConn c}"
  by (simp add: server_pools_def auth_pools_def media_pools_def share_pools_def user_pools_def wired_defs)

lemma server_middlewares_wired:
  "server_middlewares (fst (ffgif_wired cnf c v)) = {NewMiddlewares cnf (NewCache (cl_redis c)) (NewJwt (cf_JwtSecret cnf))}"
  by (simp add: server_middlewares_def wired_defs)


end
