(* ===== verification/Pg_Anon.thy ===== *)
theory Pg_Anon
  imports Pg_User
begin

text \<open>
  The repositories of anonymous users in \<open>internal/infra/postgres/user_repo.go\<close> and \<open>quota_repo.go\<close>,
  over the tables \<open>anon_users\<close>, \<open>anon_profiles\<close> and \<open>anon_quota\<close>. No service holds one, so their
  statements run in no transaction, and the tables are a state of their own beside the world.
\<close>

record anon_user =
  au_Id :: uuid
  au_Username :: string
  au_Fullname :: string

record anon_db =
  an_users :: "anon_user list"
  an_profiles :: "user_profile list"
  an_quota :: "user_quota list"

text \<open>One statement: a result, and the tables after it, under the fault plan of every external call.\<close>

definition anon_exec :: "env \<Rightarrow> (anon_db \<Rightarrow> ('a \<times> anon_db) result) \<Rightarrow> world \<times> anon_db \<Rightarrow> 'a result \<times> world \<times> anon_db" where
  "anon_exec E stmt s =
     (case s of (w, a) \<Rightarrow>
        (case fault E (calls w) of
           FailBefore e \<Rightarrow> (Inl (Driver e), tick w, a)
         | FailAfter e \<Rightarrow> (Inl (Driver e), tick w, case stmt a of Inl _ \<Rightarrow> a | Inr (_, a') \<Rightarrow> a')
         | NoFault \<Rightarrow> (case stmt a of Inl e \<Rightarrow> (Inl e, tick w, a) | Inr (x, a') \<Rightarrow> (Inr x, tick w, a'))))"

definition anon_insert :: "('r \<Rightarrow> uuid) \<Rightarrow> 'r list \<Rightarrow> 'r \<Rightarrow> anon_db \<Rightarrow> ('r list) result" where
  "anon_insert uid rows r a =
     (if list_ex (\<lambda>x. uid x = uid r) rows then Inl (Driver ''23505'')
      else if \<not> list_ex (\<lambda>u. au_Id u = uid r) (an_users a) then Inl (Driver ''23503'')
      else Inr (rows @ [r]))"

section \<open>anonUserRepo\<close>

text \<open>
  The three columns that are selected; the other fields of the response keep Go's zero values, the
  zero time written 0.
\<close>

definition anon_GetProfile :: "env \<Rightarrow> string \<Rightarrow> world \<times> anon_db \<Rightarrow> profile_response result \<times> world \<times> anon_db" where
  "anon_GetProfile E ident = anon_exec E (\<lambda>a. with_uuid E ident (\<lambda>i.
     case (List.find (\<lambda>u. au_Id u = i) (an_users a), List.find (\<lambda>p. p_UserId p = i) (an_profiles a)) of
       (Some u, Some p) \<Rightarrow> Inr (\<lparr>pr_ProfilePic = p_ProfilePic p, pr_Username = au_Username u,
         pr_Fullname = au_Fullname u, pr_Email = [], pr_IsVerified = False, pr_UpdatedAt = 0\<rparr>, a)
     | _ \<Rightarrow> Inl SqlNoRows))"

definition anon_SetProfile :: "env \<Rightarrow> uuid \<Rightarrow> string \<Rightarrow> world \<times> anon_db \<Rightarrow> unit result \<times> world \<times> anon_db" where
  "anon_SetProfile E userId pic s =
     (let (i, w1) = next_serial (fst s);
          p = \<lparr>p_Id = i, p_UserId = userId, p_ProfilePic = pic, p_CreatedAt = now w1, p_UpdatedAt = now w1\<rparr>
      in anon_exec E (\<lambda>a. case anon_insert p_UserId (an_profiles a) p a of
           Inl e \<Rightarrow> Inl e | Inr ps \<Rightarrow> Inr ((), a\<lparr>an_profiles := ps\<rparr>)) (w1, snd s))"

section \<open>anonQuotaRepo\<close>

definition anon_quota_Create :: "env \<Rightarrow> uuid \<Rightarrow> world \<times> anon_db \<Rightarrow> unit result \<times> world \<times> anon_db" where
  "anon_quota_Create E userId s =
     (let (i, w1) = next_serial (fst s);
          q = \<lparr>q_ID = i, q_UserID = userId, q_UsedBytes = 0, q_TotalBytes = 104857600, q_GifCount = 0, q_GitLimit = 10\<rparr>
      in anon_exec E (\<lambda>a. case anon_insert q_UserID (an_quota a) q a of
           Inl e \<Rightarrow> Inl e | Inr qs \<Rightarrow> Inr ((), a\<lparr>an_quota := qs\<rparr>)) (w1, snd s))"

definition anon_quota_GetById :: "env \<Rightarrow> string \<Rightarrow> world \<times> anon_db \<Rightarrow> user_quota result \<times> world \<times> anon_db" where
  "anon_quota_GetById E userId = anon_exec E (\<lambda>a. with_uuid E userId (\<lambda>i.
     case List.find (\<lambda>q. q_UserID q = i) (an_quota a) of None \<Rightarrow> Inl SqlNoRows | Some q \<Rightarrow> Inr (q, a)))"

section \<open>What they keep\<close>

text \<open>
  One profile and one quota to an anonymous user, and each with its user: as nothing in the program
  inserts into \<open>anon_users\<close>, a table that is empty there stays empty here.
\<close>

definition anon_ok :: "anon_db \<Rightarrow> bool" where
  "anon_ok a \<longleftrightarrow> distinct (map p_UserId (an_profiles a)) \<and> p_UserId ` set (an_profiles a) \<subseteq> au_Id ` set (an_users a) \<and>
     distinct (map q_UserID (an_quota a)) \<and> q_UserID ` set (an_quota a) \<subseteq> au_Id ` set (an_users a)"

lemma anon_insert_Inr: "anon_insert uid rows r a = Inr rs \<longleftrightarrow>
    rs = rows @ [r] \<and> (\<forall>x\<in>set rows. uid x \<noteq> uid r) \<and> (\<exists>u\<in>set (an_users a). au_Id u = uid r)"
  by (auto simp: anon_insert_def list_ex_iff)

lemma anon_insert_ok:
  assumes "anon_insert uid rows r a = Inr rs" "distinct (map uid rows)" "uid ` set rows \<subseteq> au_Id ` set (an_users a)"
  shows "distinct (map uid rs) \<and> uid ` set rs \<subseteq> au_Id ` set (an_users a)"
  using assms by (force simp: anon_insert_Inr)

lemma anon_ok_insert:
  "anon_ok a \<Longrightarrow> anon_insert p_UserId (an_profiles a) p a = Inr ps \<Longrightarrow> anon_ok (a\<lparr>an_profiles := ps\<rparr>)"
  "anon_ok a \<Longrightarrow> anon_insert q_UserID (an_quota a) q a = Inr qs \<Longrightarrow> anon_ok (a\<lparr>an_quota := qs\<rparr>)"
  using anon_insert_ok [of p_UserId "an_profiles a" p a ps] anon_insert_ok [of q_UserID "an_quota a" q a qs]
  by (simp_all add: anon_ok_def)

lemma anon_exec_keeps:
  assumes "\<And>x a'. stmt a = Inr (x, a') \<Longrightarrow> P a'" "P a"
  shows "P (snd (snd (anon_exec E stmt (w, a))))"
  using assms by (auto simp: anon_exec_def split: fault.split sum.split)

lemma anon_repositories_keep:
  assumes "anon_ok a"
  shows "anon_ok (snd (snd (anon_SetProfile E u pic (w, a))))" "anon_ok (snd (snd (anon_quota_Create E u (w, a))))"
    and "anon_ok (snd (snd (anon_GetProfile E s (w, a))))" "anon_ok (snd (snd (anon_quota_GetById E s (w, a))))"
proof -
  show "anon_ok (snd (snd (anon_SetProfile E u pic (w, a))))"
    unfolding anon_SetProfile_def Let_def split_def snd_conv
    by (rule anon_exec_keeps)
      (use assms in \<open>auto intro: anon_ok_insert split: sum.splits\<close>)
  show "anon_ok (snd (snd (anon_quota_Create E u (w, a))))"
    unfolding anon_quota_Create_def Let_def split_def snd_conv
    by (rule anon_exec_keeps)
      (use assms in \<open>auto intro: anon_ok_insert split: sum.splits\<close>)
  show "anon_ok (snd (snd (anon_GetProfile E s (w, a))))" "anon_ok (snd (snd (anon_quota_GetById E s (w, a))))"
    unfolding anon_GetProfile_def anon_quota_GetById_def
    by (rule anon_exec_keeps, use assms in \<open>auto simp: with_uuid_Inr split: option.splits\<close>)+
qed

lemma anon_tables_stay_empty:
  assumes "anon_ok a" "an_users a = []"
  shows "an_profiles a = [] \<and> an_quota a = []"
  using assms by (auto simp: anon_ok_def)

lemma anon_quota_Create_GetById:
  assumes "anon_quota_Create E u (w, a) = (Inr (), w', a')" "pg_uuid_in E s = Some u" "fault E (calls w') = NoFault"
  shows "\<exists>q. fst (anon_quota_GetById E s (w', a')) = Inr q \<and> q_UserID q = u \<and> q_UsedBytes q = 0 \<and> q_GitLimit q = 10"
proof -
  from assms(1) obtain q where a': "an_quota a' = an_quota a @ [q]" and q: "q_UserID q = u" "q_UsedBytes q = 0" "q_GitLimit q = 10"
    and new: "\<forall>x\<in>set (an_quota a). q_UserID x \<noteq> u"
    by (auto simp: anon_quota_Create_def anon_exec_def Let_def split_def anon_insert_Inr
        split: fault.splits sum.splits)
  have "List.find (\<lambda>q. q_UserID q = u) (xs @ [q]) = Some q" if "\<forall>x\<in>set xs. q_UserID x \<noteq> u" for xs
    using that q(1) by (induction xs) auto
  from this [OF new] have "List.find (\<lambda>q. q_UserID q = u) (an_quota a') = Some q" by (simp add: a')
  with q assms(2,3) show ?thesis by (simp add: anon_quota_GetById_def anon_exec_def with_uuid_def)
qed

end
