(* ===== verification/Threads.thy ===== *)
theory Threads
  imports World "HOL-Library.Multiset"
begin

text \<open>
  Requests that overlap. A thread is what is left of an operation: its result, or the next call of an
  external system, which is atomic, and what follows it. The combinators mirror those of \<open>World\<close>, and
  a thread that runs alone is the operation (\<open>run_thread\<close>); threads of several requests take
  their calls in any order (\<open>interleave\<close>).
\<close>

section \<open>Threads\<close>

datatype 'a thread = Finished "'a result" | Perform "world \<Rightarrow> 'a thread \<times> world"

lemma thread_induct [case_names Finished Perform]:
  assumes "\<And>r. P (Finished r)" "\<And>f. (\<And>w t w'. f w = (t, w') \<Longrightarrow> P t) \<Longrightarrow> P (Perform f)"
  shows "P t"
proof (induction t)
  case (Perform f)
  have "P t" if "f w = (t, w')" for w t w'
  proof (rule Perform)
    show "(t, w') \<in> range f" using that by (metis rangeI)
  qed (simp add: prod_set_defs)
  then show ?case by (rule assms(2))
qed (rule assms(1))

definition atomic :: "'a io \<Rightarrow> 'a thread" where
  "atomic m = Perform (\<lambda>w. case m w of (r, w') \<Rightarrow> (Finished r, w'))"

primrec then_thread :: "'a thread \<Rightarrow> ('a result \<Rightarrow> 'b thread) \<Rightarrow> 'b thread" where
  "then_thread (Finished r) k = k r"
| "then_thread (Perform f) k = Perform (\<lambda>w. map_prod (\<lambda>t. then_thread t k) (\<lambda>w. w) (f w))"

definition t_call :: "'a thread \<Rightarrow> (goerr \<Rightarrow> 'b thread) \<Rightarrow> ('a \<Rightarrow> 'b thread) \<Rightarrow> 'b thread" where
  "t_call m h k = then_thread m (\<lambda>r. case r of
     Inl e \<Rightarrow> if is_panic e then Finished (Inl e) else h e
   | Inr x \<Rightarrow> k x)"

primrec run_thread :: "'a thread \<Rightarrow> 'a io" where
  "run_thread (Finished r) = Pair r"
| "run_thread (Perform f) = (\<lambda>w. case map_prod run_thread (\<lambda>w. w) (f w) of (g, w') \<Rightarrow> g w')"

lemma run_atomic [simp]: "run_thread (atomic m) = m"
  by (rule ext) (simp add: atomic_def split: prod.split)

lemma run_then:
  "run_thread (then_thread t k) w = (case run_thread t w of (r, w') \<Rightarrow> run_thread (k r) w')"
proof (induction t arbitrary: w rule: thread_induct)
  case (Perform f)
  obtain t w1 where f: "f w = (t, w1)" by fastforce
  show ?case using Perform [OF f] by (simp add: f)
qed simp

lemma run_call [simp]:
  "run_thread (t_call m h k) = call (run_thread m) (\<lambda>e. run_thread (h e)) (\<lambda>x. run_thread (k x))"
  by (rule ext) (auto simp: t_call_def run_then call_def split: prod.split sum.split)

abbreviation t_ret :: "'a \<Rightarrow> 'a thread" where
  "t_ret x \<equiv> Finished (Inr x)"

abbreviation t_fail :: "goerr \<Rightarrow> 'a thread" where
  "t_fail e \<equiv> Finished (Inl e)"

declare run_thread.simps(1) [simp del]

lemma run_ends [simp]: "run_thread (t_ret x) = ret x" "run_thread (t_fail e) = fail e"
  by (auto simp: ret_def fail_def run_thread.simps(1))

definition t_attempt :: "'a thread \<Rightarrow> ('a result \<Rightarrow> 'b thread) \<Rightarrow> 'b thread" where
  "t_attempt m k = then_thread m (\<lambda>r. case r of
     Inl e \<Rightarrow> if is_panic e then Finished (Inl e) else k r
   | Inr _ \<Rightarrow> k r)"

lemma run_attempt [simp]:
  "run_thread (t_attempt m k) = attempt (run_thread m) (\<lambda>r. run_thread (k r))"
  by (rule ext) (auto simp: t_attempt_def run_then attempt_def run_thread.simps(1) split: prod.split sum.split)

text \<open>A step within the program: reading the clock, drawing random bytes.\<close>

definition t_at_now :: "(timestamp \<Rightarrow> 'a thread) \<Rightarrow> 'a thread" where
  "t_at_now k = Perform (\<lambda>w. (k (now w), w))"

definition t_draw :: "(world \<Rightarrow> 'b \<times> world) \<Rightarrow> ('b \<Rightarrow> 'a thread) \<Rightarrow> 'a thread" where
  "t_draw d k = Perform (\<lambda>w. map_prod k (\<lambda>w. w) (d w))"

lemma run_at_now [simp]: "run_thread (t_at_now k) = at_now (\<lambda>n. run_thread (k n))"
  by (rule ext) (simp add: t_at_now_def at_now_def)

lemma run_draw [simp]: "run_thread (t_draw d k) = (\<lambda>w. case d w of (x, w') \<Rightarrow> run_thread (k x) w')"
  by (rule ext) (simp add: t_draw_def split: prod.split)

lemma run_branches [simp]:
  "run_thread (if b then t else u) = (if b then run_thread t else run_thread u)"
  "run_thread (case_option t f x) = case_option (run_thread t) (\<lambda>y. run_thread (f y)) x"
  "run_thread (case_sum h g r) = case_sum (\<lambda>e. run_thread (h e)) (\<lambda>y. run_thread (g y)) r"
  by (simp_all split: option.split sum.split)

section \<open>Interleaving\<close>

text \<open>The threads of the requests in hand, each of which may take the next step.\<close>

inductive interleave :: "'a thread list \<times> world \<Rightarrow> 'a thread list \<times> world \<Rightarrow> bool" where
  Turn: "i < length ts \<Longrightarrow> ts ! i = Perform f \<Longrightarrow> f w = (t, w') \<Longrightarrow> interleave (ts, w) (ts[i := t], w')"

inductive_cases interleaveE: "interleave (ts, w) c"

abbreviation interleaves :: "'a thread list \<times> world \<Rightarrow> 'a thread list \<times> world \<Rightarrow> bool" where
  "interleaves \<equiv> interleave\<^sup>*\<^sup>*"

text \<open>A property of the world that every call of a thread keeps.\<close>

inductive calls_keep :: "(world \<Rightarrow> bool) \<Rightarrow> 'a thread \<Rightarrow> bool" for P where
  Finished: "calls_keep P (Finished r)"
| Perform: "(\<And>w. P w \<Longrightarrow> calls_keep P (fst (f w)) \<and> P (snd (f w))) \<Longrightarrow> calls_keep P (Perform f)"

inductive_simps calls_keep_simps [simp]: "calls_keep P (Finished r)" "calls_keep P (Perform f)"

lemma calls_keep_atomic: "keeps P m \<Longrightarrow> calls_keep P (atomic m)"
  by (auto simp: atomic_def keeps_def split: prod.split)

lemma calls_keep_then: "calls_keep P t \<Longrightarrow> (\<And>r. calls_keep P (k r)) \<Longrightarrow> calls_keep P (then_thread t k)"
  by (induction t rule: calls_keep.induct) (simp_all add: map_prod_def split_beta)

lemma calls_keep_call:
  "calls_keep P m \<Longrightarrow> (\<And>e. calls_keep P (h e)) \<Longrightarrow> (\<And>x. calls_keep P (k x)) \<Longrightarrow> calls_keep P (t_call m h k)"
  unfolding t_call_def by (rule calls_keep_then) (auto split: sum.split)

lemma interleave_keep:
  "interleave c c' \<Longrightarrow> list_all (calls_keep P) (fst c) \<Longrightarrow> P (snd c) \<Longrightarrow>
     list_all (calls_keep P) (fst c') \<and> P (snd c')"
proof (induction rule: interleave.induct)
  case (Turn i ts f w t w')
  then have "calls_keep P (Perform f)" by (auto simp: list_all_length)
  with Turn(3,5) have "calls_keep P t" "P w'" by fastforce+
  with Turn(4) show ?case by (auto simp: list_all_iff dest!: subsetD [OF set_update_subset_insert])
qed

lemma interleaves_keep:
  assumes "interleaves (ts, w) (ts', w')" "list_all (calls_keep P) ts" "P w"
  shows "P w'"
proof -
  have "list_all (calls_keep P) (fst c') \<and> P (snd c')"
    if "interleaves c c'" "list_all (calls_keep P) (fst c)" "P (snd c)" for c c'
    using that by (induction rule: rtranclp_induct) (auto dest: interleave_keep)
  from this [OF assms(1)] assms(2,3) show ?thesis by simp
qed

text \<open>A thread that runs while the others wait runs as alone.\<close>

lemma run_alone:
  "i < length ts \<Longrightarrow> ts ! i = t \<Longrightarrow> run_thread t w = (r, w') \<Longrightarrow> interleaves (ts, w) (ts[i := Finished r], w')"
proof (induction t arbitrary: ts w rule: thread_induct)
  case (Finished r)
  then show ?case by (metis list_update_id rtranclp.rtrancl_refl run_thread.simps(1) prod.inject)
next
  case (Perform f)
  obtain t w1 where f: "f w = (t, w1)" by fastforce
  have s: "interleave (ts, w) (ts[i := t], w1)"
    by (rule Turn [OF Perform(2,3) f])
  have "interleaves (ts[i := t], w1) (ts[i := t, i := Finished r], w')"
    by (rule Perform(1) [OF f]) (use Perform(2,4) f in simp_all)
  with s show ?case by (simp add: converse_rtranclp_into_rtranclp)
qed

lemma calls_keep_attempt:
  "calls_keep P m \<Longrightarrow> (\<And>r. calls_keep P (k r)) \<Longrightarrow> calls_keep P (t_attempt m k)"
  unfolding t_attempt_def by (rule calls_keep_then) (auto split: sum.split)

lemma calls_keep_at_now: "(\<And>n. calls_keep P (k n)) \<Longrightarrow> calls_keep P (t_at_now k)"
  by (simp add: t_at_now_def)

lemma calls_keep_draw:
  "(\<And>w. P w \<Longrightarrow> P (snd (d w))) \<Longrightarrow> (\<And>x. calls_keep P (k x)) \<Longrightarrow> calls_keep P (t_draw d k)"
  by (simp add: t_draw_def map_prod_def split_beta)

lemma calls_keep_branches:
  "calls_keep P t \<Longrightarrow> calls_keep P u \<Longrightarrow> calls_keep P (if b then t else u)"
  "calls_keep P t \<Longrightarrow> (\<And>y. calls_keep P (f y)) \<Longrightarrow> calls_keep P (case_option t f x)"
  "(\<And>e. calls_keep P (h e)) \<Longrightarrow> (\<And>y. calls_keep P (g y)) \<Longrightarrow> calls_keep P (case_sum h g r)"
  by (simp_all split: option.split sum.split)

lemmas calls_keep_intros = calls_keep_call calls_keep_attempt calls_keep_at_now calls_keep_draw
  calls_keep_branches calls_keep_atomic calls_keep.Finished

section \<open>No interleaving goes on for ever\<close>

inductive after :: "'a thread \<Rightarrow> 'a thread \<Rightarrow> bool" where
  "f w = (t, w') \<Longrightarrow> after t (Perform f)"

lemma wf_after: "wfp after"
proof (rule wfpUNIVI)
  fix P :: "'a thread \<Rightarrow> bool" and t
  assume step: "\<forall>t. (\<forall>u. after u t \<longrightarrow> P u) \<longrightarrow> P t"
  show "P t"
    by (induction t rule: thread_induct) (rule step [rule_format], auto elim: after.cases)+
qed

lemma interleave_smaller:
  "interleave c c' \<Longrightarrow> (mset (fst c'), mset (fst c)) \<in> mult {(t, u). after t u}"
proof (induction rule: interleave.induct)
  case (Turn i ts f w t w')
  let ?rest = "mset ts - {#ts ! i#}"
  have "after t (ts ! i)" using Turn by (auto intro: after.intros)
  then have "(?rest + {#t#}, ?rest + {#ts ! i#}) \<in> mult {(t, u). after t u}"
    by (intro one_step_implies_mult) auto
  then show ?case using Turn(1) by (simp add: mset_update)
qed

lemma wf_interleave: "wfp (\<lambda>c' c. interleave c c')"
proof -
  have "wf (mult {(t, u). after t u})" using wf_after by (intro wf_mult) (simp add: wfp_def)
  then have "wf (inv_image (mult {(t, u). after t u}) (\<lambda>c. mset (fst c)))" by (rule wf_inv_image)
  then have "wf {(c', c). interleave c c'}"
    by (rule wf_subset) (auto dest: interleave_smaller)
  then show ?thesis by (simp add: wfp_def)
qed

end
