(* ===== verification/Overlap.thy ===== *)
theory Overlap
  imports Threads App_Media
begin

text \<open>
  The services of \<open>internal/app\<close> as the server really runs them, one goroutine for each request: every
  operation that makes more than one call of an external system is written once more as a thread,
  whose calls can be separated by those of other requests. Alone, each thread is the operation of
  the sequential model (\<open>run_threads\<close>). A transaction is one step, and so is a conversion's work on
  its files; the lock that \<open>Convert\<close> takes for each user is left out, it only rules interleavings out.
\<close>

section \<open>Steps within the program\<close>

definition t_with_token :: "env \<Rightarrow> (string \<Rightarrow> string \<Rightarrow> 'a thread) \<Rightarrow> 'a thread" where
  "t_with_token E k = t_draw (GenerateToken E) (\<lambda>(token, hash). k token hash)"

definition t_with_uuid :: "env \<Rightarrow> (uuid \<Rightarrow> 'a thread) \<Rightarrow> 'a thread" where
  "t_with_uuid E k = t_draw (draw_uuid E) k"

definition t_ignore_err :: "'a thread \<Rightarrow> 'b thread \<Rightarrow> 'b thread" where
  "t_ignore_err m k = t_attempt m (\<lambda>_. k)"

lemma run_with [simp]:
  "run_thread (t_with_token E k) = with_token E (\<lambda>t h. run_thread (k t h))"
  "run_thread (t_with_uuid E k') = with_uuid_drawn E (\<lambda>i. run_thread (k' i))"
  "run_thread (t_ignore_err m n) = ignore_err (run_thread m) (run_thread n)"
  by (auto simp: t_with_token_def t_with_uuid_def t_ignore_err_def with_token_def with_uuid_drawn_def
      ignore_err_def fun_eq_iff split: prod.split)

lemma calls_keep_with:
  "(\<And>t. calls_keep (\<lambda>w. P (db w)) (k t (GetTokenHash E t))) \<Longrightarrow> calls_keep (\<lambda>w. P (db w)) (t_with_token E k)"
  "(\<And>i. calls_keep (\<lambda>w. P (db w)) (k' i)) \<Longrightarrow> calls_keep (\<lambda>w. P (db w)) (t_with_uuid E k')"
  "calls_keep Q m \<Longrightarrow> calls_keep Q n \<Longrightarrow> calls_keep Q (t_ignore_err m n)"
  unfolding t_with_token_def t_with_uuid_def t_ignore_err_def t_draw_def
  by (auto simp: GenerateToken_def draw_uuid_def intro: calls_keep_intros)

section \<open>internal/app/auth\<close>

definition Signup_thread :: "env \<Rightarrow> string \<Rightarrow> string \<Rightarrow> string \<Rightarrow> string \<Rightarrow> uuid thread" where
  "Signup_thread E email username fullname password =
     t_call (atomic (tx_With E (signup_tx E email username fullname password))) t_fail (\<lambda>txRes.
     t_call (atomic (PublishEmail E (snd txRes))) (\<lambda>e. t_fail (publish_failed e)) (\<lambda>_.
     t_ret (fst txRes)))"

definition ForgotPassword_thread :: "env \<Rightarrow> string \<Rightarrow> unit thread" where
  "ForgotPassword_thread E email =
     t_call (atomic (GetByEmail E email))
       (\<lambda>e. t_fail (if errors_Is e SqlNoRows then AuthE ErrUserNotFound else e)) (\<lambda>user.
     if \<not> u_IsVerified user then t_fail (AuthE ErrUserNotVerified)
     else t_attempt (atomic (reseter_GetById E (u_Id user))) (\<lambda>r.
       case err_except SqlNoRows r of
         Some e \<Rightarrow> t_fail (Wrapf ''reseterRepo.GetById'' [VerifierE ErrTokenFetchFailed, e])
       | None \<Rightarrow>
           t_with_token E (\<lambda>resetToken resetTokenHash.
           t_call (atomic (reseter_Create E (u_Id user) resetTokenHash))
             (\<lambda>e. t_fail (Wrapf ''reseterRepo.Create'' [VerifierE ErrCreateResetTokenFailed, e])) (\<lambda>_.
           t_call (atomic (PublishEmail E \<lparr>em_To = u_Email user, em_Name = ''forgot-password'',
                    em_Token = resetToken\<rparr>)) (\<lambda>e. t_fail (publish_failed e)) (\<lambda>_.
           t_ret ())))))"

definition ResendVerify_thread :: "env \<Rightarrow> string \<Rightarrow> unit thread" where
  "ResendVerify_thread E email =
     t_call (atomic (GetByEmail E email))
       (\<lambda>e. t_fail (if errors_Is e SqlNoRows then AuthE ErrUserNotFound else e)) (\<lambda>user.
     if u_IsVerified user then t_fail (VerifierE ErrUserAlreadyVerified)
     else
       t_call (t_attempt (atomic (verifier_GetById E (u_Id user))) (\<lambda>r. case r of
           Inl e \<Rightarrow>
             if \<not> errors_Is e SqlNoRows
             then t_fail (Wrapf ''verifierRepo.GetById'' [VerifierE ErrTokenFetchFailed, e])
             else t_ret ()
         | Inr oldVerifier \<Rightarrow> t_call (atomic (verifier_Delete E (v_Id oldVerifier))) t_fail t_ret)) t_fail (\<lambda>_.
       t_with_token E (\<lambda>verifyToken verifyTokenHash.
       t_call (atomic (verifier_Create E (u_Id user) verifyTokenHash))
         (\<lambda>e. t_fail (Wrapf ''verifierRepo.Create'' [VerifierE ErrVerifierTokenCreateFailed, e])) (\<lambda>_.
       t_call (atomic (PublishEmail E \<lparr>em_To = u_Email user, em_Name = ''resend-verify'',
                em_Token = verifyToken\<rparr>)) (\<lambda>e. t_fail (publish_failed e)) (\<lambda>_.
       t_ret ())))))"

definition ResetPasswordPost_thread :: "env \<Rightarrow> string \<Rightarrow> string \<Rightarrow> string \<Rightarrow> unit thread" where
  "ResetPasswordPost_thread E token pass confirmPass =
     t_call (atomic (reseter_GetByToken E token))
       (\<lambda>e. t_fail (Wrapf ''reseterRepo.GetByToken'' [VerifierE ErrReseterTokenFatchFailed, e])) (\<lambda>oldToken.
     if pass \<noteq> confirmPass then t_fail (Msg ''password and confirm_password do not match'')
     else
       t_call (atomic (GetById E (r_UserId oldToken))) t_fail (\<lambda>user.
       t_call (atomic (GenerateHash E pass)) t_fail (\<lambda>passHash.
       t_call (atomic (tx_With E
          (call (UpdatePassword E (u_Id user) passHash) fail (\<lambda>_.
             reseter_DeleteById E (r_Id oldToken))))) t_fail (\<lambda>_.
       t_call (atomic (PublishEmail E \<lparr>em_To = u_Email user, em_Name = ''reset-password'', em_Token = []\<rparr>))
         (\<lambda>e. t_fail (publish_failed e)) (\<lambda>_.
       t_ret ())))))"

definition Verify_thread :: "env \<Rightarrow> string \<Rightarrow> unit thread" where
  "Verify_thread E token =
     t_call (atomic (verifier_GetByHash E (GetTokenHash E token)))
       (\<lambda>e. t_fail (if errors_Is e SqlNoRows then VerifierE ErrInvalidToken
                  else Wrapf ''verifierRepo.GetByHash'' [VerifierE ErrTokenFetchFailed, e])) (\<lambda>v.
     t_call (atomic (tx_With E
        (call (SetVerified E (v_UserId v))
           (\<lambda>e. fail (Wrapf ''authRepo.SetVerified'' [VerifierE ErrSetUserVerifiedFailed, e])) (\<lambda>_.
         verifier_Delete E (v_Id v))))) t_fail t_ret)"

section \<open>internal/app/user\<close>

definition ChangePassword_thread :: "env \<Rightarrow> string \<Rightarrow> string \<Rightarrow> string \<Rightarrow> string \<Rightarrow> unit thread" where
  "ChangePassword_thread E ident currentPass pass confirmPass =
     (case uuid_Parse E ident of
        None \<Rightarrow> t_fail (Driver ''invalid UUID'')
      | Some i \<Rightarrow>
          t_call (atomic (GetById E i))
            (\<lambda>e. t_fail (if errors_Is e SqlNoRows then AuthE ErrUserNotFound else e)) (\<lambda>found.
          if pass \<noteq> confirmPass then t_fail (AppE ErrPasswordMismatched)
          else if currentPass = pass
          then t_fail (Msg ''new password cannot be the same as current password'')
          else if \<not> CompareHashAndPassword E (u_PasswordHash found) currentPass
          then t_fail (AuthE ErrInvalidCredential)
          else
            t_call (atomic (GenerateHash E pass))
              (\<lambda>e. t_fail (Wrapf ''hasher.GenerateHash'' [AppE ErrHashGenFailed, e])) (\<lambda>newPassHash.
            t_call (atomic (user_ChangePassword E ident newPassHash))
              (\<lambda>e. t_fail (Wrapf ''userRepo.ChangePassword'' [AppE ErrTableUpdateFailed, e])) t_ret)))"

definition DeleteUser_thread :: "env \<Rightarrow> string \<Rightarrow> string \<Rightarrow> unit thread" where
  "DeleteUser_thread E ident pass =
     (case uuid_Parse E ident of
        None \<Rightarrow> t_fail (Driver ''invalid UUID'')
      | Some i \<Rightarrow>
          t_call (atomic (GetById E i))
            (\<lambda>e. t_fail (Wrapf ''authRepo.GetById'' [AuthE ErrUserNotFound, e])) (\<lambda>found.
          if \<not> CompareHashAndPassword E (u_PasswordHash found) pass
          then t_fail (AuthE ErrInvalidCredential)
          else
            t_call (atomic (DeleteById E i))
              (\<lambda>e. t_fail (Wrapf ''authRepo.DeleteById'' [AppE ErrTableUpdateFailed, e])) t_ret))"

section \<open>internal/app/friend\<close>

definition SendRequest_thread :: "env \<Rightarrow> string \<Rightarrow> string \<Rightarrow> friendship thread" where
  "SendRequest_thread E requesterID addresseeID =
     (if requesterID = addresseeID then t_fail (FriendE ErrCannotFriendSelf)
      else
        t_call (atomic (friend_Exists E requesterID addresseeID))
          (\<lambda>e. t_fail (Wrapf ''repo.Exists'' [e])) (\<lambda>exists.
        if exists then t_fail (FriendE ErrAlreadyExists)
        else
          t_call (atomic (friend_Create E requesterID addresseeID))
            (\<lambda>e. t_fail (Wrapf ''repo.Create'' [e])) t_ret))"

section \<open>internal/app/share\<close>

definition share_Create_thread :: "env \<Rightarrow> string \<Rightarrow> string \<Rightarrow> string \<Rightarrow> timestamp \<Rightarrow> unit thread" where
  "share_Create_thread E sharedBy gifKey sharedWith expiresAt =
     t_at_now (\<lambda>n. if \<not> n < expiresAt then t_fail (ShareE ErrInvalidExpiry)
     else
       t_call (atomic (GetByEmail E sharedWith))
         (\<lambda>e. t_fail (if errors_Is e (AuthE ErrInvalidCredential) \<or> errors_Is e SqlNoRows \<or>
                       errors_Is e (AuthE ErrUserNotFound)
                    then Wrapf ''authRepo.GetByEmail'' [AuthE ErrUserNotFound, e]
                    else Wrapf ''authRepo.GetByEmail'' [e])) (\<lambda>sharedUser.
       t_call (atomic (gif_owner E gifKey)) t_fail (\<lambda>owner.
       if owner \<noteq> sharedBy then t_fail (GifE ErrGifOwnerMismatch)
       else atomic (share_repo_Create E \<lparr>s_ID = [], s_GifKey = gifKey, s_OwnerID = sharedBy,
              s_SharedWith = u_Id sharedUser, s_ExpiresAt = Some expiresAt, s_CreatedAt = 0\<rparr>))))"

definition share_CreateByToken_thread ::
  "env \<Rightarrow> string \<Rightarrow> string \<Rightarrow> string \<Rightarrow> timestamp \<Rightarrow> string thread" where
  "share_CreateByToken_thread E sharedBy gifKey sharedWithEmail expiresAt =
     t_at_now (\<lambda>n. if \<not> n < expiresAt then t_fail (ShareE ErrInvalidExpiry)
     else
       t_call (atomic (gif_owner E gifKey)) t_fail (\<lambda>owner.
       if owner \<noteq> sharedBy then t_fail (GifE ErrGifOwnerMismatch)
       else t_with_token E (\<lambda>rawToken tokenHash.
         t_call (atomic (share_repo_CreateByToken E \<lparr>t_GifKey = gifKey, t_Token = tokenHash,
                 t_Email = sharedWithEmail, t_ExpiresAt = Some expiresAt, t_CreatedAt = 0\<rparr>))
           (\<lambda>e. t_fail (Wrapf ''shareRepo.CreateByToken'' [e])) (\<lambda>_.
         t_call (atomic (PublishEmail E \<lparr>em_To = sharedWithEmail, em_Name = ''share'', em_Token = rawToken\<rparr>))
           (\<lambda>e. t_fail (publish_failed e)) (\<lambda>_.
         t_ret rawToken)))))"

definition share_Delete_thread :: "env \<Rightarrow> string \<Rightarrow> string \<Rightarrow> string \<Rightarrow> unit thread" where
  "share_Delete_thread E userId gifKey shareWithId =
     t_call (atomic (share_repo_GetOwner E shareWithId gifKey))
       (\<lambda>e. t_fail (if errors_Is e SqlNoRows then ShareE ErrShareNotFound else e)) (\<lambda>owner.
     if owner \<noteq> userId then t_fail (ShareE ErrShareNotAuthorized)
     else atomic (share_repo_Delete E gifKey shareWithId))"

definition DownloadByToken_thread :: "env \<Rightarrow> string \<Rightarrow> string thread" where
  "DownloadByToken_thread E token =
     t_call (atomic (share_repo_GetByToken E token))
       (\<lambda>e. t_fail (if errors_Is e SqlNoRows then ShareE ErrShareNotFound
                  else Wrapf ''shareRepo.GetByToken'' [e])) (\<lambda>resp.
     t_call (atomic (IncrementDownload E (gt_GifKey resp)))
       (\<lambda>e. t_fail (Wrapf ''gifRepo.IncrementDownload'' [e])) (\<lambda>_.
     t_call (atomic (storage_Download E (gt_GifKey resp) (5 * minute)))
       (\<lambda>e. t_fail (Wrapf ''storage.Download'' [e])) t_ret))"

section \<open>internal/app/media\<close>

definition Convert_thread ::
  "env \<Rightarrow> string \<Rightarrow> string \<Rightarrow> rat \<Rightarrow> rat \<Rightarrow> int \<Rightarrow> int \<Rightarrow> bool \<Rightarrow> (string \<times> string) thread" where
  "Convert_thread E userId key start stop fps width lp =
     (if foreign_key userId key then t_fail (GifE ErrGifOwnerMismatch)
      else
        t_attempt (atomic (quota_GetById E userId)) (\<lambda>q.
        if (case q of Inl _ \<Rightarrow> False
            | Inr qt \<Rightarrow> q_GifCount qt > 0 \<and> q_GifCount qt \<ge> q_GitLimit qt)
        then t_fail (QuotaE ErrQuotaExceeded)
        else t_with_uuid E (\<lambda>i.
          t_call (atomic (redis_Set E (job_owner_key i) userId (5 * minute)))
            (\<lambda>e. t_fail (Wrapf ''cache.Set(owner)'' [AppE ErrCacheSetFailed, e])) (\<lambda>_.
          t_call (atomic (redis_Set E (job_status_key i) ''queued'' (5 * minute)))
            (\<lambda>e. t_fail (Wrapf ''cache.Set(job)'' [AppE ErrCacheSetFailed, e])) (\<lambda>_.
          t_call (atomic (redis_Set E (job_gif_key i) ''queued'' (5 * minute)))
            (\<lambda>e. t_fail (Wrapf ''cache.Set(gif)'' [AppE ErrCacheSetFailed, e])) (\<lambda>_.
          t_call (atomic (job_Create E \<lparr>j_ID = i, j_UserID = userId, j_Type = ''video_to_gif'',
                  j_Status = JobQueued, j_Progress = 0, j_ErrorMessage = [], j_ResultKey = [],
                  j_CreatedAt = 0, j_UpdatedAt = 0\<rparr>))
            (\<lambda>e. t_fail (Wrapf ''jobRepo.Create(ctx, job)'' [e])) (\<lambda>_.
          t_call (atomic (PublishVideo E
              \<lparr>vm_UserID = userId, vm_JobId = i, vm_Key = key, vm_Start = start, vm_End = stop,
               vm_Width = width, vm_FPS = fps, vm_Loop = lp, vm_Retries = 0\<rparr>))
            (\<lambda>e. t_ignore_err (atomic (redis_Set E (job_status_key i) ''failed'' (5 * minute)))
                 (t_ignore_err (atomic (redis_Set E (job_gif_key i) ''failed'' (5 * minute)))
                 (t_ignore_err (atomic (job_UpdateStatus E i JobFailed 0 [] ''queue publish failed''))
                 (t_fail (Wrapf ''queue.PublishVideo'' [AppE ErrMessageQueueFailed, e]))))) (\<lambda>_.
          t_ret (i, ''queued'')))))))))"

definition Process_thread :: "env \<Rightarrow> video_message \<Rightarrow> unit thread" where
  "Process_thread E msg =
     t_call (atomic (redis_Set E (job_status_key (vm_JobId msg)) ''processing'' (10 * minute))) t_fail (\<lambda>_.
      t_ignore_err (atomic (job_UpdateStatus E (vm_JobId msg) JobProcessing 20 [] []))
     (t_call (atomic (ffmpeg_Process E (vm_JobId msg) (vm_Key msg) (vm_Start msg) (vm_End msg)
                (vm_Width msg) (vm_FPS msg) (vm_Loop msg)))
        (\<lambda>e. t_ignore_err (atomic (job_UpdateStatus E (vm_JobId msg) JobFailed 0 [] (error_text e)))
           (atomic (fail_marking E (vm_JobId msg) e))) (\<lambda>result.
      t_call (atomic (redis_Set E (job_gif_key (vm_JobId msg)) (jr_GifKey result) (5 * minute))) t_fail (\<lambda>_.
      t_call (atomic (redis_Set E (job_status_key (vm_JobId msg)) ''completed'' (5 * minute))) t_fail (\<lambda>_.
      t_ignore_err (atomic (job_UpdateStatus E (vm_JobId msg) JobDone 100 (jr_GifKey result) []))
     (t_call (atomic (gif_Create E \<lparr>g_Key = jr_GifKey result, g_Name = [], g_UserId = vm_UserID msg,
              g_Status = [], g_Persist = False, g_Download = 0, g_Url = jr_GifKey result,
              g_ThumbnailKey = jr_ThumbKey result, g_FileSizeBytes = 0, g_Width = 0, g_Height = 0,
              g_DurationSeconds = 0, g_IsPublic = False, g_CreatedAt = 0, g_UpdatedAt = 0\<rparr>))
        (\<lambda>e. atomic (fail_marking E (vm_JobId msg) e)) (\<lambda>_.
      t_call (atomic (IncrementUsage E (vm_UserID msg) 0 1))
        (\<lambda>e. atomic (fail_marking E (vm_JobId msg) e)) (\<lambda>ok.
      t_ret ()))))))))"

definition gif_service_Delete_thread :: "env \<Rightarrow> string \<Rightarrow> string \<Rightarrow> unit thread" where
  "gif_service_Delete_thread E userId key =
     t_call (atomic (gif_owner E key)) t_fail (\<lambda>ownerId.
     if ownerId \<noteq> userId then t_fail (GifE ErrGifOwnerMismatch)
     else
       t_call (atomic (gif_Delete E key))
         (\<lambda>e. t_fail (Wrapf ''gifRepo.Delete'' [StorageE ErrDeleteByKeyFailed, e])) (\<lambda>_.
       t_ignore_err (atomic (storage_Delete E key)) (t_ret ())))"

definition Download_thread :: "env \<Rightarrow> string \<Rightarrow> string \<Rightarrow> string thread" where
  "Download_thread E userId key =
     t_call (atomic (gif_owner E key)) t_fail (\<lambda>ownerId.
     t_attempt (atomic (share_repo_GetOwner E userId key)) (\<lambda>r.
     case err_except SqlNoRows r of
       Some e \<Rightarrow> t_fail (Wrapf ''shareRepo.GetOwner'' [e])
     | None \<Rightarrow>
         (if ownerId \<noteq> userId \<and> (case r of Inl _ \<Rightarrow> [] | Inr i \<Rightarrow> i) \<noteq> ownerId
          then t_fail (GifE ErrGifOwnerMismatch)
          else
            t_call (atomic (IncrementDownload E key))
              (\<lambda>e. t_fail (Wrapf ''gifRepo.IncrementDownload'' [e])) (\<lambda>_.
            t_call (atomic (storage_Download E key (5 * minute)))
              (\<lambda>e. t_fail (Wrapf ''storage.Download'' [e])) t_ret))))"

definition Save_thread :: "env \<Rightarrow> string \<Rightarrow> string \<Rightarrow> unit thread" where
  "Save_thread E userId key =
     t_call (atomic (gif_owner E key)) t_fail (\<lambda>owner.
     if owner \<noteq> userId then t_fail (GifE ErrGifOwnerMismatch) else atomic (gif_SaveRecent E key))"

definition Update_thread ::
  "env \<Rightarrow> string \<Rightarrow> string \<Rightarrow> gif_update_request \<Rightarrow> string \<Rightarrow> gif_response thread" where
  "Update_thread E userId key req lastUpdatedAt =
     t_call (atomic (gif_owner E key)) t_fail (\<lambda>ownerId.
     if ownerId \<noteq> userId then t_fail (GifE ErrGifOwnerMismatch)
     else
       t_call (atomic (tx_WithRC E
         (call (fetch_gif E key True) fail (\<lambda>resp.
          if time_Format E (gr_UpdatedAt resp) \<noteq> lastUpdatedAt
          then fail (GifE ErrETagValidationFailed)
          else
            call (gif_Update E key req) (\<lambda>e. fail (Wrapf ''gifRepo.Update'' [e])) ret)))) t_fail t_ret)"

end
