(* ===== verification/Races.thy ===== *)
theory Races
  imports Overlap
begin

text \<open>
  What holds of requests that overlap, and what does not: the tables keep every part of their
  invariant but one whatever the interleaving, each set of requests comes to an end, and two users
  who ask each other at the same time become friends twice.
\<close>

section \<open>Requests\<close>

text \<open>
  The operations a goroutine of the server or of a worker runs. Those with a thread of their own make
  several calls; the others are one statement or one transaction.
\<close>

datatype request =
    R_Signup string string string string | R_ForgotPassword string | R_ResendVerify string
  | R_ResetPasswordPost string string string | R_Verify string
  | R_ChangePassword string string string string | R_DeleteUser string string
  | R_UpdateProfile profile_update_request string string
  | R_SendRequest string string | R_Accept string string | R_Reject string string | R_Remove string string
  | R_Share string string string timestamp | R_ShareByToken string string string timestamp
  | R_ShareDelete string string string | R_DownloadByToken string
  | R_Convert string string rat rat int int bool | R_Process video_message
  | R_GifDelete string string | R_Download string string | R_Save string string
  | R_Update string string gif_update_request string

text \<open>What a request does once it is in hand, its answer left aside.\<close>

definition answered :: "'a thread \<Rightarrow> unit thread" where
  "answered t = then_thread t (\<lambda>r. Finished (map_sum (\<lambda>e. e) (\<lambda>_. ()) r))"

definition no_answer :: "'a io \<Rightarrow> unit io" where
  "no_answer m w = map_prod (map_sum (\<lambda>e. e) (\<lambda>_. ())) (\<lambda>w. w) (m w)"

fun thread_of :: "env \<Rightarrow> request \<Rightarrow> unit thread" where
  "thread_of E (R_Signup em un fn p) = answered (Signup_thread E em un fn p)"
| "thread_of E (R_ForgotPassword em) = answered (ForgotPassword_thread E em)"
| "thread_of E (R_ResendVerify em) = answered (ResendVerify_thread E em)"
| "thread_of E (R_ResetPasswordPost t p c) = answered (ResetPasswordPost_thread E t p c)"
| "thread_of E (R_Verify t) = answered (Verify_thread E t)"
| "thread_of E (R_ChangePassword u c p q) = answered (ChangePassword_thread E u c p q)"
| "thread_of E (R_DeleteUser u p) = answered (DeleteUser_thread E u p)"
| "thread_of E (R_UpdateProfile pr u seen) = answered (atomic (UpdateProfile E pr u seen))"
| "thread_of E (R_SendRequest u v) = answered (SendRequest_thread E u v)"
| "thread_of E (R_Accept i u) = answered (atomic (Accept E i u))"
| "thread_of E (R_Reject i u) = answered (atomic (Reject E i u))"
| "thread_of E (R_Remove i u) = answered (atomic (Remove E i u))"
| "thread_of E (R_Share u key em t) = answered (share_Create_thread E u key em t)"
| "thread_of E (R_ShareByToken u key em t) = answered (share_CreateByToken_thread E u key em t)"
| "thread_of E (R_ShareDelete u key v) = answered (share_Delete_thread E u key v)"
| "thread_of E (R_DownloadByToken t) = answered (DownloadByToken_thread E t)"
| "thread_of E (R_Convert u key a b fps wd lp) = answered (Convert_thread E u key a b fps wd lp)"
| "thread_of E (R_Process msg) = answered (Process_thread E msg)"
| "thread_of E (R_GifDelete u key) = answered (gif_service_Delete_thread E u key)"
| "thread_of E (R_Download u key) = answered (Download_thread E u key)"
| "thread_of E (R_Save u key) = answered (Save_thread E u key)"
| "thread_of E (R_Update u key rq seen) = answered (Update_thread E u key rq seen)"

fun alone :: "env \<Rightarrow> request \<Rightarrow> unit io" where
  "alone E (R_Signup em un fn p) = no_answer (Signup E em un fn p)"
| "alone E (R_ForgotPassword em) = no_answer (ForgotPassword E em)"
| "alone E (R_ResendVerify em) = no_answer (ResendVerify E em)"
| "alone E (R_ResetPasswordPost t p c) = no_answer (ResetPasswordPost E t p c)"
| "alone E (R_Verify t) = no_answer (Verify E t)"
| "alone E (R_ChangePassword u c p q) = no_answer (ChangePassword E u c p q)"
| "alone E (R_DeleteUser u p) = no_answer (DeleteUser E u p)"
| "alone E (R_UpdateProfile pr u seen) = no_answer (UpdateProfile E pr u seen)"
| "alone E (R_SendRequest u v) = no_answer (SendRequest E u v)"
| "alone E (R_Accept i u) = no_answer (Accept E i u)"
| "alone E (R_Reject i u) = no_answer (Reject E i u)"
| "alone E (R_Remove i u) = no_answer (Remove E i u)"
| "alone E (R_Share u key em t) = no_answer (share_Create E u key em t)"
| "alone E (R_ShareByToken u key em t) = no_answer (share_CreateByToken E u key em t)"
| "alone E (R_ShareDelete u key v) = no_answer (share_Delete E u key v)"
| "alone E (R_DownloadByToken t) = no_answer (DownloadByToken E t)"
| "alone E (R_Convert u key a b fps wd lp) = no_answer (Convert E u key a b fps wd lp)"
| "alone E (R_Process msg) = no_answer (Process E msg)"
| "alone E (R_GifDelete u key) = no_answer (gif_service_Delete E u key)"
| "alone E (R_Download u key) = no_answer (Download E u key)"
| "alone E (R_Save u key) = no_answer (Save E u key)"
| "alone E (R_Update u key rq seen) = no_answer (Update E u key rq seen)"

section \<open>A request that is alone\<close>

lemmas thread_congs = if_cong option.case_cong sum.case_cong

lemma run_answered [simp]: "run_thread (answered t) = no_answer (run_thread t)"
  by (rule ext) (simp add: answered_def no_answer_def run_then run_thread.simps(1) map_prod_def split_beta)

lemma run_auth_threads [simp]:
  "run_thread (Signup_thread E em un fn p) = Signup E em un fn p"
  "run_thread (ForgotPassword_thread E em) = ForgotPassword E em"
  "run_thread (ResendVerify_thread E em) = ResendVerify E em"
  "run_thread (ResetPasswordPost_thread E t p c) = ResetPasswordPost E t p c"
  "run_thread (Verify_thread E t) = Verify E t"
  by (simp_all add: Signup_thread_def Signup_def ForgotPassword_thread_def ForgotPassword_def
      ResendVerify_thread_def ResendVerify_def ResetPasswordPost_thread_def ResetPasswordPost_def
      Verify_thread_def Verify_def cong: thread_congs)

lemma run_user_threads [simp]:
  "run_thread (ChangePassword_thread E u c p q) = ChangePassword E u c p q"
  "run_thread (DeleteUser_thread E u p) = DeleteUser E u p"
  "run_thread (SendRequest_thread E u v) = SendRequest E u v"
  by (simp_all add: ChangePassword_thread_def ChangePassword_def DeleteUser_thread_def DeleteUser_def
      SendRequest_thread_def SendRequest_def cong: thread_congs)

lemma run_share_threads [simp]:
  "run_thread (share_Create_thread E u key em t) = share_Create E u key em t"
  "run_thread (share_CreateByToken_thread E u key em t) = share_CreateByToken E u key em t"
  "run_thread (share_Delete_thread E u key v) = share_Delete E u key v"
  "run_thread (DownloadByToken_thread E tok) = DownloadByToken E tok"
  by (simp_all add: share_Create_thread_def share_Create_def share_CreateByToken_thread_def
      share_CreateByToken_def share_Delete_thread_def share_Delete_def DownloadByToken_thread_def
      DownloadByToken_def cong: thread_congs)

lemma run_media_threads [simp]:
  "run_thread (Convert_thread E u key a b fps wd lp) = Convert E u key a b fps wd lp"
  "run_thread (Process_thread E msg) = Process E msg"
  "run_thread (gif_service_Delete_thread E u key) = gif_service_Delete E u key"
  "run_thread (Download_thread E u key) = Download E u key"
  "run_thread (Save_thread E u key) = Save E u key"
  "run_thread (Update_thread E u key rq seen) = Update E u key rq seen"
  by (simp_all add: Convert_thread_def Convert_def Process_thread_def Process_def Let_def
      gif_service_Delete_thread_def gif_service_Delete_def Download_thread_def Download_def
      Save_thread_def Save_def Update_thread_def Update_def cong: thread_congs)

section \<open>What every call keeps\<close>

lemma calls_keep_answered: "calls_keep P t \<Longrightarrow> calls_keep P (answered t)"
  unfolding answered_def by (rule calls_keep_then) simp_all

text \<open>Once requests overlap, the search that found no friendship says nothing of the insert.\<close>

lemma keeps_friend_Create_overlapping: "inv_kept True (friend_Create E r s)"
proof (rule keepsI)
  fix w :: world assume iv: "tables_ok True (db w)"
  show "tables_ok True (db (snd (friend_Create E r s w)))"
    unfolding friend_Create_def draw_uuid_def Let_def prod.case
  proof (rule db_exec_db [where P = "tables_ok True"], goal_cases)
    case (2 x d)
    then obtain f where i: "insert_friendship f (w\<lparr>draws := Suc (draws w)\<rparr>) = Inr (x, d)"
      by (auto simp: with_uuid_Inr)
    then have "rest_inv True d"
      using iv by (auto simp: tables_ok_def insert_friendship_def rest_defs split: if_splits)
    moreover have "schema_ok d"
      by (rule insert_friendship_keeps [OF _ i]) (use iv in \<open>simp add: tables_ok_def\<close>)
    ultimately show ?case by (simp add: tables_ok_def)
  qed (use iv in simp)
qed

lemmas threads_keep_intros = calls_keep_intros calls_keep_with calls_keep_answered
  keeps_friend_Create_overlapping keeps_share_repo_CreateByToken keeps_intros

lemma auth_threads_keep [simp]:
  fixes E :: env
  defines "ok \<equiv> \<lambda>w. tables_ok True (db w)"
  shows "calls_keep ok (Signup_thread E em un fn p)" "calls_keep ok (ForgotPassword_thread E em)"
    "calls_keep ok (ResendVerify_thread E em)" "calls_keep ok (ResetPasswordPost_thread E t p c)"
    "calls_keep ok (Verify_thread E t)"
  unfolding ok_def Signup_thread_def ForgotPassword_thread_def ResendVerify_thread_def
    ResetPasswordPost_thread_def Verify_thread_def
  by (intro threads_keep_intros)+

lemma user_threads_keep [simp]:
  fixes E :: env
  defines "ok \<equiv> \<lambda>w. tables_ok True (db w)"
  shows "calls_keep ok (ChangePassword_thread E u c p q)" "calls_keep ok (DeleteUser_thread E u p)"
    "calls_keep ok (SendRequest_thread E u v)"
  unfolding ok_def ChangePassword_thread_def DeleteUser_thread_def SendRequest_thread_def
  by (intro threads_keep_intros)+

lemma share_threads_keep [simp]:
  fixes E :: env
  defines "ok \<equiv> \<lambda>w. tables_ok True (db w)"
  shows "calls_keep ok (share_Create_thread E u key em t)" "calls_keep ok (share_Delete_thread E u key v)"
    "calls_keep ok (DownloadByToken_thread E tok)" "calls_keep ok (share_CreateByToken_thread E u key em t)"
  unfolding ok_def share_Create_thread_def share_CreateByToken_thread_def share_Delete_thread_def
    DownloadByToken_thread_def
  by (intro threads_keep_intros; simp)+

lemma media_threads_keep [simp]:
  fixes E :: env
  defines "ok \<equiv> \<lambda>w. tables_ok True (db w)"
  shows "calls_keep ok (Convert_thread E u key a b fps wd lp)" "calls_keep ok (Process_thread E msg)"
    "calls_keep ok (gif_service_Delete_thread E u key)" "calls_keep ok (Download_thread E u key)"
    "calls_keep ok (Save_thread E u key)" "calls_keep ok (Update_thread E u key rq seen)"
  unfolding ok_def Convert_thread_def Process_thread_def fail_marking_def gif_service_Delete_thread_def
    Download_thread_def Save_thread_def Update_thread_def fetch_gif_def
  by (intro threads_keep_intros)+

lemma threads_keep: "calls_keep (\<lambda>w. tables_ok True (db w)) (thread_of E rq)"
  by (cases rq) (simp_all, (rule calls_keep_answered calls_keep_atomic keeps_user_services
      keeps_friend_services auth_threads_keep user_threads_keep share_threads_keep media_threads_keep)+)

section \<open>The server under load\<close>

text \<open>
  The requests in hand and the world they share: a request arrives and starts, one of those in hand
  makes its next call, or time passes.
\<close>

inductive load_step :: "env \<Rightarrow> unit thread list \<times> world \<Rightarrow> unit thread list \<times> world \<Rightarrow> bool" for E where
  Arrives: "load_step E (ts, w) (ts @ [thread_of E rq], w)"
| Proceeds: "interleave c c' \<Longrightarrow> load_step E c c'"
| Passes: "now w \<le> t \<Longrightarrow> load_step E (ts, w) (ts, w\<lparr>now := t\<rparr>)"

abbreviation under_load :: "env \<Rightarrow> unit thread list \<times> world \<Rightarrow> unit thread list \<times> world \<Rightarrow> bool" where
  "under_load E \<equiv> (load_step E)\<^sup>*\<^sup>*"

lemma under_load_keep:
  assumes "under_load E c c'" "list_all (calls_keep (\<lambda>w. tables_ok True (db w))) (fst c)" "tables_ok True (db (snd c))"
  shows "list_all (calls_keep (\<lambda>w. tables_ok True (db w))) (fst c') \<and> tables_ok True (db (snd c'))"
  using assms
proof (induction rule: rtranclp_induct)
  case (step c1 c2)
  from step(2) step.IH [OF step.prems] show ?case
    by (cases rule: load_step.cases) (auto simp: threads_keep dest: interleave_keep)
qed simp

lemma turns_under_load: "interleaves c c' \<Longrightarrow> under_load E c c'"
  by (rule mono_rtranclp [rule_format]) (auto intro: load_step.Proceeds)

text \<open>
  Property C2. However requests arrive and their calls fall between each other's, whichever calls
  fail and whatever time passes between them, the tables satisfy every constraint of the schema,
  usage is within every quota and no token is stored but as its hash. Of the sequential invariant
  only the uniqueness of friendships is missing.
\<close>

theorem overlapping_requests_safe:
  assumes "under_load E ([], w) (ts, w')" "service_inv (db w)"
  shows "schema_ok (db w') \<and> quota_ok (db w') \<and> tokens_hashed (db w')"
proof -
  have "tables_ok True (db w)" using assms(2) by (simp add: tables_ok_def rest_inv_def)
  with under_load_keep [OF assms(1)] have "tables_ok True (db w')" by simp
  then show ?thesis by (simp add: tables_ok_def rest_inv_def)
qed

lemma run_thread_of: "run_thread (thread_of E rq) = alone E rq"
  by (cases rq) simp_all

lemma under_load_alone:
  assumes "alone E rq w = (r, w')"
  shows "under_load E (ts, w) (ts @ [Finished r], w')"
proof -
  have "interleaves (ts @ [thread_of E rq], w) ((ts @ [thread_of E rq])[length ts := Finished r], w')"
    by (rule run_alone [OF _ refl]) (use assms run_thread_of [of E rq] in simp_all)
  then have "under_load E (ts @ [thread_of E rq], w) (ts @ [Finished r], w')"
    by (intro turns_under_load) simp
  with load_step.Arrives [of E ts w rq] show ?thesis by (rule converse_rtranclp_into_rtranclp)
qed


section \<open>Two users who ask each other\<close>

lemma turn_call:
  assumes "i < length ts" "ts ! i = t_call (atomic m) h k" "m w = (Inr x, w1)"
  shows "interleave (ts, w) (ts[i := k x], w1)"
proof (rule Turn [OF assms(1)])
  show "ts ! i = Perform (\<lambda>w. map_prod (\<lambda>t. then_thread t (\<lambda>r. case r of
      Inl e \<Rightarrow> if is_panic e then Finished (Inl e) else h e | Inr x \<Rightarrow> k x)) (\<lambda>w. w)
      (case m w of (r, w') \<Rightarrow> (Finished r, w')))"
    by (simp add: assms(2) t_call_def atomic_def)
qed (simp add: assms(3))

lemma friend_Exists_run:
  assumes "no_faults E" "tx w = NoTx" "pg_uuid_in E s = Some a" "pg_uuid_in E t = Some b"
  shows "friend_Exists E s t w = (Inr (linked a b (db w)), tick w)"
  using assms by (simp add: friend_Exists_def db_exec_def with_uuid_def no_faults_def linked_def tick_def)

lemma friend_Create_new:
  assumes "no_faults E" "tx w = NoTx" "pg_uuid_in E s = Some a" "pg_uuid_in E t = Some b" "a \<noteq> b"
    and "user_exists a (db w)" "user_exists b (db w)"
    and "\<And>x. x \<in> set (friendships (db w)) \<Longrightarrow>
      f_ID x \<noteq> uuid_gen E (draws w) \<and> \<not> (f_RequesterID x = a \<and> f_AddresseeID x = b)"
  obtains f w' where "friend_Create E s t w = (Inr f, w')" "f_ID f = uuid_gen E (draws w)"
    "f_RequesterID f = a" "f_AddresseeID f = b" "tx w' = NoTx" "draws w' = Suc (draws w)"
    "db w' = (db w)\<lparr>friendships := friendships (db w) @ [f]\<rparr>"
proof -
  define f where "f = \<lparr>f_ID = uuid_gen E (draws w), f_RequesterID = a, f_AddresseeID = b,
    f_Status = ''pending'', f_CreatedAt = now w, f_UpdatedAt = now w\<rparr>"
  let ?w = "w\<lparr>draws := Suc (draws w)\<rparr>" and ?d = "(db w)\<lparr>friendships := friendships (db w) @ [f]\<rparr>"
  have sel: "f_ID f = uuid_gen E (draws w)" "f_RequesterID f = a" "f_AddresseeID f = b" "friendship_row_ok f"
    using assms(5) by (auto simp: f_def friendship_row_ok_def)
  then have "insert_friendship f ?w = Inr (f, ?d)"
    using assms(6-8) by (auto simp: insert_friendship_def list_ex_iff)
  then have "friend_Create E s t w = (Inr f, (tick ?w)\<lparr>db := ?d\<rparr>)"
    using assms(1-4) by (simp add: friend_Create_def db_exec_def with_uuid_def no_faults_def draw_uuid_def f_def)
  then show thesis by (rule that) (use sel assms(2) in \<open>simp_all add: tick_def\<close>)
qed

text \<open>Both look before either inserts.\<close>

lemma SendRequest_turns:
  assumes "s \<noteq> t" "friend_Exists E s t w = (Inr False, w1)" "friend_Exists E t s w1 = (Inr False, w2)"
    and "friend_Create E s t w2 = (Inr f, w3)" "friend_Create E t s w3 = (Inr g, w4)"
  shows "interleaves ([SendRequest_thread E s t, SendRequest_thread E t s], w) ([t_ret f, t_ret g], w4)"
proof -
  define after_search where "after_search u v = (\<lambda>exists. if exists then t_fail (FriendE ErrAlreadyExists)
      else t_call (atomic (friend_Create E u v)) (\<lambda>e. t_fail (Wrapf ''repo.Create'' [e])) t_ret)" for u v
  have first: "SendRequest_thread E u v = t_call (atomic (friend_Exists E u v))
      (\<lambda>e. t_fail (Wrapf ''repo.Exists'' [e])) (after_search u v)" if "u \<noteq> v" for u v
    using that by (simp add: SendRequest_thread_def after_search_def)
  have second: "after_search u v False =
      t_call (atomic (friend_Create E u v)) (\<lambda>e. t_fail (Wrapf ''repo.Create'' [e])) t_ret" for u v
    by (simp add: after_search_def)
  let ?S = "SendRequest_thread E" and ?C = "\<lambda>u v. after_search u v False"
  have "interleave ([?S s t, ?S t s], w) ([?S s t, ?S t s][0 := ?C s t], w1)"
    by (rule turn_call [where m = "friend_Exists E s t" and k = "after_search s t" and w = w, OF _ _ assms(2)]) (use first [OF assms(1)] in simp_all)
  moreover have "interleave ([?C s t, ?S t s], w1) ([?C s t, ?S t s][1 := ?C t s], w2)"
    by (rule turn_call [where m = "friend_Exists E t s" and k = "after_search t s" and w = w1, OF _ _ assms(3)]) (use first [OF assms(1) [symmetric]] in simp_all)
  moreover have "interleave ([?C s t, ?C t s], w2) ([?C s t, ?C t s][0 := t_ret f], w3)"
    by (rule turn_call [where m = "friend_Create E s t" and k = "t_ret" and w = w2, OF _ _ assms(4)]) (use second in simp_all)
  moreover have "interleave ([t_ret f, ?C t s], w3) ([t_ret f, ?C t s][1 := t_ret g], w4)"
    by (rule turn_call [where m = "friend_Create E t s" and k = "t_ret" and w = w3, OF _ _ assms(5)]) (use second in simp_all)
  ultimately show ?thesis by (simp add: converse_rtranclp_into_rtranclp)
qed

text \<open>
  Property C7. The service looks for a friendship and then inserts one, and the table forbids only
  the same request twice: two users who ask each other one after the other are told, the second,
  that the request is there; when both have looked before either inserts, both succeed, and two
  friendships of the same two users are stored, which the invariant of the sequential program
  excludes.
\<close>

theorem mutual_requests_race:
  assumes "service_inv (db w)" "no_faults E" "tx w = NoTx" "pg_uuid_in E s = Some a" "pg_uuid_in E t = Some b"
    and "a \<noteq> b" "user_exists a (db w)" "user_exists b (db w)" "\<not> linked a b (db w)"
    and "i = uuid_gen E (draws w)" "j = uuid_gen E (Suc (draws w))" "i \<noteq> j"
    and "\<forall>f\<in>set (friendships (db w)). f_ID f \<noteq> i \<and> f_ID f \<noteq> j"
  shows "(\<exists>f g w'. interleaves ([SendRequest_thread E s t, SendRequest_thread E t s], w) ([t_ret f, t_ret g], w') \<and>
      f_RequesterID f = a \<and> f_AddresseeID f = b \<and> f_RequesterID g = b \<and> f_AddresseeID g = a \<and>
      friendships (db w') = friendships (db w) @ [f, g] \<and> \<not> service_inv (db w')) \<and>
    (\<exists>f w1. SendRequest E s t w = (Inr f, w1) \<and> fst (SendRequest E t s w1) = Inl (FriendE ErrAlreadyExists))"
proof (intro conjI)
  have st: "s \<noteq> t" and l: "\<not> linked a b (db w)" "\<not> linked b a (db w)"
    using assms(4-6,9) by (auto simp: linked_def list_ex_iff)
  have un: "\<not> (f_RequesterID x = a \<and> f_AddresseeID x = b)" "\<not> (f_RequesterID x = b \<and> f_AddresseeID x = a)"
    if "x \<in> set (friendships (db w))" for x
    using l that by (auto simp: linked_def list_ex_iff)
  define w2 where "w2 = tick (tick w)"
  have w2: "tx w2 = NoTx" "db w2 = db w" "draws w2 = draws w" by (simp_all add: w2_def assms(3))
  have e1: "friend_Exists E s t w = (Inr False, tick w)"
    using friend_Exists_run [OF assms(2-5)] l by simp
  have e2: "friend_Exists E t s (tick w) = (Inr False, w2)"
    unfolding w2_def using friend_Exists_run [OF assms(2) _ assms(5,4), of "tick w"] l assms(3) by simp
  obtain f w3 where c1: "friend_Create E s t w2 = (Inr f, w3)" "f_ID f = i" "f_RequesterID f = a"
      "f_AddresseeID f = b" "tx w3 = NoTx" "draws w3 = Suc (draws w)"
      "db w3 = (db w)\<lparr>friendships := friendships (db w) @ [f]\<rparr>"
    by (rule friend_Create_new [OF assms(2) w2(1) assms(4-6)]) (use assms(7,8,10,13) un w2 in auto)
  obtain g w4 where c2: "friend_Create E t s w3 = (Inr g, w4)" "f_RequesterID g = b" "f_AddresseeID g = a"
      "db w4 = (db w3)\<lparr>friendships := friendships (db w3) @ [g]\<rparr>"
    by (rule friend_Create_new [OF assms(2) c1(5) assms(5,4) assms(6) [symmetric]])
      (use assms(6-8,11-13) c1 un in \<open>auto simp: user_exists_def\<close>)
  have "\<not> service_inv (db w4)"
    using c1 c2 by (auto simp: tables_ok_def rest_inv_def friend_pairs_ok_def)
  then show "\<exists>f g w'. interleaves ([SendRequest_thread E s t, SendRequest_thread E t s], w) ([t_ret f, t_ret g], w') \<and>
      f_RequesterID f = a \<and> f_AddresseeID f = b \<and> f_RequesterID g = b \<and> f_AddresseeID g = a \<and>
      friendships (db w') = friendships (db w) @ [f, g] \<and> \<not> service_inv (db w')"
    using SendRequest_turns [OF st e1 e2 c1(1) c2(1)] c1 c2 by fastforce
  obtain h v where c: "friend_Create E s t (tick w) = (Inr h, v)" "f_RequesterID h = a" "f_AddresseeID h = b"
      "tx v = NoTx" "db v = (db w)\<lparr>friendships := friendships (db w) @ [h]\<rparr>"
    by (rule friend_Create_new [OF assms(2) _ assms(4-6), of "tick w"]) (use assms(3,7,8,10,13) un in auto)
  have "SendRequest E s t w = (Inr h, v)"
    using st c(1) by (simp add: SendRequest_def call_run [where m="friend_Exists E s t", OF e1]
        call_run [where m="friend_Create E s t"] ret_def)
  moreover have "friend_Exists E t s v = (Inr True, tick v)"
    using friend_Exists_run [OF assms(2) c(4) assms(5,4)] c by (simp add: linked_def)
  then have "fst (SendRequest E t s v) = Inl (FriendE ErrAlreadyExists)"
    using st by (simp add: SendRequest_def call_run [where m="friend_Exists E t s"] fail_def)
  ultimately show "\<exists>f w1. SendRequest E s t w = (Inr f, w1) \<and>
      fst (SendRequest E t s w1) = Inl (FriendE ErrAlreadyExists)" by blast
qed

section \<open>The properties at concrete accounts\<close>

lemma sample_two_inv: "service_inv sample_two_db"
  by (simp add: sample_two_db_def tables_ok_def, code_simp)

lemma overlapping_requests_safe_witness:
  "\<exists>x w'. under_load sample_env ([], world_of 0 sample_two_db)
      ([Finished (Inr ()), thread_of sample_env (R_SendRequest ''v'' ''u'')], w') \<and>
    friendships (db w') = [x] \<and> schema_ok (db w')"
proof -
  let ?r = "R_SendRequest ''u'' ''v''" and ?w = "world_of 0 sample_two_db"
  have "fst (SendRequest sample_env ''u'' ''v'' ?w) = Inr \<lparr>f_ID = sample_uuid 0, f_RequesterID = ''u'',
      f_AddresseeID = ''v'', f_Status = ''pending'', f_CreatedAt = 0, f_UpdatedAt = 0\<rparr>" by code_simp
  then obtain w' where w': "SendRequest sample_env ''u'' ''v'' ?w = (Inr \<lparr>f_ID = sample_uuid 0,
      f_RequesterID = ''u'', f_AddresseeID = ''v'', f_Status = ''pending'', f_CreatedAt = 0, f_UpdatedAt = 0\<rparr>, w')"
    by (metis prod.collapse)
  then have a: "alone sample_env ?r ?w = (Inr (), w')" by (simp add: no_answer_def)
  have "\<exists>x. friendships (db w') = [x]"
    using SendRequest_success [OF w'] by (auto simp: sample_two_db_def empty_db_def)
  then obtain x where x: "friendships (db w') = [x]" ..
  have "under_load sample_env ([], ?w) ([Finished (Inr ())] @ [thread_of sample_env (R_SendRequest ''v'' ''u'')], w')"
    by (rule rtranclp.rtrancl_into_rtrancl, use under_load_alone [OF a, of "[]"] in simp) (rule load_step.Arrives)
  with overlapping_requests_safe [OF this] sample_two_inv x show ?thesis by auto
qed

lemma mutual_requests_race_witness:
  "\<exists>f g w'. interleaves ([SendRequest_thread sample_env ''u'' ''v'', SendRequest_thread sample_env ''v'' ''u''],
     world_of 0 sample_two_db) ([t_ret f, t_ret g], w') \<and> friendships (db w') = [f, g]"
proof -
  have "sample_uuid 0 \<noteq> sample_uuid (Suc 0)" by (simp add: sample_uuid_def char_of_def)
  then show ?thesis
    using mutual_requests_race [of "world_of 0 sample_two_db" sample_env "''u''" "''u''" "''v''" "''v''"
        "sample_uuid 0" "sample_uuid (Suc 0)"] sample_two_inv
    by (fastforce simp: sample_two_db_def sample_ann_def empty_db_def user_exists_def linked_def)
qed

end
