(* ===== verification/Temp_Files.thy ===== *)
theory Temp_Files
  imports Ffmpeg Sample
begin

text \<open>
  The files of a conversion. \<open>fmeg.Process\<close> of \<open>internal/infra/ffmpeg/processor_repo.go\<close> downloads the
  video, runs three commands and uploads two results, all through files of the temporary directory
  that are named after the video's key, and removes them at its end; the worker runs two conversions
  at a time. A conversion is here the list of what it does to files, with the very commands of
  \<open>Ffmpeg\<close>; conversions interleave, one operation at a time.
\<close>

section \<open>Files\<close>

type_synonym 'c files = "string \<Rightarrow> 'c option"

datatype file_op = Fetch string string | Exec "string list" | Put string | Delete string

text \<open>
  The object store and ffmpeg: what is stored under a key, and what a command makes of its inputs.
  A command of ffmpeg reads the files after \<open>-i\<close> and writes its last argument; without \<open>-y\<close> it does
  not overwrite a file and fails. Every option takes a value but \<open>-y\<close> and \<open>-an\<close>.
\<close>

record 'c tools =
  tl_stored :: "string \<Rightarrow> 'c option"
  tl_ffmpeg :: "string list \<Rightarrow> 'c list \<Rightarrow> 'c option"

fun cmd_inputs :: "string list \<Rightarrow> string list" where
  "cmd_inputs (opt # v # args) =
     (if opt \<in> {''ffmpeg'', ''-y'', ''-an''} then cmd_inputs (v # args)
      else if opt = ''-i'' then v # cmd_inputs args else cmd_inputs args)"
| "cmd_inputs _ = []"

fun overwrites :: "string list \<Rightarrow> bool" where
  "overwrites (opt # v # args) =
     (opt = ''-y'' \<or> (if opt \<in> {''ffmpeg'', ''-an''} then overwrites (v # args) else overwrites args))"
| "overwrites _ = False"

definition cmd_output :: "string list \<Rightarrow> string" where
  "cmd_output args = last args"

definition read_all :: "'c files \<Rightarrow> string list \<Rightarrow> 'c list option" where
  "read_all fs ps = (if \<forall>p\<in>set ps. fs p \<noteq> None then Some (map (\<lambda>p. the (fs p)) ps) else None)"

fun do_op :: "'c tools \<Rightarrow> file_op \<Rightarrow> 'c files \<Rightarrow> ('c files \<times> 'c list) option" where
  "do_op T (Fetch key p) fs = map_option (\<lambda>c. (fs(p \<mapsto> c), [])) (tl_stored T key)"
| "do_op T (Exec args) fs =
     (if \<not> overwrites args \<and> fs (cmd_output args) \<noteq> None then None
      else case read_all fs (cmd_inputs args) of
        None \<Rightarrow> None
      | Some cs \<Rightarrow> map_option (\<lambda>c. (fs(cmd_output args \<mapsto> c), [])) (tl_ffmpeg T args cs))"
| "do_op T (Put p) fs = map_option (\<lambda>c. (fs, [c])) (fs p)"
| "do_op T (Delete p) fs = Some (fs(p := None), [])"

section \<open>Conversions\<close>

text \<open>What is left to do, what has been uploaded, and whether an operation has failed.\<close>

record 'c conversion =
  cv_todo :: "file_op list"
  cv_put :: "'c list"
  cv_failed :: bool

text \<open>An error returns at once, past what the function has deferred: the removals.\<close>

fun is_delete :: "file_op \<Rightarrow> bool" where
  "is_delete (Delete p) = True"
| "is_delete _ = False"

definition job_step :: "'c tools \<Rightarrow> 'c conversion \<times> 'c files \<Rightarrow> 'c conversion \<times> 'c files" where
  "job_step T s =
     (case s of (j, fs) \<Rightarrow>
        (case cv_todo j of
           [] \<Rightarrow> (j, fs)
         | op # ops \<Rightarrow>
             (case do_op T op fs of
                None \<Rightarrow> (j\<lparr>cv_todo := filter is_delete ops, cv_failed := True\<rparr>, fs)
              | Some (fs', cs) \<Rightarrow> (j\<lparr>cv_todo := ops, cv_put := cv_put j @ cs\<rparr>, fs'))))"

definition conversion_job ::
  "env \<Rightarrow> string \<Rightarrow> rat \<Rightarrow> rat \<Rightarrow> int \<Rightarrow> int \<Rightarrow> bool \<Rightarrow> 'c conversion" where
  "conversion_job E Key Start End Width0 FPS0 Loop =
     (let inputPath = filepath_Join (os_TempDir E) (''input_'' @ Key @ ''.mp4'');
          outputPath = filepath_Join (os_TempDir E) (Key @ ''_output.gif'');
          palettePath = filepath_Join (os_TempDir E) (Key @ ''_palette.png'');
          thumpOutputPath = filepath_Join (os_TempDir E) (''thumb_'' @ Key @ ''.jpg'');
          FPS = (if FPS0 = 0 then 10 else FPS0);
          Width = (if Width0 = 0 then 480 else Width0);
          lp = (if Loop then ''0'' else ''-1'');
          runner = NewGifConverter inputPath outputPath palettePath Width FPS Start End lp
      in \<lparr>cv_todo =
            [Fetch Key inputPath, Exec (the (gc_pCmd runner)), Exec (the (gc_gCmd runner)),
             Exec (newThumbGeneratorExec (Start + 1) inputPath thumpOutputPath),
             Put outputPath, Put thumpOutputPath,
             Delete thumpOutputPath, Delete palettePath, Delete outputPath, Delete inputPath],
          cv_put = [], cv_failed = False\<rparr>)"

text \<open>Conversions that run at the same time, over one directory.\<close>

inductive files_step :: "'c tools \<Rightarrow> 'c conversion list \<times> 'c files \<Rightarrow> 'c conversion list \<times> 'c files \<Rightarrow> bool" for T where
  Job: "i < length js \<Longrightarrow> job_step T (js ! i, fs) = (j, fs') \<Longrightarrow> files_step T (js, fs) (js[i := j], fs')"

abbreviation files_steps :: "'c tools \<Rightarrow> 'c conversion list \<times> 'c files \<Rightarrow> 'c conversion list \<times> 'c files \<Rightarrow> bool" where
  "files_steps T \<equiv> (files_step T)\<^sup>*\<^sup>*"

text \<open>A conversion that has the directory to itself, to its end.\<close>

definition convert_alone :: "'c tools \<Rightarrow> 'c conversion \<Rightarrow> 'c files \<Rightarrow> 'c conversion \<times> 'c files" where
  "convert_alone T j fs = (job_step T ^^ length (cv_todo j)) (j, fs)"

lemma todo_shrinks:
  "cv_todo j \<noteq> [] \<Longrightarrow> length (cv_todo (fst (job_step T (j, fs)))) < length (cv_todo j)"
  by (auto simp: job_step_def less_Suc_eq_le length_filter_le split: list.splits option.splits)

lemma job_step_done: "cv_todo j = [] \<Longrightarrow> job_step T (j, fs) = (j, fs)"
  by (simp add: job_step_def)

lemma job_steps_done: "cv_todo j = [] \<Longrightarrow> (job_step T ^^ n) (j, fs) = (j, fs)"
  by (induction n) (simp_all add: job_step_done)

lemma job_steps_length:
  "length (cv_todo (fst ((job_step T ^^ n) (j, fs)))) \<le> length (cv_todo j) - n"
proof (induction n)
  case (Suc n)
  obtain j' fs' where s: "(job_step T ^^ n) (j, fs) = (j', fs')" by fastforce
  show ?case
  proof (cases "cv_todo j' = []")
    case False
    with Suc todo_shrinks [OF this, of T fs'] show ?thesis by (simp add: s)
  qed (simp add: s job_step_done)
qed simp

lemma convert_alone_done: "cv_todo (fst (convert_alone T j fs)) = []"
  using job_steps_length [where T = T and n = "length (cv_todo j)" and j = j and fs = fs] by (simp add: convert_alone_def)

text \<open>However many steps a conversion took to its end, it took those.\<close>

lemma job_steps_alone:
  assumes "cv_todo (fst ((job_step T ^^ n) (j, fs))) = []"
  shows "(job_step T ^^ n) (j, fs) = convert_alone T j fs"
proof -
  have rest: "(job_step T ^^ m) ((job_step T ^^ k) (j, fs)) = (job_step T ^^ k) (j, fs)"
    if "cv_todo (fst ((job_step T ^^ k) (j, fs))) = []" for m k
    using job_steps_done [OF that, where T = T and n = m and fs = "snd ((job_step T ^^ k) (j, fs))"] by simp
  consider k where "length (cv_todo j) = k + n" | k where "n = k + length (cv_todo j)"
    by (metis le_add_diff_inverse2 nat_le_linear)
  then show ?thesis
  proof cases
    case 1
    then have "convert_alone T j fs = (job_step T ^^ k) ((job_step T ^^ n) (j, fs))"
      by (simp add: convert_alone_def funpow_add)
    then show ?thesis using rest [OF assms] by simp
  next
    case 2
    then have "(job_step T ^^ n) (j, fs) = (job_step T ^^ k) (convert_alone T j fs)"
      by (simp add: convert_alone_def funpow_add)
    then show ?thesis using rest [OF convert_alone_done [unfolded convert_alone_def], of k]
      by (simp add: convert_alone_def)
  qed
qed

section \<open>Conversions that share no file\<close>

fun paths :: "file_op \<Rightarrow> string set" where
  "paths (Fetch key p) = {p}"
| "paths (Exec args) = insert (cmd_output args) (set (cmd_inputs args))"
| "paths (Put p) = {p}"
| "paths (Delete p) = {p}"

definition job_paths :: "'c conversion \<Rightarrow> string set" where
  "job_paths j = \<Union> (paths ` set (cv_todo j))"

definition agree :: "string set \<Rightarrow> 'c files \<Rightarrow> 'c files \<Rightarrow> bool" where
  "agree P fs gs \<longleftrightarrow> (\<forall>p\<in>P. fs p = gs p)"

lemma read_all_agree: "agree P fs gs \<Longrightarrow> set ps \<subseteq> P \<Longrightarrow> read_all fs ps = read_all gs ps"
  by (auto simp: read_all_def agree_def subset_iff)

lemma do_op_agree:
  assumes "agree P fs gs" "paths op \<subseteq> P"
  shows "(\<exists>fs' gs' cs. do_op T op fs = Some (fs', cs) \<and> do_op T op gs = Some (gs', cs) \<and> agree P fs' gs') \<or>
    do_op T op fs = None \<and> do_op T op gs = None"
proof (cases op)
  case (Exec args)
  then have "fs (cmd_output args) = gs (cmd_output args)" "read_all fs (cmd_inputs args) = read_all gs (cmd_inputs args)"
    using assms read_all_agree [OF assms(1)] by (auto simp: agree_def)
  then show ?thesis
    using Exec assms(1) by (cases "read_all gs (cmd_inputs args)") (auto simp: agree_def split: option.split)
qed (use assms in \<open>auto simp: agree_def split: option.split\<close>)

lemma do_op_frame: "do_op T op fs = Some (fs', cs) \<Longrightarrow> P \<inter> paths op = {} \<Longrightarrow> agree P fs fs'"
  by (cases op) (auto simp: agree_def split: if_splits option.splits)

lemma job_step_paths: "job_paths (fst (job_step T (j, fs))) \<subseteq> job_paths j"
  by (auto simp: job_step_def job_paths_def split: list.split option.split)

lemma job_step_agree:
  assumes "agree P fs gs" "job_paths j \<subseteq> P"
  shows "fst (job_step T (j, fs)) = fst (job_step T (j, gs)) \<and>
    agree P (snd (job_step T (j, fs))) (snd (job_step T (j, gs)))"
proof (cases "cv_todo j")
  case (Cons op ops)
  then have "paths op \<subseteq> P" using assms(2) by (auto simp: job_paths_def)
  from do_op_agree [OF assms(1) this, of T] show ?thesis using Cons assms(1) by (auto simp: job_step_def)
qed (use assms in \<open>simp add: job_step_def\<close>)

lemma job_step_frame: "P \<inter> job_paths j = {} \<Longrightarrow> agree P fs (snd (job_step T (j, fs)))"
proof (cases "cv_todo j")
  case (Cons op ops)
  moreover assume "P \<inter> job_paths j = {}"
  ultimately have "P \<inter> paths op = {}" by (auto simp: job_paths_def)
  then show ?thesis using Cons do_op_frame [of T op fs] by (auto simp: job_step_def agree_def split: option.split)
qed (simp add: job_step_def agree_def)

text \<open>Each conversion is where some steps of its own would have brought it alone, and sees the same files.\<close>

lemma files_steps_apart:
  assumes "files_steps T (js, fs) s"
    and "\<forall>i<length js. \<forall>k<length js. i \<noteq> k \<longrightarrow> job_paths (js ! i) \<inter> job_paths (js ! k) = {}"
  shows "length (fst s) = length js \<and> (\<forall>i<length js. job_paths (fst s ! i) \<subseteq> job_paths (js ! i) \<and>
    (\<exists>n gs. (job_step T ^^ n) (js ! i, fs) = (fst s ! i, gs) \<and> agree (job_paths (js ! i)) (snd s) gs))"
  using assms(1)
proof (induction rule: rtranclp_induct)
  case base
  show ?case by (auto simp: agree_def intro!: exI [of _ 0])
next
  case (step s s')
  from step(2) obtain k ks gs j gs' where s: "s = (ks, gs)" "s' = (ks[k := j], gs')" "k < length ks"
    and j: "job_step T (ks ! k, gs) = (j, gs')" by (cases rule: files_step.cases) auto
  have len: "length ks = length js" using step.IH s by simp
  have "job_paths (ks[k := j] ! i) \<subseteq> job_paths (js ! i) \<and>
      (\<exists>n hs. (job_step T ^^ n) (js ! i, fs) = (ks[k := j] ! i, hs) \<and> agree (job_paths (js ! i)) gs' hs)"
    if i: "i < length js" for i
  proof -
    from step.IH i s obtain n hs where ih: "job_paths (ks ! i) \<subseteq> job_paths (js ! i)"
      "(job_step T ^^ n) (js ! i, fs) = (ks ! i, hs)" "agree (job_paths (js ! i)) gs hs" by auto
    show ?thesis
    proof (cases "i = k")
      case True
      have "fst (job_step T (ks ! i, hs)) = j \<and> agree (job_paths (js ! i)) gs' (snd (job_step T (ks ! i, hs)))"
        using job_step_agree [OF ih(3,1), of T] j True by simp
      moreover have "job_paths j \<subseteq> job_paths (js ! i)"
        using job_step_paths [of T "ks ! i" gs] ih(1) j True by auto
      moreover have "(job_step T ^^ Suc n) (js ! i, fs) = job_step T (ks ! i, hs)" by (simp add: ih(2))
      ultimately show ?thesis using True s(3) by (metis nth_list_update_eq prod.collapse)
    next
      case False
      have "job_paths (js ! i) \<inter> job_paths (ks ! k) = {}"
        using assms(2) [rule_format, of i k] step.IH s i False len by fastforce
      from job_step_frame [OF this, of gs T] j have "agree (job_paths (js ! i)) gs gs'" by simp
      then show ?thesis using ih False by (auto simp: agree_def)
    qed
  qed
  then show ?case using s len by simp
qed

section \<open>The names of the files\<close>

lemma split_slash_plain: "CHR ''/'' \<notin> set s \<Longrightarrow> split_slash s = [s]"
  by (induction s) (auto simp: split_slash_def)

lemma clean_elems_snoc:
  "n \<noteq> [] \<Longrightarrow> n \<noteq> ''.'' \<Longrightarrow> n \<noteq> ''..'' \<Longrightarrow> clean_elems st (xs @ [n]) = clean_elems st xs @ [n]"
  by (induction st xs rule: clean_elems.induct) simp_all

text \<open>A file name: more than two characters, none of them a slash.\<close>

lemma filepath_Join_name:
  assumes "CHR ''/'' \<notin> set n" "2 < length n"
  shows "filepath_Join dir n = concat (map ((#) CHR ''/'') (clean_elems [] (split_slash dir))) @ CHR ''/'' # n"
proof -
  have "n \<noteq> []" "n \<noteq> ''.''" "n \<noteq> ''..''" using assms(2) by auto
  from clean_elems_snoc [OF this] show ?thesis
    unfolding filepath_Join_def split_slash_plain [OF assms(1)]
    by (cases "clean_elems [] (split_slash dir)") simp_all
qed

lemma filepath_Join_eq:
  "CHR ''/'' \<notin> set m \<Longrightarrow> 2 < length m \<Longrightarrow> CHR ''/'' \<notin> set n \<Longrightarrow> 2 < length n \<Longrightarrow>
    filepath_Join dir m = filepath_Join dir n \<longleftrightarrow> m = n"
  by (simp add: filepath_Join_name)

definition temp_names :: "string \<Rightarrow> string list" where
  "temp_names Key = [''input_'' @ Key @ ''.mp4'', Key @ ''_output.gif'', Key @ ''_palette.png'', ''thumb_'' @ Key @ ''.jpg'']"

lemma ends_differ:
  fixes x y :: "'a list"
  shows "last u \<noteq> last v \<Longrightarrow> u \<noteq> [] \<Longrightarrow> v \<noteq> [] \<Longrightarrow> x @ u \<noteq> y @ v"
  by (metis last_appendR)

lemma temp_names_apart:
  assumes "k \<noteq> k'" shows "set (temp_names k) \<inter> set (temp_names k') = {}"
proof -
  have "x @ ''_palette.png'' \<noteq> y @ ''.jpg''" for x y :: string
    by (rule notI, drule arg_cong [of _ _ "\<lambda>s. rev s ! 1"]) simp
  moreover have "x @ ''.mp4'' \<noteq> y @ ''_output.gif''" "x @ ''.mp4'' \<noteq> y @ ''_palette.png''" "x @ ''.mp4'' \<noteq> y @ ''.jpg''"
      "x @ ''_output.gif'' \<noteq> y @ ''_palette.png''" "x @ ''_output.gif'' \<noteq> y @ ''.jpg''" for x y :: string
    by (rule ends_differ; simp)+
  ultimately show ?thesis using assms unfolding temp_names_def by (auto simp flip: append_assoc)
qed

lemma cmds [simp]:
  "cmd_inputs (newPaletteExec f) = [pf_InputPath f]" "cmd_output (newPaletteExec f) = pf_Path f"
  "overwrites (newPaletteExec f)"
  "cmd_inputs (newGifExec g) = [gf_InputPath g, gf_PalettePath g]" "cmd_output (newGifExec g) = gf_Path g"
  "overwrites (newGifExec g)"
  "cmd_inputs (newThumbGeneratorExec t i p) = [i]" "cmd_output (newThumbGeneratorExec t i p) = p"
  "\<not> overwrites (newThumbGeneratorExec t i p)"
  by (simp_all add: newPaletteExec_def newGifExec_def newThumbGeneratorExec_def cmd_output_def)

text \<open>What the worker is asked to convert.\<close>

type_synonym conversion_request = "string \<times> rat \<times> rat \<times> int \<times> int \<times> bool"

definition job_of :: "env \<Rightarrow> conversion_request \<Rightarrow> 'c conversion" where
  "job_of E r = (case r of (key, start, stop, width, fps, lp) \<Rightarrow> conversion_job E key start stop width fps lp)"

lemma job_of_paths: "job_paths (job_of E r) = filepath_Join (os_TempDir E) ` set (temp_names (fst r))"
  by (cases r) (auto simp: job_of_def job_paths_def conversion_job_def temp_names_def Let_def NewGifConverter_def)

lemma temp_name: "n \<in> set (temp_names k) \<Longrightarrow> CHR ''/'' \<notin> set k \<Longrightarrow> CHR ''/'' \<notin> set n \<and> 2 < length n"
  by (auto simp: temp_names_def)

lemma job_of_apart:
  assumes "CHR ''/'' \<notin> set (fst r)" "CHR ''/'' \<notin> set (fst r')" "fst r \<noteq> fst r'"
  shows "job_paths (job_of E r) \<inter> job_paths (job_of E r') = {}"
proof -
  have "filepath_Join (os_TempDir E) m \<noteq> filepath_Join (os_TempDir E) n"
    if "m \<in> set (temp_names (fst r))" "n \<in> set (temp_names (fst r'))" for m n
    using that temp_names_apart [OF assms(3)] temp_name [OF that(1) assms(1)] temp_name [OF that(2) assms(2)]
    by (auto simp: filepath_Join_eq)
  then show ?thesis unfolding job_of_paths by blast
qed

text \<open>
  Property C10. Conversions of different videos do not disturb each other, however their downloads,
  commands, uploads and removals interleave: each one that has come to its end has uploaded, and
  failed or not, exactly as if it had had the temporary directory to itself.
\<close>

theorem conversions_of_different_videos:
  assumes "distinct (map fst rs)" "\<forall>r\<in>set rs. CHR ''/'' \<notin> set (fst r)"
    and "files_steps T (map (job_of E) rs, fs) (js, fs')" "i < length rs" "cv_todo (js ! i) = []"
  shows "js ! i = fst (convert_alone T (job_of E (rs ! i)) fs)"
proof -
  have ap: "\<forall>a<length (map (job_of E) rs). \<forall>b<length (map (job_of E) rs). a \<noteq> b \<longrightarrow>
      job_paths (map (job_of E) rs ! a) \<inter> job_paths (map (job_of E) rs ! b) = {}"
  proof (intro allI impI, goal_cases)
    case (1 a b)
    then have "fst (rs ! a) \<noteq> fst (rs ! b)" using assms(1) by (simp add: distinct_conv_nth)
    then show ?case using 1 assms(2) job_of_apart [of "rs ! a" "rs ! b" E] by simp
  qed
  from files_steps_apart [OF assms(3) ap] assms(4) obtain n gs where
      n: "(job_step T ^^ n) (map (job_of E) rs ! i, fs) = (js ! i, gs)" by (metis fst_conv length_map)
  have m: "map (job_of E) rs ! i = job_of E (rs ! i)" by (rule nth_map [OF assms(4)])
  have "cv_todo (fst ((job_step T ^^ n) (job_of E (rs ! i), fs))) = []"
    using n unfolding m by (metis assms(5) fst_conv)
  from job_steps_alone [OF this] show ?thesis using n unfolding m by (metis fst_conv)
qed

section \<open>Two conversions of one video\<close>

lemma job_takes_steps:
  "i < length js \<Longrightarrow> (job_step T ^^ n) (js ! i, fs) = (j, fs') \<Longrightarrow> files_steps T (js, fs) (js[i := j], fs')"
proof (induction n arbitrary: j fs')
  case (Suc n)
  obtain k gs where k: "(job_step T ^^ n) (js ! i, fs) = (k, gs)" by fastforce
  have "files_step T (js[i := k], gs) (js[i := k, i := j], fs')"
    by (rule files_step.Job) (use Suc.prems k in simp_all)
  with Suc.IH [OF Suc.prems(1) k] show ?case by simp
qed auto

lemma temp_paths_distinct:
  assumes "CHR ''/'' \<notin> set k" shows "distinct (map (filepath_Join dir) (temp_names k))"
proof -
  have "distinct (temp_names k)"
  proof -
    have "k @ ''_palette.png'' \<noteq> ''thumb_'' @ k @ ''.jpg''" "''input_'' @ k @ ''.mp4'' \<noteq> ''thumb_'' @ k @ ''.jpg''"
        "''input_'' @ k @ ''.mp4'' \<noteq> k @ ''_output.gif''" "''input_'' @ k @ ''.mp4'' \<noteq> k @ ''_palette.png''"
        "k @ ''_output.gif'' \<noteq> k @ ''_palette.png''" "k @ ''_output.gif'' \<noteq> ''thumb_'' @ k @ ''.jpg''"
      by (rule notI, drule arg_cong [of _ _ "\<lambda>s. (rev s ! 1, hd (rev s))"], simp)+
    then show ?thesis by (simp add: temp_names_def)
  qed
  moreover have "inj_on (filepath_Join dir) (set (temp_names k))"
    by (rule inj_onI) (use temp_name [OF _ assms] in \<open>simp add: filepath_Join_eq\<close>)
  ultimately show ?thesis by (simp add: distinct_map)
qed

text \<open>
  The schedule: the first conversion makes its gif, the second makes its own over it, and the first
  goes on to its end.
\<close>

lemma overtaken:
  fixes T :: "'c tools"
  assumes "distinct [inp, out, pal, th]" "tl_stored T key = Some v" "\<And>args cs. tl_ffmpeg T args cs \<noteq> None"
    and "cmd_inputs g1 = [inp, pal]" "cmd_output g1 = out" "cmd_inputs g2 = [inp, pal]" "cmd_output g2 = out"
    and "overwrites p1" "overwrites g1" "overwrites p2" "overwrites g2" "\<not> overwrites t1" "\<not> overwrites t2"
    and "cmd_inputs p1 = [inp]" "cmd_output p1 = pal" "cmd_inputs p2 = [inp]" "cmd_output p2 = pal"
    and "cmd_inputs t1 = [inp]" "cmd_output t1 = th" "cmd_inputs t2 = [inp]" "cmd_output t2 = th"
    and "fs th = None"
  defines "job \<equiv> \<lambda>p g t. \<lparr>cv_todo = [Fetch key inp, Exec p, Exec g, Exec t, Put out, Put th, Delete th, Delete pal,
      Delete out, Delete inp], cv_put = [] :: 'c list, cv_failed = False\<rparr>"
  shows "\<exists>js fs'. files_steps T ([job p1 g1 t1, job p2 g2 t2], fs) (js, fs') \<and> length js = 2 \<and>
    (\<forall>j\<in>set js. cv_todo j = []) \<and> \<not> cv_failed (js ! 0) \<and> cv_failed (js ! 1) \<and> cv_put (js ! 1) = [] \<and>
    hd (cv_put (js ! 0)) = hd (cv_put (fst (convert_alone T (job p2 g2 t2) fs)))"
proof -
  obtain a1 a2 where a: "tl_ffmpeg T p1 [v] = Some a1" "tl_ffmpeg T p2 [v] = Some a2" using assms(3) by fastforce
  obtain b1 b2 where b: "tl_ffmpeg T g1 [v, a1] = Some b1" "tl_ffmpeg T g2 [v, a2] = Some b2" using assms(3) by fastforce
  obtain c1 c2 where c: "tl_ffmpeg T t1 [v] = Some c1" "tl_ffmpeg T t2 [v] = Some c2" using assms(3) by fastforce
  let ?ends = "[Delete th, Delete pal, Delete out, Delete inp]"
  let ?fsA = "fs(inp \<mapsto> v, pal \<mapsto> a1, out \<mapsto> b1, th \<mapsto> c1)"
  let ?fsB = "?fsA(inp \<mapsto> v, pal \<mapsto> a2, out \<mapsto> b2)"
  let ?fsC = "?fsB(th := None, pal := None, out := None, inp := None)"
  let ?j1 = "\<lparr>cv_todo = Put out # Put th # ?ends, cv_put = [], cv_failed = False\<rparr>"
  let ?j2 = "\<lparr>cv_todo = Exec t2 # Put out # Put th # ?ends, cv_put = [], cv_failed = False\<rparr>"
  let ?won = "\<lparr>cv_todo = [], cv_put = [b2, c1], cv_failed = False\<rparr>"
  let ?lost = "\<lparr>cv_todo = [], cv_put = [], cv_failed = True\<rparr>"
  have d: "inp \<noteq> out" "out \<noteq> inp" "inp \<noteq> pal" "pal \<noteq> inp" "inp \<noteq> th" "th \<noteq> inp" "out \<noteq> pal" "pal \<noteq> out"
      "out \<noteq> th" "th \<noteq> out" "pal \<noteq> th" "th \<noteq> pal" using assms(1) by auto
  note run = job_step_def read_all_def job_def numeral_eq_Suc assms a b c
  have A: "(job_step T ^^ 4) (job p1 g1 t1, fs) = (?j1, ?fsA)" using d by (simp add: run)
  have B: "(job_step T ^^ 3) (job p2 g2 t2, ?fsA) = (?j2, ?fsB)" using d by (simp add: run)
  have C: "(job_step T ^^ 6) (?j1, ?fsB) = (?won, ?fsC)" using d by (simp add: run)
  have D: "(job_step T ^^ 5) (?j2, ?fsC) = (?lost, ?fsC)" using d by (simp add: run fun_upd_idem)
  have alone: "cv_put (fst (convert_alone T (job p2 g2 t2) fs)) = [b2, c2]"
    using d by (simp add: convert_alone_def run)
  have "files_steps T ([job p1 g1 t1, job p2 g2 t2], fs) ([?j1, job p2 g2 t2], ?fsA)"
    using job_takes_steps [of 0 "[job p1 g1 t1, job p2 g2 t2]" 4 T fs] A by simp
  moreover have "files_steps T ([?j1, job p2 g2 t2], ?fsA) ([?j1, ?j2], ?fsB)"
    using job_takes_steps [of 1 "[?j1, job p2 g2 t2]" 3 T ?fsA] B by simp
  moreover have "files_steps T ([?j1, ?j2], ?fsB) ([?won, ?j2], ?fsC)"
    using job_takes_steps [of 0 "[?j1, ?j2]" 6 T ?fsB] C by simp
  moreover have "files_steps T ([?won, ?j2], ?fsC) ([?won, ?lost], ?fsC)"
    using job_takes_steps [of 1 "[?won, ?j2]" 5 T ?fsC] D by simp
  ultimately have "files_steps T ([job p1 g1 t1, job p2 g2 t2], fs) ([?won, ?lost], ?fsC)"
    by (blast intro: rtranclp_trans)
  then show ?thesis using alone by (intro exI [of _ "[?won, ?lost]"] exI [of _ ?fsC]) simp
qed

text \<open>
  Property C9. Two conversions of one video that run at the same time share their files: when the
  second makes its gif after the first has made its own and before that is uploaded, the first
  reports success with the gif that was asked of the second, and the second fails, because the first has
  removed the video under it. The worker runs two conversions at a time and nothing keeps the same
  video from being converted twice.
\<close>

theorem same_video_conversions_collide:
  assumes "CHR ''/'' \<notin> set key" "tl_stored T key \<noteq> None" "\<forall>args cs. tl_ffmpeg T args cs \<noteq> None"
    and "\<forall>n\<in>set (temp_names key). fs (filepath_Join (os_TempDir E) n) = None"
    and "fst r1 = key" "fst r2 = key"
  shows "\<exists>js fs'. files_steps T ([job_of E r1, job_of E r2], fs) (js, fs') \<and> length js = 2 \<and>
    (\<forall>j\<in>set js. cv_todo j = []) \<and> \<not> cv_failed (js ! 0) \<and> cv_failed (js ! 1) \<and> cv_put (js ! 1) = [] \<and>
    hd (cv_put (js ! 0)) = hd (cv_put (fst (convert_alone T (job_of E r2) fs)))"
proof -
  let ?J = "filepath_Join (os_TempDir E)"
  obtain v where v: "tl_stored T key = Some v" using assms(2) by blast
  have th: "fs (?J (''thumb_'' @ key @ ''.jpg'')) = None" using assms(4) by (simp add: temp_names_def)
  have d: "distinct [?J (''input_'' @ key @ ''.mp4''), ?J (key @ ''_output.gif''), ?J (key @ ''_palette.png''),
      ?J (''thumb_'' @ key @ ''.jpg'')]"
    using temp_paths_distinct [OF assms(1)] by (simp only: temp_names_def list.map)
  obtain s1 e1 w1 f1 l1 s2 e2 w2 f2 l2 where r: "r1 = (key, s1, e1, w1, f1, l1)" "r2 = (key, s2, e2, w2, f2, l2)"
    using assms(5,6) by (metis prod.collapse)
  show ?thesis
    unfolding r job_of_def prod.case conversion_job_def Let_def NewGifConverter_def gif_converter.select_convs option.sel
    by (rule overtaken [OF d v]) (use assms(3) th in simp_all)
qed

section \<open>The properties at concrete conversions\<close>

text \<open>A toolbox that writes what it was told and what it read.\<close>

definition sample_tools :: "string list tools" where
  "sample_tools = \<lparr>tl_stored = (\<lambda>k. Some [k]), tl_ffmpeg = (\<lambda>args cs. Some (args @ concat cs))\<rparr>"

lemma conversions_of_different_videos_witness:
  "\<exists>js fs'. files_steps sample_tools (map (job_of sample_env) [(''a'', 0, 1, 0, 0, True), (''b'', 0, 1, 0, 0, True)], \<lambda>_. None) (js, fs') \<and>
     js ! 0 = fst (convert_alone sample_tools (job_of sample_env (''a'', 0, 1, 0, 0, True)) (\<lambda>_. None)) \<and> \<not> cv_failed (js ! 0)"
proof -
  let ?rs = "[(''a'', 0, 1, 0, 0, True), (''b'', 0, 1, 0, 0, True)] :: conversion_request list"
  let ?js = "map (job_of sample_env) ?rs" and ?fs = "\<lambda>_ :: string. None :: string list option"
  obtain j fs' where j: "convert_alone sample_tools (job_of sample_env (?rs ! 0)) ?fs = (j, fs')" by fastforce
  have run: "files_steps sample_tools (?js, ?fs) (?js[0 := j], fs')"
    by (rule job_takes_steps) (use j in \<open>simp_all add: convert_alone_def\<close>)
  have "cv_todo j = []" using convert_alone_done [of sample_tools "job_of sample_env (?rs ! 0)" ?fs] j by simp
  moreover have "\<not> cv_failed (fst (convert_alone sample_tools (job_of sample_env (?rs ! 0)) ?fs))" by code_simp
  ultimately show ?thesis
    using conversions_of_different_videos [OF _ _ run, of 0] run j by fastforce
qed

lemma same_video_conversions_collide_witness:
  "\<exists>js fs'. files_steps sample_tools (map (job_of sample_env) [(''a'', 0, 1, 0, 0, True), (''a'', 5, 9, 0, 0, True)], \<lambda>_. None) (js, fs') \<and>
     \<not> cv_failed (js ! 0) \<and> cv_failed (js ! 1) \<and>
     hd (cv_put (js ! 0)) \<noteq> hd (cv_put (fst (convert_alone sample_tools (job_of sample_env (''a'', 0, 1, 0, 0, True)) (\<lambda>_. None))))"
proof -
  let ?alone = "\<lambda>r. hd (cv_put (fst (convert_alone sample_tools (job_of sample_env r) (\<lambda>_. None))))"
  have "?alone (''a'', 0, 1, 0, 0, True) \<noteq> ?alone (''a'', 5, 9, 0, 0, True)" by code_simp
  moreover have "tl_stored sample_tools ''a'' \<noteq> None" "\<forall>args cs. tl_ffmpeg sample_tools args cs \<noteq> None"
    by (simp_all add: sample_tools_def)
  ultimately show ?thesis
    using same_video_conversions_collide [of "''a''" sample_tools "\<lambda>_. None" sample_env
        "(''a'', 0, 1, 0, 0, True)" "(''a'', 5, 9, 0, 0, True)"] by fastforce
qed

end
