(* ===== verification/Spec2Isabelle.thy ===== *)
theory Spec2Isabelle
  imports Handler_Runs Share_Spec Quota_Laws Seed_Social Wiring Pg_Anon Races Temp_Files
begin

text \<open>
  FFgif, a service that turns videos into GIFs: a Go program of an HTTP server (\<open>cmd/ffgif\<close>) and a
  worker process (\<open>cmd/worker\<close>) over PostgreSQL, Redis, RabbitMQ, MinIO and ffmpeg. Users sign up
  and log in, upload a video to MinIO by a presigned URL, ask for a conversion, which goes to the
  workers by a queue, and keep, list, share and download the gifs; they have friends and quotas. A
  third program (\<open>cmd/bootstrap\<close>) sets the servers up and fills them with demonstration data.
  This library models the program from the request's body to the rows of the tables and proves
  what makes it correct, or shows where it is not.

  \<^bold>\<open>How the program is modelled.\<close> An operation takes the \<open>world\<close> (theory \<open>World\<close>: the tables, the
  open transaction, the cache, the rate limiter's buckets, the messages published, the objects
  and mails sent, the clock) to a result, an error of \<open>Prelude\<close> or a value, and the next world.
  The constructs \<open>call\<close>, \<open>attempt\<close>, \<open>ret\<close>, \<open>fail\<close> are Go's \<open>if err != nil\<close> and returns; a panic is an
  error that both pass on. Every call of an external system consults a fault plan, \<open>fault\<close> of the
  environment \<open>env\<close>: it works, fails before it has had any effect, or has its effect and then
  fails to report it. Third-party code is a field of \<open>env\<close> (bcrypt, SHA-256, the JWT library, the
  UUID generator, the validator, what MinIO and ffmpeg answer), and what a property relies on of
  it is a named hypothesis, such as \<open>jwt_sign_verify\<close> or \<open>validator_sound\<close>. Times are milliseconds;
  the clock stands still within an operation and moves between operations. In most theories an
  operation is one step, and the loops of the workers, their handlers, the broker and the server's
  requests take their steps in any order; in \<open>Threads\<close>, \<open>Overlap\<close> and \<open>Races\<close> an operation is the sequence
  of its calls, between which those of other requests may fall.

  \<^bold>\<open>The parts, and the theories that model them.\<close>

  \<^item> \<open>Prelude\<close>: sentinel errors and \<open>errors.Is\<close> (\<open>internal/domain/*/errors.go\<close>, \<open>pkg/apperr\<close>), Go's
    string helpers, tables as lists. \<open>Domain\<close>: the structs and status constants of
    \<open>internal/domain\<close>. \<open>World\<close>: state, operations, environment, statements and transactions
    (\<open>infra/postgres/transaction_manager.go\<close>).
  \<^item> \<open>Schema\<close>: what \<open>migrations/*.sql\<close> make of the tables: keys, references with their cascades, checks
    and column widths, as the invariant \<open>schema_ok\<close>. \<open>Pg_Auth\<close>, \<open>Pg_User\<close>, \<open>Pg_Social\<close>, \<open>Pg_Media\<close>, \<open>Pg_Anon\<close>:
    every statement of the repositories of \<open>infra/postgres\<close>. \<open>Invariant\<close>: the services' own invariant
    \<open>service_inv\<close> (the schema, hashed tokens, one friendship to a pair, quotas in range).
  \<^item> \<open>Redis\<close>: cache and token bucket (\<open>infra/redis\<close>, with the Lua script). \<open>Rabbit\<close>: queues, dead
    letters and publishing. \<open>Storage\<close>, \<open>Mailer\<close>, \<open>Mailtrap\<close>, \<open>Ffmpeg\<close>:
    \<open>infra/minio/storage_repo.go\<close>, \<open>infra/mailer\<close>, \<open>infra/ffmpeg\<close>. \<open>Tokens\<close>: \<open>pkg/token\<close>, \<open>password\<close>, \<open>random\<close>, \<open>jwt\<close>.
  \<^item> \<open>App_Auth\<close>, \<open>App_User\<close> (with friends), \<open>App_Share\<close>, \<open>App_Media\<close>: the services of \<open>internal/app\<close>, one
    definition a method. \<open>Workers\<close>: what \<open>internal/worker\<close> does with a delivery. \<open>Consumers\<close>: the broker's
    connection, the \<open>Run\<close> loops and \<open>cmd/worker/main.go\<close> as a state machine.
  \<^item> \<open>Request\<close>: \<open>encoding/json\<close> into structs and the validator's documented rules. \<open>Http\<close>, \<open>Middleware\<close>:
    \<open>transport/http/httputil\<close> and \<open>middleware\<close>. \<open>Handlers_Auth\<close>, \<open>_User\<close>, \<open>_Media\<close>, \<open>_Share\<close>: every handler,
    \<open>http_X\<close> for \<open>Handler.X\<close>. \<open>Server\<close>: the table of routes, \<open>http.ServeMux\<close>, static files and the
    chain in front. \<open>Config\<close>: \<open>config/config.go\<close>. \<open>Processes\<close>: how the two processes come up, and
    the server's serving and shutdown as a state machine (\<open>cmd/ffgif/main.go\<close>, \<open>server.go\<close>).
  \<^item> \<open>Minio_Setup\<close>: \<open>infra/minio/minio.go\<close>. \<open>Seed\<close>: the whole of \<open>cmd/bootstrap/cmd/seed.go\<close>, its
    generators over random sources that are an argument, and its bulk inserts. \<open>Bootstrap\<close>:
    \<open>infra/postgres/migration.go\<close> and the other commands of \<open>cmd/bootstrap/cmd\<close>.
  \<^item> \<open>Wiring\<close>: the structs and constructors of repositories, services, handlers, middleware and workers,
    and their composition in the two \<open>main\<close> functions and in \<open>server.go\<close>.
  \<^item> \<open>Threads\<close>: an operation as its result or its next call and what follows, and the interleavings of
    several. \<open>Overlap\<close>: the services of \<open>internal/app\<close> once more as threads, \<open>X_thread\<close> for \<open>X\<close>, a
    transaction being one call. \<open>Temp_Files\<close>: what \<open>fmeg.Process\<close> does to the temporary directory, and
    several conversions over one directory.
  \<^item> \<open>System\<close>: the whole program as a step relation, a request, a service call, a delivery or the
    passing of time a step. \<open>Sample\<close> and \<open>Handler_Runs\<close>: concrete environments and runs.

  \<^bold>\<open>What the lemmas show.\<close> The services' theories and \<open>Conversion_Laws\<close>, \<open>Quota_Laws\<close>, \<open>Gif_Laws\<close>,
  \<open>Worker_Laws\<close>: the
  effect of each operation that reports success, who may do it, what its failures leave, and
  round trips between operations. \<open>Redis\<close>: the limiter's bound in any window and the exact wait.
  \<open>Gateway_Laws\<close>, \<open>Router_Laws\<close>: authentication, rate limiting, the order of the chain, the
  choice of the route. \<open>Handler_Laws\<close>, \<open>Error_Laws\<close>: properties of whole handlers, from the body to
  the tables. \<open>Friend_Spec\<close>: the friend service implements an abstract graph.
  \<open>Share_Spec\<close>: shares and downloads implement lists of who may open what until when, whatever the times
  and faults of the calls. \<open>Consumer_Laws\<close>: in every
  interleaving of a consuming loop its handlers are bounded, no delivery is lost, and a cancelled loop
  ends. \<open>Races\<close>: a thread alone is its operation; overlapping requests keep all of the invariant but the
  uniqueness of friendships, which two opposite requests break. \<open>Temp_Files\<close>: conversions of different
  videos do not interfere, those of one video do. \<open>Wiring\<close>: one pool, one Redis, one broker, one key
  behind all services. \<open>Processes\<close>: what becomes of every request the server accepted. \<open>Seed_Laws\<close>, \<open>Seed_Runs\<close>,
  \<open>Seed_Social\<close>: what seeding keeps of the schema, when it fails, and what it leaves. \<open>Minio_Setup\<close>
  and \<open>Bootstrap\<close>: what a set-up that succeeds has established. \<open>Mailtrap\<close>: both mailers deliver. \<open>Frames\<close> and
  \<open>Handler_Frames\<close>: what operations leave alone, for \<open>System\<close>'s invariants. The interfaces are
  locales: reads by a key, transactions, \<open>kept_by_services\<close> (a property of the tables and the
  rest that every service keeps), \<open>delivery_work\<close> (what a loop runs), \<open>append_only\<close> (a bulk insert) and
  \<open>email_sender\<close>, each interpreted on the model's own definitions.

  \<^bold>\<open>Bounds.\<close> No definition takes fuel: recursion is structural, loops of the program run over
  lists it holds, the batches of the seed by the distance to the end, and the loops of the workers
  are step relations with a measure that falls; threads are finite in every run, and so are
  interleavings of a fixed set of them (\<open>wf_interleave\<close>). Integers are \<open>int\<close> within the ranges the program checks; an \<open>int\<close> that comes from
  a body is bounded to 64 bits when it is decoded, the offset of a page wraps (\<open>int64\<close>), columns
  have the widths of the schema, \<open>float32\<close> is rounded to nearest even.

  \<^bold>\<open>Not modelled.\<close> The mocks are generated. The transactions of overlapping requests are taken as
  single steps, which leaves out what their isolation levels allow between their statements; the
  lock of \<open>Convert\<close> is left out there, which only adds interleavings. A command of ffmpeg is one step on
  the files. The interfaces of \<open>internal/port\<close> have no code. Log lines, parsing the command line, the deadlines of
  single calls (a call that runs out of time is a fault of it) and code that is commented out are
  left out. JSON keys are matched without regard to ASCII case only, the \<open>Allow\<close> header of a 405 is
  left out, a day of \<open>AddDate\<close> has 24 hours, as in UTC, and whether sqlx yields \<open>nil\<close> for no rows is a
  parameter.
\<close>

end
